(* ===== verification/Prelude.thy ===== *)
theory Prelude
  imports Main "HOL-Library.Word" "HOL-Library.Multiset"
begin

text \<open>
  What every component of the FaST-GShare model shares.

  \<^item> \<open>go\<close>: the outcome of running a piece of Go code. \<open>Ret x\<close> is a normal return, \<open>Panic\<close> a
    run-time panic (a nil dereference, a failed type assertion, an out-of-range index), \<open>Block\<close>
    a goroutine that waits for ever (a \<open>WaitGroup\<close> whose counter never reaches zero).
  \<^item> \<open>quot\<close>/\<open>rmd\<close>: Go's integer division, which truncates towards zero.
  \<^item> \<open>ParseInt\<close>/\<open>Atoi\<close>/\<open>Itoa\<close>: the parts of package strconv the code uses, on byte strings.
  \<^item> \<open>ToUpper\<close>/\<open>ToLower\<close>: package strings, on ASCII bytes.
  \<^item> lemmas on keyed lists (first match, removal of the first match) and on sums over them,
    which model \<open>container/list\<close> walks.
\<close>

named_theorems go_simps \<open>unfolding rules of the model's operations\<close>
named_theorems inv_intros \<open>preservation of the components' invariants\<close>

section \<open>Outcomes of Go code\<close>

datatype 'a go = Ret 'a | Panic | Block

definition bind_go :: "'a go \<Rightarrow> ('a \<Rightarrow> 'b go) \<Rightarrow> 'b go" where
  "bind_go m f = (case m of Ret x \<Rightarrow> f x | Panic \<Rightarrow> Panic | Block \<Rightarrow> Block)"

lemma bind_go_simps [simp]:
  "bind_go (Ret x) f = f x" "bind_go Panic f = Panic" "bind_go Block f = Block"
  by (simp_all add: bind_go_def)

lemma bind_go_Ret_iff:
  "bind_go m f = Ret y \<longleftrightarrow> (\<exists>x. m = Ret x \<and> f x = Ret y)"
  by (cases m) simp_all

lemma bind_go_assoc: "bind_go (bind_go m f) g = bind_go m (\<lambda>x. bind_go (f x) g)"
  by (cases m) simp_all

lemma bind_go_cong [fundef_cong]:
  "m = m' \<Longrightarrow> (\<And>x. m' = Ret x \<Longrightarrow> f x = f' x) \<Longrightarrow> bind_go m f = bind_go m' f'"
  by (cases m') simp_all

text \<open>\<open>deref p\<close> reads through a pointer: a nil pointer panics.\<close>

definition deref :: "'a option \<Rightarrow> 'a go" where
  "deref p = (case p of None \<Rightarrow> Panic | Some x \<Rightarrow> Ret x)"

lemma deref_simps [simp]: "deref None = Panic" "deref (Some x) = Ret x"
  by (simp_all add: deref_def)

lemma deref_Ret_iff: "deref p = Ret x \<longleftrightarrow> p = Some x"
  by (cases p) simp_all

section \<open>Integers\<close>

text \<open>Go's \<open>/\<close> and \<open>%\<close> on \<open>int\<close> truncate towards zero.\<close>

definition quot :: "int \<Rightarrow> int \<Rightarrow> int" where
  "quot a b = sgn a * sgn b * (\<bar>a\<bar> div \<bar>b\<bar>)"

definition rmd :: "int \<Rightarrow> int \<Rightarrow> int" where
  "rmd a b = a - b * quot a b"

lemma quot_nonneg: "0 \<le> a \<Longrightarrow> 0 < b \<Longrightarrow> quot a b = a div b"
  by (cases "a = 0") (simp_all add: quot_def)

lemma rmd_nonneg: "0 \<le> a \<Longrightarrow> 0 < b \<Longrightarrow> rmd a b = a mod b"
  by (simp add: rmd_def quot_nonneg minus_mult_div_eq_mod)

text \<open>Conversion to a signed integer of \<open>w\<close> bits, as Go's \<open>int32(x)\<close> does: it wraps.\<close>

definition to_signed :: "nat \<Rightarrow> int \<Rightarrow> int" where
  "to_signed w x = (x + 2 ^ (w - 1)) mod 2 ^ w - 2 ^ (w - 1)"

lemma to_signed_id:
  assumes "0 < w" "- (2 ^ (w - 1)) \<le> x" "x < 2 ^ (w - 1)"
  shows "to_signed w x = x"
proof -
  obtain v where w: "w = Suc v" using assms(1) by (cases w) auto
  have "(x + 2 ^ v) mod (2 ^ Suc v) = x + 2 ^ v"
    using assms by (intro mod_pos_pos_trivial) (auto simp: w)
  then show ?thesis by (simp add: to_signed_def w)
qed

section \<open>Strings: package strings and package strconv\<close>

definition ToUpper :: "string \<Rightarrow> string" where
  "ToUpper s = map (\<lambda>c. if 97 \<le> (of_char c :: nat) \<and> (of_char c :: nat) \<le> 122
                        then char_of ((of_char c :: nat) - 32) else c) s"

definition ToLower :: "string \<Rightarrow> string" where
  "ToLower s = map (\<lambda>c. if 65 \<le> (of_char c :: nat) \<and> (of_char c :: nat) \<le> 90
                        then char_of ((of_char c :: nat) + 32) else c) s"

text \<open>\<open>strings.Contains(s, sub)\<close>.\<close>

fun has_prefix :: "string \<Rightarrow> string \<Rightarrow> bool" where
  "has_prefix [] s = True"
| "has_prefix (c # p) [] = False"
| "has_prefix (c # p) (d # s) = (c = d \<and> has_prefix p s)"

fun Contains :: "string \<Rightarrow> string \<Rightarrow> bool" where
  "Contains [] sub = (sub = [])"
| "Contains (c # s) sub = (has_prefix sub (c # s) \<or> Contains s sub)"

definition is_digit :: "char \<Rightarrow> bool" where
  "is_digit c = (48 \<le> (of_char c :: nat) \<and> (of_char c :: nat) \<le> 57)"

definition digit_val :: "char \<Rightarrow> nat" where
  "digit_val c = (of_char c :: nat) - 48"

datatype num_error = ErrSyntax | ErrRange

text \<open>
  The scanning loop of \<open>strconv.ParseUint(s, 10, 64)\<close>: characters are read from the left, a
  character that is not a digit is a syntax error, leaving the 64-bit range is a range error,
  whichever comes first.
\<close>

fun scan_uint :: "nat \<Rightarrow> string \<Rightarrow> num_error + nat" where
  "scan_uint n [] = Inr n"
| "scan_uint n (c # cs) =
     (if \<not> is_digit c then Inl ErrSyntax
      else if 2 ^ 64 \<le> n * 10 + digit_val c then Inl ErrRange
      else scan_uint (n * 10 + digit_val c) cs)"

text \<open>
  \<open>strconv.ParseInt(s, 10, 64)\<close>: the value and the error. On a syntax error the value is 0, on
  a range error it is the nearest 64-bit integer; \<open>strconv.Atoi\<close> gives the same pair.
\<close>

definition ParseInt :: "string \<Rightarrow> int \<times> num_error option" where
  "ParseInt s =
     (if s = [] then (0, Some ErrSyntax)
      else let neg = (hd s = CHR ''-'');
               rest = (if hd s = CHR ''-'' \<or> hd s = CHR ''+'' then tl s else s)
           in if rest = [] then (0, Some ErrSyntax)
              else case scan_uint 0 rest of
                     Inl ErrSyntax \<Rightarrow> (0, Some ErrSyntax)
                   | Inl ErrRange \<Rightarrow> (if neg then - (2 ^ 63) else 2 ^ 63 - 1, Some ErrRange)
                   | Inr un \<Rightarrow>
                       if \<not> neg \<and> 2 ^ 63 \<le> un then (2 ^ 63 - 1, Some ErrRange)
                       else if neg \<and> 2 ^ 63 < un then (- (2 ^ 63), Some ErrRange)
                       else (if neg then - int un else int un, None))"

definition Atoi :: "string \<Rightarrow> int \<times> num_error option" where
  "Atoi s = ParseInt s"

text \<open>\<open>fmt.Sprintf("%d", n)\<close> and \<open>strconv.Itoa\<close>.\<close>

fun digits :: "nat \<Rightarrow> string" where
  "digits n = (if n < 10 then [char_of (48 + n)]
               else digits (n div 10) @ [char_of (48 + n mod 10)])"

declare digits.simps [simp del]

definition Itoa :: "int \<Rightarrow> string" where
  "Itoa n = (if n < 0 then CHR ''-'' # digits (nat (- n)) else digits (nat n))"

subsection \<open>Printing and parsing integers\<close>

lemma of_char_digit: "d < (10 :: nat) \<Longrightarrow> (of_char (char_of (48 + d)) :: nat) = 48 + d"
  by (simp add: of_char_of)

lemma is_digit_char [simp]: "d < (10 :: nat) \<Longrightarrow> is_digit (char_of (48 + d))"
  by (simp add: is_digit_def of_char_of)

lemma digit_val_char [simp]: "d < (10 :: nat) \<Longrightarrow> digit_val (char_of (48 + d)) = d"
  by (simp add: digit_val_def of_char_of)

lemma scan_uint_append:
  "scan_uint n (xs @ ys) = (case scan_uint n xs of Inl e \<Rightarrow> Inl e | Inr m \<Rightarrow> scan_uint m ys)"
  by (induction xs arbitrary: n) auto

lemma digits_nonempty [simp]: "digits n \<noteq> []"
  by (subst digits.simps) simp

lemma digits_all_digits: "\<forall>c \<in> set (digits n). is_digit c"
proof (induction n rule: digits.induct)
  case (1 n)
  then show ?case by (subst digits.simps) auto
qed

lemma scan_digits: "n < 2 ^ 64 \<Longrightarrow> scan_uint 0 (digits n) = Inr n"
proof (induction n rule: digits.induct)
  case (1 n)
  show ?case
  proof (cases "n < 10")
    case True
    then show ?thesis by (subst digits.simps) simp
  next
    case False
    with 1 have "scan_uint 0 (digits (n div 10)) = Inr (n div 10)" by simp
    moreover have "n div 10 * 10 + n mod 10 = n" by simp
    ultimately show ?thesis using False "1.prems"
      by (subst digits.simps) (simp add: scan_uint_append)
  qed
qed

lemma hd_digits_digit: "is_digit (hd (digits n))"
  using digits_all_digits[of n] by simp

lemma hd_digits_no_sign [simp]: "hd (digits n) \<noteq> CHR ''-''" "hd (digits n) \<noteq> CHR ''+''"
  using hd_digits_digit[of n] by (auto simp: is_digit_def)

lemma ParseInt_Itoa:
  assumes "- (2 ^ 63) \<le> n" "n < 2 ^ 63"
  shows "ParseInt (Itoa n) = (n, None)"
proof (cases "n < 0")
  case True
  with assms have "nat (- n) < 2 ^ 64" "\<not> 2 ^ 63 < nat (- n)" by (simp_all add: nat_less_iff)
  with True show ?thesis by (simp add: ParseInt_def Itoa_def scan_digits)
next
  case False
  with assms have "nat n < 2 ^ 64" "\<not> 2 ^ 63 \<le> nat n" by (simp_all add: nat_less_iff)
  with False show ?thesis by (simp add: ParseInt_def Itoa_def scan_digits)
qed

lemma digits_inj: "digits m = digits n \<Longrightarrow> m < 2 ^ 64 \<Longrightarrow> n < 2 ^ 64 \<Longrightarrow> m = n"
  by (metis scan_digits sum.inject(2))

lemma ParseInt_range:
  "ParseInt s = (n, e) \<Longrightarrow> - (2 ^ 63) \<le> n \<and> n < 2 ^ 63"
  by (auto simp: ParseInt_def Let_def split: if_splits sum.splits num_error.splits)

section \<open>Keyed lists\<close>

text \<open>
  The pod lists of a GPU are \<open>container/list\<close> values searched from the front by key.
  \<open>find_first\<close> is the search, \<open>remove_first\<close> unlinks the first element that matches.
\<close>

fun find_first :: "('a \<Rightarrow> bool) \<Rightarrow> 'a list \<Rightarrow> 'a option" where
  "find_first p [] = None"
| "find_first p (x # xs) = (if p x then Some x else find_first p xs)"

fun remove_first :: "('a \<Rightarrow> bool) \<Rightarrow> 'a list \<Rightarrow> 'a list" where
  "remove_first p [] = []"
| "remove_first p (x # xs) = (if p x then xs else x # remove_first p xs)"

lemma find_first_None_iff: "find_first p xs = None \<longleftrightarrow> (\<forall>x \<in> set xs. \<not> p x)"
  by (induction xs) auto

lemma find_first_SomeD: "find_first p xs = Some x \<Longrightarrow> x \<in> set xs \<and> p x"
  by (induction xs) (auto split: if_splits)

lemma remove_first_id: "find_first p xs = None \<Longrightarrow> remove_first p xs = xs"
  by (induction xs) (auto split: if_splits)

lemma mset_remove_first:
  "find_first p xs = Some x \<Longrightarrow> mset xs = add_mset x (mset (remove_first p xs))"
  by (induction xs) (auto split: if_splits)

lemma set_remove_first_subset: "set (remove_first p xs) \<subseteq> set xs"
  by (induction xs) auto

lemma sum_list_remove_first:
  fixes f :: "'a \<Rightarrow> 'b :: comm_monoid_add"
  assumes "find_first p xs = Some x"
  shows "sum_list (map f xs) = f x + sum_list (map f (remove_first p xs))"
proof -
  have "sum_list (map f xs) = sum_mset (image_mset f (mset xs))"
    by (metis mset_map sum_mset_sum_list)
  also have "\<dots> = f x + sum_mset (image_mset f (mset (remove_first p xs)))"
    by (simp add: mset_remove_first[OF assms])
  also have "sum_mset (image_mset f (mset (remove_first p xs))) = sum_list (map f (remove_first p xs))"
    by (metis mset_map sum_mset_sum_list)
  finally show ?thesis .
qed

lemma distinct_map_remove_first:
  "distinct (map f xs) \<Longrightarrow> distinct (map f (remove_first p xs))"
  by (induction xs) (use set_remove_first_subset in \<open>fastforce+\<close>)

lemma remove_first_append:
  "remove_first p (xs @ ys) =
     (if find_first p xs = None then xs @ remove_first p ys else remove_first p xs @ ys)"
  by (induction xs) auto

lemma find_first_append:
  "find_first p (xs @ ys) = (case find_first p xs of None \<Rightarrow> find_first p ys | Some x \<Rightarrow> Some x)"
  by (induction xs) auto

lemma notin_remove_first_key:
  assumes "distinct (map f xs)" "find_first (\<lambda>x. f x = k) xs = Some y"
  shows "set (map f (remove_first (\<lambda>x. f x = k) xs)) = set (map f xs) - {k}"
  using assms
proof (induction xs)
  case Nil
  then show ?case by simp
next
  case (Cons a xs)
  then show ?case
    using set_remove_first_subset[of "\<lambda>x. f x = k" xs] by (auto split: if_splits)
qed

lemma set_remove_first:
  "distinct xs \<Longrightarrow> find_first p xs = Some x \<Longrightarrow> set (remove_first p xs) = set xs - {x}"
  by (induction xs) (auto split: if_splits dest: find_first_SomeD)

lemma remove_first_filter:
  "distinct (map f xs) \<Longrightarrow> remove_first (\<lambda>x. f x = k) xs = filter (\<lambda>x. f x \<noteq> k) xs"
proof (induction xs)
  case (Cons x xs)
  then have "f x = k \<Longrightarrow> filter (\<lambda>x. f x \<noteq> k) xs = xs" by (metis (mono_tags) distinct.simps(2) filter_True image_eqI list.simps(9) set_map)
  with Cons show ?case by simp
qed simp

lemma find_first_unique:
  "distinct (map f xs) \<Longrightarrow> x \<in> set xs \<Longrightarrow> find_first (\<lambda>y. f y = f x) xs = Some x"
  by (induction xs) auto

lemma length_remove1_Suc: "x \<in> set xs \<Longrightarrow> length xs = Suc (length (remove1 x xs))"
  by (simp add: length_remove1) (metis Suc_pred length_pos_if_in_set)

end
