(* ===== verification/Bitmap.thy ===== *)
theory Bitmap
  imports Prelude
begin

unbundle bit_operations_syntax

text \<open>
  The bitmap of \<open>pkg/libs/bitmap/bitmap.go\<close>, the allocator of GPU-client ports of a node: a slice of
  64-bit words, the position the next search starts from, and the number of bits.

  \<open>used\<close> is the set of positions whose bit is set, the abstract state of the allocator; every
  operation is shown to refine the corresponding operation on that set, under the representation
  invariant \<open>wf_bitmap\<close>. The locale \<open>port_pool\<close> is the contract the GPU manager relies on (a fresh
  port in range or \<open>-1\<close> when the pool is full; release frees exactly the port); it is interpreted
  on the bitmap operations.
\<close>

section \<open>The data structure and its operations\<close>

record bitmap =
  bits :: "64 word list"
  position :: int
  bm_size :: int

definition range_error :: string where
  "range_error = ''position out of range''"

definition NewBitmap :: "int \<Rightarrow> bitmap go" where
  "NewBitmap n =
     (let sz = quot (n + 63) 64
      in if sz < 0 then Panic
         else Ret \<lparr>bits = replicate (nat sz) 0, position = 0, bm_size = n\<rparr>)"

text \<open>An index expression on the word slice: out of range panics.\<close>

definition word_at :: "bitmap \<Rightarrow> int \<Rightarrow> 64 word go" where
  "word_at b i = (if 0 \<le> i \<and> nat i < length (bits b) then Ret (bits b ! nat i) else Panic)"

definition Set :: "bitmap \<Rightarrow> int \<Rightarrow> (string option \<times> bitmap) go" where
  "Set b pos =
     (if pos < 0 \<or> pos \<ge> bm_size b then Ret (Some range_error, b)
      else let index = quot pos 64; offset = rmd pos 64
           in bind_go (word_at b index) (\<lambda>w.
                Ret (None, b\<lparr>bits := (bits b)[nat index := w OR push_bit (nat offset) 1]\<rparr>)))"

definition Clear :: "bitmap \<Rightarrow> int \<Rightarrow> (string option \<times> bitmap) go" where
  "Clear b pos =
     (if pos < 0 \<or> pos \<ge> bm_size b then Ret (Some range_error, b)
      else let index = quot pos 64; offset = rmd pos 64
           in bind_go (word_at b index) (\<lambda>w.
                Ret (None, b\<lparr>bits := (bits b)[nat index := w AND NOT (push_bit (nat offset) 1)]\<rparr>)))"

definition Get :: "bitmap \<Rightarrow> int \<Rightarrow> (bool \<times> string option) go" where
  "Get b pos =
     (if pos < 0 \<or> pos \<ge> bm_size b then Ret (False, Some range_error)
      else let index = quot pos 64; offset = rmd pos 64
           in bind_go (word_at b index) (\<lambda>w. Ret ((w AND push_bit (nat offset) 1) \<noteq> 0, None)))"

text \<open>The loop of \<open>FindFirstUnset\<close>, from its counter \<open>i\<close> on.\<close>

function FindFirstUnset_from :: "bitmap \<Rightarrow> int \<Rightarrow> (int \<times> bitmap) go" where
  "FindFirstUnset_from b i =
     (if i < bm_size b
      then let pos = rmd (position b + i) (bm_size b)
           in bind_go (Get b pos) (\<lambda>(value, e).
                if \<not> value then Ret (pos, b\<lparr>position := rmd (pos + 1) (bm_size b)\<rparr>)
                else FindFirstUnset_from b (i + 1))
      else Ret (-1, b))"
  by pat_completeness auto
termination
  by (relation "measure (\<lambda>(b, i). nat (bm_size b - i))") auto

declare FindFirstUnset_from.simps [simp del]

definition FindFirstUnset :: "bitmap \<Rightarrow> (int \<times> bitmap) go" where
  "FindFirstUnset b = FindFirstUnset_from b 0"

definition FindFirstUnsetAndSet :: "bitmap \<Rightarrow> (int \<times> bitmap) go" where
  "FindFirstUnsetAndSet b =
     bind_go (FindFirstUnset b) (\<lambda>(i, b').
       if i \<noteq> -1 then bind_go (Set b' i) (\<lambda>(e, b''). Ret (i, b''))
       else Ret (i, b'))"

section \<open>The representation invariant and the abstract state\<close>

definition wf_bitmap :: "bitmap \<Rightarrow> bool" where
  "wf_bitmap b \<longleftrightarrow> 0 \<le> bm_size b \<and> length (bits b) = nat ((bm_size b + 63) div 64)
     \<and> 0 \<le> position b \<and> (position b < bm_size b \<or> position b = 0)"

definition used :: "bitmap \<Rightarrow> int set" where
  "used b = {i. 0 \<le> i \<and> i < bm_size b \<and> bit (bits b ! nat (i div 64)) (nat (i mod 64))}"

lemma used_range: "used b \<subseteq> {0 ..< bm_size b}"
  by (auto simp: used_def)

lemma finite_used [simp]: "finite (used b)"
  by (rule finite_subset[OF used_range]) simp

lemma word_index_bound:
  assumes "wf_bitmap b" "0 \<le> pos" "pos < bm_size b"
  shows "nat (pos div 64) < length (bits b)"
  using assms by (auto simp: wf_bitmap_def)

lemma word_at_ok:
  assumes "wf_bitmap b" "0 \<le> pos" "pos < bm_size b"
  shows "word_at b (quot pos 64) = Ret (bits b ! nat (pos div 64))"
  using assms word_index_bound[OF assms] by (simp add: word_at_def quot_nonneg)

lemma bit_single: "bit ((2 :: 64 word) ^ k) j \<longleftrightarrow> k < 64 \<and> j = k"
  by (auto simp: bit_exp_iff)

lemma and_single_bit: "((w :: 64 word) AND 2 ^ k \<noteq> 0) \<longleftrightarrow> (k < 64 \<and> bit w k)"
proof -
  have "(w AND 2 ^ k = 0) \<longleftrightarrow> (\<forall>j. \<not> bit (w AND 2 ^ k) j)"
    by (metis bit_0_eq bit_eqI bot_apply bot_bool_def)
  also have "\<dots> \<longleftrightarrow> \<not> (k < 64 \<and> bit w k)"
    by (auto simp: bit_and_iff bit_single)
  finally show ?thesis by blast
qed

lemma bit_or_single:
  "k < 64 \<Longrightarrow> bit ((w :: 64 word) OR 2 ^ k) j \<longleftrightarrow> bit w j \<or> j = k"
  by (auto simp: bit_or_iff bit_single)

lemma bit_and_not_single:
  "k < 64 \<Longrightarrow> bit ((w :: 64 word) AND NOT (2 ^ k)) j \<longleftrightarrow> bit w j \<and> j \<noteq> k"
  by (auto simp: bit_and_iff bit_not_iff bit_single dest: bit_imp_le_length)

lemma div_mod_64_eq:
  fixes i j :: int
  assumes "0 \<le> i" "0 \<le> j"
  shows "nat (i div 64) = nat (j div 64) \<and> nat (i mod 64) = nat (j mod 64) \<longleftrightarrow> i = j"
  using assms by (metis eq_nat_nat_iff mult_div_mod_eq pos_imp_zdiv_nonneg_iff pos_mod_sign
      zero_less_numeral)

section \<open>Refinement of the operations to sets of positions\<close>

lemma Get_spec:
  assumes "wf_bitmap b" "0 \<le> pos" "pos < bm_size b"
  shows "Get b pos = Ret (pos \<in> used b, None)"
  using assms word_at_ok[OF assms]
  by (simp add: Get_def used_def and_single_bit rmd_nonneg Let_def nat_less_iff)

lemma Get_out_of_range: "pos < 0 \<or> bm_size b \<le> pos \<Longrightarrow> Get b pos = Ret (False, Some range_error)"
  by (simp add: Get_def)

lemma wf_bits_update [simp]: "wf_bitmap (b\<lparr>bits := (bits b)[i := w]\<rparr>) = wf_bitmap b"
  by (simp add: wf_bitmap_def)

lemma Set_spec:
  assumes "wf_bitmap b" "0 \<le> pos" "pos < bm_size b"
  shows "\<exists>b'. Set b pos = Ret (None, b') \<and> used b' = insert pos (used b) \<and> wf_bitmap b'
           \<and> position b' = position b \<and> bm_size b' = bm_size b"
proof -
  let ?i = "nat (pos div 64)" and ?k = "nat (pos mod 64)"
  let ?b = "b\<lparr>bits := (bits b)[?i := bits b ! ?i OR push_bit ?k 1]\<rparr>"
  have k: "?k < 64" by (simp add: nat_less_iff)
  have "Set b pos = Ret (None, ?b)"
    using assms word_at_ok[OF assms] by (simp add: Set_def quot_nonneg rmd_nonneg Let_def)
  moreover have "j \<in> used ?b \<longleftrightarrow> j \<in> insert pos (used b)" for j
    using assms word_index_bound[OF assms] div_mod_64_eq[of j pos]
    by (cases "nat (j div 64) = ?i") (auto simp: used_def nth_list_update bit_or_single[OF k])
  ultimately show ?thesis using assms(1) by (intro exI[of _ ?b]) auto
qed

lemma Clear_spec:
  assumes "wf_bitmap b" "0 \<le> pos" "pos < bm_size b"
  shows "\<exists>b'. Clear b pos = Ret (None, b') \<and> used b' = used b - {pos} \<and> wf_bitmap b'
           \<and> position b' = position b \<and> bm_size b' = bm_size b"
proof -
  let ?i = "nat (pos div 64)" and ?k = "nat (pos mod 64)"
  let ?b = "b\<lparr>bits := (bits b)[?i := bits b ! ?i AND NOT (push_bit ?k 1)]\<rparr>"
  have k: "?k < 64" by (simp add: nat_less_iff)
  have "Clear b pos = Ret (None, ?b)"
    using assms word_at_ok[OF assms] by (simp add: Clear_def quot_nonneg rmd_nonneg Let_def)
  moreover have "j \<in> used ?b \<longleftrightarrow> j \<in> used b - {pos}" for j
    using assms word_index_bound[OF assms] div_mod_64_eq[of j pos]
    by (cases "nat (j div 64) = ?i") (auto simp: used_def nth_list_update bit_and_not_single[OF k])
  ultimately show ?thesis using assms(1) by (intro exI[of _ ?b]) auto
qed

lemma NewBitmap_spec:
  assumes "0 \<le> n"
  shows "\<exists>b. NewBitmap n = Ret b \<and> wf_bitmap b \<and> used b = {} \<and> bm_size b = n \<and> position b = 0"
proof -
  have q: "quot (n + 63) 64 = (n + 63) div 64" using assms by (simp add: quot_nonneg)
  have "nat (i div 64) < nat ((n + 63) div 64)" if "0 \<le> i" "i < n" for i
    using that by auto
  then show ?thesis
    using assms by (auto simp: NewBitmap_def q wf_bitmap_def used_def Let_def)
qed

section \<open>The round-robin search\<close>

text \<open>
  \<open>slot b k\<close> is the position the search looks at in its round \<open>k\<close>; \<open>searched b i k\<close> says that the
  rounds from \<open>i\<close> up to \<open>k\<close> met set bits only.
\<close>

definition slot :: "bitmap \<Rightarrow> int \<Rightarrow> int" where
  "slot b k = (position b + k) mod bm_size b"

definition searched :: "bitmap \<Rightarrow> int \<Rightarrow> int \<Rightarrow> bool" where
  "searched b i k \<longleftrightarrow> (\<forall>j. i \<le> j \<and> j < k \<longrightarrow> slot b j \<in> used b)"

lemma searched_step: "slot b i \<in> used b \<Longrightarrow> searched b (i + 1) k \<Longrightarrow> searched b i k"
  unfolding searched_def by (metis add1_zle_eq le_less)

lemma searched_empty: "k \<le> i \<Longrightarrow> searched b i k"
  by (auto simp: searched_def)

lemma slot_range: "0 < bm_size b \<Longrightarrow> 0 \<le> slot b k \<and> slot b k < bm_size b"
  by (simp add: slot_def)

lemma searched_all:
  assumes "searched b 0 (bm_size b)"
  shows "used b = {0 ..< bm_size b}"
proof
  show "{0 ..< bm_size b} \<subseteq> used b"
  proof
    fix x assume x: "x \<in> {0 ..< bm_size b}"
    let ?j = "(x - position b) mod bm_size b"
    have "slot b ?j = x" using x by (simp add: slot_def mod_add_right_eq)
    moreover have "slot b ?j \<in> used b" using assms x by (simp add: searched_def)
    ultimately show "x \<in> used b" by simp
  qed
qed (rule used_range)

lemma FindFirstUnset_from_cases:
  assumes "wf_bitmap b" "0 \<le> i"
  obtains (full) "FindFirstUnset_from b i = Ret (-1, b)" "searched b i (bm_size b)"
  | (free) k where "i \<le> k" "k < bm_size b" "slot b k \<notin> used b" "searched b i k"
      "FindFirstUnset_from b i = Ret (slot b k, b\<lparr>position := (slot b k + 1) mod bm_size b\<rparr>)"
  using assms
proof (induction b i arbitrary: thesis rule: FindFirstUnset_from.induct)
  case (1 b i)
  note simps = FindFirstUnset_from.simps[of b i]
  show ?case
  proof (cases "i < bm_size b")
    case False
    then show ?thesis using "1.prems"(1) by (simp add: simps searched_empty)
  next
    case True
    have n: "0 < bm_size b" using True "1.prems"(4) by simp
    have p: "rmd (position b + i) (bm_size b) = slot b i"
      unfolding slot_def using "1.prems"(3,4) n by (intro rmd_nonneg) (auto simp: wf_bitmap_def)
    have r: "0 \<le> slot b i" "slot b i < bm_size b" using slot_range[OF n] by simp_all
    have get: "Get b (slot b i) = Ret (slot b i \<in> used b, None)"
      by (rule Get_spec[OF "1.prems"(3) r])
    show ?thesis
    proof (cases "slot b i \<in> used b")
      case False
      have "FindFirstUnset_from b i = Ret (slot b i, b\<lparr>position := (slot b i + 1) mod bm_size b\<rparr>)"
        using True False get p r n by (simp add: simps rmd_nonneg Let_def)
      with True False show ?thesis using "1.prems"(2)[of i] by (simp add: searched_empty)
    next
      case used: True
      then have eq: "FindFirstUnset_from b i = FindFirstUnset_from b (i + 1)"
        using True get p by (simp add: simps)
      have i: "0 \<le> i + 1" using "1.prems"(4) by simp
      have nn: "\<not> \<not> (slot b i \<in> used b)" using used by simp
      show ?thesis
      proof (rule "1.IH"[OF True p[symmetric] get refl nn _ _ "1.prems"(3) i])
        assume "FindFirstUnset_from b (i + 1) = Ret (-1, b)" "searched b (i + 1) (bm_size b)"
        then show thesis using "1.prems"(1) eq searched_step[OF used] by simp
      next
        fix k assume k: "i + 1 \<le> k" "k < bm_size b" "slot b k \<notin> used b" "searched b (i + 1) k"
          "FindFirstUnset_from b (i + 1) =
             Ret (slot b k, b\<lparr>position := (slot b k + 1) mod bm_size b\<rparr>)"
        show thesis by (rule "1.prems"(2)[of k]) (use k eq searched_step[OF used] in simp_all)
      qed
    qed
  qed
qed

lemma FindFirstUnset_cases:
  assumes "wf_bitmap b"
  obtains (full) "FindFirstUnset b = Ret (-1, b)" "used b = {0 ..< bm_size b}"
  | (free) k where "0 \<le> k" "k < bm_size b" "slot b k \<notin> used b" "searched b 0 k"
      "FindFirstUnset b = Ret (slot b k, b\<lparr>position := (slot b k + 1) mod bm_size b\<rparr>)"
  using FindFirstUnset_from_cases[OF assms, of 0] searched_all[of b]
  unfolding FindFirstUnset_def by auto

lemma FindFirstUnsetAndSet_cases:
  assumes "wf_bitmap b"
  obtains (full) "FindFirstUnsetAndSet b = Ret (-1, b)" "used b = {0 ..< bm_size b}"
  | (free) k b' where "0 \<le> k" "k < bm_size b" "slot b k \<notin> used b" "searched b 0 k"
      "FindFirstUnsetAndSet b = Ret (slot b k, b')" "wf_bitmap b'" "bm_size b' = bm_size b"
      "used b' = insert (slot b k) (used b)" "position b' = (slot b k + 1) mod bm_size b"
proof (cases rule: FindFirstUnset_cases[OF assms])
  case 1
  note full = this
  then show ?thesis using that(1) by (simp add: FindFirstUnsetAndSet_def)
next
  case (2 k)
  note free = this
  let ?r = "slot b k" and ?b = "b\<lparr>position := (slot b k + 1) mod bm_size b\<rparr>"
  have n: "0 < bm_size b" using free by simp
  have wf: "wf_bitmap ?b" using assms n by (simp add: wf_bitmap_def)
  have r: "0 \<le> ?r" "?r < bm_size ?b" using slot_range[OF n] by simp_all
  have u: "used ?b = used b" by (simp add: used_def)
  from Set_spec[OF wf r] obtain b' where b': "Set ?b ?r = Ret (None, b')"
    "used b' = insert ?r (used b)" "wf_bitmap b'" "position b' = (?r + 1) mod bm_size b"
    "bm_size b' = bm_size b" by (auto simp: u)
  have "FindFirstUnsetAndSet b = Ret (?r, b')"
    using free(5) b'(1) r(1) by (simp add: FindFirstUnsetAndSet_def)
  with free b' show ?thesis using that(2) by blast
qed

section \<open>The contract of a port pool\<close>

locale port_pool =
  fixes alloc :: "'p \<Rightarrow> (int \<times> 'p) go"
    and release :: "'p \<Rightarrow> int \<Rightarrow> (string option \<times> 'p) go"
    and taken :: "'p \<Rightarrow> int set"
    and capacity :: "'p \<Rightarrow> int"
    and ok :: "'p \<Rightarrow> bool"
  assumes taken_range: "ok p \<Longrightarrow> taken p \<subseteq> {0 ..< capacity p}"
    and alloc_returns: "ok p \<Longrightarrow> \<exists>i p'. alloc p = Ret (i, p')"
    and alloc_full: "ok p \<Longrightarrow> alloc p = Ret (-1, p') \<Longrightarrow> taken p = {0 ..< capacity p} \<and> p' = p"
    and alloc_fresh: "ok p \<Longrightarrow> alloc p = Ret (i, p') \<Longrightarrow> i \<noteq> -1 \<Longrightarrow>
           0 \<le> i \<and> i < capacity p \<and> i \<notin> taken p \<and> taken p' = insert i (taken p)
           \<and> capacity p' = capacity p \<and> ok p'"
    and release_frees: "ok p \<Longrightarrow> 0 \<le> i \<Longrightarrow> i < capacity p \<Longrightarrow>
           \<exists>p'. release p i = Ret (None, p') \<and> taken p' = taken p - {i}
              \<and> capacity p' = capacity p \<and> ok p'"
    and release_outside: "ok p \<Longrightarrow> i < 0 \<or> capacity p \<le> i \<Longrightarrow> \<exists>e. release p i = Ret (e, p)"
begin

lemma taken_finite: "ok p \<Longrightarrow> finite (taken p)"
  using taken_range finite_subset by blast

lemma alloc_ok: "ok p \<Longrightarrow> alloc p = Ret (i, p') \<Longrightarrow> ok p'"
  using alloc_full[of p p'] alloc_fresh[of p i p'] by (cases "i = -1") auto

lemma alloc_succeeds_iff:
  "ok p \<Longrightarrow> alloc p = Ret (i, p') \<Longrightarrow> 0 \<le> capacity p \<Longrightarrow>
     i \<noteq> -1 \<longleftrightarrow> card (taken p) < nat (capacity p)"
proof -
  assume ok: "ok p" and a: "alloc p = Ret (i, p')" and c: "0 \<le> capacity p"
  have card: "card {0 ..< capacity p} = nat (capacity p)" by simp
  show ?thesis
  proof (cases "i = -1")
    case True
    with alloc_full ok a have "taken p = {0 ..< capacity p}" by blast
    with True card show ?thesis by simp
  next
    case False
    with alloc_fresh[OF ok a] have "i \<in> {0 ..< capacity p} - taken p" by auto
    then have "taken p \<subset> {0 ..< capacity p}" using taken_range[OF ok] by blast
    then have "card (taken p) < card {0 ..< capacity p}" by (intro psubset_card_mono) auto
    with False card show ?thesis by simp
  qed
qed

lemma release_undoes_alloc:
  "ok p \<Longrightarrow> alloc p = Ret (i, p') \<Longrightarrow> i \<noteq> -1 \<Longrightarrow>
     \<exists>p''. release p' i = Ret (None, p'') \<and> taken p'' = taken p \<and> ok p''"
  using alloc_fresh[of p i p'] release_frees[of p' i] by auto

lemma allocs_differ:
  "ok p \<Longrightarrow> alloc p = Ret (i, p') \<Longrightarrow> alloc p' = Ret (j, p'') \<Longrightarrow> i \<noteq> -1 \<Longrightarrow> j \<noteq> -1 \<Longrightarrow> i \<noteq> j"
  using alloc_fresh[of p i p'] alloc_fresh[of p' j p''] by auto

end

interpretation bm: port_pool FindFirstUnsetAndSet Clear used bm_size wf_bitmap
proof
  fix p assume wf: "wf_bitmap p"
  show "used p \<subseteq> {0 ..< bm_size p}" by (rule used_range)
  show "\<exists>i p'. FindFirstUnsetAndSet p = Ret (i, p')"
    by (rule FindFirstUnsetAndSet_cases[OF wf]) auto
next
  fix p p' assume wf: "wf_bitmap p" and a: "FindFirstUnsetAndSet p = Ret (-1, p')"
  show "used p = {0 ..< bm_size p} \<and> p' = p"
  proof (rule FindFirstUnsetAndSet_cases[OF wf])
    fix k b' assume "0 \<le> k" "k < bm_size p" "FindFirstUnsetAndSet p = Ret (slot p k, b')"
    then show ?thesis using a slot_range[of p k] by simp
  qed (use a in auto)
next
  fix p i p' assume wf: "wf_bitmap p" and a: "FindFirstUnsetAndSet p = Ret (i, p')" and i: "i \<noteq> -1"
  show "0 \<le> i \<and> i < bm_size p \<and> i \<notin> used p \<and> used p' = insert i (used p)
      \<and> bm_size p' = bm_size p \<and> wf_bitmap p'"
    by (rule FindFirstUnsetAndSet_cases[OF wf]) (use a i slot_range[of p] in auto)
next
  fix p i assume "wf_bitmap p" "0 \<le> i" "i < bm_size p"
  then show "\<exists>p'. Clear p i = Ret (None, p') \<and> used p' = used p - {i}
      \<and> bm_size p' = bm_size p \<and> wf_bitmap p'"
    using Clear_spec by blast
next
  fix p i assume "wf_bitmap p" "i < 0 \<or> bm_size p \<le> i"
  then show "\<exists>e. Clear p i = Ret (e, p)" by (auto simp: Clear_def)
qed

end
