(* ===== verification/Float64.thy ===== *)
theory Float64
  imports Prelude Complex_Main "HOL-Library.Log_Nat"
begin

text \<open>
  Go's \<open>float64\<close>: IEEE 754 binary64 with rounding to nearest, ties to even. A finite value is the
  rational number it denotes (the two zeros are one value: nothing in the code tells them apart
  but the sign a zero would be printed with). Every operation computes the exact result and
  rounds it; results out of range are infinities; NaN compares false with everything.

  \<open>rnd\<close> is executable. What the accounting code relies on is in the locale \<open>rounding\<close>: \<open>rnd\<close> is
  monotone and keeps 0 and 1; it is interpreted on \<open>rnd\<close> below.
\<close>

section \<open>Rounding a rational to binary64\<close>

definition rhe :: "rat \<Rightarrow> int" where
  "rhe x = (let f = \<lfloor>x\<rfloor>; d = x - of_int f
            in if d < 1 / 2 then f else if 1 / 2 < d then f + 1
               else if even f then f else f + 1)"

text \<open>\<open>expo q\<close> is the binary exponent of a positive \<open>q\<close>: \<open>2 ^ expo q \<le> q < 2 ^ (expo q + 1)\<close>.\<close>

definition expo :: "rat \<Rightarrow> int" where
  "expo q = (case quotient_of q of (n, d) \<Rightarrow>
     let k = bitlen n - bitlen d in if 2 powi k \<le> q then k else k - 1)"

definition ulp_exp :: "rat \<Rightarrow> int" where
  "ulp_exp q = max (-1074) (expo q - 52)"

definition rnd_pos :: "rat \<Rightarrow> rat" where
  "rnd_pos q = of_int (rhe (q / 2 powi ulp_exp q)) * 2 powi ulp_exp q"

definition rnd :: "rat \<Rightarrow> rat" where
  "rnd q = (if q = 0 then 0 else if 0 < q then rnd_pos q else - rnd_pos (- q))"

subsection \<open>Round half to even\<close>

lemma rhe_of_int [simp]: "rhe (of_int n) = n"
  by (simp add: rhe_def)

lemma rhe_bounds: "\<lfloor>x\<rfloor> \<le> rhe x" "rhe x \<le> \<lfloor>x\<rfloor> + 1"
  by (simp_all add: rhe_def Let_def)

lemma rhe_mono: "x \<le> y \<Longrightarrow> rhe x \<le> rhe y"
proof -
  assume xy: "x \<le> y"
  then have fl: "\<lfloor>x\<rfloor> \<le> \<lfloor>y\<rfloor>" by (rule floor_mono)
  show ?thesis
  proof (cases "\<lfloor>x\<rfloor> = \<lfloor>y\<rfloor>")
    case True
    with xy show ?thesis by (auto simp: rhe_def Let_def)
  next
    case False
    with fl have "\<lfloor>x\<rfloor> + 1 \<le> \<lfloor>y\<rfloor>" by simp
    with rhe_bounds(2)[of x] rhe_bounds(1)[of y] show ?thesis by linarith
  qed
qed

subsection \<open>The exponent\<close>

lemma powi_two_pos [simp]: "0 < (2 :: rat) powi k"
  by simp

lemma powi_two_le_iff: "(2 :: rat) powi a \<le> 2 powi b \<longleftrightarrow> a \<le> b"
  by (metis linorder_not_le one_less_numeral_iff power_int_strict_increasing
      power_int_increasing semiring_norm(76) less_imp_le)

lemma powi_two_less_iff: "(2 :: rat) powi a < 2 powi b \<longleftrightarrow> a < b"
  by (meson linorder_not_le powi_two_le_iff)

lemma powi_two_add: "(2 :: rat) powi (a + b) = 2 powi a * 2 powi b"
  by (simp add: power_int_add)

lemma bitlen_powi_bounds:
  assumes "0 < n"
  shows "2 powi (bitlen n - 1) \<le> (of_int n :: rat)" "(of_int n :: rat) < 2 powi (bitlen n)"
proof -
  have b: "2 ^ nat (bitlen n - 1) \<le> n" "n < 2 ^ nat (bitlen n)"
    using bitlen_bounds[OF assms] by simp_all
  have "1 \<le> bitlen n" using assms by (metis bitlen_eq_zero_iff bitlen_nonneg
      int_one_le_iff_zero_less le_less linorder_not_less)
  then have e: "(2 :: rat) powi (bitlen n - 1) = of_int (2 ^ nat (bitlen n - 1))"
    "(2 :: rat) powi (bitlen n) = of_int (2 ^ nat (bitlen n))"
    by (simp_all add: power_int_def)
  show "2 powi (bitlen n - 1) \<le> (of_int n :: rat)" using b(1) by (simp only: e of_int_le_iff)
  show "(of_int n :: rat) < 2 powi (bitlen n)" using b(2) by (simp only: e of_int_less_iff)
qed

lemma expo_bounds:
  assumes "0 < q"
  shows "2 powi (expo q) \<le> q" "q < 2 powi (expo q + 1)"
proof -
  obtain n d where nd: "quotient_of q = (n, d)" by fastforce
  have d: "0 < d" using nd quotient_of_denom_pos by blast
  have q: "q = of_int n / of_int d" using nd quotient_of_div by blast
  have n: "0 < n" using assms d by (simp add: q zero_less_divide_iff)
  let ?k = "bitlen n - bitlen d"
  have lo: "2 powi (?k - 1) \<le> q"
  proof -
    have "2 powi (?k - 1) * of_int d \<le> (2 :: rat) powi (?k - 1) * 2 powi (bitlen d)"
      using bitlen_powi_bounds(2)[OF d] by simp
    also have "\<dots> = 2 powi (bitlen n - 1)" by (simp flip: powi_two_add)
    also have "\<dots> \<le> of_int n" by (rule bitlen_powi_bounds(1)[OF n])
    finally show ?thesis using d by (simp add: q pos_le_divide_eq)
  qed
  have hi: "q < 2 powi (?k + 1)"
  proof -
    have "of_int n < (2 :: rat) powi (bitlen n)" by (rule bitlen_powi_bounds(2)[OF n])
    also have "\<dots> = 2 powi (?k + 1) * 2 powi (bitlen d - 1)" by (simp flip: powi_two_add)
    also have "\<dots> \<le> 2 powi (?k + 1) * of_int d"
      using bitlen_powi_bounds(1)[OF d] by simp
    finally show ?thesis using d by (simp add: q pos_divide_less_eq)
  qed
  show "2 powi (expo q) \<le> q" using lo by (simp add: expo_def nd Let_def)
  show "q < 2 powi (expo q + 1)" using hi by (simp add: expo_def nd Let_def)
qed

lemma expo_mono: "0 < q \<Longrightarrow> q \<le> r \<Longrightarrow> expo q \<le> expo r"
  using expo_bounds[of q] expo_bounds[of r] powi_two_less_iff[of "expo q" "expo r + 1"]
  by linarith

subsection \<open>Rounding is monotone\<close>

lemma rnd_pos_upper: "0 < q \<Longrightarrow> rnd_pos q \<le> 2 powi (ulp_exp q + 53)"
proof -
  assume q: "0 < q"
  have "q < 2 powi (expo q + 1)" by (rule expo_bounds[OF q])
  also have "\<dots> \<le> 2 powi (ulp_exp q + 53)" by (simp add: powi_two_le_iff ulp_exp_def)
  finally have "q / 2 powi ulp_exp q \<le> of_int (2 ^ 53)"
    by (simp add: pos_divide_le_eq powi_two_add mult.commute less_imp_le)
  then have "rhe (q / 2 powi ulp_exp q) \<le> 2 ^ 53" using rhe_mono rhe_of_int by metis
  then have "of_int (rhe (q / 2 powi ulp_exp q)) \<le> (of_int (2 ^ 53) :: rat)"
    by (simp only: of_int_le_iff)
  then show ?thesis
    by (simp add: rnd_pos_def powi_two_add mult.commute)
qed

lemma rnd_pos_lower: "0 < q \<Longrightarrow> ulp_exp q = expo q - 52 \<Longrightarrow> 2 powi (ulp_exp q + 52) \<le> rnd_pos q"
proof -
  assume q: "0 < q" and e: "ulp_exp q = expo q - 52"
  have "2 powi (ulp_exp q + 52) \<le> q" using expo_bounds(1)[OF q] by (simp add: e)
  then have "of_int (2 ^ 52) \<le> q / 2 powi ulp_exp q"
    by (simp add: pos_le_divide_eq powi_two_add mult.commute)
  then have "2 ^ 52 \<le> rhe (q / 2 powi ulp_exp q)" using rhe_mono rhe_of_int by metis
  then have "(of_int (2 ^ 52) :: rat) \<le> of_int (rhe (q / 2 powi ulp_exp q))"
    by (simp only: of_int_le_iff)
  then show ?thesis
    by (simp add: rnd_pos_def powi_two_add mult.commute)
qed

lemma rnd_pos_mono: "0 < q \<Longrightarrow> q \<le> r \<Longrightarrow> rnd_pos q \<le> rnd_pos r"
proof -
  assume q: "0 < q" and qr: "q \<le> r"
  have le: "ulp_exp q \<le> ulp_exp r" using expo_mono[OF q qr] by (simp add: ulp_exp_def)
  show ?thesis
  proof (cases "ulp_exp q = ulp_exp r")
    case True
    have "q / 2 powi ulp_exp r \<le> r / 2 powi ulp_exp r" using qr by (simp add: divide_right_mono)
    then have "rhe (q / 2 powi ulp_exp r) \<le> rhe (r / 2 powi ulp_exp r)" by (rule rhe_mono)
    then show ?thesis by (simp add: rnd_pos_def True)
  next
    case False
    with le have lt: "ulp_exp q < ulp_exp r" by simp
    then have e: "ulp_exp r = expo r - 52" by (auto simp: ulp_exp_def split: if_splits)
    have "rnd_pos q \<le> 2 powi (ulp_exp q + 53)" by (rule rnd_pos_upper[OF q])
    also have "\<dots> \<le> 2 powi (ulp_exp r + 52)" using lt by (simp add: powi_two_le_iff)
    also have "\<dots> \<le> rnd_pos r" using rnd_pos_lower[OF _ e] q qr by linarith
    finally show ?thesis .
  qed
qed

lemma rnd_pos_nonneg: "0 < q \<Longrightarrow> 0 \<le> rnd_pos q"
proof -
  assume "0 < q"
  then have "of_int 0 \<le> q / 2 powi ulp_exp q" by (simp add: less_imp_le)
  then have "0 \<le> rhe (q / 2 powi ulp_exp q)" using rhe_mono rhe_of_int by metis
  then show ?thesis by (simp add: rnd_pos_def)
qed

lemma rnd_mono: "q \<le> r \<Longrightarrow> rnd q \<le> rnd r"
  using rnd_pos_mono[of q r] rnd_pos_mono[of "- r" "- q"] rnd_pos_nonneg[of r] rnd_pos_nonneg[of "- q"]
  by (auto simp: rnd_def)

subsection \<open>Representable values are kept\<close>

text \<open>A dyadic number with at most 53 significant bits and exponent at least -1074 is a float64.\<close>

lemma rnd_pos_exact:
  assumes q: "q = of_int m * 2 powi e" and m: "0 < m" "m \<le> 2 ^ 53" and e: "-1074 \<le> e"
  shows "rnd_pos q = q"
proof -
  have q0: "0 < q" using m by (simp add: q)
  have "\<exists>k. q / 2 powi ulp_exp q = of_int k"
  proof (cases "ulp_exp q \<le> e")
    case True
    have "q / 2 powi ulp_exp q = of_int m * 2 powi (e - ulp_exp q)"
      by (simp add: q power_int_diff)
    also have "\<dots> = of_int (m * 2 ^ nat (e - ulp_exp q))"
      using True by (simp add: power_int_def)
    finally show ?thesis by blast
  next
    case False
    then have u: "ulp_exp q = expo q - 52" using e by (auto simp: ulp_exp_def split: if_splits)
    have "(of_int m :: rat) \<le> of_int (2 ^ 53)" using m(2) by (simp only: of_int_le_iff)
    then have le: "q \<le> 2 powi (53 + e)" by (simp add: q powi_two_add)
    with expo_bounds(1)[OF q0] have "expo q \<le> 53 + e" by (meson order_trans powi_two_le_iff)
    with False u have ex: "expo q = 53 + e" "ulp_exp q = e + 1" by simp_all
    with le expo_bounds(1)[OF q0] have qe: "q = 2 powi (53 + e)" by simp
    have "q / 2 powi ulp_exp q = 2 powi (53 + e) / 2 powi (e + 1)"
      by (simp only: ex(2)) (simp only: qe)
    also have "\<dots> = 2 powi ((53 + e) - (e + 1))" by (rule power_int_diff [symmetric]) simp
    also have "\<dots> = 2 powi 52" by simp
    also have "\<dots> = of_int (2 ^ 52)" by simp
    finally show ?thesis by blast
  qed
  then show ?thesis by (auto simp: rnd_pos_def)
     (metis nonzero_eq_divide_eq powi_two_pos less_irrefl)
qed

lemma rnd_exact:
  assumes q: "q = of_int m * 2 powi e" and m: "\<bar>m\<bar> \<le> 2 ^ 53" and e: "-1074 \<le> e"
  shows "rnd q = q"
proof -
  consider "m = 0" | "0 < m" | "m < 0" by linarith
  then show ?thesis
  proof cases
    case 1
    then show ?thesis by (simp add: q rnd_def)
  next
    case 2
    then show ?thesis using rnd_pos_exact[OF q 2 _ e] m by (simp add: rnd_def) (simp add: q)
  next
    case 3
    have "- q = of_int (- m) * 2 powi e" by (simp add: q)
    then have "rnd_pos (- q) = - q" using rnd_pos_exact[of "- q" "- m" e] 3 m e by simp
    moreover have "q < 0" using 3 by (simp add: q mult_neg_pos)
    ultimately show ?thesis by (simp add: rnd_def)
  qed
qed

lemma rnd_of_int: "\<bar>n\<bar> \<le> 2 ^ 53 \<Longrightarrow> rnd (of_int n) = of_int n"
  using rnd_exact[of "of_int n" n 0] by simp

lemma rnd_zero [simp]: "rnd 0 = 0"
  by (simp add: rnd_def)

lemma rnd_one [simp]: "rnd 1 = 1"
  using rnd_of_int[of 1] by simp

lemma rnd_pos_idem: "0 < q \<Longrightarrow> rnd (rnd_pos q) = rnd_pos q"
proof -
  assume q: "0 < q"
  let ?m = "rhe (q / 2 powi ulp_exp q)"
  have "of_int ?m * 2 powi ulp_exp q \<le> (2 :: rat) powi (ulp_exp q + 53)"
    using rnd_pos_upper[OF q] by (simp add: rnd_pos_def)
  then have "(of_int ?m :: rat) \<le> of_int (2 ^ 53)" by (simp add: powi_two_add mult.commute)
  then have "?m \<le> 2 ^ 53" by (simp only: of_int_le_iff)
  moreover have "0 \<le> ?m"
  proof -
    have "of_int 0 \<le> q / 2 powi ulp_exp q" using q by (simp add: less_imp_le)
    then show ?thesis using rhe_mono rhe_of_int by metis
  qed
  moreover have "-1074 \<le> ulp_exp q" by (simp add: ulp_exp_def)
  ultimately show ?thesis
    using rnd_exact[of "rnd_pos q" ?m "ulp_exp q"] by (simp add: rnd_pos_def)
qed

lemma rnd_neg: "rnd (- q) = - rnd q"
  by (simp add: rnd_def)

lemma rnd_idem: "rnd (rnd q) = rnd q"
proof -
  consider "q = 0" | "0 < q" | "q < 0" by linarith
  then show ?thesis
  proof cases
    case 3
    then have "rnd (rnd_pos (- q)) = rnd_pos (- q)" by (intro rnd_pos_idem) simp
    with 3 rnd_neg[of "rnd_pos (- q)"] show ?thesis by (simp add: rnd_def)
  next
    case 2
    then show ?thesis using rnd_pos_idem[of q] by (simp add: rnd_def)
  qed simp
qed

section \<open>The interface the accounting relies on\<close>

locale rounding =
  fixes r :: "rat \<Rightarrow> rat"
  assumes mono: "q \<le> s \<Longrightarrow> r q \<le> r s"
    and zero: "r 0 = 0"
    and one: "r 1 = 1"
    and idem: "r (r q) = r q"
begin

lemma nonneg: "0 \<le> q \<Longrightarrow> 0 \<le> r q"
  using mono[of 0 q] by (simp add: zero)

lemma le_one: "q \<le> 1 \<Longrightarrow> r q \<le> 1"
  using mono[of q 1] by (simp add: one)

lemma unit_mult: "0 \<le> a \<Longrightarrow> a \<le> 1 \<Longrightarrow> 0 \<le> b \<Longrightarrow> b \<le> 1 \<Longrightarrow> 0 \<le> r (a * b) \<and> r (a * b) \<le> 1"
  by (simp add: nonneg le_one mult_le_one)

lemma sub_le: "0 \<le> s \<Longrightarrow> r (r u - s) \<le> r u"
  using mono[of "r u - s" "r u"] by (simp add: idem)

lemma add_ge: "0 \<le> s \<Longrightarrow> r u \<le> r (r u + s)"
  using mono[of "r u" "r u + s"] by (simp add: idem)

end

interpretation f64: rounding rnd
  by unfold_locales (auto simp: rnd_mono rnd_idem)

section \<open>The type and its operations\<close>

datatype float64 = Fin rat | PInf | NInf | NaN

definition fl :: "rat \<Rightarrow> float64" where
  "fl q = (let v = rnd q in if 2 ^ 1024 \<le> v then PInf else if v \<le> - (2 ^ 1024) then NInf else Fin v)"

text \<open>For evaluation: small values are recognised without computing \<open>2 ^ 1024\<close>.\<close>

lemma fl_code [code]:
  "fl q = (let v = rnd q in if \<bar>v\<bar> < 1000000 then Fin v
           else if 2 ^ 1024 \<le> v then PInf else if v \<le> - (2 ^ 1024) then NInf else Fin v)"
proof -
  have "(1000000 :: rat) < 2 ^ 1024" by simp
  then show ?thesis unfolding fl_def Let_def by (auto simp: abs_if)
qed

definition f_of_int :: "int \<Rightarrow> float64" where
  "f_of_int n = fl (of_int n)"

fun fneg :: "float64 \<Rightarrow> float64" where
  "fneg (Fin a) = Fin (- a)" | "fneg PInf = NInf" | "fneg NInf = PInf" | "fneg NaN = NaN"

fun fadd :: "float64 \<Rightarrow> float64 \<Rightarrow> float64" where
  "fadd (Fin a) (Fin b) = fl (a + b)"
| "fadd NaN b = NaN" | "fadd a NaN = NaN"
| "fadd PInf NInf = NaN" | "fadd NInf PInf = NaN"
| "fadd PInf b = PInf" | "fadd NInf b = NInf"
| "fadd a PInf = PInf" | "fadd a NInf = NInf"

definition fsub :: "float64 \<Rightarrow> float64 \<Rightarrow> float64" where
  "fsub a b = fadd a (fneg b)"

fun inf_times :: "bool \<Rightarrow> rat \<Rightarrow> float64" where
  "inf_times neg b = (if b = 0 then NaN else if (b < 0) = neg then PInf else NInf)"

fun fmul :: "float64 \<Rightarrow> float64 \<Rightarrow> float64" where
  "fmul (Fin a) (Fin b) = fl (a * b)"
| "fmul NaN b = NaN" | "fmul a NaN = NaN"
| "fmul PInf (Fin b) = inf_times False b" | "fmul NInf (Fin b) = inf_times True b"
| "fmul (Fin a) PInf = inf_times False a" | "fmul (Fin a) NInf = inf_times True a"
| "fmul PInf PInf = PInf" | "fmul NInf NInf = PInf"
| "fmul PInf NInf = NInf" | "fmul NInf PInf = NInf"

text \<open>Division; the code divides by non-zero constants and counts only.\<close>

fun fdiv :: "float64 \<Rightarrow> float64 \<Rightarrow> float64" where
  "fdiv (Fin a) (Fin b) =
     (if b = 0 then (if a = 0 then NaN else if 0 < a then PInf else NInf) else fl (a / b))"
| "fdiv NaN b = NaN" | "fdiv a NaN = NaN"
| "fdiv PInf (Fin b) = (if b < 0 then NInf else PInf)"
| "fdiv NInf (Fin b) = (if b < 0 then PInf else NInf)"
| "fdiv (Fin a) PInf = Fin 0" | "fdiv (Fin a) NInf = Fin 0"
| "fdiv a b = NaN"

text \<open>\<open>a < b\<close> and \<open>a > b\<close>: false when an operand is NaN.\<close>

fun flt :: "float64 \<Rightarrow> float64 \<Rightarrow> bool" where
  "flt (Fin a) (Fin b) = (a < b)"
| "flt NaN b = False" | "flt a NaN = False"
| "flt PInf b = False" | "flt a NInf = False"
| "flt NInf b = True" | "flt a PInf = True"

definition fgt :: "float64 \<Rightarrow> float64 \<Rightarrow> bool" where
  "fgt a b = flt b a"

lemma fl_dyadic:
  "q = of_int m * 2 powi e \<Longrightarrow> \<bar>m\<bar> \<le> 2 ^ 53 \<Longrightarrow> -1074 \<le> e \<Longrightarrow> \<bar>q\<bar> < 2 ^ 1024 \<Longrightarrow> fl q = Fin q"
  using rnd_exact[of q m e] by (auto simp: fl_def Let_def)

lemma fl_Fin_iff: "fl q = Fin v \<longleftrightarrow> v = rnd q \<and> \<bar>rnd q\<bar> < 2 ^ 1024"
  by (auto simp: fl_def Let_def)

lemma fl_unit: "\<bar>q\<bar> \<le> 1 \<Longrightarrow> fl q = Fin (rnd q) \<and> \<bar>rnd q\<bar> \<le> 1"
proof -
  assume q: "\<bar>q\<bar> \<le> 1"
  then have "rnd q \<le> 1" "- rnd q \<le> 1"
    using f64.le_one[of q] f64.le_one[of "- q"] by (simp_all add: rnd_neg)
  then have "\<bar>rnd q\<bar> \<le> 1" by (simp add: abs_le_iff)
  moreover have "(1 :: rat) < 2 ^ 1024" by simp
  ultimately show ?thesis unfolding fl_Fin_iff by linarith
qed

lemma fl_le_one: "q \<le> 1 \<Longrightarrow> \<not> fgt (fl q) (Fin 1)"
  using f64.le_one[of q] by (auto simp: fl_def fgt_def Let_def)

lemma fl_small_int: "\<bar>n\<bar> \<le> 2 ^ 53 \<Longrightarrow> f_of_int n = Fin (of_int n)"
proof -
  assume n: "\<bar>n\<bar> \<le> 2 ^ 53"
  then have "\<bar>of_int n\<bar> \<le> (of_int (2 ^ 53) :: rat)" by (simp only: flip: of_int_abs of_int_le_iff)
  then have "\<bar>of_int n :: rat\<bar> < 2 ^ 1024" by simp
  with n show ?thesis unfolding f_of_int_def by (intro fl_dyadic[where m = n and e = 0]) simp_all
qed

text \<open>
  A quotient of whole percents: \<open>float64(sm) / 100.0\<close> is a number of the unit interval for
  \<open>0 \<le> sm \<le> 100\<close>.
\<close>

lemma fl_percent:
  assumes "0 \<le> n" "n \<le> 100"
  shows "\<exists>v. fdiv (f_of_int n) (Fin 100) = Fin v \<and> v = rnd (of_int n / 100) \<and> 0 \<le> v \<and> v \<le> 1"
proof -
  have b: "0 \<le> (of_int n / 100 :: rat)" "of_int n / 100 \<le> (1 :: rat)"
    using assms by simp_all
  have "f_of_int n = Fin (of_int n)" using assms by (intro fl_small_int) simp
  moreover have "fl (of_int n / 100) = Fin (rnd (of_int n / 100))" using fl_unit b by simp
  ultimately show ?thesis using f64.nonneg[OF b(1)] f64.le_one[OF b(2)] by simp
qed

text \<open>A smaller summand does not take a sum above 1 that was not above 1.\<close>

lemma fl_gt_one_iff: "fgt (fl q) (Fin 1) \<longleftrightarrow> 1 < rnd q"
proof -
  have "(1 :: rat) < 2 ^ 1024" by simp
  then show ?thesis unfolding fl_def fgt_def Let_def by auto
qed

lemma fadd_not_gt_mono:
  assumes "u' \<le> u" "\<not> fgt (fadd (Fin u) x) (Fin 1)"
  shows "\<not> fgt (fadd (Fin u') x) (Fin 1)"
proof (cases x)
  case (Fin b)
  then show ?thesis using assms rnd_mono[of "u' + b" "u + b"] by (simp add: fl_gt_one_iff)
qed (use assms in \<open>simp_all add: fgt_def\<close>)

end
