(* ===== verification/Fastpod_Types.thy ===== *)
theory Fastpod_Types
  imports Prelude Float64
begin

text \<open>
  The data that travels between the components: allocation types (\<open>pkg/types/request.go\<close>), the
  annotation keys and the FaSTPod resource (\<open>pkg/apis/.../v1/types.go\<close>), the Kubernetes pod with the
  fields the controller reads or writes, and the resource request the scheduler and the GPU manager
  exchange (\<open>scheduler.go\<close>).
\<close>

section \<open>Allocation types\<close>

datatype AllocationType =
  AllocationTypeMPS | AllocationTypeFastPod | AllocationTypeExclusive | AllocationTypeNone

definition GetAllocationType :: "string \<Rightarrow> AllocationType" where
  "GetAllocationType s =
     (let a = ToUpper s
      in if a = ''MPS'' then AllocationTypeMPS
         else if a = ''FASTPOD'' then AllocationTypeFastPod
         else if a = ''EXCLUSIVE'' then AllocationTypeExclusive
         else AllocationTypeNone)"

fun AllocationType_String :: "AllocationType \<Rightarrow> string" where
  "AllocationType_String AllocationTypeMPS = ''MPS''"
| "AllocationType_String AllocationTypeFastPod = ''FastPod''"
| "AllocationType_String AllocationTypeExclusive = ''Exclusive''"
| "AllocationType_String AllocationTypeNone = ''Unknown''"

lemma GetAllocationType_ToUpper: "ToUpper s = ToUpper t \<Longrightarrow> GetAllocationType s = GetAllocationType t"
  by (simp add: GetAllocationType_def)

lemma GetAllocationType_String: "GetAllocationType (AllocationType_String a) = a"
  by (cases a) (simp_all only:, code_simp+)

section \<open>Annotation keys\<close>

definition FaSTGShareGPUQuotaRequest :: string where
  "FaSTGShareGPUQuotaRequest = ''fastgshare/gpu_quota_request''"
definition FaSTGShareGPUQuotaLimit :: string where
  "FaSTGShareGPUQuotaLimit = ''fastgshare/gpu_quota_limit''"
definition FaSTGShareGPUSMPartition :: string where
  "FaSTGShareGPUSMPartition = ''fastgshare/gpu_sm_partition''"
definition FaSTGShareGPUSMValue :: string where
  "FaSTGShareGPUSMValue = ''fastgshare/gpu_sm_value''"
definition FaSTGShareGPUMemory :: string where
  "FaSTGShareGPUMemory = ''fastgshare/gpu_mem''"
definition FastGshareAllocationType :: string where
  "FastGshareAllocationType = ''fastgshare/allocation_type''"
definition FaSTGShareVGPUUUID :: string where
  "FaSTGShareVGPUUUID = ''fastgshare/vgpu_uuid''"
definition FaSTGShareVGPUType :: string where
  "FaSTGShareVGPUType = ''fastgshare/vgpu_type''"
definition FaSTGShareNodeName :: string where
  "FaSTGShareNodeName = ''fastgshare/node_name''"
definition FastGShareWarm :: string where
  "FastGShareWarm = ''fast-gshare/warmpool''"

lemmas annotation_keys =
  FaSTGShareGPUQuotaRequest_def FaSTGShareGPUQuotaLimit_def FaSTGShareGPUSMPartition_def
  FaSTGShareGPUSMValue_def FaSTGShareGPUMemory_def FastGshareAllocationType_def
  FaSTGShareVGPUUUID_def FaSTGShareVGPUType_def FaSTGShareNodeName_def FastGShareWarm_def

text \<open>Reading a Go string map: a missing key (or a nil map) reads as the empty string.\<close>

type_synonym smap = "string \<rightharpoonup> string"

definition sget :: "smap \<Rightarrow> string \<Rightarrow> string" where
  "sget m k = (case m k of None \<Rightarrow> [] | Some v \<Rightarrow> v)"

lemma sget_upd [simp]: "sget (m(k \<mapsto> v)) k' = (if k' = k then v else sget m k')"
  by (simp add: sget_def)

lemma sget_empty [simp]: "sget Map.empty k = []"
  by (simp add: sget_def)

text \<open>Times in nanoseconds since Go's zero time; the zero time itself is 0.\<close>

type_synonym time = int

section \<open>Kubernetes objects\<close>

record owner_ref =
  o_kind :: string
  o_name :: string

record condition =
  cond_type :: string
  cond_status :: string
  cond_transition :: time

record container =
  c_name :: string
  c_env :: "(string \<times> string) list"
  c_mounts :: "(string \<times> string) list"
  c_pull :: string

record pod =
  p_namespace :: string
  p_name :: string
  p_uid :: string
  p_labels :: smap
  p_annotations :: smap
  p_owner :: "owner_ref option"
  p_creation :: time
  p_deletion :: "time option"
  p_node :: string
  p_containers :: "container list"
  p_volumes :: "(string \<times> string) list"
  p_hostIPC :: bool
  p_phase :: string
  p_conditions :: "condition list"
  p_restarts :: "int list"

text \<open>\<open>PodKey\<close>, and the keys \<open>fmt.Sprintf("%s/%s", namespace, name)\<close> built elsewhere.\<close>

definition key_of :: "string \<Rightarrow> string \<Rightarrow> string" where
  "key_of ns nm = ns @ ''/'' @ nm"

definition PodKey :: "pod \<Rightarrow> string" where
  "PodKey p = key_of (p_namespace p) (p_name p)"

text \<open>
  Kubernetes names have no slash, so a key determines the namespace and the name.
\<close>

lemma key_of_inj:
  assumes "CHR ''/'' \<notin> set ns" "CHR ''/'' \<notin> set ns'" "key_of ns nm = key_of ns' nm'"
  shows "ns = ns' \<and> nm = nm'"
  using assms
proof (induction ns arbitrary: ns')
  case Nil
  then show ?case by (cases ns') (auto simp: key_of_def)
next
  case (Cons c ns)
  then show ?case by (cases ns') (auto simp: key_of_def)
qed

section \<open>The FaSTPod resource\<close>

record fastpod_status =
  ReadyReplicas :: int
  AvailableReplicas :: int
  StatusReplicas :: int
  BoundDeviceIDs :: "smap option"
  GPUClientPorts :: "(string \<rightharpoonup> int) option"
  UsageStatus :: "(string \<rightharpoonup> float64 \<times> float64) option"
  Pod2Node :: "smap option"
  ResourceConfig :: "smap option"

record fastpod =
  f_namespace :: string
  f_name :: string
  f_labels :: smap
  f_annotations :: smap
  f_containers :: "container list"
  f_initContainers :: "container list"
  f_volumes :: "(string \<times> string) list"
  f_replicas :: "int option"
  f_selector :: "smap option"
  f_status :: fastpod_status

section \<open>Resource requests\<close>

record FastPodRequirements =
  QuotaReq :: float64
  QuotaLimit :: float64
  ReqSMPartition :: int

record ResourceRequest =
  req_podKey :: string
  req_AllocationType :: AllocationType
  RequestedNode :: "string option"
  RequestGPUUUID :: "string option"
  RequestedGPUType :: "string option"
  SMRequest :: "int option"
  ReqSMPercentage :: "int option"
  ReqMemory :: int
  req_FastPod :: "FastPodRequirements option"

end
