(* ===== verification/Seti.thy ===== *)
theory Seti
  imports Prelude Float64
begin

text \<open>
  The messages of the gRPC service between the controller manager and the configurator of a node
  (\<open>pkg/proto/seti/v1/configurator.proto\<close> and the Go structs generated from it), with the fields the
  two sides read or write, and the client wrapper of \<open>pkg/grpcclient/client.go\<close>: a call that fails
  returns a nil response.
\<close>

record MPSConfigMsg =
  mc_device :: string
  mc_log :: string
  mc_tmp :: string

record SetiGPU =
  sg_uuid :: string
  sg_name :: string
  sg_memory :: int
  sg_mp :: int
  sg_parentIndex :: int
  sg_parentUuid :: string
  sg_mpsEnabled :: bool
  sg_mpsConfig :: "MPSConfigMsg option"

record SetiVirtualGPU =
  sv_profile :: "int option"
  sv_id :: string
  sv_deviceIndex :: int
  sv_memory :: int
  sv_mp :: int
  sv_isProvisioned :: bool
  sv_isPhysical :: bool
  sv_type :: string
  sv_smPercentage :: int
  sv_gpu :: "SetiGPU option"

record EnableMPSResponse =
  em_success :: bool
  em_message :: string
  em_config :: "MPSConfigMsg option"

record DisableMPSResponse =
  dm_success :: bool
  dm_message :: string

record ReleaseVirtualGPUResponse =
  rv_success :: bool
  rv_message :: string
  rv_available :: "SetiVirtualGPU list"

record GetGPUResponse =
  gg_gpu :: "SetiVirtualGPU option"

record FastPodGPUConfig =
  fc_key :: string
  fc_qt_request :: float64
  fc_qt_limit :: float64
  fc_sm_partition :: int
  fc_memory :: int
  fc_port :: int

record UpdateMPSConfigsRequest =
  um_device :: string
  um_configs :: "FastPodGPUConfig list"

text \<open>
  \<open>GrpcClient.EnableMPS\<close> and its siblings: the response of the service, or nil when the call
  returned an error.
\<close>

definition client_result :: "'resp option \<times> 'err option \<Rightarrow> 'resp option" where
  "client_result r = (case snd r of None \<Rightarrow> fst r | Some e \<Rightarrow> None)"

text \<open>
  What the configurator of a node answers during one operation of the controller: every operation
  calls each service at most once for a device. \<open>None\<close> is a call that returned an error.
\<close>

record rpc =
  rpc_EnableMPS :: "string \<Rightarrow> EnableMPSResponse option"
  rpc_DisableMPS :: "string \<Rightarrow> DisableMPSResponse option"
  rpc_ReleaseVirtualGPU :: "string \<Rightarrow> ReleaseVirtualGPUResponse option"
  rpc_GetGPU :: "string \<Rightarrow> GetGPUResponse option"
  rpc_UpdateMPSConfigs :: "UpdateMPSConfigsRequest \<Rightarrow> bool"

end
