(* ===== verification/Gpu_Manager.thy ===== *)
theory Gpu_Manager
  imports Bitmap Fastpod_Types Seti
begin

text \<open>
  The GPU manager of the controller (\<open>gpu_manager.go\<close>) with the parts of \<open>config_manager.go\<close> and
  \<open>controller_util.go\<close> it calls: the table of nodes and GPUs, admission of a pod on a GPU
  (\<open>RequestGPUAndUpdateConfig\<close>), removal of a pod (\<open>removePodFromList\<close>) and of all pods of a FaSTPod
  (\<open>removeFaSTPodFromList\<close>).

  All of these run under \<open>nodesInfoMtx\<close>, so each is one atomic step on the state \<open>mgr\<close>. The pointers
  of the code (\<open>*Node\<close>, \<open>*GPUDevInfo\<close>, \<open>*list.List\<close>) have one owner each, the map slot they are stored
  in, so they are modelled by value. Messages to the configurator are appended to \<open>sent\<close>, pod
  deletions requested from the API server to \<open>kube_deletes\<close>. Memory amounts are \<open>int64\<close>: their
  arithmetic wraps.
\<close>

section \<open>State\<close>

record FastPodReq =
  fp_Key :: string
  QtRequest :: float64
  QtLimit :: float64
  SMPartition :: int
  fp_Memory :: int
  GPUClientPort :: int

record MPSPodReq =
  mps_Key :: string
  mps_Memory :: int

record GPUDevInfo =
  virtual :: bool
  smCount :: int
  allocationType :: AllocationType
  GPUType :: string
  UUID :: string
  Mem :: int
  Name :: string
  ParentUUID :: string
  SMPercentage :: int
  Usage :: float64
  UsageMem :: int
  FastPodList :: "FastPodReq list"
  MPSPodList :: "MPSPodReq list"
  ExclusivePod :: "string option"

record Node =
  DaemonIP :: string
  vGPUID2GPU :: "string \<rightharpoonup> GPUDevInfo"
  DaemonPortAlloc :: bitmap
  vgpus :: "SetiVirtualGPU list"
  grpcClient :: "rpc option"
  hostName :: string

datatype NodeStatus = NodeReady | NodeNotReady

record NodeLiveness =
  ConfigConn :: nat
  Status :: NodeStatus
  LastHeartbeat :: time

record mgr =
  nodes :: "string \<rightharpoonup> Node"
  nodesLiveness :: "string \<rightharpoonup> NodeLiveness"
  sent :: "(string \<times> UpdateMPSConfigsRequest) list"
  kube_deletes :: "string list"

definition PortRange :: int where
  "PortRange = 1024"

definition GPUClientPortStart :: int where
  "GPUClientPortStart = 56001"

text \<open>\<open>int64\<close> addition and subtraction.\<close>

definition add64 :: "int \<Rightarrow> int \<Rightarrow> int" where
  "add64 a b = to_signed 64 (a + b)"

definition sub64 :: "int \<Rightarrow> int \<Rightarrow> int" where
  "sub64 a b = to_signed 64 (a - b)"

definition put_node :: "mgr \<Rightarrow> string \<Rightarrow> Node \<Rightarrow> mgr" where
  "put_node st n nd = st\<lparr>nodes := (nodes st)(n \<mapsto> nd)\<rparr>"

definition put_gpu :: "mgr \<Rightarrow> string \<Rightarrow> Node \<Rightarrow> string \<Rightarrow> GPUDevInfo \<Rightarrow> mgr" where
  "put_gpu st n nd v g = put_node st n (nd\<lparr>vGPUID2GPU := (vGPUID2GPU nd)(v \<mapsto> g)\<rparr>)"

section \<open>Searching a pod list\<close>

text \<open>
  The elements of a \<open>container/list\<close> are of type \<open>any\<close>. \<open>FindInQueue\<close> asserts that every element it
  meets is a \<open>*FastPodReq\<close>; on any other element the assertion panics.
\<close>

datatype queue_elem = QFast FastPodReq | QMPS MPSPodReq

fun FindInQueue :: "string \<Rightarrow> queue_elem list \<Rightarrow> FastPodReq option go" where
  "FindInQueue key [] = Ret None"
| "FindInQueue key (QFast r # ks) = (if fp_Key r = key then Ret (Some r) else FindInQueue key ks)"
| "FindInQueue key (QMPS r # ks) = Panic"

lemma FindInQueue_fast: "FindInQueue key (map QFast l) = Ret (find_first (\<lambda>r. fp_Key r = key) l)"
  by (induction l) auto

lemma FindInQueue_mps: "FindInQueue key (map QMPS l) = (if l = [] then Ret None else Panic)"
  by (cases l) auto

section \<open>Sending the configuration of a GPU to its node\<close>

definition to_config :: "FastPodReq \<Rightarrow> FastPodGPUConfig" where
  "to_config r = \<lparr>fc_key = fp_Key r, fc_qt_request = QtRequest r, fc_qt_limit = QtLimit r,
     fc_sm_partition = SMPartition r, fc_memory = fp_Memory r,
     fc_port = to_signed 32 (GPUClientPort r)\<rparr>"

text \<open>
  \<open>updatePodsGPUConfig\<close>: the result is the error, if any. \<open>podlist\<close> is a pointer; the capacity
  argument \<open>podlist.Len()\<close> is evaluated before the test for nil.
\<close>

definition updatePodsGPUConfig ::
  "string \<Rightarrow> string \<Rightarrow> FastPodReq list option \<Rightarrow> mgr \<Rightarrow> (string option \<times> mgr) go" where
  "updatePodsGPUConfig nodeName uuid podlist st =
     (case nodesLiveness st nodeName of
        None \<Rightarrow> Ret (Some (''The node = '' @ nodeName @ '' is not initialized.''), st)
      | Some live \<Rightarrow>
          if Status live \<noteq> NodeReady
          then Ret (Some (''The node = '' @ nodeName @ '' is not ready.''), st)
          else case podlist of
                 None \<Rightarrow> Panic
               | Some l \<Rightarrow>
                   let request = \<lparr>um_device = uuid, um_configs = map to_config l\<rparr>
                   in case nodes st nodeName of
                        None \<Rightarrow> Ret (Some (''The node = '' @ nodeName @ '' is not initialized.''), st)
                      | Some node \<Rightarrow>
                          (case grpcClient node of
                             None \<Rightarrow> Ret (Some (''The node = '' @ nodeName @ '' is not initialized.''), st)
                           | Some client \<Rightarrow>
                               Ret (if rpc_UpdateMPSConfigs client request then None
                                    else Some ''rpc error'',
                                    st\<lparr>sent := sent st @ [(nodeName, request)]\<rparr>)))"

lemma updatePodsGPUConfig_returns:
  "\<exists>e. updatePodsGPUConfig n u (Some l) st = Ret e"
  by (auto simp: updatePodsGPUConfig_def Let_def split: option.splits)

lemma updatePodsGPUConfig_frame:
  "updatePodsGPUConfig n u (Some l) st = Ret (e, st') \<Longrightarrow>
     \<exists>s. st' = st\<lparr>sent := s\<rparr>"
  by (auto simp: updatePodsGPUConfig_def Let_def split: option.splits if_splits)
    (metis mgr.surjective mgr.update_convs(3))+

section \<open>Admission of a pod: RequestGPUAndUpdateConfig\<close>

record SelectionResult =
  sel_fastPodKey :: string
  NodeName :: string
  VGPUUUID :: string

record FastPodMPSConfig =
  SchedulerIP :: string
  GpuClientPort :: int
  ActiveThreadPercentage :: int

record MPSConfig =
  LogDirectory :: string
  PipeDirectory :: string
  FastPodMPS :: "FastPodMPSConfig option"

record Allocation =
  alloc_UUID :: string
  alloc_node :: string
  alloc_MPSConfig :: "MPSConfig option"

text \<open>The share of a GPU a FaSTPod request stands for: \<open>quota * (float64(sm) / 100.0)\<close>.\<close>

definition share :: "float64 \<Rightarrow> int \<Rightarrow> float64" where
  "share quota sm = fmul quota (fdiv (f_of_int sm) (Fin 100))"

text \<open>
  The first part: the type of a fresh GPU is set, and for MPS and FaSTPod GPUs the node is asked to
  enable MPS. A failed call leaves \<open>res\<close> nil, and \<open>res.Success\<close> dereferences it.
\<close>

definition enable_mps :: "Node \<Rightarrow> GPUDevInfo \<Rightarrow> MPSConfig option go" where
  "enable_mps node gpuInfo =
     (if allocationType gpuInfo = AllocationTypeMPS \<or> allocationType gpuInfo = AllocationTypeFastPod
      then bind_go (deref (grpcClient node)) (\<lambda>client.
           bind_go (deref (rpc_EnableMPS client (UUID gpuInfo))) (\<lambda>res.
           bind_go (deref (em_config res)) (\<lambda>c.
             Ret (Some \<lparr>LogDirectory = mc_log c, PipeDirectory = mc_tmp c, FastPodMPS = None\<rparr>))))
      else Ret None)"

definition set_type :: "AllocationType \<Rightarrow> GPUDevInfo \<Rightarrow> GPUDevInfo" where
  "set_type t g = (if allocationType g = AllocationTypeNone then g\<lparr>allocationType := t\<rparr> else g)"

text \<open>
  Recording a pod on a GPU: the memory and, for a FaSTPod, the share are added, the entry is appended.
\<close>

definition push_mps :: "MPSPodReq \<Rightarrow> GPUDevInfo \<Rightarrow> GPUDevInfo" where
  "push_mps r g = g\<lparr>UsageMem := add64 (UsageMem g) (mps_Memory r), MPSPodList := MPSPodList g @ [r]\<rparr>"

definition push_fastpod :: "FastPodReq \<Rightarrow> GPUDevInfo \<Rightarrow> GPUDevInfo" where
  "push_fastpod r g = g\<lparr>Usage := fadd (Usage g) (share (QtRequest r) (SMPartition r)),
     UsageMem := add64 (UsageMem g) (fp_Memory r), FastPodList := FastPodList g @ [r]\<rparr>"

text \<open>The MPS case.\<close>

definition request_mps ::
  "MPSConfig option \<Rightarrow> ResourceRequest \<Rightarrow> string \<Rightarrow> Node \<Rightarrow> GPUDevInfo \<Rightarrow>
     ((Allocation option \<times> int) \<times> GPUDevInfo) go" where
  "request_mps mpsConfig request podKey node g =
     bind_go (FindInQueue podKey (map QMPS (MPSPodList g))) (\<lambda>found.
       let result = (Some \<lparr>alloc_UUID = UUID g, alloc_node = hostName node,
                           alloc_MPSConfig = mpsConfig\<rparr>, 0)
       in case found of
            Some _ \<Rightarrow> Ret (result, g)
          | None \<Rightarrow>
              let newMemoryUsage = add64 (UsageMem g) (ReqMemory request)
              in if newMemoryUsage > Mem g then Ret ((None, 4), g)
                 else Ret (result, push_mps \<lparr>mps_Key = podKey, mps_Memory = ReqMemory request\<rparr> g))"

text \<open>
  The FaSTPod case, up to the port: \<open>Inl code\<close> is a refusal with its error code, \<open>Inr\<close> the port, the
  updated GPU and the updated port allocator.
\<close>

definition admit_fastpod ::
  "ResourceRequest \<Rightarrow> string \<Rightarrow> bitmap \<Rightarrow> GPUDevInfo \<Rightarrow> (int + int \<times> GPUDevInfo \<times> bitmap) go" where
  "admit_fastpod request podKey ports g =
     bind_go (FindInQueue podKey (map QFast (FastPodList g))) (\<lambda>found.
       case found of
         Some podreq \<Rightarrow> Ret (Inr (GPUClientPort podreq, g, ports))
       | None \<Rightarrow>
           bind_go (deref (req_FastPod request)) (\<lambda>reqs.
             let newSMUsage = fadd (Usage g) (share (QuotaReq reqs) (ReqSMPartition reqs));
                 newMemoryUsage = add64 (UsageMem g) (ReqMemory request)
             in if fgt newSMUsage (Fin 1) then Ret (Inl 3)
                else if newMemoryUsage > Mem g then Ret (Inl 4)
                else bind_go (FindFirstUnsetAndSet ports) (\<lambda>(newPort, ports').
                       if newPort = -1 then Ret (Inl 5)
                       else let port = newPort + GPUClientPortStart
                            in Ret (Inr (port,
                                 push_fastpod \<lparr>fp_Key = podKey, QtRequest = QuotaReq reqs,
                                       QtLimit = QuotaLimit reqs, SMPartition = ReqSMPartition reqs,
                                       fp_Memory = ReqMemory request, GPUClientPort = port\<rparr> g,
                                 ports')))))"

definition RequestGPUAndUpdateConfig ::
  "SelectionResult \<Rightarrow> ResourceRequest \<Rightarrow> string \<Rightarrow> mgr \<Rightarrow> ((Allocation option \<times> int) \<times> mgr) go" where
  "RequestGPUAndUpdateConfig selectionResult request podKey st =
     (let n = NodeName selectionResult; v = VGPUUUID selectionResult
      in case nodes st n of
           None \<Rightarrow> Ret ((None, 2), st)
         | Some node \<Rightarrow>
             (case vGPUID2GPU node v of
                None \<Rightarrow> Ret ((None, 3), st)
              | Some gpu0 \<Rightarrow>
                  let gpuInfo = set_type (req_AllocationType request) gpu0
                  in bind_go (enable_mps node gpuInfo) (\<lambda>mpsConfig.
                     if req_AllocationType request = AllocationTypeMPS
                     then bind_go (request_mps mpsConfig request podKey node gpuInfo) (\<lambda>(res, g').
                            Ret (res, put_gpu st n node v g'))
                     else if req_AllocationType request = AllocationTypeExclusive
                     then Ret ((Some \<lparr>alloc_UUID = UUID gpuInfo, alloc_node = hostName node,
                                      alloc_MPSConfig = None\<rparr>, 0),
                               put_gpu st n node v (gpuInfo\<lparr>ExclusivePod := Some podKey\<rparr>))
                     else bind_go (admit_fastpod request podKey (DaemonPortAlloc node) gpuInfo) (\<lambda>adm.
                       case adm of
                         Inl code \<Rightarrow> Ret ((None, code), put_gpu st n node v gpuInfo)
                       | Inr (port, g', ports') \<Rightarrow>
                           let st1 = put_gpu st n (node\<lparr>DaemonPortAlloc := ports'\<rparr>) v g'
                           in bind_go
                                (if req_AllocationType request = AllocationTypeFastPod
                                 then updatePodsGPUConfig n (UUID g') (Some (FastPodList g')) st1
                                 else Ret (None, st1)) (\<lambda>(_, st2).
                              bind_go (deref (req_FastPod request)) (\<lambda>reqs.
                              bind_go (deref mpsConfig) (\<lambda>c.
                                Ret ((Some \<lparr>alloc_UUID = UUID g', alloc_node = hostName node,
                                       alloc_MPSConfig = Some (c\<lparr>FastPodMPS :=
                                         Some \<lparr>SchedulerIP = DaemonIP node, GpuClientPort = port,
                                               ActiveThreadPercentage = ReqSMPartition reqs\<rparr>\<rparr>)\<rparr>, 0),
                                     st2))))))))"

text \<open>\<open>Allocation.Undo\<close> only looks the GPU up.\<close>

definition Undo :: "Allocation \<Rightarrow> mgr \<Rightarrow> mgr" where
  "Undo a st = st"

text \<open>
  \<open>deleteDummyPod\<close>: the pod that used to hold a GPU is deleted in the API server, then an empty configuration
  is sent, as a nil list, which \<open>updatePodsGPUConfig\<close> dereferences for a node that is ready.
\<close>

definition deleteDummyPod :: "string \<Rightarrow> string \<Rightarrow> string \<Rightarrow> mgr \<Rightarrow> mgr go" where
  "deleteDummyPod nodeName uuid vGPUID st =
     bind_go (updatePodsGPUConfig nodeName uuid None
         (st\<lparr>kube_deletes := kube_deletes st @ [''kube-system/fastgshare-vgpu-'' @ nodeName @ ''-'' @ vGPUID]\<rparr>)) (\<lambda>(_, st1).
       Ret st1)"

section \<open>Removal of a pod: removePodFromList\<close>

text \<open>
  The FaSTPod branch: the first entry with the key is unlinked, its share and memory are given
  back, the shortened list is sent to the node and the port is freed.
\<close>

definition drop_fastpod :: "string \<Rightarrow> GPUDevInfo \<Rightarrow> GPUDevInfo \<times> FastPodReq option" where
  "drop_fastpod key g =
     (case find_first (\<lambda>r. fp_Key r = key) (FastPodList g) of
        None \<Rightarrow> (g, None)
      | Some r \<Rightarrow>
          (g\<lparr>FastPodList := remove_first (\<lambda>r. fp_Key r = key) (FastPodList g),
             UsageMem := sub64 (UsageMem g) (fp_Memory r),
             Usage := fsub (Usage g) (share (QtRequest r) (SMPartition r))\<rparr>, Some r))"

definition drop_mps :: "string \<Rightarrow> GPUDevInfo \<Rightarrow> GPUDevInfo" where
  "drop_mps key g =
     (case find_first (\<lambda>r. mps_Key r = key) (MPSPodList g) of
        None \<Rightarrow> g
      | Some r \<Rightarrow>
          g\<lparr>MPSPodList := remove_first (\<lambda>r. mps_Key r = key) (MPSPodList g),
            UsageMem := sub64 (UsageMem g) (mps_Memory r)\<rparr>)"

definition drop_exclusive :: "GPUDevInfo \<Rightarrow> GPUDevInfo" where
  "drop_exclusive g = g\<lparr>ExclusivePod := None, Usage := Fin 0, UsageMem := 0, Mem := 0\<rparr>"

definition free_port :: "FastPodReq \<Rightarrow> bitmap \<Rightarrow> bitmap go" where
  "free_port r ports = bind_go (Clear ports (GPUClientPort r - GPUClientPortStart)) (\<lambda>(_, p). Ret p)"

text \<open>The list whose length decides whether the GPU is given up; nil for the other types.\<close>

definition podlist_len :: "AllocationType \<Rightarrow> GPUDevInfo \<Rightarrow> nat option" where
  "podlist_len t g = (case t of
     AllocationTypeFastPod \<Rightarrow> Some (length (FastPodList g))
   | AllocationTypeMPS \<Rightarrow> Some (length (MPSPodList g))
   | _ \<Rightarrow> None)"

text \<open>
  Giving up a GPU: MPS is disabled, a virtual GPU is released, the entry is deleted. Nil responses
  are dereferenced.
\<close>

definition give_up_gpu :: "AllocationType \<Rightarrow> string \<Rightarrow> string \<Rightarrow> mgr \<Rightarrow> mgr go" where
  "give_up_gpu t n v st =
     (case nodes st n of
        None \<Rightarrow> Ret st
      | Some node \<Rightarrow>
          (case vGPUID2GPU node v of
             None \<Rightarrow> Ret st
           | Some g \<Rightarrow>
               bind_go
                 (if t = AllocationTypeFastPod \<or> t = AllocationTypeMPS
                  then bind_go (deref (grpcClient node)) (\<lambda>client.
                       bind_go (deref (rpc_DisableMPS client (UUID g))) (\<lambda>resp. Ret ()))
                  else Ret ()) (\<lambda>_.
               bind_go
                 (if virtual g
                  then bind_go (deref (grpcClient node)) (\<lambda>client.
                       bind_go (deref (rpc_ReleaseVirtualGPU client (UUID g))) (\<lambda>resp.
                         Ret (if rv_available resp \<noteq> [] then rv_available resp else vgpus node)))
                  else Ret (vgpus node)) (\<lambda>vs.
                 Ret (put_node st n
                   (node\<lparr>vgpus := vs, vGPUID2GPU := (vGPUID2GPU node)(v := None)\<rparr>))))))"

definition removePodFromList :: "pod \<Rightarrow> mgr \<Rightarrow> mgr go" where
  "removePodFromList p st =
     (let n = p_node p; v = sget (p_annotations p) FaSTGShareVGPUUUID;
          t = GetAllocationType (sget (p_annotations p) FastGshareAllocationType);
          key = PodKey p
      in case nodes st n of
           None \<Rightarrow> Ret st
         | Some node \<Rightarrow>
             (case vGPUID2GPU node v of
                None \<Rightarrow> Ret st
              | Some gpuInfo \<Rightarrow>
                  bind_go
                    (if t = AllocationTypeFastPod
                     then (case drop_fastpod key gpuInfo of
                             (g', None) \<Rightarrow> Ret (put_gpu st n node v g')
                           | (g', Some r) \<Rightarrow>
                               bind_go (updatePodsGPUConfig n (UUID g') (Some (FastPodList g'))
                                          (put_gpu st n node v g')) (\<lambda>(_, st1).
                               bind_go (free_port r (DaemonPortAlloc node)) (\<lambda>ports'.
                                 Ret (put_gpu st1 n (node\<lparr>DaemonPortAlloc := ports'\<rparr>) v g'))))
                     else if t = AllocationTypeMPS
                     then Ret (put_gpu st n node v (drop_mps key gpuInfo))
                     else if t = AllocationTypeExclusive
                     then Ret (put_gpu st n node v (drop_exclusive gpuInfo))
                     else Ret st) (\<lambda>st2.
                  bind_go (deref (nodes st2 n)) (\<lambda>node2.
                  bind_go (deref (vGPUID2GPU node2 v)) (\<lambda>g2.
                  bind_go (deref (podlist_len t g2)) (\<lambda>len.
                    if (len = 0 \<and> t \<noteq> AllocationTypeExclusive) \<or> t = AllocationTypeExclusive
                    then give_up_gpu t n v st2
                    else Ret st2))))))"

section \<open>Removal of a FaSTPod: removeFaSTPodFromList\<close>

text \<open>
  One round of the loop over the pods of a FaSTPod, and the loop. Here the answer of \<open>DisableMPS\<close>
  is only logged, the virtual GPU is not released, and the pod is deleted from the API server.
\<close>

definition remove_pod_of_fastpod :: "pod \<Rightarrow> mgr \<Rightarrow> mgr go" where
  "remove_pod_of_fastpod p st =
     (let n = p_node p; v = sget (p_annotations p) FaSTGShareVGPUUUID; key = PodKey p;
          t = GetAllocationType (sget (p_annotations p) FastGshareAllocationType)
      in case nodes st n of
           None \<Rightarrow> Ret st
         | Some node \<Rightarrow>
             (case vGPUID2GPU node v of
                None \<Rightarrow> Ret st
              | Some gpuInfo \<Rightarrow>
                  bind_go
                    (if t = AllocationTypeFastPod
                     then (case drop_fastpod key gpuInfo of
                             (g', r) \<Rightarrow>
                               bind_go (case r of None \<Rightarrow> Ret (DaemonPortAlloc node)
                                        | Some r \<Rightarrow> free_port r (DaemonPortAlloc node)) (\<lambda>ports'.
                               bind_go (updatePodsGPUConfig n (UUID g') (Some (FastPodList g'))
                                          (put_gpu st n (node\<lparr>DaemonPortAlloc := ports'\<rparr>) v g'))
                                 (\<lambda>(_, st1). Ret (st1, length (FastPodList g') = 0))))
                     else if t = AllocationTypeMPS
                     then let g' = drop_mps key gpuInfo
                          in Ret (put_gpu st n node v g', length (MPSPodList g') = 0)
                     else if t = AllocationTypeExclusive
                     then Ret (put_gpu st n node v (drop_exclusive gpuInfo), True)
                     else Ret (st, False)) (\<lambda>(st2, gone).
                  bind_go
                    (if gone \<and> (t = AllocationTypeFastPod \<or> t = AllocationTypeMPS)
                     then bind_go (deref (grpcClient node)) (\<lambda>client. Ret ()) else Ret ()) (\<lambda>_.
                    let st3 = (if gone
                               then (case nodes st2 n of
                                       None \<Rightarrow> st2
                                     | Some node2 \<Rightarrow> put_node st2 n
                                         (node2\<lparr>vGPUID2GPU := (vGPUID2GPU node2)(v := None)\<rparr>))
                               else st2)
                    in Ret (st3\<lparr>kube_deletes := kube_deletes st3 @ [key]\<rparr>)))))"

fun removeFaSTPodFromList :: "pod list \<Rightarrow> mgr \<Rightarrow> mgr go" where
  "removeFaSTPodFromList [] st = Ret st"
| "removeFaSTPodFromList (p # ps) st =
     bind_go (remove_pod_of_fastpod p st) (removeFaSTPodFromList ps)"

section \<open>Checking the resource annotations of a pod\<close>

text \<open>
  \<open>parseFloat\<close> stands for \<open>strconv.ParseFloat(_, 64)\<close>: the value, or \<open>None\<close> for an error.
\<close>

definition resourceValidityCheck :: "(string \<Rightarrow> float64 option) \<Rightarrow> pod \<Rightarrow> bool" where
  "resourceValidityCheck parseFloat p =
     (let a = sget (p_annotations p)
      in case parseFloat (a FaSTGShareGPUQuotaLimit) of
           None \<Rightarrow> False
         | Some quota_limit \<Rightarrow>
             if fgt quota_limit (Fin 1) \<or> flt quota_limit (Fin 0) then False
             else case parseFloat (a FaSTGShareGPUQuotaRequest) of
                    None \<Rightarrow> False
                  | Some quota_req \<Rightarrow>
                      if fgt quota_limit (Fin 1) \<or> flt quota_limit (Fin 0) \<or> flt quota_limit quota_req
                      then False
                      else (case ParseInt (a FaSTGShareGPUSMPartition) of
                              (sm_partition, e) \<Rightarrow>
                                if e \<noteq> None \<or> sm_partition < 0 \<or> sm_partition > 100 then False
                                else (case ParseInt (a FaSTGShareGPUMemory) of
                                        (gpu_mem, e') \<Rightarrow> \<not> (e' \<noteq> None \<or> gpu_mem < 0))))"

end
