(* ===== verification/Scheduler.thy ===== *)
theory Scheduler
  imports Gpu_Manager
begin

text \<open>
  The scheduler (\<open>scheduler.go\<close>): the \<open>canFit\<close> family and \<open>ScheduleRequest\<close>, which checks a request
  against the GPU it names and registers the GPU in the node's table when it is seen first.
  \<open>TransformedSM\<close> scales an SM percentage between GPU types.
\<close>

section \<open>Does a request fit on a GPU?\<close>

text \<open>
  \<open>canFitExclusive\<close> logs \<open>*req.SMPercentage\<close> before anything else; a nil pointer panics there.
\<close>

definition canFitExclusive :: "ResourceRequest \<Rightarrow> GPUDevInfo \<Rightarrow> bool go" where
  "canFitExclusive req info =
     bind_go (deref (ReqSMPercentage req)) (\<lambda>_.
       Ret (if req_AllocationType req \<noteq> AllocationTypeExclusive then False
            else if allocationType info \<noteq> AllocationTypeNone then False
            else if Mem info < ReqMemory req then False
            else if (case SMRequest req of None \<Rightarrow> False | Some sm \<Rightarrow> smCount info < sm) then False
            else if (case ReqSMPercentage req of None \<Rightarrow> False | Some p \<Rightarrow> SMPercentage info < p) then False
            else True))"

definition canFitMPSPod :: "ResourceRequest \<Rightarrow> GPUDevInfo \<Rightarrow> bool" where
  "canFitMPSPod req info =
     (if req_AllocationType req \<noteq> AllocationTypeMPS then False
      else if \<not> (allocationType info = AllocationTypeMPS \<or> allocationType info = AllocationTypeNone)
      then False
      else sub64 (Mem info) (UsageMem info) \<ge> ReqMemory req)"

text \<open>
  \<open>canFitFastPod\<close> computes \<open>QuotaReq * float64(sm) / 100.0\<close>, which Go evaluates from the left:
  the quotient is taken of the product.
\<close>

definition canFitFastPod :: "ResourceRequest \<Rightarrow> GPUDevInfo \<Rightarrow> bool" where
  "canFitFastPod req info =
     (if req_AllocationType req \<noteq> AllocationTypeFastPod then False
      else case req_FastPod req of
             None \<Rightarrow> False
           | Some reqs \<Rightarrow>
               if \<not> (allocationType info = AllocationTypeFastPod \<or> allocationType info = AllocationTypeNone)
               then False
               else if sub64 (Mem info) (UsageMem info) < ReqMemory req then False
               else let totalUsage = fadd (Usage info)
                          (fdiv (fmul (QuotaReq reqs) (f_of_int (ReqSMPartition reqs))) (Fin 100))
                    in if fgt totalUsage (Fin 1) then False else True)"

definition canFit :: "ResourceRequest \<Rightarrow> GPUDevInfo \<Rightarrow> bool go" where
  "canFit req info = (case req_AllocationType req of
     AllocationTypeExclusive \<Rightarrow> canFitExclusive req info
   | AllocationTypeMPS \<Rightarrow> Ret (canFitMPSPod req info)
   | AllocationTypeFastPod \<Rightarrow> Ret (req_FastPod req \<noteq> None \<and> canFitFastPod req info)
   | AllocationTypeNone \<Rightarrow> Ret False)"

section \<open>ScheduleRequest\<close>

text \<open>The entry of a GPU that is seen first, from the configurator's answer.\<close>

definition new_gpu_info :: "SetiVirtualGPU \<Rightarrow> GPUDevInfo go" where
  "new_gpu_info vg =
     bind_go (deref (sv_gpu vg)) (\<lambda>pg.
       Ret \<lparr>virtual = \<not> sv_isPhysical vg, smCount = sv_mp vg, allocationType = AllocationTypeNone,
            GPUType = [], UUID = sg_uuid pg, Mem = to_signed 64 (sv_memory vg), Name = [],
            ParentUUID = sg_parentUuid pg, SMPercentage = sv_smPercentage vg,
            Usage = Fin 0, UsageMem = 0, FastPodList = [], MPSPodList = [], ExclusivePod = None\<rparr>)"

definition select_gpu :: "Node \<Rightarrow> string \<Rightarrow> GetGPUResponse \<Rightarrow> GPUDevInfo go" where
  "select_gpu node uuid gpu =
     (case vGPUID2GPU node uuid of
        Some g \<Rightarrow> Ret g
      | None \<Rightarrow> bind_go (deref (gg_gpu gpu)) new_gpu_info)"

definition ScheduleRequest ::
  "ResourceRequest \<Rightarrow> mgr \<Rightarrow> ((string + SelectionResult) \<times> mgr) go" where
  "ScheduleRequest req st =
     (case RequestedNode req of
        None \<Rightarrow> Ret (Inl ''requested node is nil'', st)
      | Some n \<Rightarrow>
          (case RequestGPUUUID req of
             None \<Rightarrow> Ret (Inl ''request gpu uuid is nil'', st)
           | Some uuid \<Rightarrow>
               (case nodes st n of
                  None \<Rightarrow> Ret (Inl (''node '' @ n @ '' not found''), st)
                | Some node \<Rightarrow>
                    bind_go (deref (grpcClient node)) (\<lambda>client.
                      case rpc_GetGPU client uuid of
                        None \<Rightarrow> Ret (Inl (''error getting gpu '' @ uuid), st)
                      | Some gpu \<Rightarrow>
                          bind_go (select_gpu node uuid gpu) (\<lambda>g.
                            let st1 = put_gpu st n node uuid g
                            in bind_go (canFit req g) (\<lambda>fits.
                                 if \<not> fits then Ret (Inl (''gpu '' @ uuid @ '' cannot fit''), st1)
                                 else Ret (Inr \<lparr>sel_fastPodKey = req_podKey req,
                                                NodeName = hostName node, VGPUUUID = uuid\<rparr>, st1)))))))"

section \<open>Scaling an SM percentage between GPU types\<close>

definition tFlopsMap :: "string \<Rightarrow> float64 option" where
  "tFlopsMap nm = (if nm = ''NVIDIA A10G'' then Some (Fin 100)
                   else if nm = ''NVIDIA H100'' then Some (Fin 815) else None)"

text \<open>\<open>int(math.Ceil(x))\<close> for a finite \<open>x\<close>; the conversion of other values is not specified by Go.\<close>

definition int_ceil :: "float64 \<Rightarrow> int option" where
  "int_ceil x = (case x of Fin q \<Rightarrow> Some \<lceil>q\<rceil> | _ \<Rightarrow> None)"

definition TransformedSM :: "ResourceRequest \<Rightarrow> SetiVirtualGPU \<Rightarrow> (string + int option) go" where
  "TransformedSM req vgpu =
     bind_go (deref (sv_gpu vgpu)) (\<lambda>pg.
     bind_go (deref (RequestedGPUType req)) (\<lambda>ty.
       case (tFlopsMap (sg_name pg), tFlopsMap ty) of
         (Some tflopSource, Some tflopTarget) \<Rightarrow>
           bind_go (deref (ReqSMPercentage req)) (\<lambda>p.
             Ret (Inr (int_ceil (fdiv (fmul (f_of_int p) tflopSource) tflopTarget))))
       | _ \<Rightarrow> Ret (Inl (''no tflop info for the gpu '' @ sg_name pg))))"

end
