(* ===== verification/Gpu_Invariant.thy ===== *)
theory Gpu_Invariant
  imports Scheduler
begin

text \<open>
  The invariants of the GPU table and their preservation.

  \<^item> \<open>gpu_ok\<close>: the memory recorded for a GPU is the sum over the pods on it and within its size, its
    compute usage is a number at most 1, keys are unique, and pods of different allocation types
    never share the GPU.
  \<^item> \<open>node_ok\<close>: in addition, the ports taken in the node's allocator are exactly the ports of the
    FaSTPods on its GPUs, each held by one pod.
  \<^item> \<open>memory_ledger\<close>: the contract both kinds of pod lists keep, interpreted for the FaSTPod list and
    for the MPS list.
\<close>

section \<open>Memory ledgers\<close>

definition balanced :: "int \<Rightarrow> int \<Rightarrow> int list \<Rightarrow> bool" where
  "balanced cap tot ws \<longleftrightarrow>
     tot = sum_list ws \<and> (\<forall>w \<in> set ws. 0 \<le> w) \<and> tot \<le> cap \<and> cap < 2 ^ 62"

lemma balanced_total_nonneg: "balanced cap tot ws \<Longrightarrow> 0 \<le> tot"
  by (auto simp: balanced_def intro: sum_list_nonneg)

lemma add64_id: "0 \<le> a \<Longrightarrow> a < 2 ^ 62 \<Longrightarrow> 0 \<le> b \<Longrightarrow> b < 2 ^ 62 \<Longrightarrow> add64 a b = a + b"
  unfolding add64_def by (rule to_signed_id) simp_all

lemma sub64_id: "0 \<le> a \<Longrightarrow> a < 2 ^ 62 \<Longrightarrow> 0 \<le> b \<Longrightarrow> b < 2 ^ 62 \<Longrightarrow> sub64 a b = a - b"
  unfolding sub64_def by (rule to_signed_id) simp_all

locale memory_ledger =
  fixes entries :: "'g \<Rightarrow> 'e list"
    and key :: "'e \<Rightarrow> string"
    and mem :: "'e \<Rightarrow> int"
    and tot :: "'g \<Rightarrow> int"
    and cap :: "'g \<Rightarrow> int"
    and push :: "'e \<Rightarrow> 'g \<Rightarrow> 'g"
    and drop :: "string \<Rightarrow> 'g \<Rightarrow> 'g"
  assumes push_entries: "entries (push e g) = entries g @ [e]"
    and push_tot: "tot (push e g) = add64 (tot g) (mem e)"
    and push_cap: "cap (push e g) = cap g"
    and drop_entries: "entries (drop k g) = remove_first (\<lambda>e. key e = k) (entries g)"
    and drop_tot: "find_first (\<lambda>e. key e = k) (entries g) = Some e \<Longrightarrow>
           tot (drop k g) = sub64 (tot g) (mem e)"
    and drop_absent: "find_first (\<lambda>e. key e = k) (entries g) = None \<Longrightarrow> drop k g = g"
    and drop_cap: "cap (drop k g) = cap g"
begin

lemma push_balanced:
  assumes "balanced (cap g) (tot g) (map mem (entries g))" "0 \<le> mem e" "mem e < 2 ^ 62"
    and "add64 (tot g) (mem e) \<le> cap g"
  shows "balanced (cap (push e g)) (tot (push e g)) (map mem (entries (push e g)))"
proof -
  have "add64 (tot g) (mem e) = tot g + mem e"
    using assms balanced_total_nonneg[OF assms(1)] by (intro add64_id) (auto simp: balanced_def)
  with assms show ?thesis by (auto simp: balanced_def push_entries push_tot push_cap)
qed

lemma entry_le_tot:
  assumes "balanced (cap g) (tot g) (map mem (entries g))"
    and "find_first (\<lambda>e. key e = k) (entries g) = Some e"
  shows "0 \<le> mem e \<and> mem e \<le> tot g"
proof -
  have "e \<in> set (entries g)" using find_first_SomeD[OF assms(2)] by simp
  then have "0 \<le> mem e" using assms(1) by (auto simp: balanced_def)
  moreover have "0 \<le> sum_list (map mem (remove_first (\<lambda>e. key e = k) (entries g)))"
    using assms(1) set_remove_first_subset[of "\<lambda>e. key e = k" "entries g"]
    by (intro sum_list_nonneg) (auto simp: balanced_def)
  ultimately show ?thesis
    using assms(1) sum_list_remove_first[OF assms(2), of mem] by (simp add: balanced_def)
qed

lemma drop_balanced:
  assumes bal: "balanced (cap g) (tot g) (map mem (entries g))"
  shows "balanced (cap (drop k g)) (tot (drop k g)) (map mem (entries (drop k g)))"
proof (cases "find_first (\<lambda>e. key e = k) (entries g)")
  case None
  then show ?thesis using bal drop_absent by simp
next
  case (Some e)
  note le = entry_le_tot[OF bal Some]
  have "sub64 (tot g) (mem e) = tot g - mem e"
    using bal le by (intro sub64_id) (auto simp: balanced_def)
  moreover have "tot g = mem e + sum_list (map mem (remove_first (\<lambda>e. key e = k) (entries g)))"
    using bal sum_list_remove_first[OF Some, of mem] by (simp add: balanced_def)
  ultimately show ?thesis
    using bal le set_remove_first_subset[of "\<lambda>e. key e = k" "entries g"]
    by (auto simp: balanced_def drop_entries drop_tot[OF Some] drop_cap)
qed

lemma drop_undoes_push:
  assumes "balanced (cap g) (tot g) (map mem (entries g))" "0 \<le> mem e" "mem e < 2 ^ 62"
    and "add64 (tot g) (mem e) \<le> cap g" "key e \<notin> set (map key (entries g))"
  shows "entries (drop (key e) (push e g)) = entries g \<and> tot (drop (key e) (push e g)) = tot g"
proof -
  have none: "find_first (\<lambda>x. key x = key e) (entries g) = None"
    using assms(5) unfolding find_first_None_iff by (metis image_eqI set_map)
  then have some: "find_first (\<lambda>x. key x = key e) (entries (push e g)) = Some e"
    by (simp add: push_entries find_first_append)
  have ent: "entries (drop (key e) (push e g)) = entries g"
    using none by (simp add: drop_entries push_entries remove_first_append)
  have b: "balanced (cap (push e g)) (tot (push e g)) (map mem (entries (push e g)))"
    by (rule push_balanced[OF assms(1-4)])
  have "tot (drop (key e) (push e g)) = tot g"
    using drop_balanced[OF b, of "key e"] assms(1) ent by (simp add: balanced_def)
  with ent show ?thesis by simp
qed

end

interpretation fp: memory_ledger FastPodList fp_Key fp_Memory UsageMem Mem push_fastpod
  "\<lambda>k g. fst (drop_fastpod k g)"
  by unfold_locales
    (auto simp: push_fastpod_def drop_fastpod_def remove_first_id split: option.splits)

interpretation mps: memory_ledger MPSPodList mps_Key mps_Memory UsageMem Mem push_mps drop_mps
  by unfold_locales (auto simp: push_mps_def drop_mps_def remove_first_id split: option.splits)

section \<open>Compute usage\<close>

definition usage_ok :: "float64 \<Rightarrow> bool" where
  "usage_ok x = (case x of Fin u \<Rightarrow> rnd u = u \<and> - (2 ^ 54) \<le> u \<and> u \<le> 1 | _ \<Rightarrow> False)"

definition quota_ok :: "float64 \<Rightarrow> bool" where
  "quota_ok x = (case x of Fin q \<Rightarrow> 0 \<le> q \<and> q \<le> 1 | _ \<Rightarrow> False)"

lemma share_unit:
  assumes "quota_ok q" "0 \<le> sm" "sm \<le> 100"
  obtains s where "share q sm = Fin s" "0 \<le> s" "s \<le> 1"
proof -
  obtain a where a: "q = Fin a" "0 \<le> a" "a \<le> 1"
    using assms(1) by (auto simp: quota_ok_def split: float64.splits)
  obtain v where v: "fdiv (f_of_int sm) (Fin 100) = Fin v" "0 \<le> v" "v \<le> 1"
    using fl_percent[OF assms(2,3)] by auto
  have b: "0 \<le> a * v" "a * v \<le> 1" using a v by (simp_all add: mult_le_one)
  then have "fl (a * v) = Fin (rnd (a * v))" using fl_unit[of "a * v"] by simp
  moreover have "0 \<le> rnd (a * v)" "rnd (a * v) \<le> 1" using f64.nonneg f64.le_one b by simp_all
  ultimately show ?thesis using that by (simp add: share_def a(1) v(1))
qed

lemma rnd_floor_bound: "- (2 ^ 54) - 1 \<le> q \<Longrightarrow> - (2 ^ 54) \<le> rnd q"
proof -
  assume "- (2 ^ 54) - 1 \<le> q"
  then have "rnd (- (2 ^ 54 + 1)) \<le> rnd q" by (intro rnd_mono) simp
  moreover have "rnd (2 ^ 54 + 1) = 2 ^ 54" by code_simp
  ultimately show ?thesis by (simp only: rnd_neg)
qed

lemma rnd_le_two: "q \<le> 2 \<Longrightarrow> rnd q \<le> 2"
  using rnd_mono[of q 2] rnd_of_int[of 2] by simp

lemma fl_in_range:
  assumes "- (2 ^ 54) - 1 \<le> q" "q \<le> 2"
  shows "fl q = Fin (rnd q) \<and> - (2 ^ 54) \<le> rnd q \<and> rnd q \<le> 2"
proof -
  have "- (2 ^ 54) \<le> rnd q" "rnd q \<le> 2" using rnd_floor_bound rnd_le_two assms by blast+
  moreover have "(2 ^ 54 :: rat) < 2 ^ 1024" "(2 :: rat) < 2 ^ 1024" by simp_all
  ultimately show ?thesis unfolding fl_Fin_iff by linarith
qed

lemma usage_ok_add:
  assumes "usage_ok x" "0 \<le> s" "s \<le> 1" "\<not> fgt (fadd x (Fin s)) (Fin 1)"
  shows "usage_ok (fadd x (Fin s))"
proof -
  obtain u where u: "x = Fin u" "- (2 ^ 54) \<le> u" "u \<le> 1"
    using assms(1) by (auto simp: usage_ok_def split: float64.splits)
  then have "fl (u + s) = Fin (rnd (u + s)) \<and> - (2 ^ 54) \<le> rnd (u + s)"
    using fl_in_range[of "u + s"] assms(2,3) by simp
  with u assms(4) show ?thesis by (simp add: usage_ok_def fgt_def rnd_idem)
qed

lemma usage_ok_sub:
  assumes "usage_ok x" "0 \<le> s" "s \<le> 1"
  shows "usage_ok (fsub x (Fin s))"
proof -
  obtain u where u: "x = Fin u" "- (2 ^ 54) \<le> u" "u \<le> 1"
    using assms(1) by (auto simp: usage_ok_def split: float64.splits)
  then have "fl (u - s) = Fin (rnd (u - s)) \<and> - (2 ^ 54) \<le> rnd (u - s)"
    using fl_in_range[of "u - s"] assms(2,3) by simp
  moreover have "rnd (u - s) \<le> 1" using f64.le_one[of "u - s"] u assms by simp
  ultimately show ?thesis using u by (simp add: fsub_def usage_ok_def rnd_idem)
qed

section \<open>The invariant of a GPU\<close>

definition fp_ok :: "FastPodReq \<Rightarrow> bool" where
  "fp_ok r \<longleftrightarrow> quota_ok (QtRequest r) \<and> 0 \<le> SMPartition r \<and> SMPartition r \<le> 100"

definition type_ok :: "GPUDevInfo \<Rightarrow> bool" where
  "type_ok g = (case allocationType g of
     AllocationTypeMPS \<Rightarrow> FastPodList g = [] \<and> ExclusivePod g = None
   | AllocationTypeFastPod \<Rightarrow> MPSPodList g = [] \<and> ExclusivePod g = None
   | AllocationTypeExclusive \<Rightarrow> FastPodList g = [] \<and> MPSPodList g = []
   | AllocationTypeNone \<Rightarrow> FastPodList g = [] \<and> MPSPodList g = [] \<and> ExclusivePod g = None)"

definition gpu_ok :: "GPUDevInfo \<Rightarrow> bool" where
  "gpu_ok g \<longleftrightarrow> usage_ok (Usage g) \<and> type_ok g
     \<and> (\<forall>r \<in> set (FastPodList g). fp_ok r)
     \<and> distinct (map fp_Key (FastPodList g)) \<and> distinct (map mps_Key (MPSPodList g))
     \<and> balanced (Mem g) (UsageMem g) (map fp_Memory (FastPodList g) @ map mps_Memory (MPSPodList g))"

lemma gpu_ok_mem: "gpu_ok g \<Longrightarrow> 0 \<le> UsageMem g \<and> UsageMem g \<le> Mem g \<and> Mem g < 2 ^ 62"
  unfolding gpu_ok_def using balanced_total_nonneg by (auto simp only: balanced_def)

lemma gpu_ok_set_type: "gpu_ok g \<Longrightarrow> gpu_ok (set_type t g)"
  by (cases t) (auto simp: gpu_ok_def set_type_def type_ok_def)

lemma gpu_ok_push_mps:
  assumes "gpu_ok g" "allocationType g = AllocationTypeMPS" "0 \<le> mps_Memory r" "mps_Memory r < 2 ^ 62"
    and "add64 (UsageMem g) (mps_Memory r) \<le> Mem g" "mps_Key r \<notin> set (map mps_Key (MPSPodList g))"
  shows "gpu_ok (push_mps r g)"
proof -
  have e: "FastPodList g = []" using assms(1,2) by (simp add: gpu_ok_def type_ok_def)
  have "balanced (Mem g) (UsageMem g) (map mps_Memory (MPSPodList g))"
    using assms(1) e by (simp add: gpu_ok_def)
  from mps.push_balanced[OF this assms(3,4,5)] show ?thesis
    using assms(1,2,6) e by (simp add: gpu_ok_def type_ok_def push_mps_def)
qed

lemma gpu_ok_push_fastpod:
  assumes "gpu_ok g" "allocationType g = AllocationTypeFastPod" "0 \<le> fp_Memory r" "fp_Memory r < 2 ^ 62"
    and "add64 (UsageMem g) (fp_Memory r) \<le> Mem g" "fp_Key r \<notin> set (map fp_Key (FastPodList g))"
    and "fp_ok r" "\<not> fgt (fadd (Usage g) (share (QtRequest r) (SMPartition r))) (Fin 1)"
  shows "gpu_ok (push_fastpod r g)"
proof -
  have e: "MPSPodList g = []" using assms(1,2) by (simp add: gpu_ok_def type_ok_def)
  have b: "balanced (Mem g) (UsageMem g) (map fp_Memory (FastPodList g))"
    using assms(1) e by (simp add: gpu_ok_def)
  obtain s where s: "share (QtRequest r) (SMPartition r) = Fin s" "0 \<le> s" "s \<le> 1"
    using assms(7) share_unit by (auto simp: fp_ok_def)
  have "usage_ok (Usage (push_fastpod r g))"
    using usage_ok_add[of "Usage g" s] assms(1,8) s by (simp add: push_fastpod_def gpu_ok_def)
  then show ?thesis using fp.push_balanced[OF b assms(3,4,5)] assms(1,2,6,7) e
    by (simp add: gpu_ok_def type_ok_def push_fastpod_def)
qed

lemma gpu_ok_drop_mps:
  assumes "gpu_ok g" "allocationType g = AllocationTypeMPS"
  shows "gpu_ok (drop_mps k g)"
proof -
  have e: "FastPodList g = []" using assms by (simp add: gpu_ok_def type_ok_def)
  have "balanced (Mem g) (UsageMem g) (map mps_Memory (MPSPodList g))"
    using assms(1) e by (simp add: gpu_ok_def)
  from mps.drop_balanced[OF this, of k] show ?thesis
    using assms e distinct_map_remove_first[of mps_Key "MPSPodList g"]
    by (auto simp: gpu_ok_def type_ok_def drop_mps_def split: option.splits)
qed

lemma gpu_ok_drop_fastpod:
  assumes "gpu_ok g" "allocationType g = AllocationTypeFastPod"
  shows "gpu_ok (fst (drop_fastpod k g))"
proof (cases "find_first (\<lambda>r. fp_Key r = k) (FastPodList g)")
  case None
  then show ?thesis using assms by (simp add: drop_fastpod_def)
next
  case (Some r)
  have e: "MPSPodList g = []" using assms by (simp add: gpu_ok_def type_ok_def)
  have "balanced (Mem g) (UsageMem g) (map fp_Memory (FastPodList g))"
    using assms(1) e by (simp add: gpu_ok_def)
  note bal = fp.drop_balanced[OF this, of k]
  have "fp_ok r" using find_first_SomeD[OF Some] assms(1) by (simp add: gpu_ok_def)
  then obtain s where s: "share (QtRequest r) (SMPartition r) = Fin s" "0 \<le> s" "s \<le> 1"
    using share_unit by (auto simp: fp_ok_def)
  then have "usage_ok (fsub (Usage g) (share (QtRequest r) (SMPartition r)))"
    using usage_ok_sub assms(1) by (simp add: gpu_ok_def)
  then show ?thesis
    using bal assms e Some distinct_map_remove_first[of fp_Key "FastPodList g"]
      set_remove_first_subset[of "\<lambda>r. fp_Key r = k" "FastPodList g"]
    by (auto simp: gpu_ok_def type_ok_def drop_fastpod_def)
qed

lemma gpu_ok_drop_exclusive:
  "gpu_ok g \<Longrightarrow> allocationType g = AllocationTypeExclusive \<Longrightarrow> gpu_ok (drop_exclusive g)"
  by (simp add: gpu_ok_def type_ok_def drop_exclusive_def balanced_def usage_ok_def)

section \<open>The invariant of a node\<close>

text \<open>The FaSTPods on the GPUs of a node, and the position of their port in the allocator.\<close>

definition holders :: "Node \<Rightarrow> (string \<times> FastPodReq) set" where
  "holders nd = {(v, r). \<exists>g. vGPUID2GPU nd v = Some g \<and> r \<in> set (FastPodList g)}"

definition port_of :: "string \<times> FastPodReq \<Rightarrow> int" where
  "port_of h = GPUClientPort (snd h) - GPUClientPortStart"

definition node_ok :: "string \<Rightarrow> Node \<Rightarrow> bool" where
  "node_ok n nd \<longleftrightarrow> hostName nd = n \<and> wf_bitmap (DaemonPortAlloc nd)
     \<and> bm_size (DaemonPortAlloc nd) = PortRange
     \<and> (\<forall>v g. vGPUID2GPU nd v = Some g \<longrightarrow> gpu_ok g)
     \<and> bij_betw port_of (holders nd) (used (DaemonPortAlloc nd))"

definition mgr_ok :: "mgr \<Rightarrow> bool" where
  "mgr_ok st \<longleftrightarrow> (\<forall>n nd. nodes st n = Some nd \<longrightarrow> node_ok n nd)"

lemma holders_frame [simp]:
  "holders (nd\<lparr>vgpus := vs\<rparr>) = holders nd" "holders (nd\<lparr>grpcClient := c\<rparr>) = holders nd"
  "holders (nd\<lparr>DaemonPortAlloc := p\<rparr>) = holders nd" "holders (nd\<lparr>DaemonIP := i\<rparr>) = holders nd"
  by (simp_all add: holders_def)

lemma holders_upd:
  "holders (nd\<lparr>vGPUID2GPU := (vGPUID2GPU nd)(v := go)\<rparr>) =
     {h \<in> holders nd. fst h \<noteq> v} \<union> (case go of None \<Rightarrow> {} | Some g \<Rightarrow> {v} \<times> set (FastPodList g))"
  by (auto simp: holders_def split: option.splits if_splits)

lemma holders_split:
  "vGPUID2GPU nd v = Some g \<Longrightarrow>
     holders nd = {h \<in> holders nd. fst h \<noteq> v} \<union> {v} \<times> set (FastPodList g)"
  by (auto simp: holders_def)

lemma node_okD:
  assumes "node_ok n nd"
  shows "hostName nd = n" "wf_bitmap (DaemonPortAlloc nd)" "bm_size (DaemonPortAlloc nd) = PortRange"
    "vGPUID2GPU nd v = Some g \<Longrightarrow> gpu_ok g"
    "bij_betw port_of (holders nd) (used (DaemonPortAlloc nd))"
  using assms by (auto simp: node_ok_def)

text \<open>An update that leaves the FaSTPods of the GPU alone leaves the ports alone.\<close>

lemma node_ok_same_holders:
  assumes "node_ok n nd" "gpu_ok g'"
    and "set (FastPodList g') = (case vGPUID2GPU nd v of None \<Rightarrow> {} | Some g \<Rightarrow> set (FastPodList g))"
  shows "node_ok n (nd\<lparr>vGPUID2GPU := (vGPUID2GPU nd)(v \<mapsto> g')\<rparr>)"
proof -
  have "holders (nd\<lparr>vGPUID2GPU := (vGPUID2GPU nd)(v \<mapsto> g')\<rparr>) = holders nd"
    using assms(3) by (auto simp: holders_upd holders_def split: option.splits if_splits)
  with assms(1,2) show ?thesis by (simp add: node_ok_def)
qed

lemma node_ok_delete:
  assumes "node_ok n nd" "vGPUID2GPU nd v = Some g" "FastPodList g = []"
  shows "node_ok n (nd\<lparr>vgpus := vs, vGPUID2GPU := (vGPUID2GPU nd)(v := None)\<rparr>)"
proof -
  have "holders (nd\<lparr>vgpus := vs, vGPUID2GPU := (vGPUID2GPU nd)(v := None)\<rparr>) = holders nd"
    using assms(2,3) by (auto simp: holders_def split: if_splits)
  with assms(1) show ?thesis by (simp add: node_ok_def)
qed

lemma node_ok_push:
  assumes ok: "node_ok n nd" and g: "vGPUID2GPU nd v = Some g" and g': "gpu_ok g'"
    and lst: "FastPodList g' = FastPodList g @ [r]"
    and alloc: "FindFirstUnsetAndSet (DaemonPortAlloc nd) = Ret (i, p')" "i \<noteq> -1"
    and port: "GPUClientPort r = i + GPUClientPortStart"
  shows "node_ok n (nd\<lparr>DaemonPortAlloc := p', vGPUID2GPU := (vGPUID2GPU nd)(v \<mapsto> g')\<rparr>)"
proof -
  note fresh = bm.alloc_fresh[OF node_okD(2)[OF ok] alloc]
  let ?nd = "nd\<lparr>DaemonPortAlloc := p', vGPUID2GPU := (vGPUID2GPU nd)(v \<mapsto> g')\<rparr>"
  have h: "holders ?nd = insert (v, r) (holders nd)"
    using g lst by (auto simp: holders_def split: if_splits)
  have i: "port_of (v, r) = i" by (simp add: port_of_def port)
  have bij: "bij_betw port_of (holders nd) (used (DaemonPortAlloc nd))" by (rule node_okD(5)[OF ok])
  then have new: "(v, r) \<notin> holders nd" using fresh i by (metis bij_betwE)
  have "bij_betw port_of (insert (v, r) (holders nd)) (insert i (used (DaemonPortAlloc nd)))"
    using bij_betw_combine[OF bij, of "{(v, r)}" "{i}"] fresh i by (simp add: bij_betw_def)
  then show ?thesis using ok fresh g' h by (simp add: node_ok_def)
qed

lemma drop_fastpod_holders:
  assumes "gpu_ok g" "vGPUID2GPU nd v = Some g" "drop_fastpod k g = (g', Some r)"
  shows "holders (nd\<lparr>DaemonPortAlloc := p', vGPUID2GPU := (vGPUID2GPU nd)(v \<mapsto> g')\<rparr>)
           = holders nd - {(v, r)}" and "(v, r) \<in> holders nd"
proof -
  from assms(3) have f: "find_first (\<lambda>r. fp_Key r = k) (FastPodList g) = Some r"
    and l: "FastPodList g' = remove_first (\<lambda>r. fp_Key r = k) (FastPodList g)"
    by (auto simp: drop_fastpod_def split: option.splits)
  have d: "distinct (map fp_Key (FastPodList g))" using assms(1) by (simp add: gpu_ok_def)
  then have "set (FastPodList g') = set (FastPodList g) - {r}"
    using set_remove_first[OF _ f] by (simp add: l distinct_map)
  then have "holders (nd\<lparr>DaemonPortAlloc := p', vGPUID2GPU := (vGPUID2GPU nd)(v \<mapsto> g')\<rparr>)
      = {h \<in> holders nd. fst h \<noteq> v} \<union> {v} \<times> (set (FastPodList g) - {r})"
    using holders_upd[of "nd\<lparr>DaemonPortAlloc := p'\<rparr>" v "Some g'"] by simp
  also have "\<dots> = holders nd - {(v, r)}"
    by (subst (2) holders_split[OF assms(2)]) auto
  finally show "holders (nd\<lparr>DaemonPortAlloc := p', vGPUID2GPU := (vGPUID2GPU nd)(v \<mapsto> g')\<rparr>)
      = holders nd - {(v, r)}" .
  show "(v, r) \<in> holders nd" using find_first_SomeD[OF f] assms(2) by (simp add: holders_def)
qed

lemma node_ok_drop:
  assumes ok: "node_ok n nd" and g: "vGPUID2GPU nd v = Some g"
    and t: "allocationType g = AllocationTypeFastPod" and d: "drop_fastpod k g = (g', Some r)"
  shows "\<exists>p'. free_port r (DaemonPortAlloc nd) = Ret p'
     \<and> used p' = used (DaemonPortAlloc nd) - {GPUClientPort r - GPUClientPortStart} \<and>
     node_ok n (nd\<lparr>DaemonPortAlloc := p', vGPUID2GPU := (vGPUID2GPU nd)(v \<mapsto> g')\<rparr>)"
proof -
  let ?i = "GPUClientPort r - GPUClientPortStart"
  note gok = node_okD(4)[OF ok g] and bij = node_okD(5)[OF ok]
  note h = drop_fastpod_holders[OF gok g d]
  have i: "port_of (v, r) = ?i" by (simp add: port_of_def)
  then have "?i \<in> used (DaemonPortAlloc nd)" using h(2) bij by (metis bij_betwE)
  then have r: "0 \<le> ?i" "?i < bm_size (DaemonPortAlloc nd)" using used_range by fastforce+
  from bm.release_frees[OF node_okD(2)[OF ok] r] obtain p' where
    p: "Clear (DaemonPortAlloc nd) ?i = Ret (None, p')" "used p' = used (DaemonPortAlloc nd) - {?i}"
      "bm_size p' = bm_size (DaemonPortAlloc nd)" "wf_bitmap p'" by blast
  have "bij_betw port_of (holders nd - {(v, r)}) (used p')"
    using bij h(2) i p(2) by (auto simp: bij_betw_def inj_on_diff inj_on_image_set_diff[of port_of "holders nd"])
  moreover have "gpu_ok g'" using gpu_ok_drop_fastpod[OF gok t, of k] d by simp
  ultimately show ?thesis using p ok h(1)[of p'] by (simp add: free_port_def node_ok_def)
qed

section \<open>The invariant of the table is preserved\<close>

lemma mgr_okD: "mgr_ok st \<Longrightarrow> nodes st n = Some nd \<Longrightarrow> node_ok n nd"
  by (simp add: mgr_ok_def)

lemma mgr_ok_put_node [inv_intros]: "mgr_ok st \<Longrightarrow> node_ok n nd \<Longrightarrow> mgr_ok (put_node st n nd)"
  by (simp add: mgr_ok_def put_node_def)

lemma mgr_ok_put_gpu [inv_intros]:
  "mgr_ok st \<Longrightarrow> node_ok n (nd\<lparr>vGPUID2GPU := (vGPUID2GPU nd)(v \<mapsto> g)\<rparr>) \<Longrightarrow> mgr_ok (put_gpu st n nd v g)"
  by (simp add: put_gpu_def mgr_ok_put_node)

lemma mgr_ok_frame [simp]:
  "mgr_ok (st\<lparr>sent := s\<rparr>) = mgr_ok st" "mgr_ok (st\<lparr>kube_deletes := d\<rparr>) = mgr_ok st"
  "mgr_ok (st\<lparr>nodesLiveness := l\<rparr>) = mgr_ok st"
  by (simp_all add: mgr_ok_def)

lemma nodes_put [simp]:
  "nodes (put_node st n nd) = (nodes st)(n \<mapsto> nd)"
  "nodes (put_gpu st n nd v g) = (nodes st)(n \<mapsto> nd\<lparr>vGPUID2GPU := (vGPUID2GPU nd)(v \<mapsto> g)\<rparr>)"
  by (simp_all add: put_node_def put_gpu_def)

lemma updatePods_mgr_ok [inv_intros]:
  "updatePodsGPUConfig n u (Some l) st = Ret (e, st') \<Longrightarrow> mgr_ok st' = mgr_ok st"
  using updatePodsGPUConfig_frame by force

lemma updatePods_nodes:
  "updatePodsGPUConfig n u (Some l) st = Ret (e, st') \<Longrightarrow> nodes st' = nodes st"
  using updatePodsGPUConfig_frame by force

definition request_ok :: "ResourceRequest \<Rightarrow> bool" where
  "request_ok req \<longleftrightarrow> req_AllocationType req \<noteq> AllocationTypeNone
     \<and> 0 \<le> ReqMemory req \<and> ReqMemory req < 2 ^ 62
     \<and> (case req_FastPod req of None \<Rightarrow> True
        | Some q \<Rightarrow> quota_ok (QuotaReq q) \<and> 0 \<le> ReqSMPartition q \<and> ReqSMPartition q \<le> 100)"

text \<open>The entry of a GPU in the table.\<close>

definition gpu_at :: "mgr \<Rightarrow> string \<Rightarrow> string \<Rightarrow> GPUDevInfo option" where
  "gpu_at st n v = (case nodes st n of None \<Rightarrow> None | Some nd \<Rightarrow> vGPUID2GPU nd v)"

lemma gpu_atI: "nodes st n = Some nd \<Longrightarrow> gpu_at st n v = vGPUID2GPU nd v"
  by (simp add: gpu_at_def)

lemma gpu_at_put [simp]:
  "gpu_at (put_node st n nd) n' v' = (if n' = n then vGPUID2GPU nd v' else gpu_at st n' v')"
  "gpu_at (put_gpu st n nd v g) n' v' =
     (if n' = n then if v' = v then Some g else vGPUID2GPU nd v' else gpu_at st n' v')"
  by (simp_all add: gpu_at_def)

lemma gpu_at_frame [simp]:
  "gpu_at (st\<lparr>sent := s\<rparr>) = gpu_at st" "gpu_at (st\<lparr>kube_deletes := d\<rparr>) = gpu_at st"
  "gpu_at (st\<lparr>nodesLiveness := l\<rparr>) = gpu_at st"
  by (simp_all add: gpu_at_def fun_eq_iff)

lemma gpu_at_ok: "mgr_ok st \<Longrightarrow> gpu_at st n v = Some g \<Longrightarrow> gpu_ok g"
  using node_okD(4) by (fastforce simp: gpu_at_def mgr_ok_def split: option.splits)

text \<open>The GPU a request was scheduled on, if it is still there, is free or of the type requested.\<close>

definition compatible :: "SelectionResult \<Rightarrow> ResourceRequest \<Rightarrow> mgr \<Rightarrow> bool" where
  "compatible sel req st = (case gpu_at st (NodeName sel) (VGPUUUID sel) of None \<Rightarrow> True
     | Some g \<Rightarrow> allocationType g = AllocationTypeNone \<or> allocationType g = req_AllocationType req)"

lemma set_type_lists [simp]:
  "FastPodList (set_type t g) = FastPodList g" "MPSPodList (set_type t g) = MPSPodList g"
  "UsageMem (set_type t g) = UsageMem g" "Mem (set_type t g) = Mem g" "Usage (set_type t g) = Usage g"
  "UUID (set_type t g) = UUID g" "virtual (set_type t g) = virtual g"
  by (simp_all add: set_type_def)

lemma request_mps_ok:
  assumes "gpu_ok g" "allocationType g = AllocationTypeMPS" "request_ok req"
    and "request_mps c req k nd g = Ret (res, g')"
  shows "gpu_ok g' \<and> FastPodList g' = FastPodList g"
  using assms gpu_ok_push_mps[OF assms(1,2), of "\<lparr>mps_Key = k, mps_Memory = ReqMemory req\<rparr>"]
  by (auto simp: request_mps_def FindInQueue_mps Let_def request_ok_def push_mps_def split: if_splits)

text \<open>
  The outcomes of the FaSTPod case on a table that satisfies the invariant: the pod is known, it is
  refused with code 3, 4 or 5, or it is recorded with a port that was free.
\<close>

lemma admit_fastpod_cases:
  assumes ok: "node_ok n nd" and reqs: "req_FastPod req = Some q"
  obtains (known) r where "find_first (\<lambda>r. fp_Key r = k) (FastPodList g) = Some r"
      "admit_fastpod req k (DaemonPortAlloc nd) g = Ret (Inr (GPUClientPort r, g, DaemonPortAlloc nd))"
  | (refused) code where "admit_fastpod req k (DaemonPortAlloc nd) g = Ret (Inl code)" "code \<in> {3, 4, 5}"
  | (admitted) i p' r where "find_first (\<lambda>r. fp_Key r = k) (FastPodList g) = None"
      "FindFirstUnsetAndSet (DaemonPortAlloc nd) = Ret (i, p')" "i \<noteq> -1"
      "r = \<lparr>fp_Key = k, QtRequest = QuotaReq q, QtLimit = QuotaLimit q, SMPartition = ReqSMPartition q,
            fp_Memory = ReqMemory req, GPUClientPort = i + GPUClientPortStart\<rparr>"
      "\<not> fgt (fadd (Usage g) (share (QuotaReq q) (ReqSMPartition q))) (Fin 1)"
      "add64 (UsageMem g) (ReqMemory req) \<le> Mem g"
      "admit_fastpod req k (DaemonPortAlloc nd) g = Ret (Inr (GPUClientPort r, push_fastpod r g, p'))"
proof -
  obtain i p' where a: "FindFirstUnsetAndSet (DaemonPortAlloc nd) = Ret (i, p')"
    using bm.alloc_returns[OF node_okD(2)[OF ok]] by blast
  show ?thesis
  proof (cases "find_first (\<lambda>r. fp_Key r = k) (FastPodList g)")
    case (Some r)
    then show ?thesis using known by (simp add: admit_fastpod_def FindInQueue_fast)
  next
    case None
    note [simp] = admit_fastpod_def FindInQueue_fast reqs None a Let_def
    let ?F = "fgt (fadd (Usage g) (share (QuotaReq q) (ReqSMPartition q))) (Fin 1)"
    let ?M = "Mem g < add64 (UsageMem g) (ReqMemory req)"
    show ?thesis
    proof (cases "?F \<or> ?M \<or> i = -1")
      case True
      then have "admit_fastpod req k (DaemonPortAlloc nd) g = Ret (Inl (if ?F then 3 else if ?M then 4 else 5))"
        by auto
      then show ?thesis by (rule refused) simp
    next
      case False
      then show ?thesis using admitted[OF None a _ refl] by simp
    qed
  qed
qed

lemma admit_fastpod_node_ok:
  assumes ok: "node_ok n nd" and g0: "vGPUID2GPU nd v = Some g0"
    and g: "g = set_type AllocationTypeFastPod g0" "allocationType g = AllocationTypeFastPod"
    and req: "request_ok req" "req_FastPod req = Some q"
    and res: "admit_fastpod req k (DaemonPortAlloc nd) g = Ret (Inr (port, g', p'))"
  shows "node_ok n (nd\<lparr>DaemonPortAlloc := p', vGPUID2GPU := (vGPUID2GPU nd)(v \<mapsto> g')\<rparr>)"
proof -
  have gok: "gpu_ok g" using gpu_ok_set_type node_okD(4)[OF ok g0] g(1) by simp
  show ?thesis
  proof (rule admit_fastpod_cases[OF ok req(2), of k g])
    fix r assume "admit_fastpod req k (DaemonPortAlloc nd) g
        = Ret (Inr (GPUClientPort r, g, DaemonPortAlloc nd))"
    with res have e: "g' = g" "p' = DaemonPortAlloc nd" by simp_all
    show ?thesis unfolding e using node_ok_same_holders[OF ok gok, of v] g(1) g0 by simp
  next
    fix i p'' r
    assume new: "find_first (\<lambda>r. fp_Key r = k) (FastPodList g) = None"
      and a: "FindFirstUnsetAndSet (DaemonPortAlloc nd) = Ret (i, p'')" "i \<noteq> -1"
      and r: "r = \<lparr>fp_Key = k, QtRequest = QuotaReq q, QtLimit = QuotaLimit q,
            SMPartition = ReqSMPartition q, fp_Memory = ReqMemory req,
            GPUClientPort = i + GPUClientPortStart\<rparr>"
      and fit: "\<not> fgt (fadd (Usage g) (share (QuotaReq q) (ReqSMPartition q))) (Fin 1)"
        "add64 (UsageMem g) (ReqMemory req) \<le> Mem g"
      and e: "admit_fastpod req k (DaemonPortAlloc nd) g = Ret (Inr (GPUClientPort r, push_fastpod r g, p''))"
    have "gpu_ok (push_fastpod r g)"
      using fit new req by (intro gpu_ok_push_fastpod[OF gok g(2)])
        (auto simp: r request_ok_def fp_ok_def find_first_None_iff)
    moreover have "g' = push_fastpod r g" "p' = p''" using e res by simp_all
    ultimately show ?thesis using node_ok_push[OF ok g0 _ _ a, of "push_fastpod r g" r] g(1)
      by (simp add: r push_fastpod_def)
  qed (use res in simp_all)
qed

lemma RequestGPU_mgr_ok [inv_intros]:
  assumes inv: "mgr_ok st" and req: "request_ok req" and comp: "compatible sel req st"
    and res: "RequestGPUAndUpdateConfig sel req k st = Ret (out, st')"
  shows "mgr_ok st'"
proof (cases "nodes st (NodeName sel)")
  case None
  then show ?thesis using inv res by (simp add: RequestGPUAndUpdateConfig_def)
next
  case nd: (Some nd)
  note ok = mgr_okD[OF inv nd]
  show ?thesis
  proof (cases "vGPUID2GPU nd (VGPUUUID sel)")
    case None
    then show ?thesis using inv res nd by (simp add: RequestGPUAndUpdateConfig_def)
  next
    case g0: (Some g0)
    let ?g = "set_type (req_AllocationType req) g0"
    have gok: "gpu_ok ?g" by (rule gpu_ok_set_type[OF node_okD(4)[OF ok g0]])
    have ty: "allocationType ?g = req_AllocationType req"
      using comp nd g0 by (auto simp: compatible_def gpu_at_def set_type_def)
    note step = node_ok_same_holders[OF ok, where v = "VGPUUUID sel"]
    obtain c where c: "enable_mps nd ?g = Ret c"
      using res nd g0 by (auto simp: RequestGPUAndUpdateConfig_def Let_def bind_go_Ret_iff)
    note res' = res[unfolded RequestGPUAndUpdateConfig_def Let_def nd option.case g0 c bind_go_simps]
    show ?thesis
    proof (cases "req_AllocationType req")
      case AllocationTypeMPS
      then obtain g' where g': "request_mps c req k nd ?g = Ret (out, g')"
        "st' = put_gpu st (NodeName sel) nd (VGPUUUID sel) g'"
        using res' by (auto simp: bind_go_Ret_iff)
      from request_mps_ok[OF gok _ req g'(1)] ty AllocationTypeMPS
      show ?thesis unfolding g'(2) using g0 inv step by (auto intro!: mgr_ok_put_gpu)
    next
      case AllocationTypeExclusive
      have "gpu_ok (?g\<lparr>ExclusivePod := Some k\<rparr>)"
        using gok ty AllocationTypeExclusive by (auto simp: gpu_ok_def type_ok_def)
      then show ?thesis using res' AllocationTypeExclusive g0 inv step by (auto intro!: mgr_ok_put_gpu)
    next
      case AllocationTypeFastPod
      then obtain adm where adm: "admit_fastpod req k (DaemonPortAlloc nd) ?g = Ret adm"
        using res' by (auto simp: bind_go_Ret_iff)
      show ?thesis
      proof (cases adm)
        case (Inl code)
        then show ?thesis
          using res' adm AllocationTypeFastPod gok g0 inv step by (auto intro!: mgr_ok_put_gpu)
      next
        case (Inr t)
        obtain port g' p' where t: "t = (port, g', p')" by (cases t) auto
        let ?st1 = "put_gpu st (NodeName sel) (nd\<lparr>DaemonPortAlloc := p'\<rparr>) (VGPUUUID sel) g'"
        obtain e st2 q where s2: "updatePodsGPUConfig (NodeName sel) (UUID g') (Some (FastPodList g')) ?st1
            = Ret (e, st2)" "st' = st2" "req_FastPod req = Some q"
          using res' AllocationTypeFastPod adm Inr t by (auto simp: bind_go_Ret_iff deref_Ret_iff)
        have "mgr_ok ?st1"
          using admit_fastpod_node_ok[OF ok g0 _ _ req s2(3)] AllocationTypeFastPod ty adm Inr t inv
          by (auto intro!: mgr_ok_put_gpu)
        then show ?thesis using updatePods_mgr_ok[OF s2(1)] s2(2) by simp
      qed
    next
      case AllocationTypeNone
      then show ?thesis using req by (simp add: request_ok_def)
    qed
  qed
qed

text \<open>
  The annotations of a pod agree with the table: the GPU it names, if it is there, has the pod's
  allocation type. The controller writes both annotations when it creates the pod.
\<close>

definition pod_agrees :: "pod \<Rightarrow> mgr \<Rightarrow> bool" where
  "pod_agrees p st = (case gpu_at st (p_node p) (sget (p_annotations p) FaSTGShareVGPUUUID) of
     None \<Rightarrow> True
   | Some g \<Rightarrow> allocationType g = GetAllocationType (sget (p_annotations p) FastGshareAllocationType))"

section \<open>Removal only shrinks the table\<close>

definition smaller :: "GPUDevInfo \<Rightarrow> GPUDevInfo \<Rightarrow> bool" where
  "smaller g' g \<longleftrightarrow> allocationType g' = allocationType g
     \<and> set (FastPodList g') \<subseteq> set (FastPodList g) \<and> set (MPSPodList g') \<subseteq> set (MPSPodList g)"

lemma smaller_refl [simp]: "smaller g g"
  by (simp add: smaller_def)

lemma smaller_trans: "smaller a b \<Longrightarrow> smaller b c \<Longrightarrow> smaller a c"
  by (auto simp: smaller_def)

lemma smaller_drop [simp]:
  "drop_fastpod k g = (g', r) \<Longrightarrow> smaller g' g" "smaller (drop_mps k g) g" "smaller (drop_exclusive g) g"
  using set_remove_first_subset[of "\<lambda>r. fp_Key r = k" "FastPodList g"]
    set_remove_first_subset[of "\<lambda>r. mps_Key r = k" "MPSPodList g"]
  by (auto simp: smaller_def drop_fastpod_def drop_mps_def drop_exclusive_def split: option.splits)

definition shrinks :: "mgr \<Rightarrow> mgr \<Rightarrow> bool" where
  "shrinks st st' \<longleftrightarrow> (\<forall>n v g'. gpu_at st' n v = Some g' \<longrightarrow>
     (\<exists>g. gpu_at st n v = Some g \<and> smaller g' g))"

lemma shrinks_refl [simp]: "shrinks st st"
  by (auto simp: shrinks_def)

lemma shrinks_trans: "shrinks a b \<Longrightarrow> shrinks b c \<Longrightarrow> shrinks a c"
  unfolding shrinks_def by (blast intro: smaller_trans)

lemma pod_agrees_shrinks: "pod_agrees p st \<Longrightarrow> shrinks st st' \<Longrightarrow> pod_agrees p st'"
  by (fastforce simp: pod_agrees_def shrinks_def smaller_def split: option.splits)

lemma compatible_shrinks: "compatible sel req st \<Longrightarrow> shrinks st st' \<Longrightarrow> compatible sel req st'"
  by (fastforce simp: compatible_def shrinks_def smaller_def split: option.splits)

lemma shrinks_frame [simp]:
  "shrinks st (st'\<lparr>sent := s\<rparr>) = shrinks st st'" "shrinks st (st'\<lparr>kube_deletes := d\<rparr>) = shrinks st st'"
  by (simp_all add: shrinks_def)

lemma shrinks_put_gpu:
  "nodes st n = Some nd \<Longrightarrow> vGPUID2GPU nd v = Some g \<Longrightarrow> smaller g' g \<Longrightarrow>
     vGPUID2GPU nd' = vGPUID2GPU nd \<Longrightarrow> nodes st2 = nodes st \<Longrightarrow> shrinks st (put_gpu st2 n nd' v g')"
  by (auto simp: shrinks_def gpu_at_def)

lemma shrinks_delete:
  "nodes st n = Some nd \<Longrightarrow>
     shrinks st (put_node st n (nd\<lparr>vgpus := vs, vGPUID2GPU := (vGPUID2GPU nd)(v := None)\<rparr>))"
  by (auto simp: shrinks_def gpu_at_def split: if_splits)

lemma drop_fastpod_type: "drop_fastpod k g = (g', r) \<Longrightarrow> allocationType g' = allocationType g"
  by (auto simp: drop_fastpod_def split: option.splits)

lemma give_up_gpu_shrinks: "give_up_gpu t n v st = Ret st' \<Longrightarrow> shrinks st st'"
  by (auto simp: give_up_gpu_def bind_go_Ret_iff shrinks_delete split: option.splits)

lemma updatePods_shrinks:
  "updatePodsGPUConfig n u (Some l) st = Ret (e, st') \<Longrightarrow> shrinks st0 st' = shrinks st0 st"
  using updatePods_nodes by (fastforce simp: shrinks_def gpu_at_def)


section \<open>Removal\<close>

lemma drop_mps_lists [simp]:
  "FastPodList (drop_mps k g) = FastPodList g" "allocationType (drop_mps k g) = allocationType g"
  by (simp_all add: drop_mps_def split: option.splits)

lemma drop_fastpod_None: "drop_fastpod k g = (g', None) \<Longrightarrow> g' = g"
  by (auto simp: drop_fastpod_def split: option.splits)

lemma give_up_gpu_mgr_ok:
  assumes "mgr_ok st" "give_up_gpu t n v st = Ret st'"
    and "\<And>nd g. nodes st n = Some nd \<Longrightarrow> vGPUID2GPU nd v = Some g \<Longrightarrow> FastPodList g = []"
  shows "mgr_ok st'"
proof (cases "nodes st n")
  case None
  then show ?thesis using assms by (simp add: give_up_gpu_def)
next
  case nd: (Some nd)
  show ?thesis
  proof (cases "vGPUID2GPU nd v")
    case None
    then show ?thesis using assms nd by (simp add: give_up_gpu_def)
  next
    case (Some g)
    with assms(2) nd obtain vs where
      "st' = put_node st n (nd\<lparr>vgpus := vs, vGPUID2GPU := (vGPUID2GPU nd)(v := None)\<rparr>)"
      by (auto simp: give_up_gpu_def bind_go_Ret_iff)
    then show ?thesis
      using node_ok_delete[OF mgr_okD[OF assms(1) nd] Some assms(3)[OF nd Some]] assms(1)
      by (auto intro: inv_intros)
  qed
qed

text \<open>
  The first half of \<open>removePodFromList\<close>: the state before the GPU is given up, which satisfies the
  invariant and has no FaSTPod left on the GPU when the list of the pod's type is empty.
\<close>

lemma removePodFromList_cases:
  assumes inv: "mgr_ok st" and agree: "pod_agrees p st" and res: "removePodFromList p st = Ret st'"
    and t: "t = GetAllocationType (sget (p_annotations p) FastGshareAllocationType)"
    and v: "v = sget (p_annotations p) FaSTGShareVGPUUUID"
  obtains (untouched) "st' = st"
  | (removed) st2 nd2 g2 len where "mgr_ok st2" "nodes st2 (p_node p) = Some nd2"
      "vGPUID2GPU nd2 v = Some g2" "podlist_len t g2 = Some len" "allocationType g2 = t" "shrinks st st2"
      "st' = st2 \<and> len \<noteq> 0 \<or> len = 0 \<and> give_up_gpu t (p_node p) v st2 = Ret st'"
proof (cases "nodes st (p_node p)")
  case None
  then show ?thesis using res untouched by (simp add: removePodFromList_def Let_def)
next
  case nd: (Some nd)
  note ok = mgr_okD[OF inv nd]
  show ?thesis
  proof (cases "vGPUID2GPU nd v")
    case None
    then show ?thesis using res untouched nd v by (simp add: removePodFromList_def Let_def)
  next
    case g: (Some g)
    have ty: "allocationType g = t" using agree nd g t v by (simp add: pod_agrees_def gpu_at_def)
    note gok = node_okD(4)[OF ok g]
    note res' = res[unfolded removePodFromList_def Let_def nd option.case t[symmetric] v[symmetric] g]
    note step = node_ok_same_holders[OF ok, where v = v]
    show ?thesis
    proof (cases t)
      case AllocationTypeFastPod
      obtain g' r where d: "drop_fastpod (PodKey p) g = (g', r)" by (cases "drop_fastpod (PodKey p) g")
      show ?thesis
      proof (cases r)
        case None
        then have "g' = g" using drop_fastpod_None d by simp
        then show ?thesis
          using res' AllocationTypeFastPod d None ty g gok step inv shrinks_put_gpu[OF nd g smaller_refl refl refl]
          by (intro removed[of "put_gpu st (p_node p) nd v g" "nd\<lparr>vGPUID2GPU := (vGPUID2GPU nd)(v \<mapsto> g)\<rparr>" g])
            (auto intro!: mgr_ok_put_gpu simp: podlist_len_def split: if_splits)
      next
        case (Some r')
        from node_ok_drop[OF ok g _ d[unfolded Some]] ty AllocationTypeFastPod obtain p' where
          p': "free_port r' (DaemonPortAlloc nd) = Ret p'"
            "node_ok (p_node p) (nd\<lparr>DaemonPortAlloc := p', vGPUID2GPU := (vGPUID2GPU nd)(v \<mapsto> g')\<rparr>)"
          by auto
        obtain e st1 where u: "updatePodsGPUConfig (p_node p) (UUID g') (Some (FastPodList g'))
            (put_gpu st (p_node p) nd v g') = Ret (e, st1)"
          using updatePodsGPUConfig_returns by fastforce
        have "mgr_ok (put_gpu st1 (p_node p) (nd\<lparr>DaemonPortAlloc := p'\<rparr>) v g')"
          using p'(2) updatePods_nodes[OF u] inv by (auto simp: mgr_ok_def)
        moreover have "shrinks st (put_gpu st1 (p_node p) (nd\<lparr>DaemonPortAlloc := p'\<rparr>) v g')"
          using nd g smaller_drop(1)[OF d] updatePods_nodes[OF u] by (auto simp: shrinks_def gpu_at_def)
        moreover have "allocationType g' = t"
          using d Some ty by (auto simp: drop_fastpod_def split: option.splits)
        ultimately show ?thesis
          using res' AllocationTypeFastPod d Some u p'(1)
          by (intro removed[of "put_gpu st1 (p_node p) (nd\<lparr>DaemonPortAlloc := p'\<rparr>) v g'"])
            (auto simp: podlist_len_def split: if_splits)
      qed
    next
      case AllocationTypeMPS
      then have "gpu_ok (drop_mps (PodKey p) g)" using gpu_ok_drop_mps[OF gok] ty by simp
      then have "mgr_ok (put_gpu st (p_node p) nd v (drop_mps (PodKey p) g))"
        using step inv g by (auto intro!: mgr_ok_put_gpu)
      then show ?thesis using res' AllocationTypeMPS ty shrinks_put_gpu[OF nd g _ refl refl]
        by (intro removed[of "put_gpu st (p_node p) nd v (drop_mps (PodKey p) g)"
              "nd\<lparr>vGPUID2GPU := (vGPUID2GPU nd)(v \<mapsto> drop_mps (PodKey p) g)\<rparr>" "drop_mps (PodKey p) g"])
          (auto simp: podlist_len_def split: if_splits)
    qed (use res' in \<open>simp_all add: podlist_len_def nd g\<close>)
  qed
qed

lemma removePodFromList_mgr_ok [inv_intros]:
  assumes inv: "mgr_ok st" and "pod_agrees p st" "removePodFromList p st = Ret st'"
  shows "mgr_ok st'"
proof (rule removePodFromList_cases[OF assms refl refl])
  let ?t = "GetAllocationType (sget (p_annotations p) FastGshareAllocationType)"
    and ?v = "sget (p_annotations p) FaSTGShareVGPUUUID"
  fix st2 nd2 g2 len
  assume ok: "mgr_ok st2" and nd: "nodes st2 (p_node p) = Some nd2" and g: "vGPUID2GPU nd2 ?v = Some g2"
    and len: "podlist_len ?t g2 = Some len" and ty: "allocationType g2 = ?t"
    and "shrinks st st2" and last: "st' = st2 \<and> len \<noteq> 0 \<or> len = 0 \<and> give_up_gpu ?t (p_node p) ?v st2 = Ret st'"
  have "gpu_ok g2" using node_okD(4)[OF mgr_okD[OF ok nd] g] .
  then have empty: "FastPodList g2 = []" if "len = 0"
    using that len ty by (cases ?t) (auto simp: podlist_len_def gpu_ok_def type_ok_def)
  have "mgr_ok st'" if "len = 0" "give_up_gpu ?t (p_node p) ?v st2 = Ret st'"
    by (rule give_up_gpu_mgr_ok[OF ok that(2)]) (use nd g empty[OF that(1)] in auto)
  then show ?thesis using last ok by auto
qed (use inv in simp)

end
