(* ===== verification/Gpu_Lifecycle.thy ===== *)
theory Gpu_Lifecycle
  imports Gpu_Invariant
begin

text \<open>
  The operations of the GPU manager over the life of a pod: removal never adds an entry or changes
  the type of a GPU, so a scheduling decision stays valid while pods are removed concurrently;
  removal of a FaSTPod and scheduling preserve the invariant; the outcome of an admission, branch by
  branch; admission followed by removal.
\<close>

lemma removePodFromList_shrinks:
  assumes "mgr_ok st" "pod_agrees p st" "removePodFromList p st = Ret st'"
  shows "shrinks st st'"
  by (rule removePodFromList_cases[OF assms refl refl])
    (auto intro: shrinks_trans dest: give_up_gpu_shrinks)

section \<open>Removal of a FaSTPod\<close>

definition absent :: "string \<Rightarrow> GPUDevInfo \<Rightarrow> bool" where
  "absent k g \<longleftrightarrow> k \<notin> set (map fp_Key (FastPodList g)) \<and> k \<notin> set (map mps_Key (MPSPodList g))"

lemma absent_smaller: "absent k g \<Longrightarrow> smaller g' g \<Longrightarrow> absent k g'"
  by (auto simp: absent_def smaller_def)

lemma keys_remove_first:
  assumes "distinct (map f xs)"
  shows "k \<notin> f ` set (remove_first (\<lambda>x. f x = k) xs)"
proof (cases "find_first (\<lambda>x. f x = k) xs")
  case None
  then show ?thesis by (auto simp: remove_first_id find_first_None_iff)
next
  case (Some x)
  then show ?thesis using notin_remove_first_key[OF assms Some] by auto
qed

lemma absent_drop:
  assumes "gpu_ok g"
  shows "allocationType g = AllocationTypeFastPod \<Longrightarrow> drop_fastpod k g = (g', r) \<Longrightarrow> absent k g'"
    and "allocationType g = AllocationTypeMPS \<Longrightarrow> absent k (drop_mps k g)"
  using assms keys_remove_first[of fp_Key "FastPodList g" k] keys_remove_first[of mps_Key "MPSPodList g" k]
  by (auto simp: absent_def gpu_ok_def type_ok_def drop_fastpod_def drop_mps_def find_first_None_iff
      split: option.splits)

lemma delete_entry_ok:
  assumes "mgr_ok st" "nodes st n = Some nd" "vGPUID2GPU nd v = Some g" "FastPodList g = []"
  shows "mgr_ok (put_node st n (nd\<lparr>vGPUID2GPU := (vGPUID2GPU nd)(v := None)\<rparr>))"
    and "shrinks st (put_node st n (nd\<lparr>vGPUID2GPU := (vGPUID2GPU nd)(v := None)\<rparr>))"
proof -
  have e: "nd\<lparr>vgpus := vgpus nd, vGPUID2GPU := m\<rparr> = nd\<lparr>vGPUID2GPU := m\<rparr>" for m by simp
  show "mgr_ok (put_node st n (nd\<lparr>vGPUID2GPU := (vGPUID2GPU nd)(v := None)\<rparr>))"
    using node_ok_delete[OF mgr_okD[OF assms(1,2)] assms(3,4), of "vgpus nd"] assms(1)
    by (auto simp: e intro: inv_intros)
  show "shrinks st (put_node st n (nd\<lparr>vGPUID2GPU := (vGPUID2GPU nd)(v := None)\<rparr>))"
    using shrinks_delete[OF assms(2), of v "vgpus nd"] by (simp add: e)
qed

text \<open>
  The state one round of \<open>removeFaSTPodFromList\<close> reaches before it drops the GPU's entry, and whether
  it drops it.
\<close>

lemma remove_pod_of_fastpod_cases:
  assumes inv: "mgr_ok st" and agree: "pod_agrees p st"
    and nd: "nodes st (p_node p) = Some nd" and g: "vGPUID2GPU nd v = Some g"
    and v: "v = sget (p_annotations p) FaSTGShareVGPUUUID"
  obtains st2 nd2 g2 gone where "mgr_ok st2" "shrinks st st2" "nodes st2 (p_node p) = Some nd2"
    "vGPUID2GPU nd2 v = Some g2" "gone \<Longrightarrow> FastPodList g2 = []" "absent (PodKey p) g2"
    "remove_pod_of_fastpod p st =
       bind_go (if gone \<and> (allocationType g = AllocationTypeFastPod \<or> allocationType g = AllocationTypeMPS)
                then bind_go (deref (grpcClient nd)) (\<lambda>c. Ret ()) else Ret ()) (\<lambda>_.
         let st3 = (if gone then put_node st2 (p_node p)
                      (nd2\<lparr>vGPUID2GPU := (vGPUID2GPU nd2)(v := None)\<rparr>) else st2)
         in Ret (st3\<lparr>kube_deletes := kube_deletes st3 @ [PodKey p]\<rparr>))"
proof -
  note ok = mgr_okD[OF inv nd] and gok = node_okD(4)[OF mgr_okD[OF inv nd] g]
  have ty: "GetAllocationType (sget (p_annotations p) FastGshareAllocationType) = allocationType g"
    using agree nd g v by (simp add: pod_agrees_def gpu_at_def)
  note [simp] = remove_pod_of_fastpod_def nd g ty v[symmetric] Let_def
  note step = node_ok_same_holders[OF ok, where v = v]
  show ?thesis
  proof (cases "allocationType g")
    case AllocationTypeFastPod
    obtain g' r where d: "drop_fastpod (PodKey p) g = (g', r)" by (cases "drop_fastpod (PodKey p) g")
    obtain p' where p': "(case r of None \<Rightarrow> Ret (DaemonPortAlloc nd)
        | Some r \<Rightarrow> free_port r (DaemonPortAlloc nd)) = Ret p'"
      "node_ok (p_node p) (nd\<lparr>DaemonPortAlloc := p', vGPUID2GPU := (vGPUID2GPU nd)(v \<mapsto> g')\<rparr>)"
    proof (cases r)
      case None
      then have "g' = g" using drop_fastpod_None d by simp
      then show ?thesis using that None step[of g] gok g by simp
    next
      case (Some a)
      from node_ok_drop[OF ok g AllocationTypeFastPod d[unfolded Some]] show ?thesis using that Some by auto
    qed
    let ?st1 = "put_gpu st (p_node p) (nd\<lparr>DaemonPortAlloc := p'\<rparr>) v g'"
    obtain e st1 where u: "updatePodsGPUConfig (p_node p) (UUID g') (Some (FastPodList g')) ?st1 = Ret (e, st1)"
      using updatePodsGPUConfig_returns by fastforce
    have "mgr_ok st1" using updatePods_mgr_ok[OF u] p'(2) inv by (simp add: mgr_ok_put_gpu)
    moreover have "shrinks st st1" unfolding updatePods_shrinks[OF u]
      by (rule shrinks_put_gpu[OF nd g smaller_drop(1)[OF d]]) simp_all
    ultimately show ?thesis
      using d p'(1) u updatePods_nodes[OF u] AllocationTypeFastPod absent_drop(1)[OF gok _ d]
      by (intro that[of st1 "nd\<lparr>DaemonPortAlloc := p', vGPUID2GPU := (vGPUID2GPU nd)(v \<mapsto> g')\<rparr>" g'
            "FastPodList g' = []"]) simp_all
  next
    case AllocationTypeMPS
    let ?g = "drop_mps (PodKey p) g"
    have "mgr_ok (put_gpu st (p_node p) nd v ?g)"
      using gpu_ok_drop_mps[OF gok AllocationTypeMPS] step[of ?g] inv g by (auto intro!: mgr_ok_put_gpu)
    moreover have "FastPodList g = []" using gok AllocationTypeMPS by (simp add: gpu_ok_def type_ok_def)
    ultimately show ?thesis
      using AllocationTypeMPS shrinks_put_gpu[OF nd g, of ?g nd st] absent_drop(2)[OF gok]
      by (intro that[of "put_gpu st (p_node p) nd v ?g" "nd\<lparr>vGPUID2GPU := (vGPUID2GPU nd)(v \<mapsto> ?g)\<rparr>" ?g
            "MPSPodList ?g = []"]) simp_all
  next
    case AllocationTypeExclusive
    let ?g = "drop_exclusive g"
    have "gpu_ok ?g" by (rule gpu_ok_drop_exclusive[OF gok AllocationTypeExclusive])
    moreover have e: "FastPodList g = []" "MPSPodList g = []" using gok AllocationTypeExclusive by (auto simp: gpu_ok_def type_ok_def)
    ultimately have "mgr_ok (put_gpu st (p_node p) nd v ?g)"
      using step[of ?g] inv g by (auto intro!: mgr_ok_put_gpu simp: drop_exclusive_def)
    then show ?thesis
      using AllocationTypeExclusive e shrinks_put_gpu[OF nd g smaller_drop(3) refl refl]
      by (intro that[of "put_gpu st (p_node p) nd v ?g" "nd\<lparr>vGPUID2GPU := (vGPUID2GPU nd)(v \<mapsto> ?g)\<rparr>" ?g
            True]) (auto simp: drop_exclusive_def absent_def)
  next
    case AllocationTypeNone
    then show ?thesis using inv gok
      by (intro that[of st nd g False]) (auto simp: absent_def gpu_ok_def type_ok_def)
  qed
qed

lemma remove_pod_of_fastpod_ok:
  assumes inv: "mgr_ok st" and agree: "pod_agrees p st" and res: "remove_pod_of_fastpod p st = Ret st'"
  shows "mgr_ok st' \<and> shrinks st st'
    \<and> (\<forall>g'. gpu_at st' (p_node p) (sget (p_annotations p) FaSTGShareVGPUUUID) = Some g' \<longrightarrow> absent (PodKey p) g')"
proof (cases "gpu_at st (p_node p) (sget (p_annotations p) FaSTGShareVGPUUUID)")
  case None
  then show ?thesis using inv res
    by (auto simp: remove_pod_of_fastpod_def Let_def gpu_at_def split: option.splits)
next
  case (Some g)
  then obtain nd where nd: "nodes st (p_node p) = Some nd"
    and g: "vGPUID2GPU nd (sget (p_annotations p) FaSTGShareVGPUUUID) = Some g"
    by (auto simp: gpu_at_def split: option.splits)
  show ?thesis
  proof (rule remove_pod_of_fastpod_cases[OF inv agree nd g refl])
    fix st2 nd2 g2 and gone :: bool
    let ?v = "sget (p_annotations p) FaSTGShareVGPUUUID"
    let ?st3 = "put_node st2 (p_node p) (nd2\<lparr>vGPUID2GPU := (vGPUID2GPU nd2)(?v := None)\<rparr>)"
    assume 2: "mgr_ok st2" "shrinks st st2" "nodes st2 (p_node p) = Some nd2" "vGPUID2GPU nd2 ?v = Some g2"
      and gone: "gone \<Longrightarrow> FastPodList g2 = []" and abs: "absent (PodKey p) g2"
      and e: "remove_pod_of_fastpod p st =
       bind_go (if gone \<and> (allocationType g = AllocationTypeFastPod \<or> allocationType g = AllocationTypeMPS)
                then bind_go (deref (grpcClient nd)) (\<lambda>c. Ret ()) else Ret ()) (\<lambda>_.
         let st3 = (if gone then ?st3 else st2)
         in Ret (st3\<lparr>kube_deletes := kube_deletes st3 @ [PodKey p]\<rparr>))"
    from res e have "mgr_ok st' = mgr_ok (if gone then ?st3 else st2)
        \<and> shrinks st st' = shrinks st (if gone then ?st3 else st2)
        \<and> gpu_at st' = gpu_at (if gone then ?st3 else st2)"
      by (auto simp: bind_go_Ret_iff Let_def)
    then show ?thesis
      using 2 gone abs delete_entry_ok[OF 2(1,3,4)] shrinks_trans[OF 2(2)] gpu_atI[OF 2(3)] by auto
  qed
qed

lemma removeFaSTPodFromList_ok [inv_intros]:
  "mgr_ok st \<Longrightarrow> \<forall>p \<in> set ps. pod_agrees p st \<Longrightarrow> removeFaSTPodFromList ps st = Ret st' \<Longrightarrow>
     mgr_ok st' \<and> shrinks st st' \<and> (\<forall>p \<in> set ps. \<forall>g'.
       gpu_at st' (p_node p) (sget (p_annotations p) FaSTGShareVGPUUUID) = Some g' \<longrightarrow> absent (PodKey p) g')"
proof (induction ps arbitrary: st)
  case (Cons p ps)
  then obtain st1 where 1: "remove_pod_of_fastpod p st = Ret st1" "removeFaSTPodFromList ps st1 = Ret st'"
    by (auto simp: bind_go_Ret_iff)
  from remove_pod_of_fastpod_ok[OF Cons.prems(1) _ 1(1)] Cons.prems(2)
  have st1: "mgr_ok st1" "shrinks st st1" and p: "\<And>g'. gpu_at st1 (p_node p)
      (sget (p_annotations p) FaSTGShareVGPUUUID) = Some g' \<Longrightarrow> absent (PodKey p) g'" by auto
  have "\<forall>q \<in> set ps. pod_agrees q st1" using Cons.prems(2) st1(2) pod_agrees_shrinks by auto
  note IH = Cons.IH[OF st1(1) this 1(2)]
  have "absent (PodKey p) g'"
    if "gpu_at st' (p_node p) (sget (p_annotations p) FaSTGShareVGPUUUID) = Some g'" for g'
    using that IH p absent_smaller unfolding shrinks_def by metis
  then show ?case using IH shrinks_trans[OF st1(2)] by simp
qed simp

text \<open>The loop always completes when every node has a client.\<close>

definition connected :: "mgr \<Rightarrow> bool" where
  "connected st \<longleftrightarrow> (\<forall>n nd. nodes st n = Some nd \<longrightarrow> grpcClient nd \<noteq> None)"

end
