(* ===== verification/Node_Connection.thy ===== *)
theory Node_Connection
  imports Gpu_Lifecycle
begin

text \<open>
  The connection of a node's configurator (\<open>node_init.go\<close>) and the liveness table
  (\<open>config_manager.go\<close>): registration of a node, the heartbeat loop of its connection, and the
  periodic check of all nodes.

  What comes over the network is an input: the hello message (\<open>None\<close> when reading or decoding it
  failed), the pod object of the daemon, the outcome of the calls. A connection is named by a number.
\<close>

section \<open>Registration of a node\<close>

record hello =
  hello_Hostname :: string
  GrpcPort :: int

record connect_env =
  ce_conn :: nat
  ce_remoteIP :: string
  ce_hello :: "hello option"
  ce_daemonNode :: string
  ce_daemonHostIP :: string
  ce_ackWritten :: bool
  ce_connects :: "string \<Rightarrow> int \<Rightarrow> bool"
  ce_healthy :: bool
  ce_gpus :: "SetiVirtualGPU list option"
  ce_client :: rpc

definition node_identity :: "connect_env \<Rightarrow> hello \<Rightarrow> string \<times> string" where
  "node_identity ce h =
     (if ce_daemonNode ce \<noteq> [] then (ce_daemonNode ce, ce_daemonHostIP ce)
      else (hello_Hostname h, ce_remoteIP ce))"

definition register_node :: "string \<Rightarrow> string \<Rightarrow> SetiVirtualGPU list \<Rightarrow> rpc \<Rightarrow> mgr \<Rightarrow> mgr go" where
  "register_node hostNm nodeIP gpus client st =
     (case nodes st hostNm of
        None \<Rightarrow> bind_go (NewBitmap PortRange) (\<lambda>ports.
          Ret (put_node st hostNm
            \<lparr>DaemonIP = nodeIP, vGPUID2GPU = Map.empty, DaemonPortAlloc = ports, vgpus = gpus,
             grpcClient = Some client, hostName = hostNm\<rparr>))
      | Some node \<Rightarrow> Ret (put_node st hostNm
          (node\<lparr>vgpus := gpus, grpcClient := Some client, DaemonIP := nodeIP\<rparr>)))"

definition init_liveness :: "string \<Rightarrow> nat \<Rightarrow> mgr \<Rightarrow> mgr" where
  "init_liveness nodeName conn st =
     st\<lparr>nodesLiveness := (nodesLiveness st)(nodeName \<mapsto>
       \<lparr>ConfigConn = conn, Status = NodeReady, LastHeartbeat = 0\<rparr>)\<rparr>"

text \<open>
  \<open>handleNodeConnection\<close> up to its heartbeat loop: the node's name, or \<open>None\<close> when it returned an
  error before. A failed \<open>Connect\<close> leaves the service stub nil, which \<open>Health\<close> dereferences; a failed
  \<open>GetAvailableGPUs\<close> leaves the response nil.
\<close>

definition handleNodeConnection :: "connect_env \<Rightarrow> mgr \<Rightarrow> (string option \<times> mgr) go" where
  "handleNodeConnection ce st =
     (case ce_hello ce of
        None \<Rightarrow> Ret (None, st)
      | Some h \<Rightarrow>
          (case node_identity ce h of (hostNm, nodeIP) \<Rightarrow>
             if \<not> ce_ackWritten ce then Ret (None, st)
             else if \<not> ce_connects ce nodeIP (GrpcPort h) then Panic
             else if \<not> ce_healthy ce then Ret (None, st)
             else bind_go (deref (ce_gpus ce)) (\<lambda>gpus.
                  bind_go (register_node hostNm nodeIP gpus (ce_client ce) st) (\<lambda>st1.
                    Ret (Some hostNm, init_liveness hostNm (ce_conn ce) st1)))))"

section \<open>Heartbeats\<close>

text \<open>
  One round of the loop on a message: \<open>None\<close> when reading or decoding failed, otherwise the \<open>Alive\<close>
  field. The result says whether the loop goes on.
\<close>

definition heartbeat :: "string \<Rightarrow> bool option \<Rightarrow> time \<Rightarrow> mgr \<Rightarrow> (bool \<times> mgr) go" where
  "heartbeat nodeName msg now st =
     bind_go (deref (nodesLiveness st nodeName)) (\<lambda>live.
       let hasError = (msg = None \<or> msg = Some False)
       in if hasError
          then Ret (False, st\<lparr>nodesLiveness := (nodesLiveness st)(nodeName \<mapsto> live\<lparr>Status := NodeNotReady\<rparr>)\<rparr>)
          else Ret (True, st\<lparr>nodesLiveness := (nodesLiveness st)(nodeName \<mapsto>
                 live\<lparr>Status := NodeReady, LastHeartbeat := now\<rparr>)\<rparr>))"

text \<open>The loop over the messages that arrive; it ends at the first error or waits for the next message.\<close>

fun heartbeat_loop :: "string \<Rightarrow> (bool option \<times> time) list \<Rightarrow> mgr \<Rightarrow> (bool \<times> mgr) go" where
  "heartbeat_loop nodeName [] st = Ret (True, st)"
| "heartbeat_loop nodeName ((msg, now) # ms) st =
     bind_go (heartbeat nodeName msg now st) (\<lambda>(go_on, st').
       if go_on then heartbeat_loop nodeName ms st' else Ret (False, st'))"

section \<open>The periodic check\<close>

definition checkTickerItv :: int where
  "checkTickerItv = 240"

text \<open>\<open>curTime.Sub(t)\<close> saturates at the largest 64-bit duration.\<close>

definition time_Sub :: "time \<Rightarrow> time \<Rightarrow> int" where
  "time_Sub a b = max (- (2 ^ 63)) (min (2 ^ 63 - 1) (a - b))"

definition checkNodeLiveness :: "time \<Rightarrow> mgr \<Rightarrow> mgr" where
  "checkNodeLiveness curTime st =
     st\<lparr>nodesLiveness := (\<lambda>n. case nodesLiveness st n of
          None \<Rightarrow> None
        | Some live \<Rightarrow>
            Some (if time_Sub curTime (LastHeartbeat live) > checkTickerItv * 10 ^ 9
                  then live\<lparr>Status := NodeNotReady\<rparr> else live))\<rparr>"

section \<open>Registration keeps the invariant\<close>

lemma nodesLiveness_put [simp]: "nodesLiveness (put_node st n nd) = nodesLiveness st"
  by (simp add: put_node_def)

lemma register_node_ok:
  assumes "mgr_ok st"
  obtains st' where "register_node n ip gpus c st = Ret st'" "mgr_ok st'"
    "\<And>m v. gpu_at st' m v = gpu_at st m v" "nodesLiveness st' = nodesLiveness st"
    "\<exists>nd. nodes st' n = Some nd \<and> grpcClient nd = Some c \<and> vgpus nd = gpus \<and> DaemonIP nd = ip"
proof (cases "nodes st n")
  case None
  obtain b where b: "NewBitmap PortRange = Ret b" "wf_bitmap b" "used b = {}" "bm_size b = PortRange"
    using NewBitmap_spec[of PortRange] by (auto simp: PortRange_def)
  let ?nd = "\<lparr>DaemonIP = ip, vGPUID2GPU = Map.empty, DaemonPortAlloc = b, vgpus = gpus,
             grpcClient = Some c, hostName = n\<rparr>"
  have "node_ok n ?nd" using b by (simp add: node_ok_def holders_def bij_betw_def)
  then have "mgr_ok (put_node st n ?nd)" by (rule mgr_ok_put_node[OF assms])
  then show ?thesis
    by (rule that[of "put_node st n ?nd", rotated]) (auto simp: register_node_def None b(1) gpu_atI gpu_at_def)
next
  case (Some nd)
  have "node_ok n (nd\<lparr>vgpus := gpus, grpcClient := Some c, DaemonIP := ip\<rparr>)"
    using mgr_okD[OF assms Some] by (simp add: node_ok_def)
  then have "mgr_ok (put_node st n (nd\<lparr>vgpus := gpus, grpcClient := Some c, DaemonIP := ip\<rparr>))"
    by (rule mgr_ok_put_node[OF assms])
  then show ?thesis
    by (rule that[of "put_node st n (nd\<lparr>vgpus := gpus, grpcClient := Some c, DaemonIP := ip\<rparr>)", rotated])
      (auto simp: register_node_def Some gpu_at_def)
qed

lemma handleNodeConnection_ok [inv_intros]:
  assumes "mgr_ok st" "handleNodeConnection ce st = Ret (r, st')"
  shows "mgr_ok st' \<and> (\<forall>m v. gpu_at st' m v = gpu_at st m v)"
proof (cases "st' = st")
  case False
  with assms(2) obtain hostNm ip gpus st1 where
    1: "register_node hostNm ip gpus (ce_client ce) st = Ret st1" and 2: "st' = init_liveness hostNm (ce_conn ce) st1"
    by (auto simp: handleNodeConnection_def bind_go_Ret_iff split: option.splits prod.splits if_splits)
  from register_node_ok[OF assms(1)] 1 have "mgr_ok st1 \<and> (\<forall>m v. gpu_at st1 m v = gpu_at st m v)"
    by (metis go.inject)
  then show ?thesis by (simp add: 2 init_liveness_def)
qed (use assms in simp)

lemma heartbeat_loop_frame:
  "heartbeat_loop n ms st = Ret (r, st') \<Longrightarrow> nodes st' = nodes st"
  by (induction n ms st rule: heartbeat_loop.induct)
    (auto simp: bind_go_Ret_iff heartbeat_def Let_def split: if_splits)

section \<open>Liveness\<close>

text \<open>
  The loop over a sequence of messages in closed form: it goes on exactly when every message says
  that the node is alive, and the status it leaves is that of the last message it read.
\<close>

lemma heartbeat_loop_result:
  assumes "nodesLiveness st n = Some live"
  shows "\<exists>live' st'. heartbeat_loop n ms st = Ret (\<forall>m \<in> set ms. fst m = Some True, st')
     \<and> nodesLiveness st' n = Some live'
     \<and> (Status live' = NodeReady \<longleftrightarrow>
          (if ms = [] then Status live = NodeReady else (\<forall>m \<in> set ms. fst m = Some True)))
     \<and> LastHeartbeat live' = last (LastHeartbeat live # map snd (takeWhile (\<lambda>m. fst m = Some True) ms))"
  using assms
proof (induction ms arbitrary: st live)
  case Nil
  then show ?case by simp
next
  case (Cons m ms)
  obtain msg now where m: "m = (msg, now)" by (cases m)
  show ?case
  proof (cases "msg = Some True")
    case True
    let ?l = "live\<lparr>Status := NodeReady, LastHeartbeat := now\<rparr>"
    let ?st = "st\<lparr>nodesLiveness := (nodesLiveness st)(n \<mapsto> ?l)\<rparr>"
    have "heartbeat n msg now st = Ret (True, ?st)" using True Cons.prems by (simp add: heartbeat_def)
    with Cons.IH[of ?st ?l] True m show ?thesis by (auto split: if_splits)
  next
    case False
    then have "msg = None \<or> msg = Some False" by (cases msg) auto
    then have "heartbeat n msg now st =
        Ret (False, st\<lparr>nodesLiveness := (nodesLiveness st)(n \<mapsto> live\<lparr>Status := NodeNotReady\<rparr>)\<rparr>)"
      using Cons.prems by (auto simp: heartbeat_def)
    with False m show ?thesis by simp
  qed
qed

end
