(* ===== verification/Manager_System.thy ===== *)
theory Manager_System
  imports Node_Connection
begin

text \<open>
  The controller manager as a transition system. One goroutine at a time creates pods (it holds
  \<open>fstp2PodsMtx\<close> from \<open>ScheduleRequest\<close> to \<open>RequestGPUAndUpdateConfig\<close>), while removals, node
  connections, heartbeats and liveness checks interleave freely with it at the granularity of
  \<open>nodesInfoMtx\<close> and \<open>nodesLivenessMtx\<close>. The environment may change what a node's configurator answers
  at any time, also to failing every call.
\<close>

section \<open>Scheduling\<close>

text \<open>What is relied on of a configurator: the memory it reports for a device is below \<open>2^62\<close> bytes.\<close>

definition client_ok :: "rpc \<Rightarrow> bool" where
  "client_ok c \<longleftrightarrow> (\<forall>u r vg. rpc_GetGPU c u = Some r \<longrightarrow> gg_gpu r = Some vg \<longrightarrow>
     0 \<le> sv_memory vg \<and> sv_memory vg < 2 ^ 62)"

definition clients_ok :: "mgr \<Rightarrow> bool" where
  "clients_ok st \<longleftrightarrow> (\<forall>n nd c. nodes st n = Some nd \<longrightarrow> grpcClient nd = Some c \<longrightarrow> client_ok c)"

lemma new_gpu_info_ok:
  assumes "new_gpu_info vg = Ret g" "0 \<le> sv_memory vg" "sv_memory vg < 2 ^ 62"
  shows "gpu_ok g" "FastPodList g = []" "allocationType g = AllocationTypeNone"
proof -
  have "to_signed 64 (sv_memory vg) = sv_memory vg" using assms(2,3) by (intro to_signed_id) simp_all
  then show "gpu_ok g" "FastPodList g = []" "allocationType g = AllocationTypeNone"
    using assms by (auto simp: new_gpu_info_def bind_go_Ret_iff gpu_ok_def type_ok_def usage_ok_def
        balanced_def)
qed

lemma select_gpu_ok:
  assumes ok: "node_ok n nd" and c: "client_ok c" "rpc_GetGPU c u = Some gpu"
    and sel: "select_gpu nd u gpu = Ret g"
  shows "gpu_ok g" "set (FastPodList g) = (case vGPUID2GPU nd u of None \<Rightarrow> {} | Some g \<Rightarrow> set (FastPodList g))"
proof -
  have "gpu_ok g \<and> set (FastPodList g) = (case vGPUID2GPU nd u of None \<Rightarrow> {} | Some g \<Rightarrow> set (FastPodList g))"
  proof (cases "vGPUID2GPU nd u")
    case None
    with sel obtain vg where "gg_gpu gpu = Some vg" "new_gpu_info vg = Ret g"
      by (auto simp: select_gpu_def bind_go_Ret_iff deref_Ret_iff)
    with c None new_gpu_info_ok[of vg g] show ?thesis by (auto simp: client_ok_def)
  next
    case (Some g')
    then show ?thesis using sel node_okD(4)[OF ok Some] by (simp add: select_gpu_def)
  qed
  then show "gpu_ok g" "set (FastPodList g) = (case vGPUID2GPU nd u of None \<Rightarrow> {} | Some g \<Rightarrow> set (FastPodList g))"
    by simp_all
qed

lemma canFit_compatible:
  "canFit req g = Ret True \<Longrightarrow> allocationType g = AllocationTypeNone \<or> allocationType g = req_AllocationType req"
  by (auto simp: canFit_def canFitExclusive_def canFitMPSPod_def canFitFastPod_def bind_go_Ret_iff
      split: AllocationType.splits option.splits if_splits)

text \<open>A scheduling that got as far as the table, with every value it read.\<close>

lemma ScheduleRequest_inv:
  assumes "ScheduleRequest req st = Ret (out, st')"
  obtains (failed) e where "out = Inl e" "st' = st"
  | (registered) n u nd c gpu g fits where "RequestedNode req = Some n" "RequestGPUUUID req = Some u"
      "nodes st n = Some nd" "grpcClient nd = Some c" "rpc_GetGPU c u = Some gpu"
      "select_gpu nd u gpu = Ret g" "canFit req g = Ret fits" "st' = put_gpu st n nd u g"
      "out = (if fits then Inr \<lparr>sel_fastPodKey = req_podKey req, NodeName = hostName nd, VGPUUUID = u\<rparr>
              else Inl (''gpu '' @ u @ '' cannot fit''))"
proof (cases "RequestedNode req")
  case None
  then show ?thesis using assms by (intro failed) (auto simp: ScheduleRequest_def)
next
  case n: (Some n)
  show ?thesis
  proof (cases "RequestGPUUUID req")
    case None
    then show ?thesis using assms n by (intro failed) (auto simp: ScheduleRequest_def)
  next
    case u: (Some u)
    show ?thesis
    proof (cases "nodes st n")
      case None
      then show ?thesis using assms n u by (intro failed) (auto simp: ScheduleRequest_def)
    next
      case nd: (Some nd)
      obtain c where c: "grpcClient nd = Some c"
        using assms n u nd by (cases "grpcClient nd") (simp_all add: ScheduleRequest_def)
      show ?thesis
      proof (cases "rpc_GetGPU c u")
        case None
        then show ?thesis using assms n u nd c by (intro failed) (auto simp: ScheduleRequest_def)
      next
        case gpu: (Some gpu)
        obtain g where g: "select_gpu nd u gpu = Ret g"
          using assms n u nd c gpu by (cases "select_gpu nd u gpu") (simp_all add: ScheduleRequest_def)
        obtain fits where f: "canFit req g = Ret fits"
          using assms n u nd c gpu g by (cases "canFit req g") (simp_all add: ScheduleRequest_def Let_def)
        show ?thesis using assms n u nd c gpu g f
          by (intro registered[of n u nd c gpu g fits]) (simp_all add: ScheduleRequest_def Let_def split: if_splits)
      qed
    qed
  qed
qed

text \<open>The outcomes of \<open>ScheduleRequest\<close>: nothing changed, or the GPU is in the table.\<close>

lemma ScheduleRequest_cases:
  assumes inv: "mgr_ok st" "clients_ok st" and res: "ScheduleRequest req st = Ret (out, st')"
  obtains (failed) e where "out = Inl e" "st' = st"
  | (registered) n u nd g where "RequestedNode req = Some n" "RequestGPUUUID req = Some u"
      "nodes st n = Some nd" "st' = put_gpu st n nd u g" "mgr_ok st'"
      "vGPUID2GPU nd u = Some g \<or> vGPUID2GPU nd u = None \<and> allocationType g = AllocationTypeNone"
      "\<And>sel. out = Inr sel \<longleftrightarrow> canFit req g = Ret True
         \<and> sel = \<lparr>sel_fastPodKey = req_podKey req, NodeName = n, VGPUUUID = u\<rparr>"
proof -
  from res show ?thesis
  proof (cases rule: ScheduleRequest_inv)
    case (failed e)
    then show ?thesis by (rule that(1))
  next
    case (registered n u nd c gpu g fits)
    note 2 = this
    note ok = mgr_okD[OF inv(1) 2(3)]
    have "client_ok c" using inv(2) 2(3,4) by (auto simp: clients_ok_def)
    note g = select_gpu_ok[OF ok this 2(5,6)]
    have "mgr_ok st'" using node_ok_same_holders[OF ok g] inv(1) 2(8) by (simp add: mgr_ok_put_gpu)
    moreover have "vGPUID2GPU nd u = Some g \<or> vGPUID2GPU nd u = None \<and> allocationType g = AllocationTypeNone"
      using 2(6) by (auto simp: select_gpu_def bind_go_Ret_iff new_gpu_info_def split: option.splits)
    ultimately show ?thesis
      using that(2)[OF 2(1,2,3,8)] 2(7,9) node_okD(1)[OF ok] by (auto split: if_splits)
  qed
qed

lemma ScheduleRequest_ok:
  assumes inv: "mgr_ok st" "clients_ok st" and res: "ScheduleRequest req st = Ret (out, st')"
  shows "mgr_ok st'" "clients_ok st'" "out = Inr sel \<Longrightarrow> compatible sel req st'"
proof -
  have "mgr_ok st' \<and> clients_ok st' \<and> (out = Inr sel \<longrightarrow> compatible sel req st')"
  proof (rule ScheduleRequest_cases[OF assms])
    fix n u nd g
    assume nd: "nodes st n = Some nd" and s: "st' = put_gpu st n nd u g" "mgr_ok st'"
      and o: "\<And>sel. out = Inr sel \<longleftrightarrow> canFit req g = Ret True
         \<and> sel = \<lparr>sel_fastPodKey = req_podKey req, NodeName = n, VGPUUUID = u\<rparr>"
    have "clients_ok st'" using inv(2) nd by (auto simp: clients_ok_def s(1))
    moreover have "out = Inr sel \<longrightarrow> compatible sel req st'"
      using o[of sel] canFit_compatible[of req g] by (auto simp: compatible_def s(1))
    ultimately show ?thesis using s(2) by simp
  qed (use inv in auto)
  then show "mgr_ok st'" "clients_ok st'" "out = Inr sel \<Longrightarrow> compatible sel req st'" by auto
qed

section \<open>The clients of the nodes\<close>

definition client_at :: "mgr \<Rightarrow> string \<Rightarrow> rpc option" where
  "client_at st n = (case nodes st n of None \<Rightarrow> None | Some nd \<Rightarrow> grpcClient nd)"

lemma clients_ok_iff: "clients_ok st \<longleftrightarrow> (\<forall>n c. client_at st n = Some c \<longrightarrow> client_ok c)"
  by (auto simp: clients_ok_def client_at_def split: option.splits)

lemma client_at_put:
  "nodes st n = Some nd \<Longrightarrow> grpcClient nd' = grpcClient nd \<Longrightarrow> client_at (put_node st n nd') = client_at st"
  "nodes st n = Some nd \<Longrightarrow> grpcClient nd' = grpcClient nd \<Longrightarrow> client_at (put_gpu st n nd' v g) = client_at st"
  by (auto simp: client_at_def fun_eq_iff)

lemma client_at_frame [simp]:
  "client_at (st\<lparr>sent := s\<rparr>) = client_at st" "client_at (st\<lparr>kube_deletes := d\<rparr>) = client_at st"
  by (simp_all add: client_at_def fun_eq_iff)

lemma updatePods_clients:
  "updatePodsGPUConfig n u (Some l) st = Ret (e, st') \<Longrightarrow> client_at st' = client_at st"
  using updatePodsGPUConfig_frame by force

text \<open>Whatever the outcome, an admission touches one GPU, the ports of its node and the messages sent.\<close>

lemma RequestGPU_inv:
  assumes "RequestGPUAndUpdateConfig sel req k st = Ret (out, st')"
  obtains (unknown) "st' = st"
  | (known) nd g0 ports g' s where "nodes st (NodeName sel) = Some nd" "vGPUID2GPU nd (VGPUUUID sel) = Some g0"
      "st' = (put_gpu st (NodeName sel) (nd\<lparr>DaemonPortAlloc := ports\<rparr>) (VGPUUUID sel) g')\<lparr>sent := s\<rparr>"
proof (cases "nodes st (NodeName sel)")
  case None
  then show ?thesis using assms unknown by (simp add: RequestGPUAndUpdateConfig_def)
next
  case nd: (Some nd)
  show ?thesis
  proof (cases "vGPUID2GPU nd (VGPUUUID sel)")
    case None
    then show ?thesis using assms unknown nd by (simp add: RequestGPUAndUpdateConfig_def)
  next
    case g0: (Some g0)
    let ?g = "set_type (req_AllocationType req) g0"
    obtain c where c: "enable_mps nd ?g = Ret c"
      using assms nd g0 by (auto simp: RequestGPUAndUpdateConfig_def Let_def bind_go_Ret_iff)
    note res = assms[unfolded RequestGPUAndUpdateConfig_def Let_def nd option.case g0 c bind_go_simps]
    have plain: ?thesis if "st' = put_gpu st (NodeName sel) nd (VGPUUUID sel) g'" for g'
      using that known[OF nd g0, of "sent st" "DaemonPortAlloc nd" g']
      by (simp add: put_gpu_def put_node_def)
    consider "req_AllocationType req = AllocationTypeMPS \<or> req_AllocationType req = AllocationTypeExclusive"
      | "req_AllocationType req \<noteq> AllocationTypeMPS" "req_AllocationType req \<noteq> AllocationTypeExclusive" by blast
    then show ?thesis
    proof cases
      case 1
      then show ?thesis using res plain by (auto simp: bind_go_Ret_iff split: if_splits)
    next
      case 2
      then obtain adm where adm: "admit_fastpod req k (DaemonPortAlloc nd) ?g = Ret adm"
        using res by (auto simp: bind_go_Ret_iff)
      show ?thesis
      proof (cases adm)
        case (Inl code)
        then show ?thesis using res 2 adm plain[of ?g] by auto
      next
        case (Inr t)
        obtain port g' p' where t: "t = (port, g', p')" by (cases t) auto
        let ?st1 = "put_gpu st (NodeName sel) (nd\<lparr>DaemonPortAlloc := p'\<rparr>) (VGPUUUID sel) g'"
        have "(\<exists>e. updatePodsGPUConfig (NodeName sel) (UUID g') (Some (FastPodList g')) ?st1 = Ret (e, st'))
            \<or> st' = ?st1"
          using res 2 adm Inr t by (auto simp: bind_go_Ret_iff split: if_splits)
        then obtain s where "st' = ?st1\<lparr>sent := s\<rparr>"
          using updatePodsGPUConfig_frame by (metis mgr.surjective mgr.update_convs(3))
        then show ?thesis using known[OF nd g0] by simp
      qed
    qed
  qed
qed

lemma RequestGPU_clients:
  "RequestGPUAndUpdateConfig sel req k st = Ret (out, st') \<Longrightarrow> client_at st' = client_at st"
  by (erule RequestGPU_inv) (simp_all add: client_at_put)

lemma give_up_gpu_clients: "give_up_gpu t n v st = Ret st' \<Longrightarrow> client_at st' = client_at st"
  by (auto simp: give_up_gpu_def bind_go_Ret_iff client_at_put split: option.splits)

lemma removePodFromList_clients:
  assumes "removePodFromList p st = Ret st'"
  shows "client_at st' = client_at st"
proof (cases "nodes st (p_node p)")
  case None
  then show ?thesis using assms by (simp add: removePodFromList_def Let_def)
next
  case (Some nd)
  have put: "client_at (put_gpu st1 (p_node p) nd' v g) = client_at st"
    if "client_at st1 = client_at st" "grpcClient nd' = grpcClient nd" for st1 nd' v g
    using that Some by (auto simp: client_at_def fun_eq_iff split: if_splits)
  show ?thesis
    using assms by (auto simp: removePodFromList_def Let_def bind_go_Ret_iff Some put
        dest!: updatePods_clients give_up_gpu_clients split: option.splits if_splits prod.splits)
qed

lemma remove_pod_of_fastpod_clients:
  assumes "remove_pod_of_fastpod p st = Ret st'"
  shows "client_at st' = client_at st"
proof (cases "nodes st (p_node p)")
  case None
  then show ?thesis using assms by (simp add: remove_pod_of_fastpod_def Let_def)
next
  case (Some nd)
  have put: "client_at (put_gpu st1 (p_node p) nd' v g) = client_at st"
    if "client_at st1 = client_at st" "grpcClient nd' = grpcClient nd" for st1 nd' v g
    using that Some by (auto simp: client_at_def fun_eq_iff split: if_splits)
  have del: "client_at (put_node st1 (p_node p) (y\<lparr>vGPUID2GPU := m\<rparr>)) = client_at st"
    if "client_at st1 = client_at st" "nodes st1 (p_node p) = Some y" for st1 y m
    using that client_at_put(1)[OF that(2)] by simp
  have del': "client_at (put_node (put_gpu st (p_node p) nd v g) (p_node p)
      (nd\<lparr>vGPUID2GPU := m\<rparr>)) = client_at st" for v g m
    using Some by (auto simp: client_at_def fun_eq_iff)
  show ?thesis
    using assms by (auto simp: remove_pod_of_fastpod_def Let_def bind_go_Ret_iff Some put del del'
        dest!: updatePods_clients split: option.split_asm if_split_asm prod.split_asm)
qed

lemma removeFaSTPodFromList_clients:
  "removeFaSTPodFromList ps st = Ret st' \<Longrightarrow> client_at st' = client_at st"
  by (induction ps arbitrary: st) (auto simp: bind_go_Ret_iff dest!: remove_pod_of_fastpod_clients)

section \<open>Transitions\<close>

text \<open>
  The state of the system: the table, and the decision of the goroutine that is between
  \<open>ScheduleRequest\<close> and \<open>RequestGPUAndUpdateConfig\<close>.
\<close>

type_synonym sys = "mgr \<times> (SelectionResult \<times> ResourceRequest) option"

definition set_client :: "string \<Rightarrow> rpc \<Rightarrow> mgr \<Rightarrow> mgr" where
  "set_client n c st = (case nodes st n of None \<Rightarrow> st
     | Some nd \<Rightarrow> put_node st n (nd\<lparr>grpcClient := Some c\<rparr>))"

inductive sys_step :: "sys \<Rightarrow> sys \<Rightarrow> bool" where
  schedule: "request_ok req \<Longrightarrow> ScheduleRequest req st = Ret (Inr sel, st') \<Longrightarrow>
     sys_step (st, None) (st', Some (sel, req))"
| schedule_failed: "ScheduleRequest req st = Ret (Inl e, st') \<Longrightarrow> sys_step (st, None) (st', None)"
| request: "RequestGPUAndUpdateConfig sel req k st = Ret (out, st') \<Longrightarrow>
     sys_step (st, Some (sel, req)) (st', None)"
| remove_pod: "pod_agrees p st \<Longrightarrow> removePodFromList p st = Ret st' \<Longrightarrow> sys_step (st, c) (st', c)"
| remove_fastpod: "\<forall>p \<in> set ps. pod_agrees p st \<Longrightarrow> removeFaSTPodFromList ps st = Ret st' \<Longrightarrow>
     sys_step (st, c) (st', c)"
| connect: "client_ok (ce_client ce) \<Longrightarrow> handleNodeConnection ce st = Ret (r, st') \<Longrightarrow> sys_step (st, c) (st', c)"
| heartbeats: "heartbeat_loop n ms st = Ret (r, st') \<Longrightarrow> sys_step (st, c) (st', c)"
| tick: "sys_step (st, c) (checkNodeLiveness now st, c)"
| answers: "client_ok cl \<Longrightarrow> sys_step (st, c) (set_client n cl st, c)"

inductive_cases sys_stepE: "sys_step s s'"

definition sys_init :: sys where
  "sys_init = (\<lparr>nodes = Map.empty, nodesLiveness = Map.empty, sent = [], kube_deletes = []\<rparr>, None)"

definition sys_inv :: "sys \<Rightarrow> bool" where
  "sys_inv s = (case s of (st, c) \<Rightarrow> mgr_ok st \<and> clients_ok st
     \<and> (case c of None \<Rightarrow> True | Some (sel, req) \<Rightarrow> request_ok req \<and> compatible sel req st))"

lemma compatible_gpu_at:
  "(\<And>m v. gpu_at st' m v = gpu_at st m v) \<Longrightarrow> compatible sel req st' = compatible sel req st"
  by (simp add: compatible_def)

lemma nodes_eq_frame:
  assumes "nodes st' = nodes st"
  shows "mgr_ok st' = mgr_ok st" "clients_ok st' = clients_ok st" "gpu_at st' m v = gpu_at st m v"
  using assms by (simp_all add: mgr_ok_def clients_ok_def gpu_at_def)

lemma set_client_ok:
  assumes "mgr_ok st" "clients_ok st" "client_ok cl"
  shows "mgr_ok (set_client n cl st)" "clients_ok (set_client n cl st)"
    "gpu_at (set_client n cl st) m v = gpu_at st m v"
proof -
  have "mgr_ok (set_client n cl st) \<and> clients_ok (set_client n cl st)
      \<and> gpu_at (set_client n cl st) m v = gpu_at st m v"
  proof (cases "nodes st n")
    case (Some nd)
    have "node_ok n (nd\<lparr>grpcClient := Some cl\<rparr>)"
      using mgr_okD[OF assms(1) Some] by (simp add: node_ok_def)
    then show ?thesis using Some assms
      by (auto simp: set_client_def mgr_ok_put_node clients_ok_def gpu_at_def)
  qed (use assms in \<open>simp add: set_client_def\<close>)
  then show "mgr_ok (set_client n cl st)" "clients_ok (set_client n cl st)"
    "gpu_at (set_client n cl st) m v = gpu_at st m v" by simp_all
qed

lemma connect_clients_ok:
  assumes "clients_ok st" "client_ok (ce_client ce)" "handleNodeConnection ce st = Ret (r, st')"
  shows "clients_ok st'"
  using assms by (auto simp: handleNodeConnection_def register_node_def init_liveness_def clients_ok_def
      bind_go_Ret_iff split: option.split_asm if_split_asm prod.split_asm)

lemma sys_inv_step: "sys_inv s \<Longrightarrow> sys_step s s' \<Longrightarrow> sys_inv s'"
proof (erule sys_stepE)
  fix req st sel st'
  assume "sys_inv s" "s = (st, None)" "s' = (st', Some (sel, req))" "request_ok req"
    "ScheduleRequest req st = Ret (Inr sel, st')"
  then show ?thesis using ScheduleRequest_ok(1,2)[of st req "Inr sel" st']
      ScheduleRequest_ok(3)[of st req "Inr sel" st' sel] by (simp add: sys_inv_def)
next
  fix req st e st'
  assume "sys_inv s" "s = (st, None)" "s' = (st', None)" "ScheduleRequest req st = Ret (Inl e, st')"
  then show ?thesis using ScheduleRequest_ok(1,2)[of st req "Inl e" st'] by (simp add: sys_inv_def)
next
  fix sel req k st out st'
  assume "sys_inv s" "s = (st, Some (sel, req))" "s' = (st', None)"
    "RequestGPUAndUpdateConfig sel req k st = Ret (out, st')"
  then show ?thesis using RequestGPU_mgr_ok[of st req sel k out st'] RequestGPU_clients[of sel req k st out st']
    by (simp add: sys_inv_def clients_ok_iff)
next
  fix p st st' c
  assume "sys_inv s" "s = (st, c)" "s' = (st', c)" "pod_agrees p st" "removePodFromList p st = Ret st'"
  then show ?thesis
    using removePodFromList_mgr_ok[of st p st'] removePodFromList_shrinks[of st p st']
      removePodFromList_clients[of p st st'] compatible_shrinks[of _ _ st st']
    by (auto simp: sys_inv_def clients_ok_iff split: option.splits)
next
  fix ps st st' c
  assume "sys_inv s" "s = (st, c)" "s' = (st', c)" "\<forall>p \<in> set ps. pod_agrees p st"
    "removeFaSTPodFromList ps st = Ret st'"
  then show ?thesis
    using removeFaSTPodFromList_ok[of st ps st'] removeFaSTPodFromList_clients[of ps st st']
      compatible_shrinks[of _ _ st st']
    by (auto simp: sys_inv_def clients_ok_iff split: option.splits)
next
  fix ce st r st' c
  assume "sys_inv s" "s = (st, c)" "s' = (st', c)" "client_ok (ce_client ce)"
    "handleNodeConnection ce st = Ret (r, st')"
  then show ?thesis
    using handleNodeConnection_ok[of st ce r st'] connect_clients_ok[of st ce r st'] compatible_gpu_at[of st' st]
    by (auto simp: sys_inv_def split: option.splits)
next
  fix n ms st r st' c
  assume "sys_inv s" "s = (st, c)" "s' = (st', c)" "heartbeat_loop n ms st = Ret (r, st')"
  then show ?thesis using nodes_eq_frame[OF heartbeat_loop_frame[of n ms st r st']] compatible_gpu_at[of st' st]
    by (auto simp: sys_inv_def split: option.splits)
next
  fix st c now
  assume "sys_inv s" "s = (st, c)" "s' = (checkNodeLiveness now st, c)"
  then show ?thesis
    using nodes_eq_frame[of "checkNodeLiveness now st" st] compatible_gpu_at[of "checkNodeLiveness now st" st]
    by (auto simp: sys_inv_def checkNodeLiveness_def split: option.splits)
next
  fix cl st c n
  assume "sys_inv s" "s = (st, c)" "s' = (set_client n cl st, c)" "client_ok cl"
  then show ?thesis
    using set_client_ok[of st cl n] compatible_gpu_at[of "set_client n cl st" st]
    by (auto simp: sys_inv_def split: option.splits)
qed

lemma sys_inv_init: "sys_inv sys_init"
  by (simp add: sys_inv_def sys_init_def mgr_ok_def clients_ok_def)

lemma sys_reachable_inv: "sys_step\<^sup>*\<^sup>* sys_init s \<Longrightarrow> sys_inv s"
  by (induction rule: rtranclp_induct) (auto intro: sys_inv_init sys_inv_step)

end
