(* ===== verification/Demo.thy ===== *)
theory Demo
  imports Manager_System
begin

text \<open>
  A small concrete system the witnesses run on: one node with one GPU of 4000 bytes, whose
  configurator answers every call.
\<close>

definition demo_gpu :: SetiGPU where
  "demo_gpu = \<lparr>sg_uuid = ''u1'', sg_name = ''NVIDIA A10G'', sg_memory = 4000, sg_mp = 80,
     sg_parentIndex = 0, sg_parentUuid = ''u1'', sg_mpsEnabled = False, sg_mpsConfig = None\<rparr>"

definition demo_vgpu :: SetiVirtualGPU where
  "demo_vgpu = \<lparr>sv_profile = None, sv_id = ''v1'', sv_deviceIndex = 0, sv_memory = 4000, sv_mp = 80,
     sv_isProvisioned = True, sv_isPhysical = True, sv_type = ''NVIDIA A10G'', sv_smPercentage = 100,
     sv_gpu = Some demo_gpu\<rparr>"

definition demo_rpc :: rpc where
  "demo_rpc = \<lparr>rpc_EnableMPS = (\<lambda>u. Some \<lparr>em_success = True, em_message = [],
       em_config = Some \<lparr>mc_device = u, mc_log = ''/log'', mc_tmp = ''/tmp''\<rparr>\<rparr>),
     rpc_DisableMPS = (\<lambda>u. Some \<lparr>dm_success = True, dm_message = []\<rparr>),
     rpc_ReleaseVirtualGPU = (\<lambda>u. Some \<lparr>rv_success = True, rv_message = [], rv_available = []\<rparr>),
     rpc_GetGPU = (\<lambda>u. Some \<lparr>gg_gpu = Some demo_vgpu\<rparr>),
     rpc_UpdateMPSConfigs = (\<lambda>r. True)\<rparr>"

definition demo_ce :: connect_env where
  "demo_ce = \<lparr>ce_conn = 1, ce_remoteIP = ''10.0.0.1'',
     ce_hello = Some \<lparr>hello_Hostname = ''n1'', GrpcPort = 5001\<rparr>, ce_daemonNode = [],
     ce_daemonHostIP = [], ce_ackWritten = True, ce_connects = (\<lambda>ip port. True), ce_healthy = True,
     ce_gpus = Some [demo_vgpu], ce_client = demo_rpc\<rparr>"

definition demo_fastpod_req :: ResourceRequest where
  "demo_fastpod_req = \<lparr>req_podKey = ''ns/f'', req_AllocationType = AllocationTypeFastPod,
     RequestedNode = Some ''n1'', RequestGPUUUID = Some ''u1'', RequestedGPUType = None,
     SMRequest = None, ReqSMPercentage = None, ReqMemory = 1000,
     req_FastPod = Some \<lparr>QuotaReq = Fin (1 / 2), QuotaLimit = Fin 1, ReqSMPartition = 50\<rparr>\<rparr>"

definition demo_sel :: SelectionResult where
  "demo_sel = \<lparr>sel_fastPodKey = ''ns/f'', NodeName = ''n1'', VGPUUUID = ''u1''\<rparr>"

definition demo_info :: GPUDevInfo where
  "demo_info = \<lparr>virtual = False, smCount = 80, allocationType = AllocationTypeNone, GPUType = [],
     UUID = ''u1'', Mem = 4000, Name = [], ParentUUID = ''u1'', SMPercentage = 100, Usage = Fin 0,
     UsageMem = 0, FastPodList = [], MPSPodList = [], ExclusivePod = None\<rparr>"

definition demo_ports :: bitmap where
  "demo_ports = \<lparr>bits = replicate 16 0, position = 0, bm_size = 1024\<rparr>"

definition demo_node :: "bitmap \<Rightarrow> (string \<rightharpoonup> GPUDevInfo) \<Rightarrow> Node" where
  "demo_node ports m = \<lparr>DaemonIP = ''10.0.0.1'', vGPUID2GPU = m, DaemonPortAlloc = ports,
     vgpus = [demo_vgpu], grpcClient = Some demo_rpc, hostName = ''n1''\<rparr>"

definition demo_mgr :: "Node \<Rightarrow> mgr" where
  "demo_mgr nd = \<lparr>nodes = [''n1'' \<mapsto> nd],
     nodesLiveness = [''n1'' \<mapsto> \<lparr>ConfigConn = 1, Status = NodeReady, LastHeartbeat = 0\<rparr>],
     sent = [], kube_deletes = []\<rparr>"

lemma demo_client_ok: "client_ok demo_rpc"
  by (simp add: client_ok_def demo_rpc_def demo_vgpu_def)

lemma demo_new_ports: "NewBitmap PortRange = Ret demo_ports"
  by code_simp

lemma demo_identity: "node_identity demo_ce \<lparr>hello_Hostname = ''n1'', GrpcPort = 5001\<rparr> = (''n1'', ''10.0.0.1'')"
  by (simp add: node_identity_def demo_ce_def)

lemma demo_connected:
  "handleNodeConnection demo_ce (fst sys_init) = Ret (Some ''n1'', demo_mgr (demo_node demo_ports Map.empty))"
  unfolding handleNodeConnection_def sys_init_def
  using demo_identity demo_new_ports
  by (simp add: demo_ce_def register_node_def put_node_def init_liveness_def demo_mgr_def demo_node_def)

lemma demo_usage: "fadd (Fin 0) (share (Fin (1 / 2)) 50) = Fin (1 / 4)"
  "fadd (Fin 0) (fdiv (fmul (Fin (1 / 2)) (f_of_int 50)) (Fin 100)) = Fin (1 / 4)"
  by code_simp+

lemma demo_scheduled:
  "ScheduleRequest demo_fastpod_req (demo_mgr (demo_node demo_ports Map.empty)) =
     Ret (Inr demo_sel, demo_mgr (demo_node demo_ports [''u1'' \<mapsto> demo_info]))"
proof -
  have "canFit demo_fastpod_req demo_info = Ret True"
    by (simp add: canFit_def canFitFastPod_def demo_fastpod_req_def demo_info_def demo_usage fgt_def
        sub64_def to_signed_def)
  then show ?thesis
    by (simp add: ScheduleRequest_def demo_fastpod_req_def demo_mgr_def demo_node_def demo_rpc_def
      select_gpu_def new_gpu_info_def demo_vgpu_def demo_gpu_def put_gpu_def put_node_def
      demo_sel_def demo_info_def to_signed_def Let_def)
qed

definition demo_ports1 :: bitmap where
  "demo_ports1 = \<lparr>bits = 1 # replicate 15 0, position = 1, bm_size = 1024\<rparr>"

lemma demo_alloc: "FindFirstUnsetAndSet demo_ports = Ret (0, demo_ports1)"
  by code_simp

definition demo_entry :: FastPodReq where
  "demo_entry = \<lparr>fp_Key = ''ns/f-1'', QtRequest = Fin (1 / 2), QtLimit = Fin 1, SMPartition = 50,
     fp_Memory = 1000, GPUClientPort = 56001\<rparr>"

definition demo_info1 :: GPUDevInfo where
  "demo_info1 = demo_info\<lparr>allocationType := AllocationTypeFastPod, Usage := Fin (1 / 4), UsageMem := 1000,
     FastPodList := [demo_entry]\<rparr>"

definition demo_admitted :: mgr where
  "demo_admitted = (demo_mgr (demo_node demo_ports1 [''u1'' \<mapsto> demo_info1]))
     \<lparr>sent := [(''n1'', \<lparr>um_device = ''u1'', um_configs = [to_config demo_entry]\<rparr>)]\<rparr>"

lemma demo_requested:
  "\<exists>a. RequestGPUAndUpdateConfig demo_sel demo_fastpod_req ''ns/f-1''
     (demo_mgr (demo_node demo_ports [''u1'' \<mapsto> demo_info])) = Ret ((Some a, 0), demo_admitted)"
  by (simp add: RequestGPUAndUpdateConfig_def demo_sel_def demo_fastpod_req_def demo_mgr_def demo_node_def
      set_type_def enable_mps_def demo_info_def demo_rpc_def admit_fastpod_def demo_alloc demo_usage
      fgt_def add64_def to_signed_def push_fastpod_def put_gpu_def put_node_def updatePodsGPUConfig_def
      demo_admitted_def demo_info1_def demo_entry_def GPUClientPortStart_def Let_def)

lemma demo_request_ok: "request_ok demo_fastpod_req"
  by (simp add: request_ok_def demo_fastpod_req_def quota_ok_def)

lemma demo_reachable: "sys_step\<^sup>*\<^sup>* sys_init (demo_admitted, None)"
proof -
  have 1: "sys_step sys_init (demo_mgr (demo_node demo_ports Map.empty), None)"
    using sys_step.connect[OF _ demo_connected, of None] demo_client_ok
    by (simp add: sys_init_def demo_ce_def)
  have 2: "sys_step (demo_mgr (demo_node demo_ports Map.empty), None)
      (demo_mgr (demo_node demo_ports [''u1'' \<mapsto> demo_info]), Some (demo_sel, demo_fastpod_req))"
    by (rule sys_step.schedule[OF demo_request_ok demo_scheduled])
  have 3: "sys_step (demo_mgr (demo_node demo_ports [''u1'' \<mapsto> demo_info]), Some (demo_sel, demo_fastpod_req))
      (demo_admitted, None)"
    using demo_requested sys_step.request by blast
  show ?thesis using 1 2 3 by (meson converse_rtranclp_into_rtranclp rtranclp.rtrancl_refl)
qed

lemma demo_admitted_gpu: "gpu_at demo_admitted ''n1'' ''u1'' = Some demo_info1"
  by (simp add: gpu_at_def demo_admitted_def demo_mgr_def demo_node_def)

lemma demo_scheduled_ok: "mgr_ok (demo_mgr (demo_node demo_ports [''u1'' \<mapsto> demo_info]))"
proof -
  have "mgr_ok (demo_mgr (demo_node demo_ports Map.empty))"
    using handleNodeConnection_ok[OF _ demo_connected] sys_inv_init by (simp add: sys_inv_def sys_init_def)
  moreover have "clients_ok (demo_mgr (demo_node demo_ports Map.empty))"
    using demo_client_ok by (simp add: clients_ok_def demo_mgr_def demo_node_def)
  ultimately show ?thesis using ScheduleRequest_ok(1)[OF _ _ demo_scheduled] by simp
qed

lemma demo_ports_free: "used demo_ports = {}"
  using NewBitmap_spec[of PortRange] demo_new_ports by (auto simp: PortRange_def)

lemma demo_admitted_ok: "mgr_ok demo_admitted"
  using sys_reachable_inv[OF demo_reachable] by (simp add: sys_inv_def)

end
