(* ===== verification/Gpu_Properties.thy ===== *)
theory Gpu_Properties
  imports Demo
begin

text \<open>
  What the controller's GPU management guarantees in every reachable state of the system and in each
  of its operations, and where an operation does not return.
\<close>

section \<open>Reachable states\<close>

text \<open>What the invariant says of a GPU in terms of its books.\<close>

lemma gpu_ok_books:
  assumes ok: "gpu_ok g"
  shows "UsageMem g = sum_list (map fp_Memory (FastPodList g)) + sum_list (map mps_Memory (MPSPodList g))
    \<and> 0 \<le> UsageMem g \<and> UsageMem g \<le> Mem g
    \<and> (\<exists>u. Usage g = Fin u \<and> u \<le> 1)
    \<and> (FastPodList g = [] \<or> MPSPodList g = [])
    \<and> (ExclusivePod g \<noteq> None \<longrightarrow> FastPodList g = [] \<and> MPSPodList g = [])"
proof -
  have "type_ok g" "usage_ok (Usage g)"
    and "UsageMem g = sum_list (map fp_Memory (FastPodList g)) + sum_list (map mps_Memory (MPSPodList g))"
    using ok by (simp_all add: gpu_ok_def balanced_def)
  then show ?thesis using gpu_ok_mem[OF ok]
    by (auto simp: type_ok_def usage_ok_def split: AllocationType.splits float64.splits)
qed





section \<open>Admission\<close>

text \<open>
  A FaSTPod admission on a GPU that is free or already shared by FaSTPods, when the node's configurator
  enables MPS: the situation every admission outcome below starts from.
\<close>

definition fastpod_admission ::
  "mgr \<Rightarrow> SelectionResult \<Rightarrow> ResourceRequest \<Rightarrow> Node \<Rightarrow> GPUDevInfo \<Rightarrow> FastPodRequirements \<Rightarrow> MPSConfigMsg \<Rightarrow> bool" where
  "fastpod_admission st sel req nd g q mc \<longleftrightarrow>
     nodes st (NodeName sel) = Some nd \<and> vGPUID2GPU nd (VGPUUUID sel) = Some g
     \<and> req_AllocationType req = AllocationTypeFastPod \<and> req_FastPod req = Some q
     \<and> (allocationType g = AllocationTypeNone \<or> allocationType g = AllocationTypeFastPod)
     \<and> (\<exists>cl res. grpcClient nd = Some cl \<and> rpc_EnableMPS cl (UUID g) = Some res \<and> em_config res = Some mc)"

lemma fastpod_admission_eq:
  assumes "fastpod_admission st sel req nd g q mc"
  defines "g1 \<equiv> set_type AllocationTypeFastPod g"
  shows "RequestGPUAndUpdateConfig sel req k st =
     bind_go (admit_fastpod req k (DaemonPortAlloc nd) g1) (\<lambda>adm. case adm of
       Inl code \<Rightarrow> Ret ((None, code), put_gpu st (NodeName sel) nd (VGPUUUID sel) g1)
     | Inr (port, g', ports') \<Rightarrow>
         bind_go (updatePodsGPUConfig (NodeName sel) (UUID g') (Some (FastPodList g'))
             (put_gpu st (NodeName sel) (nd\<lparr>DaemonPortAlloc := ports'\<rparr>) (VGPUUUID sel) g')) (\<lambda>(_, st2).
           Ret ((Some \<lparr>alloc_UUID = UUID g', alloc_node = hostName nd,
             alloc_MPSConfig = Some \<lparr>LogDirectory = mc_log mc, PipeDirectory = mc_tmp mc,
               FastPodMPS = Some \<lparr>SchedulerIP = DaemonIP nd, GpuClientPort = port,
                 ActiveThreadPercentage = ReqSMPartition q\<rparr>\<rparr>\<rparr>, 0), st2)))"
proof -
  have t: "allocationType g1 = AllocationTypeFastPod"
    using assms(1) by (auto simp: fastpod_admission_def g1_def set_type_def)
  obtain cl res where c: "grpcClient nd = Some cl" "rpc_EnableMPS cl (UUID g) = Some res" "em_config res = Some mc"
    using assms(1) by (auto simp: fastpod_admission_def)
  have "enable_mps nd g1 = Ret (Some \<lparr>LogDirectory = mc_log mc, PipeDirectory = mc_tmp mc, FastPodMPS = None\<rparr>)"
    using t c by (simp add: enable_mps_def g1_def)
  then show ?thesis
    using assms(1) by (simp add: RequestGPUAndUpdateConfig_def fastpod_admission_def g1_def Let_def
        cong: option.case_cong sum.case_cong prod.case_cong)
qed

lemma updatePods_gpu_at:
  "updatePodsGPUConfig n u (Some l) st = Ret (e, st') \<Longrightarrow> gpu_at st' m v = gpu_at st m v"
  using updatePods_nodes by (fastforce simp: gpu_at_def)

text \<open>
  (C7) The outcome of a FaSTPod admission for a pod that is not yet recorded, on every branch: code 3
  exactly when the share would take the GPU's usage above 1, otherwise code 4 exactly when its memory
  would not suffice, otherwise code 5 exactly when the node has no free port; then nothing but the
  GPU's type is changed. Otherwise the code is 0, the pod is appended to the GPU's list with the
  requested values and a port that was free, and the allocation returned names the GPU, the node and
  that port.
\<close>

theorem fastpod_admission_outcome:
  assumes inv: "mgr_ok st" and adm: "fastpod_admission st sel req nd g q mc"
    and fresh: "k \<notin> set (map fp_Key (FastPodList g))"
  shows "\<exists>out st'. RequestGPUAndUpdateConfig sel req k st = Ret (out, st')
    \<and> snd out = (if fgt (fadd (Usage g) (share (QuotaReq q) (ReqSMPartition q))) (Fin 1) then 3
                 else if Mem g < add64 (UsageMem g) (ReqMemory req) then 4
                 else if used (DaemonPortAlloc nd) = {0 ..< PortRange} then 5 else 0)
    \<and> (snd out \<noteq> 0 \<longrightarrow> fst out = None
         \<and> gpu_at st' (NodeName sel) (VGPUUUID sel) = Some (set_type AllocationTypeFastPod g))
    \<and> (snd out = 0 \<longrightarrow> (\<exists>a c f r. fst out = Some a \<and> alloc_UUID a = UUID g \<and> alloc_node a = NodeName sel
         \<and> alloc_MPSConfig a = Some c \<and> FastPodMPS c = Some f
         \<and> GpuClientPort f = GPUClientPort r \<and> ActiveThreadPercentage f = ReqSMPartition q
         \<and> fp_Key r = k \<and> QtRequest r = QuotaReq q \<and> QtLimit r = QuotaLimit q
         \<and> SMPartition r = ReqSMPartition q \<and> fp_Memory r = ReqMemory req
         \<and> GPUClientPort r - GPUClientPortStart \<in> {0 ..< PortRange} - used (DaemonPortAlloc nd)
         \<and> gpu_at st' (NodeName sel) (VGPUUUID sel) = Some (push_fastpod r (set_type AllocationTypeFastPod g))))"
proof -
  let ?g = "set_type AllocationTypeFastPod g" and ?p = "DaemonPortAlloc nd"
  have nd: "nodes st (NodeName sel) = Some nd" and q: "req_FastPod req = Some q"
    using adm by (auto simp: fastpod_admission_def)
  note ok = mgr_okD[OF inv nd]
  have none: "find_first (\<lambda>r. fp_Key r = k) (FastPodList ?g) = None"
    using fresh unfolding find_first_None_iff by auto
  obtain i p' where a: "FindFirstUnsetAndSet ?p = Ret (i, p')"
    using bm.alloc_returns[OF node_okD(2)[OF ok]] by blast
  have full: "i = -1 \<longleftrightarrow> used ?p = {0 ..< PortRange}"
    using bm.alloc_full[OF node_okD(2)[OF ok], of p'] bm.alloc_fresh[OF node_okD(2)[OF ok] a] a
      node_okD(3)[OF ok] by (cases "i = -1") auto
  let ?F = "fgt (fadd (Usage g) (share (QuotaReq q) (ReqSMPartition q))) (Fin 1)"
  let ?M = "Mem g < add64 (UsageMem g) (ReqMemory req)"
  let ?r = "\<lparr>fp_Key = k, QtRequest = QuotaReq q, QtLimit = QuotaLimit q, SMPartition = ReqSMPartition q,
            fp_Memory = ReqMemory req, GPUClientPort = i + GPUClientPortStart\<rparr>"
  have e: "admit_fastpod req k ?p ?g = Ret (if ?F then Inl 3 else if ?M then Inl 4 else if i = -1 then Inl 5
      else Inr (GPUClientPort ?r, push_fastpod ?r ?g, p'))"
    using none a q by (simp add: admit_fastpod_def FindInQueue_fast Let_def)
  show ?thesis
  proof (cases "?F \<or> ?M \<or> i = -1")
    case True
    then show ?thesis using fastpod_admission_eq[OF adm, of k] e full by auto
  next
    case False
    let ?st1 = "put_gpu st (NodeName sel) (nd\<lparr>DaemonPortAlloc := p'\<rparr>) (VGPUUUID sel) (push_fastpod ?r ?g)"
    obtain er st2 where u: "updatePodsGPUConfig (NodeName sel) (UUID (push_fastpod ?r ?g))
        (Some (FastPodList (push_fastpod ?r ?g))) ?st1 = Ret (er, st2)"
      using updatePodsGPUConfig_returns by fastforce
    have port: "i \<in> {0 ..< PortRange} - used ?p"
      using bm.alloc_fresh[OF node_okD(2)[OF ok] a] False node_okD(3)[OF ok] by auto
    have at: "gpu_at st2 (NodeName sel) (VGPUUUID sel) = Some (push_fastpod ?r ?g)"
      using updatePods_gpu_at[OF u] by simp
    have n: "hostName nd = NodeName sel" "UUID (push_fastpod ?r ?g) = UUID g"
      using node_okD(1)[OF ok] by (simp_all add: push_fastpod_def)
    have full': "used ?p \<noteq> {0 ..< PortRange}" using full False by simp
    show ?thesis
      unfolding fastpod_admission_eq[OF adm, of k] e
      using False full' u port at n
      by (auto intro!: exI[of _ ?r])
  qed
qed

lemma demo_admission:
  "fastpod_admission (demo_mgr (demo_node demo_ports [''u1'' \<mapsto> demo_info])) demo_sel demo_fastpod_req
     (demo_node demo_ports [''u1'' \<mapsto> demo_info]) demo_info
     \<lparr>QuotaReq = Fin (1 / 2), QuotaLimit = Fin 1, ReqSMPartition = 50\<rparr>
     \<lparr>mc_device = ''u1'', mc_log = ''/log'', mc_tmp = ''/tmp''\<rparr>"
  by (simp add: fastpod_admission_def demo_mgr_def demo_node_def demo_sel_def demo_fastpod_req_def
      demo_info_def demo_rpc_def)

theorem fastpod_admission_outcome_witness:
  "\<exists>out st'. RequestGPUAndUpdateConfig demo_sel demo_fastpod_req ''ns/f-1''
       (demo_mgr (demo_node demo_ports [''u1'' \<mapsto> demo_info])) = Ret (out, st') \<and> snd out = 0"
proof -
  have "used (DaemonPortAlloc (demo_node demo_ports [''u1'' \<mapsto> demo_info])) \<noteq> {0 ..< PortRange}"
    using demo_ports_free by (simp add: demo_node_def PortRange_def)
  moreover have "\<not> fgt (fadd (Usage demo_info) (share (Fin (1 / 2)) 50)) (Fin 1)"
    by (simp add: demo_info_def demo_usage fgt_def)
  moreover have "\<not> Mem demo_info < add64 (UsageMem demo_info) (ReqMemory demo_fastpod_req)"
    by (simp add: demo_info_def demo_fastpod_req_def add64_def to_signed_def)
  moreover have "''ns/f-1'' \<notin> set (map fp_Key (FastPodList demo_info))" by (simp add: demo_info_def)
  ultimately show ?thesis
    using fastpod_admission_outcome[OF demo_scheduled_ok demo_admission, of "''ns/f-1''"] by auto
qed

text \<open>
  Asking again for a pod that is recorded changes neither the accounting nor the ports: the
  allocation returned carries the port the pod already has.
\<close>

theorem fastpod_readmission_idempotent:
  assumes inv: "mgr_ok st" and adm: "fastpod_admission st sel req nd g q mc"
    and r: "r \<in> set (FastPodList g)" "fp_Key r = k"
  shows "\<exists>a c f st'. RequestGPUAndUpdateConfig sel req k st = Ret ((Some a, 0), st')
    \<and> alloc_MPSConfig a = Some c \<and> FastPodMPS c = Some f \<and> GpuClientPort f = GPUClientPort r
    \<and> nodes st' = nodes st"
proof -
  have nd: "nodes st (NodeName sel) = Some nd" and g: "vGPUID2GPU nd (VGPUUUID sel) = Some g"
    and t: "allocationType g = AllocationTypeNone \<or> allocationType g = AllocationTypeFastPod"
    using adm by (auto simp: fastpod_admission_def)
  note gok = node_okD(4)[OF mgr_okD[OF inv nd] g]
  have ty: "set_type AllocationTypeFastPod g = g"
    using t gok r(1) by (auto simp: set_type_def gpu_ok_def type_ok_def)
  obtain r' where f: "find_first (\<lambda>r. fp_Key r = k) (FastPodList g) = Some r'"
    using r find_first_None_iff[of "\<lambda>r. fp_Key r = k" "FastPodList g"] by (cases "find_first (\<lambda>r. fp_Key r = k) (FastPodList g)") auto
  have "r' = r" using find_first_SomeD[OF f] r gok by (auto simp: gpu_ok_def distinct_map inj_on_def)
  then have e: "admit_fastpod req k (DaemonPortAlloc nd) g = Ret (Inr (GPUClientPort r, g, DaemonPortAlloc nd))"
    using f by (simp add: admit_fastpod_def FindInQueue_fast)
  let ?st1 = "put_gpu st (NodeName sel) (nd\<lparr>DaemonPortAlloc := DaemonPortAlloc nd\<rparr>) (VGPUUUID sel) g"
  obtain er st2 where u: "updatePodsGPUConfig (NodeName sel) (UUID g) (Some (FastPodList g)) ?st1 = Ret (er, st2)"
    using updatePodsGPUConfig_returns by fastforce
  have "nd\<lparr>DaemonPortAlloc := DaemonPortAlloc nd, vGPUID2GPU := (vGPUID2GPU nd)(VGPUUUID sel \<mapsto> g)\<rparr> = nd"
    using g by (cases nd) (auto simp: fun_upd_idem)
  then have "nodes st2 = nodes st" using updatePods_nodes[OF u] nd by (auto simp: fun_upd_idem)
  then show ?thesis using fastpod_admission_eq[OF adm, of k] e u ty by auto
qed

lemma demo_admission2:
  "fastpod_admission demo_admitted demo_sel demo_fastpod_req
     (demo_node demo_ports1 [''u1'' \<mapsto> demo_info1]) demo_info1
     \<lparr>QuotaReq = Fin (1 / 2), QuotaLimit = Fin 1, ReqSMPartition = 50\<rparr>
     \<lparr>mc_device = ''u1'', mc_log = ''/log'', mc_tmp = ''/tmp''\<rparr>"
  by (simp add: fastpod_admission_def demo_admitted_def demo_mgr_def demo_node_def demo_sel_def
      demo_fastpod_req_def demo_info1_def demo_info_def demo_rpc_def)

theorem fastpod_readmission_idempotent_witness:
  "\<exists>a c f st'. RequestGPUAndUpdateConfig demo_sel demo_fastpod_req ''ns/f-1'' demo_admitted = Ret ((Some a, 0), st')
    \<and> alloc_MPSConfig a = Some c \<and> FastPodMPS c = Some f \<and> GpuClientPort f = 56001
    \<and> nodes st' = nodes demo_admitted"
  using fastpod_readmission_idempotent[OF demo_admitted_ok demo_admission2, of demo_entry "''ns/f-1''"]
  by (simp add: demo_info1_def demo_entry_def)


end
