(* ===== verification/Gpu_Removal.thy ===== *)
theory Gpu_Removal
  imports Gpu_Properties
begin

text \<open>
  Removal of pods from the GPU table: the exact effect of removing a recorded FaSTPod, admission followed
  by removal, and the deletion of a whole FaSTPod.
\<close>

section \<open>Removal\<close>

text \<open>
  A pod that is recorded as a FaSTPod on the GPU its annotations name, on a node whose configurator
  answers.
\<close>

definition recorded_fastpod :: "mgr \<Rightarrow> pod \<Rightarrow> Node \<Rightarrow> GPUDevInfo \<Rightarrow> FastPodReq \<Rightarrow> bool" where
  "recorded_fastpod st p nd g r \<longleftrightarrow>
     nodes st (p_node p) = Some nd
     \<and> vGPUID2GPU nd (sget (p_annotations p) FaSTGShareVGPUUUID) = Some g
     \<and> GetAllocationType (sget (p_annotations p) FastGshareAllocationType) = AllocationTypeFastPod
     \<and> allocationType g = AllocationTypeFastPod \<and> r \<in> set (FastPodList g) \<and> fp_Key r = PodKey p"

definition answers_release :: "Node \<Rightarrow> GPUDevInfo \<Rightarrow> bool" where
  "answers_release nd g \<longleftrightarrow> (\<exists>cl. grpcClient nd = Some cl
     \<and> rpc_DisableMPS cl (UUID g) \<noteq> None \<and> rpc_ReleaseVirtualGPU cl (UUID g) \<noteq> None)"

lemma give_up_gpu_answers:
  assumes "nodes st n = Some nd" "vGPUID2GPU nd v = Some g" "answers_release nd g"
  shows "\<exists>vs. give_up_gpu t n v st =
    Ret (put_node st n (nd\<lparr>vgpus := vs, vGPUID2GPU := (vGPUID2GPU nd)(v := None)\<rparr>))"
proof (cases "virtual g")
  case True
  then show ?thesis using assms by (auto simp: give_up_gpu_def answers_release_def)
next
  case False
  then show ?thesis using assms by (intro exI[of _ "vgpus nd"]) (auto simp: give_up_gpu_def answers_release_def)
qed

lemma recorded_drop:
  assumes "mgr_ok st" "recorded_fastpod st p nd g r"
  shows "drop_fastpod (PodKey p) g = (fst (drop_fastpod (PodKey p) g), Some r)"
    and "FastPodList (fst (drop_fastpod (PodKey p) g)) = filter (\<lambda>x. fp_Key x \<noteq> PodKey p) (FastPodList g)"
    and "UsageMem (fst (drop_fastpod (PodKey p) g)) = UsageMem g - fp_Memory r"
proof -
  have gok: "gpu_ok g"
    using assms node_okD(4) mgr_okD unfolding recorded_fastpod_def by blast
  then have d: "distinct (map fp_Key (FastPodList g))"
    and b: "balanced (Mem g) (UsageMem g) (map fp_Memory (FastPodList g))"
    using assms(2) by (auto simp: gpu_ok_def recorded_fastpod_def type_ok_def)
  have f: "find_first (\<lambda>x. fp_Key x = PodKey p) (FastPodList g) = Some r"
    using find_first_unique[OF d, of r] assms(2) by (simp add: recorded_fastpod_def)
  show "drop_fastpod (PodKey p) g = (fst (drop_fastpod (PodKey p) g), Some r)"
    using f by (simp add: drop_fastpod_def)
  show "FastPodList (fst (drop_fastpod (PodKey p) g)) = filter (\<lambda>x. fp_Key x \<noteq> PodKey p) (FastPodList g)"
    using f remove_first_filter[OF d] by (simp add: drop_fastpod_def)
  have "sub64 (UsageMem g) (fp_Memory r) = UsageMem g - fp_Memory r"
    using fp.entry_le_tot[OF b f] gpu_ok_mem[OF gok] by (intro sub64_id) auto
  then show "UsageMem (fst (drop_fastpod (PodKey p) g)) = UsageMem g - fp_Memory r"
    using f by (simp add: drop_fastpod_def)
qed

text \<open>The state a removal reaches before it decides whether the GPU is given up.\<close>

lemma fastpod_removal_eq:
  assumes inv: "mgr_ok st" and rec: "recorded_fastpod st p nd g r"
  defines "v \<equiv> sget (p_annotations p) FaSTGShareVGPUUUID"
    and "rest \<equiv> filter (\<lambda>x. fp_Key x \<noteq> PodKey p) (FastPodList g)"
  obtains st2 nd2 g' where
    "removePodFromList p st = (if rest = [] then give_up_gpu AllocationTypeFastPod (p_node p) v st2 else Ret st2)"
    "mgr_ok st2" "nodes st2 = (nodes st)(p_node p \<mapsto> nd2)" "vGPUID2GPU nd2 = (vGPUID2GPU nd)(v \<mapsto> g')"
    "used (DaemonPortAlloc nd2) = used (DaemonPortAlloc nd) - {GPUClientPort r - GPUClientPortStart}"
    "grpcClient nd2 = grpcClient nd" "FastPodList g' = rest" "UsageMem g' = UsageMem g - fp_Memory r"
    "UUID g' = UUID g"
proof -
  have nd: "nodes st (p_node p) = Some nd" and g: "vGPUID2GPU nd v = Some g"
    and t: "GetAllocationType (sget (p_annotations p) FastGshareAllocationType) = AllocationTypeFastPod"
    and ty: "allocationType g = AllocationTypeFastPod"
    using rec by (auto simp: recorded_fastpod_def v_def)
  note ok = mgr_okD[OF inv nd] and dr = recorded_drop[OF inv rec]
  obtain g' where d: "drop_fastpod (PodKey p) g = (g', Some r)"
    "FastPodList g' = rest" "UsageMem g' = UsageMem g - fp_Memory r" "UUID g' = UUID g"
  proof
    show "UUID (fst (drop_fastpod (PodKey p) g)) = UUID g" by (simp add: drop_fastpod_def split: option.splits)
  qed (use dr in \<open>simp_all add: rest_def\<close>)
  obtain p' where p': "free_port r (DaemonPortAlloc nd) = Ret p'"
    and ports: "used p' = used (DaemonPortAlloc nd) - {GPUClientPort r - GPUClientPortStart}"
    and nok: "node_ok (p_node p) (nd\<lparr>DaemonPortAlloc := p', vGPUID2GPU := (vGPUID2GPU nd)(v \<mapsto> g')\<rparr>)"
    using node_ok_drop[OF ok g ty d(1)] by blast
  let ?nd = "nd\<lparr>DaemonPortAlloc := p', vGPUID2GPU := (vGPUID2GPU nd)(v \<mapsto> g')\<rparr>"
  obtain e st1 where u: "updatePodsGPUConfig (p_node p) (UUID g') (Some (FastPodList g'))
      (put_gpu st (p_node p) nd v g') = Ret (e, st1)"
    using updatePodsGPUConfig_returns by fastforce
  let ?st2 = "put_gpu st1 (p_node p) (nd\<lparr>DaemonPortAlloc := p'\<rparr>) v g'"
  have n2: "nodes ?st2 = (nodes st)(p_node p \<mapsto> ?nd)" using updatePods_nodes[OF u] by simp
  have inv2: "mgr_ok ?st2" using inv nok unfolding mgr_ok_def n2 by auto
  have e: "removePodFromList p st =
      (if rest = [] then give_up_gpu AllocationTypeFastPod (p_node p) v ?st2 else Ret ?st2)"
    using nd g t p' u d by (simp add: removePodFromList_def v_def[symmetric] podlist_len_def Let_def)
  show ?thesis by (rule that[OF e inv2 n2 _ _ _ d(2,3,4)]) (simp_all add: ports)
qed

text \<open>
  (C9) Removing a recorded FaSTPod takes exactly its entry off the GPU's list, gives back exactly its
  memory and frees exactly its port; when it was the last pod, the GPU's entry is dropped from the
  table. No other GPU of any node is touched, and the invariant holds afterwards.
\<close>

theorem fastpod_removal_outcome:
  assumes inv: "mgr_ok st" and rec: "recorded_fastpod st p nd g r" and ans: "answers_release nd g"
  defines "v \<equiv> sget (p_annotations p) FaSTGShareVGPUUUID"
    and "rest \<equiv> filter (\<lambda>x. fp_Key x \<noteq> PodKey p) (FastPodList g)"
  shows "\<exists>st' nd'. removePodFromList p st = Ret st' \<and> mgr_ok st'
    \<and> nodes st' (p_node p) = Some nd'
    \<and> used (DaemonPortAlloc nd') = used (DaemonPortAlloc nd) - {GPUClientPort r - GPUClientPortStart}
    \<and> (if rest = [] then gpu_at st' (p_node p) v = None
       else \<exists>g'. gpu_at st' (p_node p) v = Some g' \<and> FastPodList g' = rest
              \<and> UsageMem g' = UsageMem g - fp_Memory r)
    \<and> (\<forall>n' v'. (n', v') \<noteq> (p_node p, v) \<longrightarrow> gpu_at st' n' v' = gpu_at st n' v')"
proof -
  have nd: "nodes st (p_node p) = Some nd" using rec by (simp add: recorded_fastpod_def)
  obtain st2 nd2 g' where
    e: "removePodFromList p st = (if rest = [] then give_up_gpu AllocationTypeFastPod (p_node p) v st2 else Ret st2)"
    and inv2: "mgr_ok st2" and n2: "nodes st2 = (nodes st)(p_node p \<mapsto> nd2)"
    and m2: "vGPUID2GPU nd2 = (vGPUID2GPU nd)(v \<mapsto> g')"
    and ports: "used (DaemonPortAlloc nd2) = used (DaemonPortAlloc nd) - {GPUClientPort r - GPUClientPortStart}"
    and g': "grpcClient nd2 = grpcClient nd" "FastPodList g' = rest" "UsageMem g' = UsageMem g - fp_Memory r"
      "UUID g' = UUID g"
    using fastpod_removal_eq[OF inv rec] unfolding v_def rest_def by blast
  have at2: "gpu_at st2 n' v' = (if (n', v') = (p_node p, v) then Some g' else gpu_at st n' v')" for n' v'
    using nd by (simp add: gpu_at_def n2 m2)
  show ?thesis
  proof (cases "rest = []")
    case False
    then show ?thesis using e inv2 n2 at2 ports g'(2,3) by simp
  next
    case True
    have "answers_release nd2 g'" using ans g' by (simp add: answers_release_def)
    from give_up_gpu_answers[OF _ _ this, of st2 "p_node p" v] n2 m2 obtain vs where
      gu: "give_up_gpu AllocationTypeFastPod (p_node p) v st2
        = Ret (put_node st2 (p_node p) (nd2\<lparr>vgpus := vs, vGPUID2GPU := (vGPUID2GPU nd2)(v := None)\<rparr>))"
      by auto
    have "mgr_ok (put_node st2 (p_node p) (nd2\<lparr>vgpus := vs, vGPUID2GPU := (vGPUID2GPU nd2)(v := None)\<rparr>))"
      by (rule give_up_gpu_mgr_ok[OF inv2 gu]) (use True g'(2) n2 m2 in auto)
    then show ?thesis using True e gu ports n2 m2 at2 by (auto simp: gpu_at_def nd)
  qed
qed

definition demo_pod :: pod where
  "demo_pod = \<lparr>p_namespace = ''ns'', p_name = ''f-1'', p_uid = [], p_labels = Map.empty,
     p_annotations = [FaSTGShareVGPUUUID \<mapsto> ''u1'', FastGshareAllocationType \<mapsto> ''FastPod''],
     p_owner = None, p_creation = 0, p_deletion = None, p_node = ''n1'', p_containers = [], p_volumes = [],
     p_hostIPC = True, p_phase = ''Running'', p_conditions = [], p_restarts = []\<rparr>"

lemma demo_pod_annotations:
  "sget (p_annotations demo_pod) FaSTGShareVGPUUUID = ''u1''"
  "GetAllocationType (sget (p_annotations demo_pod) FastGshareAllocationType) = AllocationTypeFastPod"
  "PodKey demo_pod = ''ns/f-1''" "p_node demo_pod = ''n1''"
  by (simp_all add: demo_pod_def annotation_keys PodKey_def key_of_def GetAllocationType_String[of AllocationTypeFastPod, simplified])

lemma demo_recorded:
  "recorded_fastpod demo_admitted demo_pod (demo_node demo_ports1 [''u1'' \<mapsto> demo_info1]) demo_info1 demo_entry"
  by (simp add: recorded_fastpod_def demo_pod_annotations demo_admitted_def demo_mgr_def demo_node_def
      demo_info1_def demo_entry_def)

lemma demo_answers: "answers_release (demo_node ports m) g"
  by (simp add: answers_release_def demo_node_def demo_rpc_def)

theorem fastpod_removal_outcome_witness:
  "\<exists>st'. removePodFromList demo_pod demo_admitted = Ret st' \<and> mgr_ok st' \<and> gpu_at st' ''n1'' ''u1'' = None"
  using fastpod_removal_outcome[OF demo_admitted_ok demo_recorded demo_answers]
  by (auto simp: demo_pod_annotations demo_info1_def demo_entry_def)

text \<open>
  (C6) Admission followed by removal: when a new FaSTPod was admitted to a GPU that holds other FaSTPods
  and is then removed, the GPU has the list and the memory usage it had before, and the node has the
  ports it had before.
\<close>

theorem admission_then_removal:
  assumes inv: "mgr_ok st" and adm: "fastpod_admission st sel req nd g q mc" and req: "request_ok req"
    and fresh: "PodKey p \<notin> set (map fp_Key (FastPodList g))" and others: "FastPodList g \<noteq> []"
    and ans: "answers_release nd g"
    and ok: "RequestGPUAndUpdateConfig sel req (PodKey p) st = Ret ((Some a, 0), st1)"
    and pod: "p_node p = NodeName sel" "sget (p_annotations p) FaSTGShareVGPUUUID = VGPUUUID sel"
      "GetAllocationType (sget (p_annotations p) FastGshareAllocationType) = AllocationTypeFastPod"
  shows "\<exists>st2 nd2 g2. removePodFromList p st1 = Ret st2
    \<and> nodes st2 (NodeName sel) = Some nd2 \<and> vGPUID2GPU nd2 (VGPUUUID sel) = Some g2
    \<and> FastPodList g2 = FastPodList g \<and> UsageMem g2 = UsageMem g
    \<and> used (DaemonPortAlloc nd2) = used (DaemonPortAlloc nd)"
proof -
  let ?g = "set_type AllocationTypeFastPod g"
  have nd: "nodes st (NodeName sel) = Some nd" and g: "vGPUID2GPU nd (VGPUUUID sel) = Some g"
    and q: "req_FastPod req = Some q" and t: "req_AllocationType req = AllocationTypeFastPod"
    and ty: "allocationType ?g = AllocationTypeFastPod"
    using adm by (auto simp: fastpod_admission_def set_type_def)
  note nok = mgr_okD[OF inv nd]
  have comp: "compatible sel req st"
    using adm nd g t by (auto simp: compatible_def gpu_at_def fastpod_admission_def)
  have inv1: "mgr_ok st1" by (rule RequestGPU_mgr_ok[OF inv req comp ok])
  show ?thesis
  proof (rule admit_fastpod_cases[OF nok q, of "PodKey p" ?g])
    fix i p' r
    assume alloc: "FindFirstUnsetAndSet (DaemonPortAlloc nd) = Ret (i, p')" "i \<noteq> -1"
      and r: "r = \<lparr>fp_Key = PodKey p, QtRequest = QuotaReq q, QtLimit = QuotaLimit q,
            SMPartition = ReqSMPartition q, fp_Memory = ReqMemory req,
            GPUClientPort = i + GPUClientPortStart\<rparr>"
      and m: "add64 (UsageMem ?g) (ReqMemory req) \<le> Mem ?g"
      and e: "admit_fastpod req (PodKey p) (DaemonPortAlloc nd) ?g = Ret (Inr (GPUClientPort r, push_fastpod r ?g, p'))"
    let ?nd1 = "nd\<lparr>DaemonPortAlloc := p', vGPUID2GPU := (vGPUID2GPU nd)(VGPUUUID sel \<mapsto> push_fastpod r ?g)\<rparr>"
    have n1: "nodes st1 (NodeName sel) = Some ?nd1"
      using ok fastpod_admission_eq[OF adm, of "PodKey p"] e
      by (auto simp: bind_go_Ret_iff dest!: updatePods_nodes)
    have rec: "recorded_fastpod st1 p ?nd1 (push_fastpod r ?g) r"
      using n1 pod ty by (simp add: recorded_fastpod_def push_fastpod_def r)
    have ans1: "answers_release ?nd1 (push_fastpod r ?g)"
      using ans by (simp add: answers_release_def push_fastpod_def)
    have rest: "filter (\<lambda>x. fp_Key x \<noteq> PodKey p) (FastPodList (push_fastpod r ?g)) = FastPodList g"
      using fresh by (simp add: push_fastpod_def r filter_id_conv) (metis image_eqI)
    have mem: "UsageMem (push_fastpod r ?g) - fp_Memory r = UsageMem g"
      using req gpu_ok_mem[OF node_okD(4)[OF nok g]] add64_id[of "UsageMem g" "ReqMemory req"]
      by (simp add: push_fastpod_def r request_ok_def)
    note fresh_port = bm.alloc_fresh[OF node_okD(2)[OF nok] alloc]
    show ?thesis
      using fastpod_removal_outcome[OF inv1 rec ans1] rest mem others fresh_port pod
      by (auto simp: gpu_at_def r)
  next
    fix r assume "find_first (\<lambda>r. fp_Key r = PodKey p) (FastPodList ?g) = Some r"
    then have "r \<in> set (FastPodList g)" "fp_Key r = PodKey p" by (auto dest: find_first_SomeD)
    then show ?thesis using fresh by (metis image_eqI set_map)
  next
    fix code assume "admit_fastpod req (PodKey p) (DaemonPortAlloc nd) ?g = Ret (Inl code)"
    then show ?thesis using ok fastpod_admission_eq[OF adm, of "PodKey p"] by simp
  qed
qed


definition demo_pod2 :: pod where
  "demo_pod2 = demo_pod\<lparr>p_name := ''f-2''\<rparr>"

lemma demo_usage2: "fadd (Fin (1 / 4)) (share (Fin (1 / 2)) 50) = Fin (1 / 2)"
  by code_simp

theorem admission_then_removal_witness:
  "\<exists>a st1 st2 nd2 g2. RequestGPUAndUpdateConfig demo_sel demo_fastpod_req (PodKey demo_pod2) demo_admitted
        = Ret ((Some a, 0), st1) \<and> removePodFromList demo_pod2 st1 = Ret st2
    \<and> nodes st2 ''n1'' = Some nd2 \<and> vGPUID2GPU nd2 ''u1'' = Some g2
    \<and> FastPodList g2 = [demo_entry] \<and> UsageMem g2 = 1000 \<and> used (DaemonPortAlloc nd2) = {0}"
proof -
  let ?nd = "demo_node demo_ports1 [''u1'' \<mapsto> demo_info1]"
  have key: "PodKey demo_pod2 = ''ns/f-2''" by (simp add: demo_pod2_def demo_pod_def PodKey_def key_of_def)
  have fresh: "PodKey demo_pod2 \<notin> set (map fp_Key (FastPodList demo_info1))"
    by (simp add: key demo_info1_def demo_entry_def)
  have "wf_bitmap demo_ports"
    using NewBitmap_spec[of PortRange] demo_new_ports by (auto simp: PortRange_def)
  then have used1: "used demo_ports1 = {0}" using bm.alloc_fresh[OF _ demo_alloc] demo_ports_free by simp
  have "(1 :: int) \<in> {0 ..< PortRange}" "(1 :: int) \<notin> {0}" by (simp_all add: PortRange_def)
  moreover have "DaemonPortAlloc ?nd = demo_ports1" by (simp add: demo_node_def)
  ultimately have "used (DaemonPortAlloc ?nd) \<noteq> {0 ..< PortRange}" using used1 by metis
  then obtain a st1 where req: "RequestGPUAndUpdateConfig demo_sel demo_fastpod_req (PodKey demo_pod2) demo_admitted
      = Ret ((Some a, 0), st1)"
    using fastpod_admission_outcome[OF demo_admitted_ok demo_admission2 fresh]
    by (auto simp: demo_info1_def demo_info_def demo_usage2 fgt_def add64_def to_signed_def demo_fastpod_req_def)
  have pod: "p_node demo_pod2 = NodeName demo_sel"
    "sget (p_annotations demo_pod2) FaSTGShareVGPUUUID = VGPUUUID demo_sel"
    "GetAllocationType (sget (p_annotations demo_pod2) FastGshareAllocationType) = AllocationTypeFastPod"
    using demo_pod_annotations by (simp_all add: demo_pod2_def demo_sel_def)
  have "FastPodList demo_info1 \<noteq> []" by (simp add: demo_info1_def)
  from admission_then_removal[OF demo_admitted_ok demo_admission2 demo_request_ok fresh this demo_answers req pod]
  show ?thesis using req used1 by (auto simp: demo_sel_def demo_info1_def demo_info_def demo_node_def)
qed



end
