(* ===== verification/Gpu_Failures.thy ===== *)
theory Gpu_Failures
  imports Gpu_Removal
begin

text \<open>
  Where the GPU manager panics or its parts disagree, and what keeps a scheduling decision valid.
\<close>

section \<open>Panics and disagreements\<close>

text \<open>
  A second MPS pod cannot be admitted: once the MPS list of a GPU has an element, searching it for
  the new pod asserts the wrong element type, and the admission panics.
\<close>

theorem second_mps_pod_panics:
  assumes "nodes st (NodeName sel) = Some nd" "vGPUID2GPU nd (VGPUUUID sel) = Some g"
    and "req_AllocationType req = AllocationTypeMPS" "MPSPodList g \<noteq> []"
  shows "\<nexists>out st'. RequestGPUAndUpdateConfig sel req k st = Ret (out, st')"
  using assms by (auto simp: RequestGPUAndUpdateConfig_def Let_def bind_go_Ret_iff request_mps_def FindInQueue_mps)

definition demo_mps_req :: ResourceRequest where
  "demo_mps_req = demo_fastpod_req\<lparr>req_AllocationType := AllocationTypeMPS, req_FastPod := None\<rparr>"

definition demo_mps_info :: GPUDevInfo where
  "demo_mps_info = demo_info\<lparr>allocationType := AllocationTypeMPS, UsageMem := 1000,
     MPSPodList := [\<lparr>mps_Key = ''ns/m-1'', mps_Memory = 1000\<rparr>]\<rparr>"

definition demo_mps_admitted :: mgr where
  "demo_mps_admitted = demo_mgr (demo_node demo_ports [''u1'' \<mapsto> demo_mps_info])"

theorem second_mps_pod_panics_witness:
  "(\<exists>a. RequestGPUAndUpdateConfig demo_sel demo_mps_req ''ns/m-1''
      (demo_mgr (demo_node demo_ports [''u1'' \<mapsto> demo_info])) = Ret ((Some a, 0), demo_mps_admitted))
   \<and> (\<nexists>out st'. RequestGPUAndUpdateConfig demo_sel demo_mps_req ''ns/m-2'' demo_mps_admitted = Ret (out, st'))"
proof
  show "\<exists>a. RequestGPUAndUpdateConfig demo_sel demo_mps_req ''ns/m-1''
      (demo_mgr (demo_node demo_ports [''u1'' \<mapsto> demo_info])) = Ret ((Some a, 0), demo_mps_admitted)"
    by (simp add: RequestGPUAndUpdateConfig_def demo_sel_def demo_mps_req_def demo_fastpod_req_def
        demo_mgr_def demo_node_def set_type_def enable_mps_def demo_info_def demo_rpc_def request_mps_def
        add64_def to_signed_def push_mps_def put_gpu_def put_node_def demo_mps_admitted_def
        demo_mps_info_def Let_def)
  show "\<nexists>out st'. RequestGPUAndUpdateConfig demo_sel demo_mps_req ''ns/m-2'' demo_mps_admitted = Ret (out, st')"
    by (rule second_mps_pod_panics[where nd = "demo_node demo_ports [''u1'' \<mapsto> demo_mps_info]" and g = demo_mps_info])
      (simp_all add: demo_mps_admitted_def demo_mgr_def demo_node_def demo_sel_def demo_mps_req_def
        demo_mps_info_def)
qed

text \<open>
  Scaling down a FaSTPod whose pods are exclusive (or carry no known allocation type) panics: the
  pod list stays nil and its length is taken.
\<close>

theorem exclusive_removal_panics:
  assumes "gpu_at st (p_node p) (sget (p_annotations p) FaSTGShareVGPUUUID) = Some g"
    and "GetAllocationType (sget (p_annotations p) FastGshareAllocationType)
           \<in> {AllocationTypeExclusive, AllocationTypeNone}"
  shows "removePodFromList p st = Panic"
proof -
  obtain nd where nd: "nodes st (p_node p) = Some nd"
    and g: "vGPUID2GPU nd (sget (p_annotations p) FaSTGShareVGPUUUID) = Some g"
    using assms(1) by (auto simp: gpu_at_def split: option.splits)
  show ?thesis using assms(2) nd g by (auto simp: removePodFromList_def Let_def podlist_len_def)
qed

theorem exclusive_removal_panics_witness:
  "removePodFromList (demo_pod\<lparr>p_annotations := [FaSTGShareVGPUUUID \<mapsto> ''u1'', FastGshareAllocationType \<mapsto> ''Exclusive'']\<rparr>)
     demo_admitted = Panic"
  by (rule exclusive_removal_panics[where g = demo_info1])
    (simp_all add: annotation_keys demo_pod_def demo_admitted_gpu
      GetAllocationType_String[of AllocationTypeExclusive, simplified])

text \<open>
  When a node's configurator no longer answers, removing the last FaSTPod of one of its GPUs
  panics: the nil response of \<open>DisableMPS\<close> is dereferenced.
\<close>

theorem dead_node_removal_panics:
  assumes inv: "mgr_ok st" and rec: "recorded_fastpod st p nd g r" and last: "FastPodList g = [r]"
    and dead: "grpcClient nd = Some cl" "rpc_DisableMPS cl (UUID g) = None"
  shows "removePodFromList p st = Panic"
proof (rule fastpod_removal_eq[OF inv rec])
  let ?v = "sget (p_annotations p) FaSTGShareVGPUUUID"
  fix st2 nd2 g'
  assume e: "removePodFromList p st = (if filter (\<lambda>x. fp_Key x \<noteq> PodKey p) (FastPodList g) = []
       then give_up_gpu AllocationTypeFastPod (p_node p) ?v st2 else Ret st2)"
    and "nodes st2 = (nodes st)(p_node p \<mapsto> nd2)" "vGPUID2GPU nd2 = (vGPUID2GPU nd)(?v \<mapsto> g')"
      "grpcClient nd2 = grpcClient nd" "UUID g' = UUID g"
  moreover have "filter (\<lambda>x. fp_Key x \<noteq> PodKey p) (FastPodList g) = []"
    using rec last by (simp add: recorded_fastpod_def)
  ultimately show ?thesis using dead by (simp add: give_up_gpu_def)
qed

definition demo_dead :: mgr where
  "demo_dead = set_client ''n1'' (demo_rpc\<lparr>rpc_DisableMPS := (\<lambda>u. None)\<rparr>) demo_admitted"

theorem dead_node_removal_panics_witness: "mgr_ok demo_dead \<and> removePodFromList demo_pod demo_dead = Panic"
proof
  let ?cl = "demo_rpc\<lparr>rpc_DisableMPS := (\<lambda>u. None)\<rparr>"
  have "client_ok ?cl" using demo_client_ok by (simp add: client_ok_def)
  moreover have "clients_ok demo_admitted" using sys_reachable_inv[OF demo_reachable] by (simp add: sys_inv_def)
  ultimately show ok: "mgr_ok demo_dead" unfolding demo_dead_def using set_client_ok demo_admitted_ok by blast
  have "recorded_fastpod demo_dead demo_pod ((demo_node demo_ports1 [''u1'' \<mapsto> demo_info1])\<lparr>grpcClient := Some ?cl\<rparr>)
      demo_info1 demo_entry"
    by (simp add: recorded_fastpod_def demo_pod_annotations demo_dead_def set_client_def demo_admitted_def
        demo_mgr_def demo_node_def demo_info1_def demo_entry_def)
  from dead_node_removal_panics[OF ok this, of ?cl] show "removePodFromList demo_pod demo_dead = Panic"
    by (simp add: demo_info1_def)
qed

definition tight_gpu :: GPUDevInfo where
  "tight_gpu = demo_info\<lparr>allocationType := AllocationTypeFastPod, Usage := fadd (Fin 0) (share (fl (4 / 10)) 90),
     UsageMem := 1000, FastPodList := [demo_entry\<lparr>QtRequest := fl (4 / 10), SMPartition := 90\<rparr>]\<rparr>"

definition tight_req :: ResourceRequest where
  "tight_req = demo_fastpod_req\<lparr>req_FastPod :=
     Some \<lparr>QuotaReq = fl (8 / 10), QuotaLimit = Fin 1, ReqSMPartition = 80\<rparr>\<rparr>"

text \<open>
  The scheduler and the GPU manager compute a request's share with different roundings: on a GPU
  that holds one FaSTPod (quota 0.4, 90 percent of the SMs), a request with quota 0.8 and 80 percent
  passes \<open>canFitFastPod\<close> but takes the usage the manager computes above 1, so that the manager refuses it.
\<close>

theorem canFit_and_admission_disagree:
  "gpu_ok tight_gpu \<and> request_ok tight_req \<and> canFit tight_req tight_gpu = Ret True
   \<and> admit_fastpod tight_req ''ns/f-2'' demo_ports1 tight_gpu = Ret (Inl 3)"
proof -
  have q: "quota_ok (fl (4 / 10))" "quota_ok (fl (8 / 10))" by code_simp+
  have u: "usage_ok (fadd (Fin 0) (share (fl (4 / 10)) 90))" by code_simp
  have fits: "\<not> fgt (fadd (fadd (Fin 0) (share (fl (4 / 10)) 90))
      (fdiv (fmul (fl (8 / 10)) (f_of_int 80)) (Fin 100))) (Fin 1)" by code_simp
  have exceeds: "fgt (fadd (fadd (Fin 0) (share (fl (4 / 10)) 90)) (share (fl (8 / 10)) 80)) (Fin 1)"
    by code_simp
  have "gpu_ok tight_gpu"
    using q u by (simp add: gpu_ok_def type_ok_def tight_gpu_def demo_info_def demo_entry_def fp_ok_def balanced_def)
  moreover have "request_ok tight_req"
    using q by (simp add: request_ok_def tight_req_def demo_fastpod_req_def)
  moreover have "canFit tight_req tight_gpu = Ret True"
    using fits by (simp add: canFit_def canFitFastPod_def tight_req_def tight_gpu_def demo_fastpod_req_def
        demo_info_def sub64_def to_signed_def Let_def)
  moreover have "admit_fastpod tight_req ''ns/f-2'' demo_ports1 tight_gpu = Ret (Inl 3)"
    using exceeds by (simp add: admit_fastpod_def FindInQueue_fast tight_req_def tight_gpu_def
        demo_fastpod_req_def demo_info_def demo_entry_def Let_def)
  ultimately show ?thesis by simp
qed

text \<open>
  A pod that is still listed after its GPU was given up and taken over by MPS pods (its annotations
  name the GPU and the old type) makes \<open>removeFaSTPodFromList\<close> drop the GPU's entry although it holds a
  live pod: the memory that pod uses is forgotten.
\<close>

theorem stale_pod_drops_live_gpu:
  "\<exists>st'. gpu_at demo_mps_admitted ''n1'' ''u1'' = Some demo_mps_info \<and> MPSPodList demo_mps_info \<noteq> []
     \<and> removeFaSTPodFromList [demo_pod] demo_mps_admitted = Ret st' \<and> gpu_at st' ''n1'' ''u1'' = None"
  by (auto simp: remove_pod_of_fastpod_def demo_pod_annotations demo_mps_admitted_def demo_mps_info_def
      demo_mgr_def demo_node_def demo_info_def drop_fastpod_def updatePodsGPUConfig_def demo_rpc_def
      gpu_at_def put_gpu_def put_node_def Let_def)

text \<open>
  A scheduling decision survives the removal of another pod: if a FaSTPod request fits on a GPU, it
  still fits after any FaSTPod has been removed from it, also with the rounding of the usage.
\<close>

theorem canFit_stable_under_removal:
  assumes ok: "gpu_ok g" and fit: "canFitFastPod req g"
  shows "canFitFastPod req (fst (drop_fastpod k g))"
proof (cases "find_first (\<lambda>r. fp_Key r = k) (FastPodList g)")
  case None
  then show ?thesis using fit by (simp add: drop_fastpod_def)
next
  case (Some r)
  obtain q where q: "req_FastPod req = Some q" using fit by (auto simp: canFitFastPod_def split: if_splits option.splits)
  have rset: "r \<in> set (FastPodList g)" using find_first_SomeD[OF Some] by simp
  have ty: "allocationType g = AllocationTypeFastPod"
    using fit ok rset by (auto simp: canFitFastPod_def gpu_ok_def type_ok_def split: if_splits option.splits)
  note okd = gpu_ok_drop_fastpod[OF ok ty, of k]
  have b: "balanced (Mem g) (UsageMem g) (map fp_Memory (FastPodList g))"
    using ok ty by (auto simp: gpu_ok_def type_ok_def)
  obtain s where s: "share (QtRequest r) (SMPartition r) = Fin s" "0 \<le> s" "s \<le> 1"
  proof (rule share_unit)
    show "quota_ok (QtRequest r)" "0 \<le> SMPartition r" "SMPartition r \<le> 100"
      using ok rset by (auto simp: gpu_ok_def fp_ok_def)
  qed
  obtain u where u: "Usage g = Fin u" "rnd u = u" "- (2 ^ 54) \<le> u" "u \<le> 1"
    using ok by (auto simp: gpu_ok_def usage_ok_def split: float64.splits)
  have "fl (u - s) = Fin (rnd (u - s))" using fl_in_range[of "u - s"] u s by simp
  then have u': "Usage (fst (drop_fastpod k g)) = Fin (rnd (u - s))"
    by (simp add: drop_fastpod_def Some u(1) s(1) fsub_def)
  have le: "rnd (u - s) \<le> u" using f64.sub_le[of s u] s(2) u(2) by simp
  have mem: "UsageMem (fst (drop_fastpod k g)) \<le> UsageMem g"
    using fp.entry_le_tot[OF b Some] gpu_ok_mem[OF ok] sub64_id[of "UsageMem g" "fp_Memory r"]
    by (simp add: drop_fastpod_def Some)
  have sub: "sub64 (Mem g) (UsageMem g) = Mem g - UsageMem g"
    "sub64 (Mem g) (UsageMem (fst (drop_fastpod k g))) = Mem g - UsageMem (fst (drop_fastpod k g))"
    using gpu_ok_mem[OF ok] gpu_ok_mem[OF okd] mem by (auto intro!: sub64_id simp: fp.drop_cap)
  let ?x = "fdiv (fmul (QuotaReq q) (f_of_int (ReqSMPartition q))) (Fin 100)"
  have "\<not> fgt (fadd (Fin (rnd (u - s))) ?x) (Fin 1)" if "\<not> fgt (fadd (Fin u) ?x) (Fin 1)"
    by (rule fadd_not_gt_mono[OF le that])
  then show ?thesis using fit q u(1) u' mem sub ty
    by (auto simp: canFitFastPod_def drop_fastpod_def Some Let_def split: if_splits)
qed

theorem canFit_stable_under_removal_witness:
  "canFitFastPod demo_fastpod_req demo_info1 \<and> canFitFastPod demo_fastpod_req (fst (drop_fastpod ''ns/f-1'' demo_info1))"
proof -
  have "fadd (Fin (1 / 4)) (fdiv (fmul (Fin (1 / 2)) (f_of_int 50)) (Fin 100)) = Fin (1 / 2)" by code_simp
  then have "canFitFastPod demo_fastpod_req demo_info1"
    by (simp add: canFitFastPod_def demo_fastpod_req_def demo_info1_def demo_info_def sub64_def to_signed_def fgt_def)
  moreover have "gpu_ok demo_info1" using gpu_at_ok[OF demo_admitted_ok demo_admitted_gpu] .
  ultimately show ?thesis using canFit_stable_under_removal by blast
qed
end
