(* ===== verification/Pod_Request.thy ===== *)
theory Pod_Request
  imports Gpu_Failures
begin

text \<open>
  From a FaSTPod to a pod (\<open>new_pod.go\<close>, \<open>makeLabels\<close> of \<open>controller_util.go\<close>): the resource request is
  read from the annotations and validated, and the pod object is built from the FaSTPod and the
  allocation. \<open>parseFloat\<close> stands for \<open>strconv.ParseFloat(_, 64)\<close>.
\<close>

section \<open>The resource request of a FaSTPod\<close>

definition nonempty :: "string \<Rightarrow> string option" where
  "nonempty s = (if s \<noteq> [] then Some s else None)"

definition getPodRequestFromPod :: "(string \<Rightarrow> float64 option) \<Rightarrow> fastpod \<Rightarrow> string + ResourceRequest" where
  "getPodRequestFromPod parseFloat f =
     (let a = sget (f_annotations f);
          allocationTypeValue = GetAllocationType (a FastGshareAllocationType)
      in case ParseInt (a FaSTGShareGPUMemory) of
           (gpuMemoryValue, Some _) \<Rightarrow> Inl ''failed to parse GPU memory''
         | (gpuMemoryValue, None) \<Rightarrow>
             let r = \<lparr>req_podKey = key_of (f_namespace f) (f_name f),
                      req_AllocationType = allocationTypeValue,
                      RequestedNode = nonempty (a FaSTGShareNodeName),
                      RequestGPUUUID = nonempty (a FaSTGShareVGPUUUID),
                      RequestedGPUType = nonempty (a FaSTGShareVGPUType),
                      SMRequest = None, ReqSMPercentage = None, ReqMemory = gpuMemoryValue,
                      req_FastPod = None\<rparr>
             in if allocationTypeValue = AllocationTypeFastPod
                then (case parseFloat (a FaSTGShareGPUQuotaRequest) of
                        None \<Rightarrow> Inl ''failed to parse GPU quota request''
                      | Some quotaValue \<Rightarrow>
                          (case parseFloat (a FaSTGShareGPUQuotaLimit) of
                             None \<Rightarrow> Inl ''failed to parse GPU quota limit''
                           | Some quotaLimitValue \<Rightarrow>
                               (case Atoi (a FaSTGShareGPUSMPartition) of
                                  (smPartitionValue, Some _) \<Rightarrow> Inl ''failed to parse SM partition''
                                | (smPartitionValue, None) \<Rightarrow>
                                    Inr (r\<lparr>req_FastPod := Some \<lparr>QuotaReq = quotaValue,
                                             QuotaLimit = quotaLimitValue, ReqSMPartition = smPartitionValue\<rparr>,
                                           ReqSMPercentage := Some smPartitionValue\<rparr>))))
                else if allocationTypeValue = AllocationTypeExclusive
                then (case (Atoi (a FaSTGShareGPUSMValue), Atoi (a FaSTGShareGPUSMPartition)) of
                        ((smValueInt, err1), (smPartitionValue, err2)) \<Rightarrow>
                          if err1 \<noteq> None \<and> err2 \<noteq> None then Inl ''failed to parse SM value''
                          else if smValueInt > 0 then Inr (r\<lparr>SMRequest := Some smValueInt\<rparr>)
                          else Inr (r\<lparr>ReqSMPercentage := Some smPartitionValue\<rparr>))
                else Inr r)"

text \<open>\<open>validatePodRequest\<close>: the error, or \<open>None\<close> for a valid request.\<close>

definition validatePodRequest :: "ResourceRequest \<Rightarrow> string option" where
  "validatePodRequest request =
     (if req_AllocationType request = AllocationTypeNone then Some ''AllocationType is None''
      else case (case req_FastPod request of
                   None \<Rightarrow> None
                 | Some q \<Rightarrow>
                     if fgt (QuotaLimit q) (Fin 1) \<or> flt (QuotaLimit q) (Fin 0)
                     then Some ''invalid quota limitation value''
                     else if fgt (QuotaReq q) (Fin 1) \<or> flt (QuotaReq q) (Fin 0)
                     then Some ''invalid quota request value''
                     else if ReqSMPartition q < 0 \<or> ReqSMPartition q > 100
                     then Some ''invalid SM partition value''
                     else None) of
             Some e \<Rightarrow> Some e
           | None \<Rightarrow>
               if req_AllocationType request = AllocationTypeExclusive
                  \<and> SMRequest request = None \<and> ReqSMPercentage request = None
               then Some ''either SMRequest or SMPercentage must be provided for exclusive allocation''
               else if req_AllocationType request = AllocationTypeExclusive
                  \<and> (case SMRequest request of None \<Rightarrow> False | Some s \<Rightarrow> s \<le> 0)
               then Some ''SMRequest must be greater than 0''
               else if req_AllocationType request = AllocationTypeExclusive
                  \<and> (case ReqSMPercentage request of None \<Rightarrow> False | Some s \<Rightarrow> s < 0 \<or> s > 100)
               then Some ''SMPercentage must be between 0 and 100''
               else if ReqMemory request < 0 then Some ''invalid memory value''
               else None)"

section \<open>The pod object\<close>

record NewPodParams =
  IsWarm :: bool
  BoundDevUUID :: string
  SchedNode :: string
  SchedvGPUID :: string
  PodName :: string
  par_MPSConfig :: "MPSConfig option"

definition FaSTPodLibraryDir :: string where
  "FaSTPodLibraryDir = ''/fastpod/library''"

definition fastpodKind :: string where
  "fastpodKind = ''FaSTPod''"

definition makeLabels :: "fastpod \<Rightarrow> smap" where
  "makeLabels f =
     (let funcname = (case f_labels f ''fast_function'' of Some v \<Rightarrow> v | None \<Rightarrow> f_name f)
      in [''fast_function'' \<mapsto> funcname, ''app'' \<mapsto> f_name f, ''controller'' \<mapsto> f_name f] ++ f_labels f)"

definition mps_env :: "string \<Rightarrow> MPSConfig option \<Rightarrow> (string \<times> string) list" where
  "mps_env smPartition c = (case c of
     None \<Rightarrow> []
   | Some m \<Rightarrow>
       [(''CUDA_MPS_PIPE_DIRECTORY'', ''/tmp/mps''), (''CUDA_MPS_LOG_DIRECTORY'', ''/tmp/mps_log'')] @
       (case FastPodMPS m of
          None \<Rightarrow> []
        | Some fm \<Rightarrow> [(''CUDA_MPS_ACTIVE_THREAD_PERCENTAGE'', smPartition),
                      (''SCHEDULER_IP'', SchedulerIP fm),
                      (''GPU_CLIENT_PORT'', Itoa (GpuClientPort fm)),
                      (''LD_PRELOAD'', FaSTPodLibraryDir @ ''/libfast.so.1'')]))"

definition new_container :: "fastpod \<Rightarrow> NewPodParams \<Rightarrow> container \<Rightarrow> container" where
  "new_container f params ctn =
     ctn\<lparr>c_env := c_env ctn @
           [(''NVIDIA_VISIBLE_DEVICES'', BoundDevUUID params), (''CUDA_VISIBLE_DEVICES'', BoundDevUUID params),
            (''NVIDIA_DRIVER_CAPABILITIES'', ''compute,utility'')] @
           mps_env (sget (f_annotations f) FaSTGShareGPUSMPartition) (par_MPSConfig params) @
           [(''POD_NAME'', key_of (f_namespace f) (PodName params))],
         c_mounts := c_mounts ctn @ [(''fastpod-lib'', FaSTPodLibraryDir)] @
           (if par_MPSConfig params \<noteq> None
            then [(''nvidia-mps-tmp'', ''/tmp/mps''), (''nvidia-mps-tmp-log'', ''/tmp/mps_log'')] else []),
         c_pull := c_pull (hd (f_containers f))\<rparr>"

definition new_volumes :: "NewPodParams \<Rightarrow> (string \<times> string) list" where
  "new_volumes params = (''fastpod-lib'', FaSTPodLibraryDir) #
     (case par_MPSConfig params of
        None \<Rightarrow> []
      | Some m \<Rightarrow> [(''nvidia-mps-tmp'', PipeDirectory m), (''nvidia-mps-tmp-log'', LogDirectory m)])"

definition new_annotations :: "fastpod \<Rightarrow> NewPodParams \<Rightarrow> smap" where
  "new_annotations f params =
     (let a = sget (f_annotations f)
      in (f_annotations f)
           (FastGShareWarm \<mapsto> (if IsWarm params then ''true'' else ''false''),
            FaSTGShareGPUQuotaRequest \<mapsto> a FaSTGShareGPUQuotaRequest,
            FaSTGShareGPUQuotaLimit \<mapsto> a FaSTGShareGPUQuotaLimit,
            FaSTGShareGPUMemory \<mapsto> a FaSTGShareGPUMemory,
            FaSTGShareVGPUUUID \<mapsto> SchedvGPUID params,
            FastGshareAllocationType \<mapsto> a FastGshareAllocationType))"

definition newPod :: "fastpod \<Rightarrow> NewPodParams \<Rightarrow> pod" where
  "newPod f params =
     \<lparr>p_namespace = f_namespace f, p_name = PodName params, p_uid = [], p_labels = makeLabels f,
      p_annotations = new_annotations f params,
      p_owner = Some \<lparr>o_kind = fastpodKind, o_name = f_name f\<rparr>,
      p_creation = 0, p_deletion = None, p_node = SchedNode params,
      p_containers = map (new_container f params) (f_containers f),
      p_volumes = f_volumes f @ new_volumes params,
      p_hostIPC = True, p_phase = [], p_conditions = [], p_restarts = []\<rparr>"

section \<open>Validated requests\<close>

text \<open>The shape of a request read from the annotations.\<close>

lemma getPodRequestFromPod_type:
  assumes "getPodRequestFromPod pf f = Inr req"
  shows "req_AllocationType req = GetAllocationType (sget (f_annotations f) FastGshareAllocationType)"
    and "req_FastPod req \<noteq> None \<longleftrightarrow> req_AllocationType req = AllocationTypeFastPod"
    and "RequestedNode req = nonempty (sget (f_annotations f) FaSTGShareNodeName)"
    and "RequestGPUUUID req = nonempty (sget (f_annotations f) FaSTGShareVGPUUUID)"
    and "ReqMemory req = fst (ParseInt (sget (f_annotations f) FaSTGShareGPUMemory))"
  using assms
  by (auto simp: getPodRequestFromPod_def Let_def split: prod.splits option.splits if_splits)

lemma unit_not_NaN:
  "q \<noteq> NaN \<Longrightarrow> \<not> fgt q (Fin 1) \<Longrightarrow> \<not> flt q (Fin 0) \<Longrightarrow> quota_ok q"
  by (cases q) (auto simp: quota_ok_def fgt_def)

lemma validatePodRequest_None:
  assumes "validatePodRequest req = None"
  shows "req_AllocationType req \<noteq> AllocationTypeNone" "0 \<le> ReqMemory req"
    "req_FastPod req = Some q \<Longrightarrow> \<not> fgt (QuotaReq q) (Fin 1) \<and> \<not> flt (QuotaReq q) (Fin 0)
       \<and> 0 \<le> ReqSMPartition q \<and> ReqSMPartition q \<le> 100"
  using assms by (auto simp: validatePodRequest_def split: if_splits option.splits)



lemma nan_absorbs: "fadd x NaN = NaN" "fadd NaN x = NaN" "fmul NaN x = NaN" "fdiv NaN x = NaN"
  by (cases x; simp)+

text \<open>
  A quota that parses as NaN passes validation and every compute check: such a request fits on any GPU
  that FaSTPods may share and that has the memory, and once it is admitted the GPU's usage is NaN, so that
  any later request passes the scheduler's compute check whatever its size.
\<close>

theorem nan_quota_poisons_usage:
  assumes req: "req_AllocationType req = AllocationTypeFastPod" "req_FastPod req = Some q" "QuotaReq q = NaN"
    and g: "allocationType g = AllocationTypeFastPod" "ReqMemory req \<le> sub64 (Mem g) (UsageMem g)"
    and later: "req_AllocationType req' = AllocationTypeFastPod" "req_FastPod req' = Some q'"
      "ReqMemory req' \<le> sub64 (Mem g) (add64 (UsageMem g) (ReqMemory req))"
    and r: "r = \<lparr>fp_Key = k, QtRequest = QuotaReq q, QtLimit = QuotaLimit q, SMPartition = ReqSMPartition q,
     fp_Memory = ReqMemory req, GPUClientPort = port\<rparr>"
  shows "validatePodRequest req = validatePodRequest (req\<lparr>req_FastPod := Some (q\<lparr>QuotaReq := Fin 0\<rparr>)\<rparr>)
    \<and> canFitFastPod req g
    \<and> \<not> fgt (fadd (Usage g) (share (QuotaReq q) (ReqSMPartition q))) (Fin 1)
    \<and> Usage (push_fastpod r g) = NaN \<and> canFitFastPod req' (push_fastpod r g)"
  using assms by (auto simp: validatePodRequest_def canFitFastPod_def push_fastpod_def share_def nan_absorbs
      fgt_def Let_def)

text \<open>The second request asks for ten times a whole GPU.\<close>

theorem nan_quota_poisons_usage_witness:
  "canFitFastPod (demo_fastpod_req\<lparr>req_FastPod := Some \<lparr>QuotaReq = Fin 10, QuotaLimit = Fin 1, ReqSMPartition = 100\<rparr>\<rparr>)
     (push_fastpod \<lparr>fp_Key = ''ns/f-9'', QtRequest = NaN, QtLimit = Fin 1, SMPartition = 50, fp_Memory = 1000,
        GPUClientPort = 56009\<rparr> demo_info1)"
  using nan_quota_poisons_usage[of "demo_fastpod_req\<lparr>req_FastPod := Some \<lparr>QuotaReq = NaN, QuotaLimit = Fin 1, ReqSMPartition = 50\<rparr>\<rparr>"
      "\<lparr>QuotaReq = NaN, QuotaLimit = Fin 1, ReqSMPartition = 50\<rparr>" demo_info1
      "demo_fastpod_req\<lparr>req_FastPod := Some \<lparr>QuotaReq = Fin 10, QuotaLimit = Fin 1, ReqSMPartition = 100\<rparr>\<rparr>"
      "\<lparr>QuotaReq = Fin 10, QuotaLimit = Fin 1, ReqSMPartition = 100\<rparr>"
      "\<lparr>fp_Key = ''ns/f-9'', QtRequest = NaN, QtLimit = Fin 1, SMPartition = 50, fp_Memory = 1000,
        GPUClientPort = 56009\<rparr>" "''ns/f-9''" 56009]
  by (simp add: demo_fastpod_req_def demo_info1_def demo_info_def sub64_def add64_def to_signed_def)

text \<open>
  An exclusive FaSTPod that asks for a number of SMs (annotation \<open>gpu_sm_value\<close>) passes validation but
  can never be scheduled: its request has no SM percentage, and \<open>canFit\<close> panics on it for every GPU.
\<close>

theorem exclusive_sm_value_panics:
  assumes "getPodRequestFromPod pf f = Inr req"
    and "GetAllocationType (sget (f_annotations f) FastGshareAllocationType) = AllocationTypeExclusive"
    and "fst (Atoi (sget (f_annotations f) FaSTGShareGPUSMValue)) > 0" "0 \<le> ReqMemory req"
  shows "validatePodRequest req = None \<and> canFit req g = Panic"
proof -
  have "SMRequest req = Some (fst (Atoi (sget (f_annotations f) FaSTGShareGPUSMValue)))
      \<and> ReqSMPercentage req = None \<and> req_FastPod req = None"
    using assms(1-3) by (auto simp: getPodRequestFromPod_def Let_def split: prod.splits option.splits if_splits)
  moreover have "req_AllocationType req = AllocationTypeExclusive"
    using getPodRequestFromPod_type(1)[OF assms(1)] assms(2) by simp
  ultimately show ?thesis using assms(3,4)
    by (simp add: validatePodRequest_def canFit_def canFitExclusive_def)
qed

lemma demo_numbers:
  "ParseInt ''1000'' = (1000, None)" "Atoi ''20'' = (20, None)" "Atoi ''50'' = (50, None)"
  by (simp_all add: Atoi_def ParseInt_def is_digit_def digit_val_def)

definition demo_exclusive :: fastpod where
  "demo_exclusive = \<lparr>f_namespace = ''ns'', f_name = ''e'', f_labels = Map.empty,
     f_annotations = [FastGshareAllocationType \<mapsto> ''Exclusive'', FaSTGShareGPUMemory \<mapsto> ''1000'',
       FaSTGShareGPUSMValue \<mapsto> ''20'', FaSTGShareNodeName \<mapsto> ''n1'', FaSTGShareVGPUUUID \<mapsto> ''u1''],
     f_containers = [], f_initContainers = [], f_volumes = [], f_replicas = Some 1, f_selector = None,
     f_status = \<lparr>ReadyReplicas = 0, AvailableReplicas = 0, StatusReplicas = 0, BoundDeviceIDs = None,
       GPUClientPorts = None, UsageStatus = None, Pod2Node = None, ResourceConfig = None\<rparr>\<rparr>"

theorem exclusive_sm_value_panics_witness:
  "\<exists>req. getPodRequestFromPod (\<lambda>s. None) demo_exclusive = Inr req \<and> validatePodRequest req = None
     \<and> canFit req demo_info = Panic"
proof -
  have a: "sget (f_annotations demo_exclusive) FastGshareAllocationType = ''Exclusive''"
    "sget (f_annotations demo_exclusive) FaSTGShareGPUMemory = ''1000''"
    "sget (f_annotations demo_exclusive) FaSTGShareGPUSMValue = ''20''"
    by (simp_all add: demo_exclusive_def annotation_keys)
  note p = demo_numbers
  have t: "GetAllocationType ''Exclusive'' = AllocationTypeExclusive" by code_simp
  obtain req where req: "getPodRequestFromPod (\<lambda>s. None) demo_exclusive = Inr req" "ReqMemory req = 1000"
    by (auto simp: getPodRequestFromPod_def a p t Let_def split: prod.splits)
  then show ?thesis using exclusive_sm_value_panics[OF req(1), of demo_info] by (simp add: a p t)
qed

section \<open>The pod of an admitted request\<close>


definition demo_fastpod :: fastpod where
  "demo_fastpod = demo_exclusive\<lparr>f_name := ''f'', f_annotations :=
     [FastGshareAllocationType \<mapsto> ''FastPod'', FaSTGShareGPUMemory \<mapsto> ''1000'',
      FaSTGShareGPUQuotaRequest \<mapsto> ''0.5'', FaSTGShareGPUQuotaLimit \<mapsto> ''1'', FaSTGShareGPUSMPartition \<mapsto> ''50'',
      FaSTGShareNodeName \<mapsto> ''n1'', FaSTGShareVGPUUUID \<mapsto> ''u1''],
     f_containers := [\<lparr>c_name = ''c'', c_env = [], c_mounts = [], c_pull = ''Always''\<rparr>]\<rparr>"

text \<open>\<open>strconv.ParseFloat\<close> on the two strings the examples use.\<close>

definition demo_parseFloat :: "string \<Rightarrow> float64 option" where
  "demo_parseFloat s = (if s = ''0.5'' then Some (Fin (1 / 2)) else if s = ''1'' then Some (Fin 1) else None)"

lemma demo_fastpod_request: "getPodRequestFromPod demo_parseFloat demo_fastpod = Inr
    (demo_fastpod_req\<lparr>ReqSMPercentage := Some 50\<rparr>)"
proof -
  note p = demo_numbers
  have t: "GetAllocationType ''FastPod'' = AllocationTypeFastPod" by code_simp
  show ?thesis
    by (simp add: getPodRequestFromPod_def demo_fastpod_def demo_exclusive_def annotation_keys p t
        demo_parseFloat_def nonempty_def demo_fastpod_req_def key_of_def Let_def)
qed


text \<open>
  Every container of the pod built for a FaSTPod allocation carries the port of the allocation in
  \<open>GPU_CLIENT_PORT\<close> as a decimal number that parses back to it, the GPU in \<open>CUDA_VISIBLE_DEVICES\<close>, and keeps
  its own variables in front.
\<close>

theorem new_pod_port_roundtrip:
  assumes "par_MPSConfig params = Some c" "FastPodMPS c = Some fm"
    and "- (2 ^ 63) \<le> GpuClientPort fm" "GpuClientPort fm < 2 ^ 63" "ctn \<in> set (p_containers (newPod f params))"
  shows "\<exists>s. (''GPU_CLIENT_PORT'', s) \<in> set (c_env ctn) \<and> ParseInt s = (GpuClientPort fm, None)
    \<and> (''CUDA_VISIBLE_DEVICES'', BoundDevUUID params) \<in> set (c_env ctn)
    \<and> (\<exists>old \<in> set (f_containers f). take (length (c_env old)) (c_env ctn) = c_env old)"
proof -
  obtain old where "old \<in> set (f_containers f)" "ctn = new_container f params old"
    using assms(5) by (auto simp: newPod_def)
  then show ?thesis using ParseInt_Itoa[OF assms(3,4)] assms(1,2)
    by (auto simp: new_container_def mps_env_def intro!: exI[of _ "Itoa (GpuClientPort fm)"] bexI[of _ old])
qed

theorem new_pod_port_roundtrip_witness:
  "\<exists>ctn s. ctn \<in> set (p_containers (newPod demo_fastpod \<lparr>IsWarm = False, BoundDevUUID = ''u1'', SchedNode = ''n1'',
       SchedvGPUID = ''u1'', PodName = ''f-1'', par_MPSConfig = Some \<lparr>LogDirectory = ''/log'', PipeDirectory = ''/tmp'',
       FastPodMPS = Some \<lparr>SchedulerIP = ''10.0.0.1'', GpuClientPort = 56001, ActiveThreadPercentage = 50\<rparr>\<rparr>\<rparr>))
     \<and> (''GPU_CLIENT_PORT'', s) \<in> set (c_env ctn) \<and> ParseInt s = (56001, None)"
proof -
  let ?fm = "\<lparr>SchedulerIP = ''10.0.0.1'', GpuClientPort = 56001, ActiveThreadPercentage = 50\<rparr>"
  let ?c = "\<lparr>LogDirectory = ''/log'', PipeDirectory = ''/tmp'', FastPodMPS = Some ?fm\<rparr>"
  let ?params = "\<lparr>IsWarm = False, BoundDevUUID = ''u1'', SchedNode = ''n1'', SchedvGPUID = ''u1'', PodName = ''f-1'',
    par_MPSConfig = Some ?c\<rparr>"
  let ?ctn = "new_container demo_fastpod ?params (hd (f_containers demo_fastpod))"
  have "?ctn \<in> set (p_containers (newPod demo_fastpod ?params))"
    by (simp add: newPod_def demo_fastpod_def)
  moreover from this have "\<exists>s. (''GPU_CLIENT_PORT'', s) \<in> set (c_env ?ctn) \<and> ParseInt s = (56001, None)"
    using new_pod_port_roundtrip[of ?params ?c ?fm ?ctn demo_fastpod] by auto
  ultimately show ?thesis by blast
qed

end
