(* ===== verification/Pod_Ranking.thy ===== *)
theory Pod_Ranking
  imports Pod_Request "HOL-Library.List_Lexorder" "HOL-Library.Char_ord" "HOL-Library.Log_Nat"
begin

text \<open>
  Which pods are active, which are counted, and which are deleted first when a FaSTPod is scaled down
  (\<open>controller_util.go\<close>).

  Functions of the Kubernetes libraries are fields of the record \<open>kube\<close>: whether a pod is ready or
  available, the deletion cost in its annotations, the two feature gates, and the integer part of
  \<open>math.Log2\<close> on a positive duration. \<open>sort.Sort\<close> is an argument; the locale \<open>go_sort\<close> has its documented
  behaviour, and \<open>insertionSort\<close> is what package sort runs on up to twelve elements.
\<close>

record kube =
  IsPodReady :: "pod \<Rightarrow> bool"
  IsPodAvailable :: "pod \<Rightarrow> bool"
  DeletionCost :: "smap \<Rightarrow> int"
  PodDeletionCost :: bool
  LogarithmicScaleDown :: bool
  ilog2 :: "int \<Rightarrow> int"

section \<open>Active pods and replica counts\<close>

definition IsPodActive :: "pod \<Rightarrow> bool" where
  "IsPodActive p \<longleftrightarrow> p_phase p \<noteq> ''Succeeded'' \<and> p_phase p \<noteq> ''Failed'' \<and> p_deletion p = None"

definition filterInactivePods :: "pod list \<Rightarrow> pod list" where
  "filterInactivePods pods = filter IsPodActive pods"

definition IsPodHot :: "pod \<Rightarrow> bool" where
  "IsPodHot p \<longleftrightarrow> sget (p_annotations p) FastGShareWarm \<noteq> ''true''"

definition getPodKeys :: "pod list \<Rightarrow> string list" where
  "getPodKeys pods = map PodKey pods"

definition LabelMinReplicas :: string where
  "LabelMinReplicas = ''com.openfaas.scale.min''"

definition getReplicas :: "fastpod \<Rightarrow> int option" where
  "getReplicas f =
     (let minReplicas = (case f_labels f LabelMinReplicas of
            None \<Rightarrow> None
          | Some v \<Rightarrow> (case Atoi v of
              (r, None) \<Rightarrow> if r > 0 then Some (to_signed 32 r) else None
            | (r, Some e) \<Rightarrow> None))
      in case (minReplicas, f_replicas f) of
           (None, None) \<Rightarrow> None
         | (Some m, None) \<Rightarrow> Some m
         | (mo, Some r) \<Rightarrow>
             if r = 0 then Some r
             else (case mo of None \<Rightarrow> Some r | Some m \<Rightarrow> if r \<ge> m then Some r else Some m))"

definition getFaSTPodReplicaStatus :: "kube \<Rightarrow> fastpod \<Rightarrow> pod list \<Rightarrow> fastpod_status" where
  "getFaSTPodReplicaStatus k f pods =
     (f_status f)\<lparr>StatusReplicas := to_signed 32 (int (length pods)),
       AvailableReplicas := to_signed 32 (int (length (filter (\<lambda>p. IsPodReady k p \<and> IsPodAvailable k p) pods))),
       ReadyReplicas := to_signed 32 (int (length (filter (IsPodReady k) pods)))\<rparr>"

section \<open>The deletion order\<close>

definition podPhaseToOrdinal :: "string \<Rightarrow> int" where
  "podPhaseToOrdinal ph = (if ph = ''Pending'' then 0 else if ph = ''Unknown'' then 1
     else if ph = ''Running'' then 2 else 0)"

definition afterOrZero :: "time \<Rightarrow> time \<Rightarrow> bool" where
  "afterOrZero t1 t2 = (if t1 = 0 \<or> t2 = 0 then t1 = 0 else t1 > t2)"

fun ready_condition :: "condition list \<Rightarrow> time" where
  "ready_condition [] = 0"
| "ready_condition (c # cs) =
     (if cond_type c = ''Ready'' \<and> cond_status c = ''True'' then cond_transition c else ready_condition cs)"

definition podReadyTime :: "kube \<Rightarrow> pod \<Rightarrow> time" where
  "podReadyTime k p = (if IsPodReady k p then ready_condition (p_conditions p) else 0)"

definition logarithmicRankDiff :: "kube \<Rightarrow> time \<Rightarrow> time \<Rightarrow> time \<Rightarrow> int" where
  "logarithmicRankDiff k t1 t2 now =
     (let d1 = time_Sub now t1; d2 = time_Sub now t2;
          r1 = (if d1 > 0 then ilog2 k d1 else -1); r2 = (if d2 > 0 then ilog2 k d2 else -1)
      in r1 - r2)"

fun maxContainerRestarts_from :: "int \<Rightarrow> int list \<Rightarrow> int" where
  "maxContainerRestarts_from m [] = m"
| "maxContainerRestarts_from m (c # cs) = maxContainerRestarts_from (max m c) cs"

definition maxContainerRestarts :: "pod \<Rightarrow> int" where
  "maxContainerRestarts p = maxContainerRestarts_from 0 (p_restarts p)"

text \<open>Rules 6 and 8 of \<open>Less\<close>: two different times, on a logarithmic scale when the gate is on.\<close>

definition time_less :: "kube \<Rightarrow> time \<Rightarrow> time \<Rightarrow> time \<Rightarrow> string \<Rightarrow> string \<Rightarrow> bool" where
  "time_less k now t1 t2 uid1 uid2 =
     (if \<not> LogarithmicScaleDown k then afterOrZero t1 t2
      else if now = 0 \<or> t1 = 0 \<or> t2 = 0 then afterOrZero t1 t2
      else let rankDiff = logarithmicRankDiff k t1 t2 now
           in if rankDiff = 0 then uid1 < uid2 else rankDiff < 0)"

text \<open>An element of \<open>ActivePodsWithRanks\<close> is a pod with its rank.\<close>

type_synonym ranked = "pod \<times> int"

definition Less :: "kube \<Rightarrow> time \<Rightarrow> ranked \<Rightarrow> ranked \<Rightarrow> bool" where
  "Less k now x y =
     (let pi = fst x; pj = fst y; ri = IsPodReady k pi; rj = IsPodReady k pj
      in if p_node pi \<noteq> p_node pj \<and> (p_node pi = [] \<or> p_node pj = []) then p_node pi = []
         else if podPhaseToOrdinal (p_phase pi) \<noteq> podPhaseToOrdinal (p_phase pj)
         then podPhaseToOrdinal (p_phase pi) < podPhaseToOrdinal (p_phase pj)
         else if ri \<noteq> rj then \<not> ri
         else if PodDeletionCost k \<and> DeletionCost k (p_annotations pi) \<noteq> DeletionCost k (p_annotations pj)
         then DeletionCost k (p_annotations pi) < DeletionCost k (p_annotations pj)
         else if snd x \<noteq> snd y then snd x > snd y
         else if ri \<and> rj \<and> podReadyTime k pi \<noteq> podReadyTime k pj
         then time_less k now (podReadyTime k pi) (podReadyTime k pj) (p_uid pi) (p_uid pj)
         else if maxContainerRestarts pi \<noteq> maxContainerRestarts pj
         then maxContainerRestarts pi > maxContainerRestarts pj
         else if p_creation pi \<noteq> p_creation pj
         then time_less k now (p_creation pi) (p_creation pj) (p_uid pi) (p_uid pj)
         else False)"

definition getPodsRankedByRelatedPodsOnSameNode :: "pod list \<Rightarrow> ranked list" where
  "getPodsRankedByRelatedPodsOnSameNode pods =
     map (\<lambda>p. (p, int (length (filter (\<lambda>q. IsPodActive q \<and> p_node q = p_node p) pods)))) pods"

text \<open>
  \<open>getPodsToDelete\<close>: sorting permutes \<open>existedPods\<close> in place, so the slice is of the sorted list. \<open>None\<close>
  is the nil result when as many pods are to be deleted as there are, or more.
\<close>

definition getPodsToDelete ::
  "((ranked \<Rightarrow> ranked \<Rightarrow> bool) \<Rightarrow> ranked list \<Rightarrow> ranked list) \<Rightarrow> kube \<Rightarrow> time \<Rightarrow> pod list \<Rightarrow> int \<Rightarrow> pod list option" where
  "getPodsToDelete sort_Sort k now existedPods diff =
     (if diff < int (length existedPods)
      then Some (take (nat diff) (map fst (sort_Sort (Less k now) (getPodsRankedByRelatedPodsOnSameNode existedPods))))
      else None)"

section \<open>Package sort\<close>

text \<open>
  A strict weak ordering, and what \<open>sort.Sort\<close> promises: a permutation in which no element is less than
  an earlier one, when the order is a strict weak ordering.
\<close>

definition strict_weak :: "('a \<Rightarrow> 'a \<Rightarrow> bool) \<Rightarrow> bool" where
  "strict_weak lt \<longleftrightarrow> (\<forall>x. \<not> lt x x) \<and> (\<forall>x y z. lt x z \<longrightarrow> lt x y \<or> lt y z)
     \<and> (\<forall>x y z. lt x y \<longrightarrow> lt y z \<longrightarrow> lt x z)"

definition in_order :: "('a \<Rightarrow> 'a \<Rightarrow> bool) \<Rightarrow> 'a list \<Rightarrow> bool" where
  "in_order lt xs = sorted_wrt (\<lambda>x y. \<not> lt y x) xs"

locale go_sort =
  fixes sort_Sort :: "('a \<Rightarrow> 'a \<Rightarrow> bool) \<Rightarrow> 'a list \<Rightarrow> 'a list"
  assumes permutes: "mset (sort_Sort lt xs) = mset xs"
    and sorts: "strict_weak lt \<Longrightarrow> in_order lt (sort_Sort lt xs)"
begin

lemma length_sort: "length (sort_Sort lt xs) = length xs"
  using permutes[of lt xs] by (metis size_mset)

lemma prefix_minimal:
  assumes "strict_weak lt" "x \<in> set (take n (sort_Sort lt xs))" "y \<in> set (drop n (sort_Sort lt xs))"
  shows "\<not> lt y x"
proof -
  have "in_order lt (take n (sort_Sort lt xs) @ drop n (sort_Sort lt xs))"
    using sorts[OF assms(1)] by simp
  then show ?thesis using assms(2,3) unfolding in_order_def sorted_wrt_append by blast
qed

end

text \<open>\<open>insertionSort\<close> of package sort: each element moves left while it is less than its neighbour.\<close>

fun sink :: "('a \<Rightarrow> 'a \<Rightarrow> bool) \<Rightarrow> 'a \<Rightarrow> 'a list \<Rightarrow> 'a list" where
  "sink lt x [] = [x]"
| "sink lt x (y # ys) = (if lt x y then y # sink lt x ys else x # y # ys)"

definition insertionSort :: "('a \<Rightarrow> 'a \<Rightarrow> bool) \<Rightarrow> 'a list \<Rightarrow> 'a list" where
  "insertionSort lt xs = rev (fold (sink lt) xs [])"

lemma mset_sink: "mset (sink lt x ys) = add_mset x (mset ys)"
  by (induction ys) auto

lemma set_sink [simp]: "set (sink lt x ys) = insert x (set ys)"
  by (induction ys) auto

lemma mset_fold_sink: "mset (fold (sink lt) xs acc) = mset xs + mset acc"
  by (induction xs arbitrary: acc) (simp_all add: mset_sink)

lemma sink_sorted:
  assumes "strict_weak lt" "sorted_wrt (\<lambda>x y. \<not> lt x y) ys"
  shows "sorted_wrt (\<lambda>x y. \<not> lt x y) (sink lt x ys)"
  using assms(2)
proof (induction ys)
  case (Cons y ys)
  have asym: "lt x y \<Longrightarrow> \<not> lt y x" using assms(1) unfolding strict_weak_def by blast
  have "\<not> lt x z" if "\<not> lt x y" "\<not> lt y z" for z
    using that assms(1) unfolding strict_weak_def by blast
  then show ?case using Cons asym by auto
qed simp

lemma fold_sink_sorted:
  "strict_weak lt \<Longrightarrow> sorted_wrt (\<lambda>x y. \<not> lt x y) acc \<Longrightarrow>
     sorted_wrt (\<lambda>x y. \<not> lt x y) (fold (sink lt) xs acc)"
  by (induction xs arbitrary: acc) (simp_all add: sink_sorted)

interpretation isort: go_sort insertionSort
  by unfold_locales
    (simp_all add: insertionSort_def mset_fold_sink in_order_def sorted_wrt_rev fold_sink_sorted)

section \<open>The deletion order is a lexicographic order\<close>

text \<open>
  Without the logarithmic scale, \<open>Less\<close> compares two pods by a list of numbers, the first difference
  deciding. A time gives two numbers: the zero time comes first, then later times before earlier ones.
\<close>

definition time_key :: "time \<Rightarrow> int list" where
  "time_key t = [if t = 0 then 0 else 1, - t]"

definition deletion_key :: "kube \<Rightarrow> ranked \<Rightarrow> int list" where
  "deletion_key k x =
     [if p_node (fst x) = [] then 0 else 1, podPhaseToOrdinal (p_phase (fst x)),
      if IsPodReady k (fst x) then 1 else 0,
      if PodDeletionCost k then DeletionCost k (p_annotations (fst x)) else 0, - snd x] @
     time_key (podReadyTime k (fst x)) @ [- maxContainerRestarts (fst x)] @ time_key (p_creation (fst x))"

lemma afterOrZero_key: "t1 \<noteq> t2 \<Longrightarrow> afterOrZero t1 t2 \<longleftrightarrow> time_key t1 < time_key t2"
  by (auto simp: afterOrZero_def time_key_def)

lemma lex_time:
  "t1 \<noteq> t2 \<Longrightarrow> time_key t1 @ xs < time_key t2 @ ys \<longleftrightarrow> afterOrZero t1 t2"
  "time_key t @ xs < time_key t @ ys \<longleftrightarrow> xs < ys"
  by (auto simp: afterOrZero_def time_key_def)

lemma lex_cons: "(a :: int) # xs < b # ys \<longleftrightarrow> (if a \<noteq> b then a < b else xs < ys)"
  by auto

lemma Less_deletion_key:
  assumes "\<not> LogarithmicScaleDown k"
  shows "Less k now x y \<longleftrightarrow> deletion_key k x < deletion_key k y"
proof -
  let ?x = "fst x" and ?y = "fst y"
  let ?last = "if p_creation ?x \<noteq> p_creation ?y then afterOrZero (p_creation ?x) (p_creation ?y) else False"
  let ?restarts = "if maxContainerRestarts ?x \<noteq> maxContainerRestarts ?y
    then maxContainerRestarts ?x > maxContainerRestarts ?y else ?last"
  have last: "time_key (p_creation ?x) < time_key (p_creation ?y) \<longleftrightarrow> ?last"
    by (auto simp: afterOrZero_key)
  have restarts: "- maxContainerRestarts ?x # time_key (p_creation ?x)
      < - maxContainerRestarts ?y # time_key (p_creation ?y) \<longleftrightarrow> ?restarts"
    using last by auto
  have ready: "podReadyTime k ?x \<noteq> podReadyTime k ?y \<Longrightarrow> IsPodReady k ?x = IsPodReady k ?y \<Longrightarrow> IsPodReady k ?x"
    by (auto simp: podReadyTime_def split: if_splits)
  have times: "time_key (podReadyTime k ?x) @ (- maxContainerRestarts ?x # time_key (p_creation ?x))
      < time_key (podReadyTime k ?y) @ (- maxContainerRestarts ?y # time_key (p_creation ?y)) \<longleftrightarrow>
      (if podReadyTime k ?x \<noteq> podReadyTime k ?y then afterOrZero (podReadyTime k ?x) (podReadyTime k ?y)
       else ?restarts)"
    using restarts lex_time by auto
  note key = deletion_key_def append_Cons append_Nil lex_cons times
  show ?thesis
  proof (cases "(p_node ?x = []) = (p_node ?y = [])")
    case False
    then show ?thesis by (auto simp: Less_def key Let_def)
  next
    case True
    then have 1: "\<not> (p_node ?x \<noteq> p_node ?y \<and> (p_node ?x = [] \<or> p_node ?y = []))" by auto
    note Less_eq = Less_def[of k now x y, unfolded Let_def, unfolded if_not_P[OF 1]]
    show ?thesis
    proof (cases "IsPodReady k ?x = IsPodReady k ?y")
      case False
      then show ?thesis using True by (auto simp: Less_eq key)
    next
      case r: True
      have "IsPodReady k ?x \<and> IsPodReady k ?y \<and> podReadyTime k ?x \<noteq> podReadyTime k ?y
          \<longleftrightarrow> podReadyTime k ?x \<noteq> podReadyTime k ?y" using r ready by blast
      with True r assms show ?thesis by (simp add: Less_eq key time_less_def)
    qed
  qed
qed

lemma Less_strict_weak:
  assumes "\<not> LogarithmicScaleDown k"
  shows "strict_weak (Less k now)"
proof -
  have "strict_weak (\<lambda>x y. deletion_key k x < deletion_key k y)"
    unfolding strict_weak_def by (intro conjI allI impI) (auto intro: less_trans)
  moreover have "Less k now = (\<lambda>x y. deletion_key k x < deletion_key k y)"
    by (intro ext) (rule Less_deletion_key[OF assms])
  ultimately show ?thesis by simp
qed

section \<open>Properties\<close>

text \<open>
  (C14) Without the logarithmic scale the deletion order is a lexicographic order: \<open>Less\<close> holds exactly when
  the pod's list of criteria (unassigned, phase, not ready, deletion cost, co-located pods, ready time,
  restarts, creation time) is smaller. It is therefore a strict weak ordering, which is what package sort
  requires.
\<close>

theorem deletion_order_lexicographic:
  assumes "\<not> LogarithmicScaleDown k"
  shows "(Less k now x y \<longleftrightarrow> deletion_key k x < deletion_key k y) \<and> strict_weak (Less k now)"
  using Less_deletion_key[OF assms] Less_strict_weak[OF assms] by simp

definition demo_kube :: kube where
  "demo_kube = \<lparr>IsPodReady = (\<lambda>p. p_phase p = ''Running''), IsPodAvailable = (\<lambda>p. p_phase p = ''Running''),
     DeletionCost = (\<lambda>a. 0), PodDeletionCost = True, LogarithmicScaleDown = False, 
     ilog2 = (\<lambda>d. int (floorlog 2 (nat d)) - 1)\<rparr>"

definition demo_pending :: pod where
  "demo_pending = demo_pod\<lparr>p_name := ''f-3'', p_phase := ''Pending''\<rparr>"

lemma demo_pending_first: "Less demo_kube 0 (demo_pending, 2) (demo_pod, 2)"
  by (simp add: Less_def demo_kube_def demo_pending_def demo_pod_def podPhaseToOrdinal_def)

theorem deletion_order_lexicographic_witness:
  "deletion_key demo_kube (demo_pending, 2) < deletion_key demo_kube (demo_pod, 2)"
  using deletion_order_lexicographic[of demo_kube 0 "(demo_pending, 2)" "(demo_pod, 2)"] demo_pending_first
  by (simp add: demo_kube_def)

definition cyc :: "string \<Rightarrow> time \<Rightarrow> int \<Rightarrow> pod" where
  "cyc uid ready restarts = demo_pod\<lparr>p_uid := uid, p_restarts := [restarts],
     p_conditions := [\<lparr>cond_type = ''Ready'', cond_status = ''True'', cond_transition = ready\<rparr>]\<rparr>"

text \<open>
  With the logarithmic scale the deletion order is not transitive: two pods with the same ready time are
  compared by their restarts, pods with different times in one bucket of the scale by their UIDs, and three
  pods can form a cycle. Package sort then promises no order at all.
\<close>

theorem logarithmic_order_cycles:
  "\<exists>x y z. Less (demo_kube\<lparr>LogarithmicScaleDown := True\<rparr>) 1000 x y
     \<and> Less (demo_kube\<lparr>LogarithmicScaleDown := True\<rparr>) 1000 y z
     \<and> Less (demo_kube\<lparr>LogarithmicScaleDown := True\<rparr>) 1000 z x"
  by (intro exI[of _ "(cyc ''c'' 100 5, 1)"] exI[of _ "(cyc ''a'' 100 0, 1)"] exI[of _ "(cyc ''b'' 101 0, 1)"])
    (simp add: Less_def cyc_def demo_kube_def demo_pod_def podReadyTime_def time_less_def
      logarithmicRankDiff_def time_Sub_def maxContainerRestarts_def less_char_def compute_floorlog)



text \<open>
  The replica status counts what it says: available pods are ready pods and ready pods are pods, so that
  the three counters are ordered; every other field of the status is kept.
\<close>

lemma replica_status_ordered:
  assumes "length pods < 2 ^ 31"
  shows "let s = getFaSTPodReplicaStatus k f pods
    in 0 \<le> AvailableReplicas s \<and> AvailableReplicas s \<le> ReadyReplicas s \<and> ReadyReplicas s \<le> StatusReplicas s
       \<and> StatusReplicas s = int (length pods) \<and> BoundDeviceIDs s = BoundDeviceIDs (f_status f)
       \<and> ResourceConfig s = ResourceConfig (f_status f)"
proof -
  let ?a = "length (filter (\<lambda>p. IsPodReady k p \<and> IsPodAvailable k p) pods)"
  let ?r = "length (filter (IsPodReady k) pods)"
  have "filter (\<lambda>p. IsPodReady k p \<and> IsPodAvailable k p) pods = filter (IsPodAvailable k) (filter (IsPodReady k) pods)"
    by (simp add: conj_commute)
  then have le: "?a \<le> ?r" "?r \<le> length pods" using length_filter_le by metis+
  have "to_signed 32 (int n) = int n" if "n \<le> length pods" for n
    using that assms by (intro to_signed_id) simp_all
  then show ?thesis using le by (simp add: getFaSTPodReplicaStatus_def Let_def)
qed

text \<open>
  The desired number of replicas: a FaSTPod scaled to zero stays at zero, otherwise the minimum given by
  the label is a lower bound, and a larger number set by an autoscaler is kept.
\<close>

lemma getReplicas_bounds:
  assumes "f_labels f LabelMinReplicas = Some v" "Atoi v = (m, None)" "0 < m" "m < 2 ^ 31"
  shows "getReplicas f = Some (case f_replicas f of None \<Rightarrow> m | Some r \<Rightarrow> if r = 0 then 0 else max r m)"
proof -
  have "to_signed 32 m = m" using assms(3,4) by (intro to_signed_id) simp_all
  then show ?thesis using assms by (auto simp: getReplicas_def Let_def max_def split: option.splits)
qed

end
