(* ===== verification/Slow_Start.thy ===== *)
theory Slow_Start
  imports Prelude
begin

text \<open>
  \<open>slowStartbatch\<close> (\<open>controller.go\<close>): calls a function up to \<open>count\<close> times in batches of doubling size and
  stops after the first batch with a failure. The calls of a batch run one after the other; \<open>fn\<close> is a
  state-passing function that returns a pod or nil and an error or nil.
\<close>

section \<open>The loop\<close>

definition Waiting4Dummy :: string where
  "Waiting4Dummy = ''Waiting4Dummy''"

text \<open>One batch: the errors put into \<open>errCh\<close> in order, and the counter \<open>need2wait\<close>.\<close>

fun run_batch ::
  "('s \<Rightarrow> (('p option \<times> string option) \<times> 's) go) \<Rightarrow> nat \<Rightarrow> string list \<Rightarrow> int \<Rightarrow> 's \<Rightarrow> ((string list \<times> int) \<times> 's) go" where
  "run_batch fn 0 errs need2wait st = Ret ((errs, need2wait), st)"
| "run_batch fn (Suc n) errs need2wait st =
     bind_go (fn st) (\<lambda>((pod, err), st').
       case err of
         None \<Rightarrow> run_batch fn n errs need2wait st'
       | Some e \<Rightarrow>
           run_batch fn n (if e \<noteq> Waiting4Dummy then errs @ [e] else errs)
             (if pod = None \<and> e = Waiting4Dummy then need2wait + 1 else need2wait) st')"

text \<open>
  The loop over the batches. The measure is the number of calls that remain, plus one while a batch is
  still to run.
\<close>

function slow_loop ::
  "('s \<Rightarrow> (('p option \<times> string option) \<times> 's) go) \<Rightarrow> int \<Rightarrow> int \<Rightarrow> int \<Rightarrow> int \<Rightarrow> 's \<Rightarrow> ((int \<times> string option) \<times> 's) go" where
  "slow_loop fn batchSize remaining successes need2wait st =
     (if batchSize > 0
      then bind_go (run_batch fn (nat batchSize) [] need2wait st) (\<lambda>((errs, need2wait'), st').
             let successes' = successes + (batchSize - int (length errs) - need2wait')
             in if errs \<noteq> [] then Ret ((successes', Some (hd errs)), st')
                else let remaining' = remaining - batchSize
                     in slow_loop fn (min (2 * batchSize) remaining') remaining' successes' need2wait' st')
      else if need2wait > 0 then Ret ((successes, Some ''Waiting4Dmmy''), st)
      else Ret ((successes, None), st))"
  by pat_completeness auto
termination
  by (relation "measure (\<lambda>(fn, b, r, _). nat r + (if b > 0 then 1 else 0))") auto

declare slow_loop.simps [simp del]

definition slowStartbatch ::
  "int \<Rightarrow> int \<Rightarrow> ('s \<Rightarrow> (('p option \<times> string option) \<times> 's) go) \<Rightarrow> 's \<Rightarrow> ((int \<times> string option) \<times> 's) go" where
  "slowStartbatch cnt initialBatchSize fn st =
     slow_loop fn (min cnt initialBatchSize) cnt 0 0 st"

section \<open>Running without failures\<close>

text \<open>\<open>run n\<close> threads the state through \<open>n\<close> calls.\<close>

fun run :: "('s \<Rightarrow> ('r \<times> 's) go) \<Rightarrow> nat \<Rightarrow> 's \<Rightarrow> 's go" where
  "run fn 0 st = Ret st"
| "run fn (Suc n) st = bind_go (fn st) (\<lambda>(_, st'). run fn n st')"

lemma run_add: "run fn (m + n) st = bind_go (run fn m st) (run fn n)"
  by (induction m arbitrary: st) (auto simp: bind_go_assoc intro!: bind_go_cong)

definition succeeds :: "('s \<Rightarrow> (('p option \<times> string option) \<times> 's) go) \<Rightarrow> bool" where
  "succeeds fn \<longleftrightarrow> (\<forall>st r st'. fn st = Ret (r, st') \<longrightarrow> snd r = None)"

lemma run_batch_succeeds:
  assumes "succeeds fn"
  shows "run_batch fn n errs w st = bind_go (run fn n st) (\<lambda>st'. Ret ((errs, w), st'))"
proof (induction n arbitrary: st)
  case (Suc n)
  show ?case
  proof (cases "fn st")
    case (Ret x)
    obtain pod err st' where x: "x = ((pod, err), st')" by (metis prod.exhaust)
    with Ret assms have "err = None" by (auto simp: succeeds_def)
    then show ?thesis using Ret x Suc by simp
  qed simp_all
qed simp

lemma slow_loop_succeeds:
  assumes "succeeds fn" "0 \<le> r" "b \<le> r" "0 < r \<Longrightarrow> 0 < b"
  shows "slow_loop fn b r s 0 st = bind_go (run fn (nat r) st) (\<lambda>st'. Ret ((s + r, None), st'))"
  using assms(2-)
proof (induction "nat r" arbitrary: b r s st rule: less_induct)
  case less
  show ?case
  proof (cases "r = 0")
    case True
    then show ?thesis using less.prems by (subst slow_loop.simps) simp
  next
    case False
    with less.prems have r: "0 < r" "0 < b" by simp_all
    have IH: "slow_loop fn (min (2 * b) (r - b)) (r - b) (s + b) 0 st' =
        bind_go (run fn (nat (r - b)) st') (\<lambda>st'. Ret ((s + b + (r - b), None), st'))" for st'
      using less.hyps[of "r - b" "min (2 * b) (r - b)" "s + b" st'] r less.prems by auto
    have n: "nat r = nat b + nat (r - b)" using r less.prems by simp
    show ?thesis unfolding n run_add
      by (subst slow_loop.simps)
        (simp add: r run_batch_succeeds[OF assms(1)] bind_go_assoc IH cong: bind_go_cong)
  qed
qed

text \<open>
  (C16) When no call fails, \<open>slowStartbatch\<close> makes exactly \<open>count\<close> calls, in order, and reports \<open>count\<close>
  successes and no error.
\<close>

theorem slow_start_all_succeed:
  assumes "succeeds fn" "0 \<le> cnt" "0 < init"
  shows "slowStartbatch cnt init fn st = bind_go (run fn (nat cnt) st) (\<lambda>st'. Ret ((cnt, None), st'))"
  unfolding slowStartbatch_def using slow_loop_succeeds[OF assms(1,2), of "min cnt init" 0 st] assms(3) by simp

definition tally :: "nat \<Rightarrow> ((unit option \<times> string option) \<times> nat) go" where
  "tally n = Ret ((Some (), None), n + 1)"

theorem slow_start_all_succeed_witness: "slowStartbatch 5 1 tally 0 = Ret ((5, None), 5)"
  using slow_start_all_succeed[of tally 5 1 0] by (simp add: succeeds_def tally_def eval_nat_numeral)

section \<open>Failures\<close>

lemma run_batch_spec:
  "run_batch fn n errs w st = Ret ((errs', w'), st') \<Longrightarrow>
     run fn n st = Ret st' \<and> length errs \<le> length errs' \<and> w \<le> w'
     \<and> int (length errs') + w' \<le> int (length errs) + w + int n"
proof (induction n arbitrary: errs w st)
  case (Suc n)
  then obtain pod err st1 where f: "fn st = Ret ((pod, err), st1)" by (auto simp: bind_go_Ret_iff)
  show ?case
  proof (cases err)
    case None
    then show ?thesis using Suc f by fastforce
  next
    case (Some e)
    let ?errs = "if e \<noteq> Waiting4Dummy then errs @ [e] else errs"
    let ?w = "if pod = None \<and> e = Waiting4Dummy then w + 1 else w"
    have "run_batch fn n ?errs ?w st1 = Ret ((errs', w'), st')" using Suc.prems f Some by simp
    from Suc.IH[OF this] f show ?thesis by (auto split: if_splits)
  qed
qed simp

lemma slow_loop_calls:
  "slow_loop fn b r s w st = Ret (res, st') \<Longrightarrow> b \<le> r \<Longrightarrow> \<exists>n. run fn n st = Ret st' \<and> int n \<le> max 0 r"
proof (induction fn b r s w st rule: slow_loop.induct)
  case (1 fn b r s w st)
  show ?case
  proof (cases "b > 0")
    case False
    with "1.prems"(1) have "st' = st" by (subst (asm) slow_loop.simps) (auto split: if_splits)
    then show ?thesis by (intro exI[of _ 0]) simp
  next
    case True
    with "1.prems"(1) obtain errs w' st1 where rb: "run_batch fn (nat b) [] w st = Ret ((errs, w'), st1)"
      by (subst (asm) slow_loop.simps) (auto simp: bind_go_Ret_iff)
    note run1 = conjunct1[OF run_batch_spec[OF rb]]
    show ?thesis
    proof (cases "errs = []")
      case False
      with "1.prems"(1) True rb have "st' = st1" by (subst (asm) slow_loop.simps) simp
      then show ?thesis using run1 True "1.prems"(2) by (intro exI[of _ "nat b"]) simp
    next
      case e: True
      have "slow_loop fn (min (2 * b) (r - b)) (r - b) (s + (b - int (length errs) - w')) w' st1 = Ret (res, st')"
        using "1.prems"(1) True rb e by (subst (asm) slow_loop.simps) (simp add: Let_def)
      from "1.IH"[OF True rb refl refl refl _ refl this] e obtain n where
        "run fn n st1 = Ret st'" "int n \<le> max 0 (r - b)" by auto
      then show ?thesis using run1 True "1.prems"(2)
        by (intro exI[of _ "nat b + n"]) (simp add: run_add)
    qed
  qed
qed

text \<open>
  (C21) \<open>slowStartbatch\<close> never makes more than \<open>count\<close> calls: whatever the calls return, the state it ends in
  is the state after some number of calls that is at most \<open>count\<close>.
\<close>

theorem slow_start_call_bound:
  assumes "slowStartbatch cnt init fn st = Ret (res, st')" "0 \<le> cnt"
  shows "\<exists>n. run fn n st = Ret st' \<and> int n \<le> cnt"
  using slow_loop_calls[OF assms(1)[unfolded slowStartbatch_def]] assms(2) by simp

text \<open>
  A first call that fails ends the work: with the initial batch of one, no further pod is attempted,
  and the error is returned with no success counted.
\<close>

lemma slow_start_stops_at_failure:
  assumes "fn st = Ret ((pod, Some e), st')" "e \<noteq> Waiting4Dummy" "0 < cnt"
  shows "slowStartbatch cnt 1 fn st = Ret ((0, Some e), st')"
  using assms unfolding slowStartbatch_def by (subst slow_loop.simps) simp

definition first_waits :: "nat \<Rightarrow> ((unit option \<times> string option) \<times> nat) go" where
  "first_waits n = Ret ((if n = 0 then (None, Some Waiting4Dummy) else (Some (), None)), n + 1)"

theorem slow_start_call_bound_witness:
  "\<exists>n. run first_waits n 0 = Ret 3 \<and> int n \<le> 3"
proof -
  have "slowStartbatch 3 1 first_waits 0 = Ret ((1, Some ''Waiting4Dmmy''), 3)"
    by (simp add: slowStartbatch_def slow_loop.simps first_waits_def Waiting4Dummy_def eval_nat_numeral)
  from slow_start_call_bound[OF this] show ?thesis by simp
qed

text \<open>
  The counter of calls that have to wait is never reset between batches, and the final error is
  misspelt: with three calls of which only the first waits, the loop reports one success instead of two, and
  an error text that the caller's test for \<open>Waiting4Dummy\<close> does not recognise.
\<close>

theorem slow_start_undercounts:
  "slowStartbatch 3 1 first_waits 0 = Ret ((1, Some ''Waiting4Dmmy''), 3) \<and> ''Waiting4Dmmy'' \<noteq> Waiting4Dummy"
  by (simp add: slowStartbatch_def slow_loop.simps first_waits_def Waiting4Dummy_def eval_nat_numeral)

end
