(* ===== verification/Reconcile.thy ===== *)
theory Reconcile
  imports Pod_Ranking Slow_Start
begin

text \<open>
  The controller's reconciliation (\<open>controller.go\<close>): the work loop, \<open>syncHandler\<close>, \<open>reconcileReplicas\<close>,
  \<open>reconcileResourceConfig\<close> and the event handlers.

  The state \<open>ctl\<close> holds the GPU table, the pods recorded per FaSTPod, the number of random names drawn, the
  copy of the FaSTPod being synced, the removals that goroutines have still to do, and a log of the calls to
  the API server, the work queue, the expectations and the event recorder. What these answer is an argument,
  the record \<open>world\<close>.
\<close>

section \<open>State and environment\<close>

datatype ctl_event =
    ExpectCreations string int
  | CreationObserved string
  | ExpectDeletions string "string list"
  | DeletionObserved string string
  | CreatePod pod
  | DeletePod string
  | UpdatePod pod
  | UpdateFaSTPod fastpod
  | WarningEvent string
  | QueueAdd string
  | QueueAddRateLimited string
  | QueueForget string
  | QueueDone string

record ctl =
  c_mgr :: mgr
  fstp2Pods :: "string \<rightharpoonup> string list"
  draws :: nat
  cur :: fastpod
  removals :: "pod list"
  c_log :: "ctl_event list"

datatype create_answer = Created | NamespaceTerminating string | CreateFailed string
datatype delete_answer = Deleted | DeleteNotFound string | DeleteFailed string
datatype get_answer = Found fastpod | NotFound string | GetFailed string

record world =
  w_parseFloat :: "string \<Rightarrow> float64 option"
  w_floatValue :: "string \<Rightarrow> float64"
  w_RandStr :: "nat \<Rightarrow> string"
  w_create :: "pod \<Rightarrow> create_answer"
  w_delete :: "pod \<Rightarrow> delete_answer"
  w_updatePod :: "pod \<Rightarrow> bool"
  w_updateFaSTPod :: "fastpod \<Rightarrow> (string + fastpod)"
  w_splitKey :: "string \<Rightarrow> (string \<times> string) option"
  w_getFaSTPod :: "string \<Rightarrow> string \<Rightarrow> get_answer"
  w_selectorOk :: "smap option \<Rightarrow> bool"
  w_listPods :: "string \<Rightarrow> smap option \<Rightarrow> string + pod list"
  w_sort :: "(ranked \<Rightarrow> ranked \<Rightarrow> bool) \<Rightarrow> ranked list \<Rightarrow> ranked list"
  w_kube :: kube
  w_now :: time

definition emit :: "ctl_event \<Rightarrow> ctl \<Rightarrow> ctl" where
  "emit e st = st\<lparr>c_log := c_log st @ [e]\<rparr>"

section \<open>Creating one pod\<close>

text \<open>
  The closure \<open>reconcileReplicas\<close> hands to \<open>slowStartbatch\<close>. The status maps of the FaSTPod are pointers to
  maps; a nil pointer panics.
\<close>

definition bind_device :: "string \<Rightarrow> string \<Rightarrow> fastpod \<Rightarrow> fastpod go" where
  "bind_device podName gpu f =
     bind_go (deref (BoundDeviceIDs (f_status f))) (\<lambda>m.
       Ret (f\<lparr>f_status := (f_status f)\<lparr>BoundDeviceIDs := Some (m(podName \<mapsto> gpu))\<rparr>\<rparr>))"

definition bind_port :: "string \<Rightarrow> Allocation \<Rightarrow> fastpod \<Rightarrow> fastpod go" where
  "bind_port podName a f =
     (case alloc_MPSConfig a of
        None \<Rightarrow> Ret f
      | Some c \<Rightarrow> (case FastPodMPS c of
          None \<Rightarrow> Ret f
        | Some fm \<Rightarrow> bind_go (deref (GPUClientPorts (f_status f))) (\<lambda>m.
            Ret (f\<lparr>f_status := (f_status f)\<lparr>GPUClientPorts := Some (m(podName \<mapsto> GpuClientPort fm))\<rparr>\<rparr>))))"

text \<open>Creation in the API server, after the GPU was allocated.\<close>

definition create_pod ::
  "world \<Rightarrow> fastpod \<Rightarrow> SelectionResult \<Rightarrow> Allocation \<Rightarrow> string \<Rightarrow> ctl \<Rightarrow> ((pod option \<times> string option) \<times> ctl) go" where
  "create_pod w f selectionResult allocation newPodName st =
     (let params = \<lparr>IsWarm = False, BoundDevUUID = alloc_UUID allocation, SchedNode = NodeName selectionResult,
            SchedvGPUID = alloc_UUID allocation, PodName = newPodName,
            par_MPSConfig = alloc_MPSConfig allocation\<rparr>;
          p = newPod f params;
          st1 = emit (CreatePod p) st
      in case w_create w p of
           NamespaceTerminating e \<Rightarrow> Ret ((None, None), st1)
         | CreateFailed e \<Rightarrow> Ret ((None, Some e), st1)
         | Created \<Rightarrow>
             bind_go (bind_device newPodName (VGPUUUID selectionResult) (cur st1)) (\<lambda>f1.
             bind_go (bind_port newPodName allocation f1) (\<lambda>f2.
               Ret ((Some p, None), st1\<lparr>cur := f2\<rparr>))))"

text \<open>The error text for a refused admission, and the warning event that is recorded, if any.\<close>

definition refusal :: "int \<Rightarrow> string \<times> string option" where
  "refusal errCode =
     (if errCode = 1 then (''NodeNotInitialized'', None)
      else if errCode = 2 then (Waiting4Dummy, None)
      else if errCode = 3 then (''Compute Resource exceed!'', Some ''Compute Resource exceed'')
      else if errCode = 4 then (''Out of memory!'', Some ''Out of memory'')
      else if errCode = 5 then (''GPU Clients Port is full!'', Some ''GPU Clients Port is not enough'')
      else (''Unknown Error'', Some ''Unknown Error''))"

definition create_one :: "world \<Rightarrow> fastpod \<Rightarrow> ctl \<Rightarrow> ((pod option \<times> string option) \<times> ctl) go" where
  "create_one w f st =
     (case getPodRequestFromPod (w_parseFloat w) f of
        Inl e \<Rightarrow> Ret ((None, Some (''failed to get pod request from fastpod: '' @ e)), st)
      | Inr request \<Rightarrow>
          (case validatePodRequest request of
             Some e \<Rightarrow> Ret ((None, None), emit (WarningEvent ''Invalid pod request'') st)
           | None \<Rightarrow>
               if req_AllocationType request = AllocationTypeNone then Ret ((None, None), st)
               else bind_go (ScheduleRequest request (c_mgr st)) (\<lambda>(sched, m1).
                 let st1 = st\<lparr>c_mgr := m1\<rparr>
                 in case sched of
                      Inl e \<Rightarrow> Ret ((None, Some ''NoSchedNodeAvailable''), st1)
                    | Inr selectionResult \<Rightarrow>
                        let fstpName = f_name f;
                            known = (case fstp2Pods st1 fstpName of None \<Rightarrow> [] | Some l \<Rightarrow> l);
                            newPodName = fstpName @ ''-'' @ w_RandStr w (draws st1);
                            podKey = key_of (f_namespace f) newPodName;
                            st2 = st1\<lparr>fstp2Pods := (fstp2Pods st1)(fstpName \<mapsto> known), draws := Suc (draws st1)\<rparr>
                        in bind_go (RequestGPUAndUpdateConfig selectionResult request podKey (c_mgr st2))
                             (\<lambda>((allocation, errCode), m2).
                             let st3 = st2\<lparr>c_mgr := m2\<rparr>
                             in if errCode = 0
                                then bind_go (deref allocation) (\<lambda>a.
                                       create_pod w f selectionResult a newPodName
                                         (st3\<lparr>fstp2Pods := (fstp2Pods st3)(fstpName \<mapsto> known @ [newPodName])\<rparr>))
                                else (case refusal errCode of (e, warn) \<Rightarrow>
                                       Ret ((None, Some e),
                                         case warn of None \<Rightarrow> st3 | Some t \<Rightarrow> emit (WarningEvent t) st3))))))"

section \<open>Reconciling the number of replicas\<close>

fun emit_n :: "nat \<Rightarrow> ctl_event \<Rightarrow> ctl \<Rightarrow> ctl" where
  "emit_n 0 e st = st"
| "emit_n (Suc n) e st = emit_n n e (emit e st)"

definition SlowStartInitialBatchSize :: int where
  "SlowStartInitialBatchSize = 1"

definition create_replicas ::
  "world \<Rightarrow> fastpod \<Rightarrow> string \<Rightarrow> int \<Rightarrow> ctl \<Rightarrow> ((bool \<times> string option) \<times> ctl) go" where
  "create_replicas w f fstpKey missing st =
     bind_go (slowStartbatch missing SlowStartInitialBatchSize (create_one w f)
                (emit (ExpectCreations fstpKey missing) st)) (\<lambda>((successedNum, err), st1).
       Ret ((True, err), emit_n (nat (missing - successedNum)) (CreationObserved fstpKey) st1))"

text \<open>
  One of the goroutines that delete a pod: the error it sends, if any. It signals the wait group before it
  takes the pod off the GPU table, so the removal is left as work to be done.
\<close>

definition delete_one :: "world \<Rightarrow> string \<Rightarrow> pod \<Rightarrow> ctl \<Rightarrow> (string option \<times> ctl) go" where
  "delete_one w key p st =
     (let st1 = emit (DeletePod (PodKey p)) st;
          r = w_delete w p;
          err = (case r of DeleteFailed e \<Rightarrow> Some e | _ \<Rightarrow> None);
          st2 = (case r of Deleted \<Rightarrow> st1 | _ \<Rightarrow> emit (DeletionObserved key (PodKey p)) st1);
          f = cur st2
      in bind_go (deref (BoundDeviceIDs (f_status f))) (\<lambda>devs.
         bind_go (deref (GPUClientPorts (f_status f))) (\<lambda>ports.
           Ret (err, st2\<lparr>cur := f\<lparr>f_status := (f_status f)\<lparr>BoundDeviceIDs := Some (devs(p_name p := None)),
                                  GPUClientPorts := Some (ports(p_name p := None))\<rparr>\<rparr>,
                         removals := removals st2 @ [p]\<rparr>))))"

fun delete_all :: "world \<Rightarrow> string \<Rightarrow> pod list \<Rightarrow> string list \<Rightarrow> ctl \<Rightarrow> (string list \<times> ctl) go" where
  "delete_all w key [] errs st = Ret (errs, st)"
| "delete_all w key (p # ps) errs st =
     bind_go (delete_one w key p st) (\<lambda>(err, st').
       delete_all w key ps (case err of None \<Rightarrow> errs | Some e \<Rightarrow> errs @ [e]) st')"

text \<open>
  \<open>wg.Wait()\<close> returns when the goroutines started have signalled as often as \<open>wg.Add(diff)\<close> said; with
  fewer goroutines it blocks for ever.
\<close>

definition delete_replicas ::
  "world \<Rightarrow> string \<Rightarrow> pod list \<Rightarrow> int \<Rightarrow> ctl \<Rightarrow> ((bool \<times> string option) \<times> ctl) go" where
  "delete_replicas w key existedPods diff st =
     (let sel = getPodsToDelete (w_sort w) (w_kube w) (w_now w) existedPods diff;
          podsToDelete = (case sel of None \<Rightarrow> [] | Some ds \<Rightarrow> ds)
      in bind_go (delete_all w key podsToDelete [] (emit (ExpectDeletions key (getPodKeys podsToDelete)) st))
           (\<lambda>(errs, st').
           if int (length podsToDelete) < diff then Block
           else Ret ((True, case errs of [] \<Rightarrow> None | e # _ \<Rightarrow> Some e), st')))"

definition reconcileReplicas ::
  "world \<Rightarrow> pod list \<Rightarrow> string \<Rightarrow> ctl \<Rightarrow> ((bool \<times> string option) \<times> ctl) go" where
  "reconcileReplicas w existedPods key st =
     (let f = cur st
      in bind_go (deref (f_replicas f)) (\<lambda>replicas.
           let diff = int (length existedPods) - replicas;
               fstpKey = key_of (f_namespace f) (f_name f)
           in if diff < 0 then create_replicas w f fstpKey (- diff) st
              else if diff > 0 then delete_replicas w key existedPods diff st
              else Ret ((False, None), st)))"

text \<open>A removal goroutine finishing.\<close>

definition run_removal :: "ctl \<Rightarrow> ctl go" where
  "run_removal st = (case removals st of
     [] \<Rightarrow> Ret st
   | p # ps \<Rightarrow> bind_go (removePodFromList p (c_mgr st)) (\<lambda>m. Ret (st\<lparr>c_mgr := m, removals := ps\<rparr>)))"

section \<open>Reconciling the resource configuration\<close>

text \<open>
  The entry of the pod in the GPU's list is a pointer: it is changed in place. The values are parsed from
  the FaSTPod's annotations without looking at the errors (\<open>w_floatValue\<close> is the value \<open>ParseFloat\<close> returns in
  any case); what is checked before is the pod's own, old annotations. The GPU's usage is not touched.
\<close>

definition set_quota :: "world \<Rightarrow> fastpod \<Rightarrow> FastPodReq \<Rightarrow> FastPodReq" where
  "set_quota w f r =
     (let a = sget (f_annotations f)
      in r\<lparr>QtRequest := w_floatValue w (a FaSTGShareGPUQuotaRequest),
           QtLimit := w_floatValue w (a FaSTGShareGPUQuotaLimit),
           SMPartition := fst (Atoi (a FaSTGShareGPUSMPartition))\<rparr>)"

fun update_first :: "('a \<Rightarrow> bool) \<Rightarrow> ('a \<Rightarrow> 'a) \<Rightarrow> 'a list \<Rightarrow> 'a list" where
  "update_first p u [] = []"
| "update_first p u (x # xs) = (if p x then u x # xs else x # update_first p u xs)"

definition set_annotations :: "fastpod \<Rightarrow> pod \<Rightarrow> pod" where
  "set_annotations f p =
     (let a = sget (f_annotations f)
      in p\<lparr>p_annotations := (p_annotations p)
             (FaSTGShareGPUQuotaRequest \<mapsto> a FaSTGShareGPUQuotaRequest,
              FaSTGShareGPUQuotaLimit \<mapsto> a FaSTGShareGPUQuotaLimit,
              FaSTGShareGPUSMPartition \<mapsto> a FaSTGShareGPUSMPartition)\<rparr>)"

definition reconfigure_pod :: "world \<Rightarrow> fastpod \<Rightarrow> pod \<Rightarrow> ctl \<Rightarrow> (string option \<times> ctl) go" where
  "reconfigure_pod w f p st =
     (let n = p_node p; v = sget (p_annotations p) FaSTGShareVGPUUUID; key = PodKey p
      in case nodes (c_mgr st) n of
           None \<Rightarrow> Ret (None, st)
         | Some node \<Rightarrow>
             (case vGPUID2GPU node v of
                None \<Rightarrow> Ret (None, st)
              | Some g \<Rightarrow>
                  bind_go (FindInQueue key (map QFast (FastPodList g))) (\<lambda>found.
                    case found of
                      None \<Rightarrow> Ret (None, st)
                    | Some podreq \<Rightarrow>
                        if \<not> resourceValidityCheck (w_parseFloat w) p then Ret (None, st)
                        else let l = update_first (\<lambda>r. fp_Key r = key) (set_quota w f) (FastPodList g);
                                 m1 = put_gpu (c_mgr st) n node v (g\<lparr>FastPodList := l\<rparr>)
                             in bind_go (updatePodsGPUConfig n (UUID g) (Some l) m1) (\<lambda>(_, m2).
                                  let p' = set_annotations f p;
                                      st1 = emit (UpdatePod p') (st\<lparr>c_mgr := m2\<rparr>)
                                  in if w_updatePod w p' then Ret (None, st1)
                                     else Ret (Some (''error failed to update the resource annotation of the pod '' @ p_name p), st1)))))"

fun reconcileResourceConfig :: "world \<Rightarrow> pod list \<Rightarrow> fastpod \<Rightarrow> ctl \<Rightarrow> (string option \<times> ctl) go" where
  "reconcileResourceConfig w [] f st = Ret (None, st)"
| "reconcileResourceConfig w (p # ps) f st =
     bind_go (reconfigure_pod w f p st) (\<lambda>(err, st').
       case err of Some e \<Rightarrow> Ret (Some e, st') | None \<Rightarrow> reconcileResourceConfig w ps f st')"

section \<open>syncHandler\<close>

definition fill_defaults :: "fastpod \<Rightarrow> fastpod" where
  "fill_defaults f =
     f\<lparr>f_selector := (case f_selector f of
             None \<Rightarrow> Some [''app'' \<mapsto> f_name f, ''controller'' \<mapsto> f_name f] | Some s \<Rightarrow> Some s),
           f_status := (f_status f)\<lparr>
             BoundDeviceIDs := (case BoundDeviceIDs (f_status f) of None \<Rightarrow> Some Map.empty | Some x \<Rightarrow> Some x),
             Pod2Node := (case Pod2Node (f_status f) of None \<Rightarrow> Some Map.empty | Some x \<Rightarrow> Some x),
             GPUClientPorts := (case GPUClientPorts (f_status f) of None \<Rightarrow> Some Map.empty | Some x \<Rightarrow> Some x),
             UsageStatus := (case UsageStatus (f_status f) of None \<Rightarrow> Some Map.empty | Some x \<Rightarrow> Some x),
             ResourceConfig := (case ResourceConfig (f_status f) of None \<Rightarrow> Some Map.empty | Some x \<Rightarrow> Some x)\<rparr>\<rparr>"

definition copy_config :: "fastpod \<Rightarrow> fastpod go" where
  "copy_config f =
     bind_go (deref (ResourceConfig (f_status f))) (\<lambda>m.
       let a = sget (f_annotations f)
       in Ret (f\<lparr>f_status := (f_status f)\<lparr>ResourceConfig := Some (m
            (FaSTGShareGPUQuotaRequest \<mapsto> a FaSTGShareGPUQuotaRequest,
             FaSTGShareGPUQuotaLimit \<mapsto> a FaSTGShareGPUQuotaLimit,
             FaSTGShareGPUSMPartition \<mapsto> a FaSTGShareGPUSMPartition))\<rparr>\<rparr>))"

text \<open>
  The part on the resource configuration: \<open>syncReStatus\<close> and the error. The configuration is known to be
  set here, so that the first branch of the code is never taken.
\<close>

definition sync_resources :: "world \<Rightarrow> pod list \<Rightarrow> ctl \<Rightarrow> ((bool \<times> string option) \<times> ctl) go" where
  "sync_resources w pods st =
     (let f = cur st; a = sget (f_annotations f)
      in case ResourceConfig (f_status f) of
           None \<Rightarrow> bind_go (copy_config f) (\<lambda>f'. Ret ((True, None), st\<lparr>cur := f'\<rparr>))
         | Some m \<Rightarrow>
             if sget m FaSTGShareGPUQuotaRequest \<noteq> a FaSTGShareGPUQuotaRequest
                \<or> sget m FaSTGShareGPUQuotaLimit \<noteq> a FaSTGShareGPUQuotaLimit
             then bind_go (reconcileResourceConfig w pods f st) (\<lambda>(err, st1).
                    case err of
                      Some e \<Rightarrow> Ret ((False, Some e), st1)
                    | None \<Rightarrow> bind_go (copy_config (cur st1)) (\<lambda>f'. Ret ((True, None), st1\<lparr>cur := f'\<rparr>)))
             else Ret ((False, None), st))"

text \<open>
  The new replica counters are written when the old ones differ from the specification. Writing the
  FaSTPod back can fail; the object written is the one used below.
\<close>

definition sync_status ::
  "world \<Rightarrow> pod list \<Rightarrow> bool \<Rightarrow> bool \<Rightarrow> int \<Rightarrow> ctl \<Rightarrow> ((string + fastpod option) \<times> ctl)" where
  "sync_status w pods syncReStatus syncReplica replicas st =
     (let f = cur st; newStatus = getFaSTPodReplicaStatus (w_kube w) f pods;
          changed = (AvailableReplicas (f_status f) \<noteq> replicas \<or> ReadyReplicas (f_status f) \<noteq> replicas);
          f1 = (if changed
                then f\<lparr>f_status := (f_status f)\<lparr>AvailableReplicas := AvailableReplicas newStatus,
                       ReadyReplicas := ReadyReplicas newStatus, StatusReplicas := StatusReplicas newStatus\<rparr>\<rparr>
                else f);
          st1 = st\<lparr>cur := f1\<rparr>
      in if syncReStatus \<or> syncReplica \<or> changed
         then (case w_updateFaSTPod w f1 of
                 Inl e \<Rightarrow> (Inl e, emit (UpdateFaSTPod f1) st1)
               | Inr f2 \<Rightarrow> (Inr (Some f2), emit (UpdateFaSTPod f1) st1))
         else (Inr None, st1))"

definition enqueueFaSTPod :: "fastpod option \<Rightarrow> ctl \<Rightarrow> ctl go" where
  "enqueueFaSTPod f st = bind_go (deref f) (\<lambda>f. Ret (emit (QueueAdd (key_of (f_namespace f) (f_name f))) st))"

text \<open>What follows the update: the FaSTPod written is dereferenced where an error has to be retried.\<close>

definition sync_finish :: "string option \<Rightarrow> string option \<Rightarrow> fastpod option \<Rightarrow> ctl \<Rightarrow> (string option \<times> ctl) go" where
  "sync_finish manageReError manageReplicasErr updated st =
     bind_go (if manageReError \<noteq> None then enqueueFaSTPod updated st else Ret st) (\<lambda>st1.
       if manageReplicasErr = None then Ret (None, st1)
       else bind_go (deref updated) (\<lambda>u.
            bind_go (deref (f_replicas u)) (\<lambda>replicas.
            bind_go (if ReadyReplicas (f_status u) = replicas \<and> AvailableReplicas (f_status u) \<noteq> replicas
                     then enqueueFaSTPod updated st1 else Ret st1) (\<lambda>st2.
              Ret (manageReplicasErr, st2)))))"

definition syncHandler :: "world \<Rightarrow> string \<Rightarrow> ctl \<Rightarrow> (string option \<times> ctl) go" where
  "syncHandler w key st =
     (case w_splitKey w key of
        None \<Rightarrow> Ret (None, st)
      | Some (ns, nm) \<Rightarrow>
          (case w_getFaSTPod w ns nm of
             NotFound e \<Rightarrow> Ret (None, st)
           | GetFailed e \<Rightarrow> Ret (Some e, st)
           | Found f \<Rightarrow>
               (case f_replicas f of
                  None \<Rightarrow> Ret (None, st)
                | Some replicas \<Rightarrow>
                    let st0 = st\<lparr>cur := fill_defaults f\<rparr>
                    in if \<not> w_selectorOk w (f_selector f) then Ret (None, st0)
                       else (case w_listPods w ns (f_selector f) of
                               Inl e \<Rightarrow> Ret (Some e, st0)
                             | Inr listed \<Rightarrow>
                                 let pods = filterInactivePods
                                       (filter (\<lambda>p. sget (p_labels p) ''controller'' = f_name f) listed)
                                 in bind_go (sync_resources w pods st0) (\<lambda>((syncRe, errRe), st1).
                                    bind_go (reconcileReplicas w pods key st1) (\<lambda>((syncRep, errRep), st2).
                                      case sync_status w pods syncRe syncRep replicas st2 of
                                        (Inl e, st3) \<Rightarrow> Ret (Some e, st3)
                                      | (Inr updated, st3) \<Rightarrow> sync_finish errRe errRep updated st3))))))"

section \<open>The work loop and the event handlers\<close>

text \<open>A work item is a string key; anything else is dropped.\<close>

definition processNextWorkItem :: "world \<Rightarrow> (string + string) option \<Rightarrow> ctl \<Rightarrow> (bool \<times> ctl) go" where
  "processNextWorkItem w item st =
     (case item of
        None \<Rightarrow> Ret (False, st)
      | Some (Inl other) \<Rightarrow> Ret (True, emit (QueueDone other) (emit (QueueForget other) st))
      | Some (Inr key) \<Rightarrow>
          bind_go (syncHandler w key st) (\<lambda>(err, st1).
            Ret (True, emit (QueueDone key)
              (case err of
                 None \<Rightarrow> emit (QueueForget key) st1
               | Some e \<Rightarrow> if e = Waiting4Dummy then emit (QueueAdd key) st1
                           else emit (QueueAddRateLimited key) st1))))"

text \<open>The update handler of the FaSTPod informer logs the new replica count first.\<close>

definition fastpod_updated :: "fastpod \<Rightarrow> ctl \<Rightarrow> ctl go" where
  "fastpod_updated new st = bind_go (deref (f_replicas new)) (\<lambda>_. enqueueFaSTPod (Some new) st)"

text \<open>A deleted object, or the tombstone the informer hands over when it missed the deletion.\<close>

datatype 'a informed = Object 'a | Tombstone 'a | Other

definition handleDeletedFaSTPod :: "(fastpod \<Rightarrow> pod list) \<Rightarrow> fastpod informed \<Rightarrow> mgr \<Rightarrow> mgr go" where
  "handleDeletedFaSTPod pods_of obj m =
     (case obj of Object f \<Rightarrow> removeFaSTPodFromList (pods_of f) m | _ \<Rightarrow> Ret m)"

definition handleObject :: "world \<Rightarrow> pod informed \<Rightarrow> ctl \<Rightarrow> ctl go" where
  "handleObject w obj st =
     (case (case obj of Object p \<Rightarrow> Some p | Tombstone p \<Rightarrow> Some p | Other \<Rightarrow> None) of
        None \<Rightarrow> Ret st
      | Some p \<Rightarrow>
          (case p_owner p of
             None \<Rightarrow> Ret st
           | Some ow \<Rightarrow>
               if o_kind ow \<noteq> fastpodKind then Ret st
               else (case w_getFaSTPod w (p_namespace p) (o_name ow) of
                       Found f \<Rightarrow> enqueueFaSTPod (Some f) st
                     | _ \<Rightarrow> Ret st)))"

text \<open>\<open>resourceChanged\<close> moves the keys of the pending list to the work queue.\<close>

definition resourceChanged :: "string list \<Rightarrow> ctl \<Rightarrow> string list \<times> ctl" where
  "resourceChanged pending st = ([], fold (\<lambda>k s. emit (QueueAdd k) s) pending st)"

end
