(* ===== verification/Reconcile_Properties.thy ===== *)
theory Reconcile_Properties
  imports Reconcile
begin

text \<open>
  Properties of the reconciliation: it acts on the GPU table only through the steps of \<open>Manager_System\<close>, what
  scaling down does, when a sync changes nothing, and the error paths that leak, block or panic.
\<close>

section \<open>The GPU table under reconciliation\<close>

lemma run_rel:
  assumes "run fn n st = Ret st'" "\<And>s r s'. fn s = Ret (r, s') \<Longrightarrow> R s s'" "reflp R" "transp R"
  shows "R st st'"
  using assms(1)
proof (induction n arbitrary: st)
  case 0
  then show ?case using assms(3) by (simp add: reflpD)
next
  case (Suc n)
  then obtain r s where "fn st = Ret (r, s)" "run fn n s = Ret st'" by (auto simp: bind_go_Ret_iff)
  then show ?case using Suc.IH assms(2,4) by (blast dest: transpD)
qed

text \<open>What a FaSTPod's annotations must satisfy for its requests to be accounted exactly.\<close>

definition well_formed :: "(string \<Rightarrow> float64 option) \<Rightarrow> fastpod \<Rightarrow> bool" where
  "well_formed pf f \<longleftrightarrow> (\<forall>req. getPodRequestFromPod pf f = Inr req \<longrightarrow>
     ReqMemory req < 2 ^ 62 \<and> (\<forall>q. req_FastPod req = Some q \<longrightarrow> QuotaReq q \<noteq> NaN))"

lemma well_formed_request_ok:
  assumes "well_formed pf f" "getPodRequestFromPod pf f = Inr req" "validatePodRequest req = None"
  shows "request_ok req"
  using assms validatePodRequest_None[OF assms(3)] unit_not_NaN
  by (auto simp: request_ok_def well_formed_def split: option.splits)

abbreviation mgr_steps :: "mgr \<Rightarrow> mgr \<Rightarrow> bool" where
  "mgr_steps m m' \<equiv> sys_step\<^sup>*\<^sup>* (m, None) (m', None)"

lemma mgr_steps_refl_trans: "reflp (\<lambda>s s'. mgr_steps (c_mgr s) (c_mgr s'))" "transp (\<lambda>s s'. mgr_steps (c_mgr s) (c_mgr s'))"
  by (auto intro!: reflpI transpI)

lemma emit_frame [simp]: "c_mgr (emit e st) = c_mgr st" "cur (emit e st) = cur st" "removals (emit e st) = removals st"
  by (simp_all add: emit_def)

lemma create_pod_mgr: "create_pod w f sel a nm st = Ret (r, st') \<Longrightarrow> c_mgr st' = c_mgr st"
  by (auto simp: create_pod_def Let_def bind_go_Ret_iff split: create_answer.splits)

lemma create_one_steps:
  assumes wf: "well_formed (w_parseFloat w) f" and res: "create_one w f st = Ret (r, st')"
  shows "mgr_steps (c_mgr st) (c_mgr st')"
proof (cases "getPodRequestFromPod (w_parseFloat w) f")
  case (Inl e)
  then show ?thesis using res by (auto simp: create_one_def)
next
  case req: (Inr req)
  show ?thesis
  proof (cases "validatePodRequest req = None \<and> req_AllocationType req \<noteq> AllocationTypeNone")
    case False
    then show ?thesis using res req by (auto simp: create_one_def split: option.splits)
  next
    case v: True
    note ok = well_formed_request_ok[OF wf req conjunct1[OF v]]
    from res req v obtain sched m1 where s: "ScheduleRequest req (c_mgr st) = Ret (sched, m1)"
      by (auto simp: create_one_def bind_go_Ret_iff)
    show ?thesis
    proof (cases sched)
      case (Inl e)
      with s have "sys_step (c_mgr st, None) (m1, None)" by (blast intro: sys_step.schedule_failed)
      moreover have "c_mgr st' = m1" using res req v s Inl by (auto simp: create_one_def)
      ultimately show ?thesis by auto
    next
      case (Inr sel)
      with s ok have 1: "sys_step (c_mgr st, None) (m1, Some (sel, req))" by (blast intro: sys_step.schedule)
      from res req v s Inr obtain k al code m2 where
        q: "RequestGPUAndUpdateConfig sel req k m1 = Ret ((al, code), m2)" and "c_mgr st' = m2"
        by (auto simp: create_one_def bind_go_Ret_iff Let_def dest!: create_pod_mgr
            split: if_splits prod.splits option.splits)
      with 1 sys_step.request[OF q] show ?thesis by (meson converse_rtranclp_into_rtranclp rtranclp.rtrancl_refl)
    qed
  qed
qed

lemma emit_n_mgr [simp]: "c_mgr (emit_n n e st) = c_mgr st"
  by (induction n arbitrary: st) simp_all

lemma create_replicas_steps:
  assumes "well_formed (w_parseFloat w) f" "create_replicas w f k n st = Ret (r, st')" "0 \<le> n"
  shows "mgr_steps (c_mgr st) (c_mgr st')"
proof -
  from assms(2) obtain res st1 where
    s: "slow_loop (create_one w f) (min n SlowStartInitialBatchSize) n 0 0 (emit (ExpectCreations k n) st) = Ret (res, st1)"
    and m: "c_mgr st' = c_mgr st1"
    by (auto simp: create_replicas_def slowStartbatch_def bind_go_Ret_iff)
  from slow_loop_calls[OF s] obtain c where "run (create_one w f) c (emit (ExpectCreations k n) st) = Ret st1" by auto
  from run_rel[OF this create_one_steps[OF assms(1)] mgr_steps_refl_trans] m show ?thesis by simp
qed

lemma delete_one_mgr: "delete_one w k p st = Ret (e, st') \<Longrightarrow> c_mgr st' = c_mgr st"
  by (auto simp: delete_one_def Let_def bind_go_Ret_iff split: delete_answer.splits)

lemma delete_all_mgr: "delete_all w k ps errs st = Ret (e, st') \<Longrightarrow> c_mgr st' = c_mgr st"
proof (induction ps arbitrary: errs st)
  case (Cons p ps)
  then show ?case using delete_one_mgr by (fastforce simp: bind_go_Ret_iff)
qed simp

lemma reconcileReplicas_steps:
  assumes "well_formed (w_parseFloat w) (cur st)" "reconcileReplicas w pods k st = Ret (r, st')"
  shows "mgr_steps (c_mgr st) (c_mgr st')"
  using assms create_replicas_steps[OF assms(1), of _ _ st r st']
  by (auto simp: reconcileReplicas_def delete_replicas_def bind_go_Ret_iff Let_def dest!: delete_all_mgr
      split: if_splits)

section \<open>Scaling down\<close>

definition failures :: "world \<Rightarrow> pod list \<Rightarrow> string list" where
  "failures w ps = concat (map (\<lambda>p. case w_delete w p of DeleteFailed e \<Rightarrow> [e] | _ \<Rightarrow> []) ps)"

definition status_maps :: "ctl \<Rightarrow> (string \<rightharpoonup> string) \<Rightarrow> (string \<rightharpoonup> int) \<Rightarrow> bool" where
  "status_maps st devs ports \<longleftrightarrow> BoundDeviceIDs (f_status (cur st)) = Some devs
     \<and> GPUClientPorts (f_status (cur st)) = Some ports"

lemma status_maps_emit [simp]: "status_maps (emit e st) devs ports = status_maps st devs ports"
  by (simp add: status_maps_def)

lemma delete_one_spec:
  assumes "status_maps st devs ports"
  obtains st' where "delete_one w k p st = Ret (case w_delete w p of DeleteFailed e \<Rightarrow> Some e | _ \<Rightarrow> None, st')"
    "removals st' = removals st @ [p]" "status_maps st' (devs(p_name p := None)) (ports(p_name p := None))"
    "c_mgr st' = c_mgr st"
  using assms that unfolding delete_one_def status_maps_def Let_def by (cases "w_delete w p") fastforce+

lemma delete_all_spec:
  assumes "status_maps st devs ports"
  shows "\<exists>st'. delete_all w k ps errs st = Ret (errs @ failures w ps, st') \<and> removals st' = removals st @ ps
    \<and> status_maps st' (devs |` (- p_name ` set ps)) (ports |` (- p_name ` set ps)) \<and> c_mgr st' = c_mgr st"
  using assms
proof (induction ps arbitrary: errs st devs ports)
  case Nil
  then show ?case by (simp add: failures_def)
next
  case (Cons p ps)
  from delete_one_spec[OF Cons.prems] obtain st1 where st1:
    "delete_one w k p st = Ret (case w_delete w p of DeleteFailed e \<Rightarrow> Some e | _ \<Rightarrow> None, st1)"
    "removals st1 = removals st @ [p]" "status_maps st1 (devs(p_name p := None)) (ports(p_name p := None))"
    "c_mgr st1 = c_mgr st" by blast
  let ?errs = "errs @ (case w_delete w p of DeleteFailed e \<Rightarrow> [e] | _ \<Rightarrow> [])"
  have restrict: "(m(x := None)) |` (- A) = m |` (- insert x A)" for m :: "string \<rightharpoonup> 'b" and x A
    by (auto simp: restrict_map_def fun_eq_iff)
  from Cons.IH[OF st1(3), of ?errs] obtain st' where
    "delete_all w k ps ?errs st1 = Ret (?errs @ failures w ps, st')" "removals st' = removals st1 @ ps"
    "status_maps st' (devs |` (- insert (p_name p) (p_name ` set ps))) (ports |` (- insert (p_name p) (p_name ` set ps)))"
    "c_mgr st' = c_mgr st1" unfolding restrict by blast
  then show ?case using st1 by (auto simp: failures_def split: delete_answer.splits)
qed

text \<open>
  (C11) Scaling down to a positive number of replicas: exactly the surplus pods are deleted and queued for
  removal from the GPU table, the status forgets the devices and ports of these pods and of no others, the
  GPU table itself is not touched yet, and the first error of the API server other than not found is returned.
\<close>

theorem scale_down_outcome:
  assumes "go_sort (w_sort w)" "status_maps st devs ports"
    and "f_replicas (cur st) = Some n" "0 < n" "n < int (length pods)"
  shows "\<exists>ds st'. reconcileReplicas w pods k st
      = Ret ((True, case failures w ds of [] \<Rightarrow> None | e # _ \<Rightarrow> Some e), st')
    \<and> int (length ds) = int (length pods) - n \<and> mset ds \<subseteq># mset pods \<and> removals st' = removals st @ ds
    \<and> status_maps st' (devs |` (- p_name ` set ds)) (ports |` (- p_name ` set ds)) \<and> c_mgr st' = c_mgr st"
proof -
  let ?d = "int (length pods) - n"
  let ?s = "map fst (w_sort w (Less (w_kube w) (w_now w)) (getPodsRankedByRelatedPodsOnSameNode pods))"
  let ?ds = "take (nat ?d) ?s"
  have ms: "mset ?s = mset pods"
    by (simp add: go_sort.permutes[OF assms(1)] getPodsRankedByRelatedPodsOnSameNode_def
        image_mset.compositionality comp_def)
  then have "length ?s = length pods" by (metis size_mset)
  then have len: "int (length ?ds) = ?d" using assms(4,5) by simp
  have sub: "mset ?ds \<subseteq># mset pods" unfolding ms[symmetric] by (metis append_take_drop_id mset_append mset_subset_eq_add_left)
  from delete_all_spec[of "emit (ExpectDeletions k (getPodKeys ?ds)) st" devs ports w k ?ds "[]"] assms(2)
  obtain st' where "delete_all w k ?ds [] (emit (ExpectDeletions k (getPodKeys ?ds)) st) = Ret (failures w ?ds, st')"
    "removals st' = removals st @ ?ds" "status_maps st' (devs |` (- p_name ` set ?ds)) (ports |` (- p_name ` set ?ds))"
    "c_mgr st' = c_mgr st" by auto
  moreover from this have "reconcileReplicas w pods k st
      = Ret ((True, case failures w ?ds of [] \<Rightarrow> None | e # _ \<Rightarrow> Some e), st')"
    using assms(3-5) len by (simp add: reconcileReplicas_def delete_replicas_def getPodsToDelete_def Let_def)
  ultimately show ?thesis using len sub by blast
qed

text \<open>
  Scaling to zero never returns: no pod is selected for deletion when all of them have to go, while the
  wait group still expects one signal per pod. Whatever the API server answers, the call blocks for ever, with
  the lock on the table of pods held.
\<close>

theorem scale_to_zero_blocks:
  assumes "f_replicas (cur st) = Some n" "n \<le> 0" "pods \<noteq> []"
  shows "reconcileReplicas w pods k st = Block"
  using assms by (cases pods) (simp_all add: reconcileReplicas_def delete_replicas_def getPodsToDelete_def Let_def)

section \<open>Syncing\<close>

lemma fill_defaults_frame [simp]:
  "f_replicas (fill_defaults f) = f_replicas f" "f_annotations (fill_defaults f) = f_annotations f"
  "f_name (fill_defaults f) = f_name f" "f_namespace (fill_defaults f) = f_namespace f"
  "getPodRequestFromPod pf (fill_defaults f) = getPodRequestFromPod pf f"
  by (simp_all add: fill_defaults_def getPodRequestFromPod_def Let_def)

text \<open>The quotas recorded in the status are those of the annotations.\<close>

definition quotas_synced :: "fastpod \<Rightarrow> bool" where
  "quotas_synced f \<longleftrightarrow> (case ResourceConfig (f_status (fill_defaults f)) of None \<Rightarrow> False
     | Some m \<Rightarrow> sget m FaSTGShareGPUQuotaRequest = sget (f_annotations f) FaSTGShareGPUQuotaRequest
         \<and> sget m FaSTGShareGPUQuotaLimit = sget (f_annotations f) FaSTGShareGPUQuotaLimit)"

lemma sync_resources_synced:
  "quotas_synced f \<Longrightarrow> cur st = fill_defaults f \<Longrightarrow> sync_resources w pods st = Ret ((False, None), st)"
  by (auto simp: sync_resources_def quotas_synced_def Let_def split: option.splits)

lemma sync_status_mgr: "c_mgr (snd (sync_status w pods a b n st)) = c_mgr st"
  by (auto simp: sync_status_def Let_def split: sum.splits)

lemma enqueueFaSTPod_mgr: "enqueueFaSTPod f st = Ret st' \<Longrightarrow> c_mgr st' = c_mgr st"
  by (auto simp: enqueueFaSTPod_def bind_go_Ret_iff)

lemma sync_finish_mgr: "sync_finish e1 e2 u st = Ret (r, st') \<Longrightarrow> c_mgr st' = c_mgr st"
  by (auto simp: sync_finish_def bind_go_Ret_iff dest!: enqueueFaSTPod_mgr split: if_splits)

text \<open>The pods a sync of \<open>f\<close> works on.\<close>

definition synced_pods :: "fastpod \<Rightarrow> pod list \<Rightarrow> pod list" where
  "synced_pods f listed = filterInactivePods (filter (\<lambda>p. sget (p_labels p) ''controller'' = f_name f) listed)"

lemma syncHandler_found:
  assumes "w_splitKey w key = Some (ns, nm)" "w_getFaSTPod w ns nm = Found f" "f_replicas f = Some n"
    and "w_selectorOk w (f_selector f)" "w_listPods w ns (f_selector f) = Inr listed"
  shows "syncHandler w key st =
    bind_go (sync_resources w (synced_pods f listed) (st\<lparr>cur := fill_defaults f\<rparr>)) (\<lambda>((syncRe, errRe), st1).
    bind_go (reconcileReplicas w (synced_pods f listed) key st1) (\<lambda>((syncRep, errRep), st2).
      case sync_status w (synced_pods f listed) syncRe syncRep n st2 of
        (Inl e, st3) \<Rightarrow> Ret (Some e, st3)
      | (Inr updated, st3) \<Rightarrow> sync_finish errRe errRep updated st3))"
  using assms by (simp add: syncHandler_def synced_pods_def Let_def)

lemma sync_manager_steps:
  assumes wf: "\<And>ns nm f. w_getFaSTPod w ns nm = Found f \<Longrightarrow> well_formed (w_parseFloat w) f \<and> quotas_synced f"
    and res: "syncHandler w key st = Ret (err, st')"
  shows "sys_step\<^sup>*\<^sup>* (c_mgr st, None) (c_mgr st', None)"
proof (cases "c_mgr st' = c_mgr st")
  case False
  with res obtain ns nm f n listed where
    f: "w_splitKey w key = Some (ns, nm)" "w_getFaSTPod w ns nm = Found f" "f_replicas f = Some n"
      "w_selectorOk w (f_selector f)" "w_listPods w ns (f_selector f) = Inr listed"
    by (auto simp: syncHandler_def Let_def split: option.splits get_answer.splits if_splits sum.splits)
  let ?st = "st\<lparr>cur := fill_defaults f\<rparr>" and ?pods = "synced_pods f listed"
  have "sync_resources w ?pods ?st = Ret ((False, None), ?st)"
    using wf[OF f(2)] by (intro sync_resources_synced[of f]) simp_all
  with res[unfolded syncHandler_found[OF f]] obtain syncRep errRep st2 where
    r: "reconcileReplicas w ?pods key ?st = Ret ((syncRep, errRep), st2)" and
    rest: "(case sync_status w ?pods False syncRep n st2 of (Inl e, st3) \<Rightarrow> Ret (Some e, st3)
       | (Inr updated, st3) \<Rightarrow> sync_finish None errRep updated st3) = Ret (err, st')"
    by (auto simp: bind_go_Ret_iff)
  have "c_mgr st' = c_mgr st2"
    using rest sync_status_mgr[of w ?pods False syncRep n st2] by (auto split: prod.splits sum.splits dest: sync_finish_mgr)
  moreover have "well_formed (w_parseFloat w) (cur ?st)" using wf[OF f(2)] by (simp add: well_formed_def)
  note reconcileReplicas_steps[OF this r]
  ultimately show ?thesis by simp
qed simp

text \<open>
  (C4) A whole sync of a FaSTPod whose quotas are those recorded in its status also changes the GPU table
  only by steps of the manager, on every path that returns: an unparsable key, a missing FaSTPod, failing
  calls to the API server, creation and deletion.
\<close>

theorem sync_refines_manager:
  assumes "\<And>ns nm f. w_getFaSTPod w ns nm = Found f \<Longrightarrow> well_formed (w_parseFloat w) f \<and> quotas_synced f"
    and "syncHandler w key st = Ret (err, st')"
  shows "sys_step\<^sup>*\<^sup>* (c_mgr st, None) (c_mgr st', None)"
  using assms by (rule sync_manager_steps)

text \<open>
  (C18) A FaSTPod that has reached its specification is left alone: as many pods as replicas, counters that
  say so and quotas that are recorded make a sync return without an error, without any call to the API
  server or the work queue, and without a change to the GPU table.
\<close>

theorem sync_fixed_point:
  assumes "w_splitKey w key = Some (ns, nm)" "w_getFaSTPod w ns nm = Found f" "f_replicas f = Some n"
    and "w_selectorOk w (f_selector f)" "w_listPods w ns (f_selector f) = Inr listed"
    and "quotas_synced f" "int (length (synced_pods f listed)) = n"
    and "AvailableReplicas (f_status f) = n" "ReadyReplicas (f_status f) = n"
  shows "syncHandler w key st = Ret (None, st\<lparr>cur := fill_defaults f\<rparr>)"
proof -
  let ?st = "st\<lparr>cur := fill_defaults f\<rparr>" and ?pods = "synced_pods f listed"
  have "sync_resources w ?pods ?st = Ret ((False, None), ?st)"
    using assms(6) by (intro sync_resources_synced[of f]) simp_all
  moreover have "reconcileReplicas w ?pods key ?st = Ret ((False, None), ?st)"
    using assms(3,7) by (simp add: reconcileReplicas_def Let_def)
  moreover have "AvailableReplicas (f_status (fill_defaults f)) = n" "ReadyReplicas (f_status (fill_defaults f)) = n"
    using assms(8,9) by (simp_all add: fill_defaults_def)
  ultimately show ?thesis
    unfolding syncHandler_found[OF assms(1-5)] by (simp add: sync_status_def sync_finish_def Let_def)
qed

lemma reconfigure_pod_cur: "reconfigure_pod w f p st = Ret (e, st') \<Longrightarrow> cur st' = cur st"
  by (auto simp: reconfigure_pod_def Let_def FindInQueue_fast bind_go_Ret_iff split: option.splits if_splits)

lemma reconcileResourceConfig_cur: "reconcileResourceConfig w ps f st = Ret (e, st') \<Longrightarrow> cur st' = cur st"
proof (induction ps arbitrary: st)
  case (Cons p ps)
  then obtain err st1 where "reconfigure_pod w f p st = Ret (err, st1)"
    and rest: "(case err of Some e' \<Rightarrow> Ret (Some e', st1) | None \<Rightarrow> reconcileResourceConfig w ps f st1) = Ret (e, st')"
    by (auto simp: bind_go_Ret_iff)
  then have "cur st1 = cur st" by (blast dest: reconfigure_pod_cur)
  then show ?case using rest Cons.IH[of st1] by (auto split: option.splits)
qed simp

text \<open>
  A failed change of the quotas crashes the controller: when rewriting a pod's annotations fails while
  the replicas are as specified, nothing has been written back, and enqueueing the FaSTPod that was not
  written dereferences nil.
\<close>

theorem failed_quota_change_panics:
  assumes "w_splitKey w key = Some (ns, nm)" "w_getFaSTPod w ns nm = Found f" "f_replicas f = Some n"
    and "w_selectorOk w (f_selector f)" "w_listPods w ns (f_selector f) = Inr listed"
    and "\<not> quotas_synced f" "int (length (synced_pods f listed)) = n"
    and "AvailableReplicas (f_status f) = n" "ReadyReplicas (f_status f) = n"
    and fails: "reconcileResourceConfig w (synced_pods f listed) (fill_defaults f) (st\<lparr>cur := fill_defaults f\<rparr>)
        = Ret (Some e, st1)"
  shows "syncHandler w key st = Panic"
proof -
  let ?st = "st\<lparr>cur := fill_defaults f\<rparr>" and ?pods = "synced_pods f listed"
  have c: "cur st1 = fill_defaults f" using reconcileResourceConfig_cur[OF fails] by simp
  have "sync_resources w ?pods ?st = Ret ((False, Some e), st1)"
    using assms(6) fails by (auto simp: sync_resources_def quotas_synced_def fill_defaults_def Let_def split: option.splits)
  moreover have "reconcileReplicas w ?pods key st1 = Ret ((False, None), st1)"
    using assms(3,7) c by (simp add: reconcileReplicas_def Let_def)
  moreover have "AvailableReplicas (f_status (cur st1)) = n" "ReadyReplicas (f_status (cur st1)) = n"
    using assms(8,9) c by (simp_all add: fill_defaults_def)
  ultimately show ?thesis
    unfolding syncHandler_found[OF assms(1-5)]
    by (simp add: sync_status_def sync_finish_def enqueueFaSTPod_def Let_def)
qed

lemma update_first_mem: "find_first P l = Some r \<Longrightarrow> u r \<in> set (update_first P u l)"
  by (induction l) (auto split: if_splits)

text \<open>
  Changing the quotas of a running pod bypasses admission: the entry of the pod takes whatever values
  the FaSTPod's annotations hold, only the old annotations having been checked, while the compute usage that
  later admissions are checked against stays as it was.
\<close>

theorem quota_change_bypasses_admission:
  assumes "gpu_at (c_mgr st) (p_node p) (sget (p_annotations p) FaSTGShareVGPUUUID) = Some g"
    and "find_first (\<lambda>r. fp_Key r = PodKey p) (FastPodList g) = Some r" "resourceValidityCheck (w_parseFloat w) p"
  shows "\<exists>e st' g'. reconfigure_pod w f p st = Ret (e, st')
    \<and> gpu_at (c_mgr st') (p_node p) (sget (p_annotations p) FaSTGShareVGPUUUID) = Some g'
    \<and> set_quota w f r \<in> set (FastPodList g') \<and> Usage g' = Usage g \<and> UsageMem g' = UsageMem g"
proof -
  let ?n = "p_node p" and ?v = "sget (p_annotations p) FaSTGShareVGPUUUID"
  obtain nd where nd: "nodes (c_mgr st) ?n = Some nd" "vGPUID2GPU nd ?v = Some g"
    using assms(1) by (auto simp: gpu_at_def split: option.splits)
  let ?l = "update_first (\<lambda>r. fp_Key r = PodKey p) (set_quota w f) (FastPodList g)"
  let ?m = "put_gpu (c_mgr st) ?n nd ?v (g\<lparr>FastPodList := ?l\<rparr>)"
  have new: "set_quota w f r \<in> set ?l"
    by (rule update_first_mem[OF assms(2)])
  obtain e s where "updatePodsGPUConfig ?n (UUID g) (Some ?l) ?m = Ret (e, ?m\<lparr>sent := s\<rparr>)"
    using updatePodsGPUConfig_returns updatePodsGPUConfig_frame by (metis surj_pair)
  then have "\<exists>e st'. reconfigure_pod w f p st = Ret (e, st') \<and> c_mgr st' = ?m\<lparr>sent := s\<rparr>"
    using nd assms(2,3) by (simp add: reconfigure_pod_def FindInQueue_fast Let_def)
  then show ?thesis using new by fastforce
qed

section \<open>Errors\<close>

text \<open>
  (C37) A pod the API server refuses keeps its GPU: the admission made for it stays in the table, with its
  memory, its share and its port, although the error is returned and no pod exists that could ever be removed.
\<close>

theorem failed_creation_leaks:
  assumes "getPodRequestFromPod (w_parseFloat w) f = Inr req" "validatePodRequest req = None"
    and "req_AllocationType req \<noteq> AllocationTypeNone"
    and "ScheduleRequest req (c_mgr st) = Ret (Inr sel, m1)"
    and "RequestGPUAndUpdateConfig sel req (key_of (f_namespace f) (f_name f @ ''-'' @ w_RandStr w (draws st))) m1
      = Ret ((Some a, 0), m2)"
    and "\<And>p. w_create w p = CreateFailed e"
  shows "\<exists>st'. create_one w f st = Ret ((None, Some e), st') \<and> c_mgr st' = m2 \<and> cur st' = cur st"
  using assms by (simp add: create_one_def create_pod_def Let_def)

lemma run_batch_errs:
  "run_batch fn n errs k st = Ret ((errs', k'), st') \<Longrightarrow> Waiting4Dummy \<notin> set errs \<Longrightarrow> Waiting4Dummy \<notin> set errs'"
proof (induction n arbitrary: errs k st)
  case (Suc n)
  then obtain pod err st1 where f: "fn st = Ret ((pod, err), st1)" by (auto simp: bind_go_Ret_iff)
  show ?case
  proof (cases err)
    case None
    then show ?thesis using Suc f by auto
  next
    case (Some e)
    then have "run_batch fn n (if e \<noteq> Waiting4Dummy then errs @ [e] else errs)
        (if pod = None \<and> e = Waiting4Dummy then k + 1 else k) st1 = Ret ((errs', k'), st')" using Suc.prems(1) f by simp
    from Suc.IH[OF this] show ?thesis using Suc.prems(2) by simp
  qed
qed simp

lemma slow_loop_error:
  "slow_loop fn b r s k st = Ret ((m, Some e), st') \<Longrightarrow> e \<noteq> Waiting4Dummy"
proof (induction fn b r s k st rule: slow_loop.induct)
  case (1 fn b r s k st)
  show ?case
  proof (cases "b > 0")
    case False
    with "1.prems" show ?thesis by (subst (asm) slow_loop.simps) (auto simp: Waiting4Dummy_def split: if_splits)
  next
    case True
    with "1.prems" obtain errs k' st1 where rb: "run_batch fn (nat b) [] k st = Ret ((errs, k'), st1)"
      by (subst (asm) slow_loop.simps) (auto simp: bind_go_Ret_iff)
    show ?thesis
    proof (cases "errs = []")
      case False
      with "1.prems" True rb have "e = hd errs" by (subst (asm) slow_loop.simps) simp
      then show ?thesis using run_batch_errs[OF rb] False by (cases errs) auto
    next
      case e: True
      have "slow_loop fn (min (2 * b) (r - b)) (r - b) (s + (b - int (length errs) - k')) k' st1 = Ret ((m, Some e), st')"
        using "1.prems" True rb e by (subst (asm) slow_loop.simps) (simp add: Let_def)
      from "1.IH"[OF True rb refl refl refl _ refl this] e show ?thesis by simp
    qed
  qed
qed

lemma reconcileReplicas_error:
  assumes "\<And>p. w_delete w p \<noteq> DeleteFailed Waiting4Dummy"
    and "reconcileReplicas w pods k st = Ret ((b, Some e), st')"
  shows "e \<noteq> Waiting4Dummy"
proof -
  have one: "err \<noteq> Some Waiting4Dummy" if "delete_one w k p s = Ret (err, s')" for p s err s'
    using that assms(1)[of p]
    by (auto simp: delete_one_def Let_def bind_go_Ret_iff split: delete_answer.splits)
  have del: "Waiting4Dummy \<notin> set errs'"
    if "delete_all w k ps errs s = Ret (errs', s')" "Waiting4Dummy \<notin> set errs" for ps errs s errs' s'
    using that
  proof (induction ps arbitrary: errs s)
    case (Cons p ps)
    then obtain err s1 where d: "delete_one w k p s = Ret (err, s1)"
      "delete_all w k ps (case err of None \<Rightarrow> errs | Some e \<Rightarrow> errs @ [e]) s1 = Ret (errs', s')"
      by (auto simp: bind_go_Ret_iff)
    then show ?case using Cons.prems(2) one[OF d(1)] by (intro Cons.IH[OF d(2)]) (auto split: option.splits)
  qed simp
  show ?thesis
    using assms(2) del slow_loop_error
    by (fastforce simp: reconcileReplicas_def create_replicas_def slowStartbatch_def delete_replicas_def Let_def
        bind_go_Ret_iff split: if_splits list.splits)
qed

text \<open>
  Every failed sync is retried with a delay: unless the API server itself answers with that very text,
  no sync ever returns \<open>Waiting4Dummy\<close>, so that the branch of the work loop for it is dead; the key is put back
  with the rate limit and marked done, and a sync without an error forgets it.
\<close>

theorem failed_sync_rate_limited:
  assumes "\<And>p. w_delete w p \<noteq> DeleteFailed Waiting4Dummy" "\<And>ns nm. w_getFaSTPod w ns nm \<noteq> GetFailed Waiting4Dummy"
    and "\<And>ns s. w_listPods w ns s \<noteq> Inl Waiting4Dummy" "\<And>f. w_updateFaSTPod w f \<noteq> Inl Waiting4Dummy"
    and "syncHandler w key st = Ret (err, st1)"
  shows "processNextWorkItem w (Some (Inr key)) st = Ret (True, emit (QueueDone key)
    (emit (if err = None then QueueForget key else QueueAddRateLimited key) st1))"
proof -
  have "err \<noteq> Some Waiting4Dummy"
  proof
    assume e: "err = Some Waiting4Dummy"
    with assms(2,3,5) obtain ns nm f n listed where
      f: "w_splitKey w key = Some (ns, nm)" "w_getFaSTPod w ns nm = Found f" "f_replicas f = Some n"
        "w_selectorOk w (f_selector f)" "w_listPods w ns (f_selector f) = Inr listed"
      by (auto simp: syncHandler_def Let_def split: option.splits get_answer.splits if_splits sum.splits)
    let ?pods = "synced_pods f listed"
    from assms(5)[unfolded syncHandler_found[OF f]] e obtain syncRe errRe st1' syncRep errRep st2 where
      r: "reconcileReplicas w ?pods key st1' = Ret ((syncRep, errRep), st2)" and
      rest: "(case sync_status w ?pods syncRe syncRep n st2 of (Inl e, st3) \<Rightarrow> Ret (Some e, st3)
         | (Inr updated, st3) \<Rightarrow> sync_finish errRe errRep updated st3) = Ret (Some Waiting4Dummy, st1)"
      by (auto simp: bind_go_Ret_iff)
    have "errRep = Some Waiting4Dummy"
      using rest assms(4)
      by (auto simp: sync_status_def sync_finish_def Let_def bind_go_Ret_iff split: sum.splits if_splits)
    with r show False using reconcileReplicas_error[OF assms(1)] by blast
  qed
  then show ?thesis using assms(5) by (auto simp: processNextWorkItem_def split: option.splits)
qed

section \<open>A concrete controller\<close>

definition demo_replica :: "string \<Rightarrow> pod" where
  "demo_replica nm = demo_pod\<lparr>p_name := nm, p_labels := [''controller'' \<mapsto> ''f''], p_annotations := (p_annotations demo_pod)
     (FaSTGShareGPUQuotaRequest \<mapsto> ''0.5'', FaSTGShareGPUQuotaLimit \<mapsto> ''1'', FaSTGShareGPUSMPartition \<mapsto> ''50'',
      FaSTGShareGPUMemory \<mapsto> ''1000'')\<rparr>"

definition demo_float :: "string \<Rightarrow> float64" where
  "demo_float s = (case demo_parseFloat s of None \<Rightarrow> Fin 0 | Some x \<Rightarrow> x)"

definition demo_world :: "fastpod \<Rightarrow> pod list \<Rightarrow> world" where
  "demo_world f pods = \<lparr>w_parseFloat = demo_parseFloat, w_floatValue = demo_float, w_RandStr = (\<lambda>n. ''1''),
     w_create = (\<lambda>p. Created), w_delete = (\<lambda>p. Deleted), w_updatePod = (\<lambda>p. True), w_updateFaSTPod = Inr,
     w_splitKey = (\<lambda>k. Some (''ns'', ''f'')), w_getFaSTPod = (\<lambda>ns nm. Found f), w_selectorOk = (\<lambda>s. True),
     w_listPods = (\<lambda>ns s. Inr pods), w_sort = insertionSort, w_kube = demo_kube, w_now = 0\<rparr>"

definition demo_ctl :: "mgr \<Rightarrow> fastpod \<Rightarrow> ctl" where
  "demo_ctl m f = \<lparr>c_mgr = m, fstp2Pods = Map.empty, draws = 0, cur = fill_defaults f, removals = [], c_log = []\<rparr>"

lemma demo_well_formed: "well_formed demo_parseFloat demo_fastpod"
  by (simp add: well_formed_def demo_fastpod_request demo_fastpod_req_def)

abbreviation demo_req :: ResourceRequest where
  "demo_req \<equiv> demo_fastpod_req\<lparr>ReqSMPercentage := Some 50\<rparr>"

abbreviation demo_empty :: mgr where
  "demo_empty \<equiv> demo_mgr (demo_node demo_ports Map.empty)"

lemma demo_req_scheduled:
  "ScheduleRequest demo_req demo_empty = Ret (Inr demo_sel, demo_mgr (demo_node demo_ports [''u1'' \<mapsto> demo_info]))"
proof -
  have "canFit demo_req demo_info = Ret True"
    by (simp add: canFit_def canFitFastPod_def demo_fastpod_req_def demo_info_def demo_usage fgt_def
        sub64_def to_signed_def)
  then show ?thesis
    using demo_scheduled by (simp add: ScheduleRequest_def demo_fastpod_req_def demo_mgr_def demo_node_def demo_rpc_def
      select_gpu_def new_gpu_info_def demo_vgpu_def demo_gpu_def put_gpu_def put_node_def
      demo_sel_def demo_info_def to_signed_def Let_def)
qed

lemma demo_req_admitted:
  "\<exists>a. RequestGPUAndUpdateConfig demo_sel demo_req ''ns/f-1'' (demo_mgr (demo_node demo_ports [''u1'' \<mapsto> demo_info]))
     = Ret ((Some a, 0), demo_admitted)"
  by (simp add: RequestGPUAndUpdateConfig_def demo_sel_def demo_fastpod_req_def demo_mgr_def demo_node_def
      set_type_def enable_mps_def demo_info_def demo_rpc_def admit_fastpod_def demo_alloc demo_usage
      fgt_def add64_def to_signed_def push_fastpod_def put_gpu_def put_node_def updatePodsGPUConfig_def
      demo_admitted_def demo_info1_def demo_entry_def GPUClientPortStart_def Let_def)

lemma demo_req_valid: "validatePodRequest demo_req = None" "req_AllocationType demo_req = AllocationTypeFastPod"
  by (simp_all add: validatePodRequest_def demo_fastpod_req_def fgt_def)

lemma filled_maps:
  "\<exists>m. BoundDeviceIDs (f_status (fill_defaults f)) = Some m" "\<exists>m. GPUClientPorts (f_status (fill_defaults f)) = Some m"
  by (simp_all add: fill_defaults_def split: option.splits)

text \<open>One replica is missing and is created.\<close>

lemma demo_created:
  assumes "f = demo_fastpod\<lparr>f_status := s\<rparr>"
  shows "\<exists>st'. reconcileReplicas (demo_world g pods) [] k (demo_ctl demo_empty f) = Ret ((True, None), st')
    \<and> c_mgr st' = demo_admitted"
proof -
  let ?st = "emit (ExpectCreations ''ns/f'' 1) (demo_ctl demo_empty f)"
  have req: "getPodRequestFromPod demo_parseFloat f = Inr demo_req"
    unfolding assms using demo_fastpod_request by (simp add: getPodRequestFromPod_def)
  obtain devs ports where maps: "BoundDeviceIDs (f_status (fill_defaults f)) = Some devs"
    "GPUClientPorts (f_status (fill_defaults f)) = Some ports" using filled_maps by metis
  obtain a where a: "RequestGPUAndUpdateConfig demo_sel demo_req ''ns/f-1'' (demo_mgr (demo_node demo_ports [''u1'' \<mapsto> demo_info]))
     = Ret ((Some a, 0), demo_admitted)" using demo_req_admitted by blast
  have f: "f_name f = ''f''" "f_namespace f = ''ns''" "f_replicas f = Some 1"
    by (simp_all add: assms demo_fastpod_def demo_exclusive_def)
  have "\<exists>p st1. create_one (demo_world g pods) (fill_defaults f) ?st = Ret ((Some p, None), st1) \<and> c_mgr st1 = demo_admitted"
    using a
    by (simp add: create_one_def create_pod_def demo_world_def demo_ctl_def f req demo_req_valid demo_req_scheduled
        key_of_def bind_device_def bind_port_def maps Let_def emit_def split: option.splits)
  then show ?thesis
    by (auto simp: reconcileReplicas_def create_replicas_def slowStartbatch_def slow_loop.simps f demo_ctl_def key_of_def
        SlowStartInitialBatchSize_def Let_def)
qed

theorem scale_down_outcome_witness:
  "\<exists>d st'. reconcileReplicas (demo_world demo_fastpod []) [demo_replica ''f-1'', demo_replica ''f-2''] ''ns/f''
       (demo_ctl demo_admitted demo_fastpod) = Ret ((True, None), st') \<and> removals st' = [d]"
proof -
  let ?w = "demo_world demo_fastpod []" and ?st = "demo_ctl demo_admitted demo_fastpod"
  have "go_sort (w_sort ?w)" using isort.go_sort_axioms by (simp add: demo_world_def)
  moreover have "status_maps ?st Map.empty Map.empty" "f_replicas (cur ?st) = Some 1"
    by (simp_all add: status_maps_def demo_ctl_def fill_defaults_def demo_fastpod_def demo_exclusive_def)
  moreover have "failures ?w ds = []" for ds by (induction ds) (simp_all add: failures_def demo_world_def)
  moreover have "removals ?st = []" by (simp add: demo_ctl_def)
  ultimately show ?thesis
    using scale_down_outcome[of ?w ?st Map.empty Map.empty 1 "[demo_replica ''f-1'', demo_replica ''f-2'']" "''ns/f''"]
    by (fastforce simp: length_Suc_conv)
qed

theorem scale_to_zero_blocks_witness:
  "reconcileReplicas (demo_world demo_fastpod []) [demo_replica ''f-1''] ''ns/f''
     (demo_ctl demo_admitted (demo_fastpod\<lparr>f_replicas := Some 0\<rparr>)) = Block"
  by (rule scale_to_zero_blocks[of _ 0]) (simp_all add: demo_ctl_def)

definition demo_synced :: fastpod where
  "demo_synced = demo_fastpod\<lparr>f_status := (f_status demo_fastpod)\<lparr>ReadyReplicas := 1, AvailableReplicas := 1,
     ResourceConfig := Some [FaSTGShareGPUQuotaRequest \<mapsto> ''0.5'', FaSTGShareGPUQuotaLimit \<mapsto> ''1'']\<rparr>\<rparr>"

lemma demo_synced_facts:
  "quotas_synced demo_synced" "f_replicas demo_synced = Some 1" "well_formed demo_parseFloat demo_synced"
  "AvailableReplicas (f_status demo_synced) = 1" "ReadyReplicas (f_status demo_synced) = 1"
  using demo_well_formed
  by (simp_all add: quotas_synced_def demo_synced_def fill_defaults_def demo_fastpod_def demo_exclusive_def
      annotation_keys well_formed_def getPodRequestFromPod_def)

lemma demo_synced_pods: "f_name f = ''f'' \<Longrightarrow> synced_pods f [demo_replica nm] = [demo_replica nm]"
  by (simp add: synced_pods_def filterInactivePods_def IsPodActive_def demo_replica_def demo_pod_def sget_def)

theorem sync_fixed_point_witness:
  "syncHandler (demo_world demo_synced [demo_replica ''f-1'']) ''ns/f'' (demo_ctl demo_admitted demo_fastpod)
     = Ret (None, demo_ctl demo_admitted demo_synced)"
  using sync_fixed_point[of "demo_world demo_synced [demo_replica ''f-1'']" "''ns/f''" "''ns''" "''f''" demo_synced 1
      "[demo_replica ''f-1'']" "demo_ctl demo_admitted demo_fastpod"] demo_synced_facts
    demo_synced_pods[of demo_synced "''f-1''"]
  by (simp add: demo_world_def demo_ctl_def demo_synced_def demo_fastpod_def)

lemma demo_sync_admits:
  "\<exists>err st'. syncHandler (demo_world demo_synced []) ''ns/f'' (demo_ctl demo_empty f) = Ret (err, st') \<and> c_mgr st' = demo_admitted"
proof -
  let ?w = "demo_world demo_synced []" and ?st = "demo_ctl demo_empty f"
  have c: "?st\<lparr>cur := fill_defaults demo_synced\<rparr> = demo_ctl demo_empty demo_synced" by (simp add: demo_ctl_def)
  have "synced_pods demo_synced [] = []" by (simp add: synced_pods_def filterInactivePods_def)
  moreover have "sync_resources ?w [] (demo_ctl demo_empty demo_synced) = Ret ((False, None), demo_ctl demo_empty demo_synced)"
    by (rule sync_resources_synced[OF demo_synced_facts(1)]) (simp add: demo_ctl_def)
  moreover obtain st1 where "reconcileReplicas ?w [] ''ns/f'' (demo_ctl demo_empty demo_synced) = Ret ((True, None), st1)"
    "c_mgr st1 = demo_admitted"
    using demo_created[OF demo_synced_def] by blast
  ultimately show ?thesis
    using syncHandler_found[of ?w "''ns/f''" "''ns''" "''f''" demo_synced 1 "[]" ?st] demo_synced_facts(2)
    by (auto simp: demo_world_def c sync_finish_def sync_status_def Let_def)
qed

theorem sync_refines_manager_witness:
  "\<exists>err st'. syncHandler (demo_world demo_synced []) ''ns/f'' (demo_ctl demo_empty demo_fastpod) = Ret (err, st')
     \<and> sys_step\<^sup>*\<^sup>* (demo_empty, None) (c_mgr st', None)"
proof -
  let ?w = "demo_world demo_synced []" and ?st = "demo_ctl demo_empty demo_fastpod"
  obtain err st' where r: "syncHandler ?w ''ns/f'' ?st = Ret (err, st')" using demo_sync_admits by blast
  moreover have "sys_step\<^sup>*\<^sup>* (c_mgr ?st, None) (c_mgr st', None)"
    using demo_synced_facts by (intro sync_refines_manager[OF _ r]) (auto simp: demo_world_def)
  ultimately show ?thesis by (auto simp: demo_ctl_def)
qed

theorem failed_creation_leaks_witness:
  "\<exists>st'. create_one ((demo_world demo_fastpod [])\<lparr>w_create := \<lambda>p. CreateFailed ''quota''\<rparr>) demo_fastpod
       (demo_ctl demo_empty demo_fastpod) = Ret ((None, Some ''quota''), st')
     \<and> gpu_at (c_mgr st') ''n1'' ''u1'' = Some demo_info1"
proof -
  let ?w = "(demo_world demo_fastpod [])\<lparr>w_create := \<lambda>p. CreateFailed ''quota''\<rparr>" and ?st = "demo_ctl demo_empty demo_fastpod"
  obtain a where a: "RequestGPUAndUpdateConfig demo_sel demo_req
      (key_of (f_namespace demo_fastpod) (f_name demo_fastpod @ ''-'' @ w_RandStr ?w (draws ?st)))
      (demo_mgr (demo_node demo_ports [''u1'' \<mapsto> demo_info])) = Ret ((Some a, 0), demo_admitted)"
    using demo_req_admitted by (auto simp: demo_fastpod_def demo_exclusive_def demo_world_def key_of_def)
  have "getPodRequestFromPod (w_parseFloat ?w) demo_fastpod = Inr demo_req"
    "ScheduleRequest demo_req (c_mgr ?st) = Ret (Inr demo_sel, demo_mgr (demo_node demo_ports [''u1'' \<mapsto> demo_info]))"
    using demo_fastpod_request demo_req_scheduled by (simp_all add: demo_world_def demo_ctl_def)
  from failed_creation_leaks[OF this(1) demo_req_valid(1) _ this(2) a] show ?thesis
    using demo_req_valid(2) demo_admitted_gpu by auto
qed

lemma demo_replica_entry:
  "p_node (demo_replica ''f-1'') = ''n1''" "PodKey (demo_replica ''f-1'') = ''ns/f-1''"
  "sget (p_annotations (demo_replica ''f-1'')) FaSTGShareVGPUUUID = ''u1''"
  "resourceValidityCheck demo_parseFloat (demo_replica ''f-1'')"
  by (simp_all add: demo_replica_def demo_pod_def annotation_keys PodKey_def key_of_def resourceValidityCheck_def
      demo_parseFloat_def fgt_def demo_numbers ParseInt_def is_digit_def digit_val_def sget_def)

theorem quota_change_bypasses_admission_witness:
  "\<exists>e st' g'. reconfigure_pod (demo_world demo_fastpod [])
         (demo_fastpod\<lparr>f_annotations := (f_annotations demo_fastpod)(FaSTGShareGPUQuotaRequest \<mapsto> ''1'')\<rparr>)
         (demo_replica ''f-1'') (demo_ctl demo_admitted demo_fastpod) = Ret (e, st')
     \<and> gpu_at (c_mgr st') ''n1'' ''u1'' = Some g' \<and> Usage g' = Fin (1 / 4)
     \<and> (\<exists>r \<in> set (FastPodList g'). fp_Key r = ''ns/f-1'' \<and> QtRequest r = Fin 1)"
proof -
  let ?f = "demo_fastpod\<lparr>f_annotations := (f_annotations demo_fastpod)(FaSTGShareGPUQuotaRequest \<mapsto> ''1'')\<rparr>"
    and ?w = "demo_world demo_fastpod []"
  have "find_first (\<lambda>r. fp_Key r = PodKey (demo_replica ''f-1'')) (FastPodList demo_info1) = Some demo_entry"
    by (simp add: demo_replica_entry demo_info1_def demo_entry_def)
  moreover have "fp_Key (set_quota ?w ?f demo_entry) = ''ns/f-1''" "QtRequest (set_quota ?w ?f demo_entry) = Fin 1"
    by (simp_all add: set_quota_def demo_entry_def demo_world_def demo_float_def demo_parseFloat_def Let_def)
  moreover have "Usage demo_info1 = Fin (1 / 4)" by (simp add: demo_info1_def)
  ultimately show ?thesis
    using quota_change_bypasses_admission[of "demo_ctl demo_admitted demo_fastpod" "demo_replica ''f-1''" demo_info1 demo_entry ?w ?f]
      demo_admitted_gpu
    by (fastforce simp: demo_replica_entry demo_ctl_def demo_world_def)
qed

definition demo_requota :: fastpod where
  "demo_requota = demo_synced\<lparr>f_annotations := (f_annotations demo_synced)(FaSTGShareGPUQuotaRequest \<mapsto> ''1'')\<rparr>"

theorem failed_quota_change_panics_witness:
  "syncHandler ((demo_world demo_requota [demo_replica ''f-1''])\<lparr>w_updatePod := \<lambda>p. False\<rparr>) ''ns/f''
     (demo_ctl demo_admitted demo_fastpod) = Panic"
proof -
  let ?w = "(demo_world demo_requota [demo_replica ''f-1''])\<lparr>w_updatePod := \<lambda>p. False\<rparr>"
    and ?st = "demo_ctl demo_admitted demo_fastpod"
  let ?key = "\<lambda>r. fp_Key r = ''ns/f-1''"
  have n: "nodes demo_admitted ''n1'' = Some (demo_node demo_ports1 [''u1'' \<mapsto> demo_info1])"
    by (simp add: demo_admitted_def demo_mgr_def)
  have g: "find_first ?key (FastPodList demo_info1) = Some demo_entry" by (simp add: demo_info1_def demo_entry_def)
  obtain e m where u: "updatePodsGPUConfig ''n1'' (UUID demo_info1) (Some (update_first ?key (set_quota ?w (fill_defaults demo_requota)) (FastPodList demo_info1)))
      (put_gpu demo_admitted ''n1'' (demo_node demo_ports1 [''u1'' \<mapsto> demo_info1]) ''u1''
        (demo_info1\<lparr>FastPodList := update_first ?key (set_quota ?w (fill_defaults demo_requota)) (FastPodList demo_info1)\<rparr>))
      = Ret (e, m)" using updatePodsGPUConfig_returns by (metis surj_pair)
  have "\<exists>e st1. reconfigure_pod ?w (fill_defaults demo_requota) (demo_replica ''f-1'')
      (?st\<lparr>cur := fill_defaults demo_requota\<rparr>) = Ret (Some e, st1)"
    using u demo_replica_entry n g
    by (simp add: reconfigure_pod_def FindInQueue_fast demo_ctl_def demo_world_def Let_def demo_node_def)
  then obtain e st1 where "reconcileResourceConfig ?w [demo_replica ''f-1''] (fill_defaults demo_requota)
      (?st\<lparr>cur := fill_defaults demo_requota\<rparr>) = Ret (Some e, st1)" by fastforce
  moreover have "\<not> quotas_synced demo_requota"
    by (simp add: quotas_synced_def demo_requota_def demo_synced_def fill_defaults_def annotation_keys)
  moreover have "f_name demo_requota = ''f''" "f_replicas demo_requota = Some 1"
    "AvailableReplicas (f_status demo_requota) = 1" "ReadyReplicas (f_status demo_requota) = 1"
    using demo_synced_facts by (simp_all add: demo_requota_def demo_synced_def demo_fastpod_def)
  ultimately show ?thesis
    by (intro failed_quota_change_panics[of ?w _ "''ns''" "''f''" demo_requota 1 "[demo_replica ''f-1'']"])
      (simp_all add: demo_world_def demo_synced_pods)
qed

theorem failed_sync_rate_limited_witness:
  "\<exists>st'. processNextWorkItem ((demo_world demo_synced [])\<lparr>w_listPods := \<lambda>ns s. Inl ''timeout''\<rparr>) (Some (Inr ''ns/f''))
       (demo_ctl demo_admitted demo_fastpod) = Ret (True, st')
     \<and> c_log st' = [QueueAddRateLimited ''ns/f'', QueueDone ''ns/f'']"
proof -
  let ?w = "(demo_world demo_synced [])\<lparr>w_listPods := \<lambda>ns s. Inl ''timeout''\<rparr>"
  have "syncHandler ?w ''ns/f'' (demo_ctl demo_admitted demo_fastpod) = Ret (Some ''timeout'', demo_ctl demo_admitted demo_synced)"
    using demo_synced_facts(2) by (simp add: syncHandler_def demo_world_def demo_ctl_def)
  from failed_sync_rate_limited[OF _ _ _ _ this] show ?thesis
    by (simp add: demo_world_def Waiting4Dummy_def demo_ctl_def emit_def)
qed

end
