(* ===== verification/Controller_System.thy ===== *)
theory Controller_System
  imports Reconcile_Properties
begin

text \<open>
  The controller as a whole: workers, event handlers, removal goroutines, node connections and the liveness check, in
  any order, over the state \<open>ctl\<close>. It refines the transition system of the GPU manager, so that the accounting of
  GPUs and ports holds in every state the controller can reach.
\<close>

section \<open>Refinement of a transition system\<close>

text \<open>
  A concrete system each of whose steps is a sequence of steps of an abstract one: what holds in the reachable
  states of the abstract system holds of the abstraction of every concrete one.
\<close>

locale step_refinement =
  fixes astep :: "'a \<Rightarrow> 'a \<Rightarrow> bool" and cstep :: "'c \<Rightarrow> 'c \<Rightarrow> bool" and abs :: "'c \<Rightarrow> 'a"
  assumes simulate: "cstep s s' \<Longrightarrow> astep\<^sup>*\<^sup>* (abs s) (abs s')"
begin

lemma steps: "cstep\<^sup>*\<^sup>* s s' \<Longrightarrow> astep\<^sup>*\<^sup>* (abs s) (abs s')"
  by (induction rule: rtranclp_induct) (auto dest!: simulate)

lemma reachable: "astep\<^sup>*\<^sup>* a (abs s) \<Longrightarrow> cstep\<^sup>*\<^sup>* s s' \<Longrightarrow> astep\<^sup>*\<^sup>* a (abs s')"
  by (rule rtranclp_trans[OF _ steps])

end

section \<open>The steps of the controller\<close>

text \<open>What is relied on of the FaSTPods a worker finds: their memory is below \<open>2 ^ 62\<close>, no quota is NaN, and their
  quotas have not been changed since they were recorded.\<close>

definition settled_world :: "world \<Rightarrow> bool" where
  "settled_world w \<longleftrightarrow>
     (\<forall>ns nm f. w_getFaSTPod w ns nm = Found f \<longrightarrow> well_formed (w_parseFloat w) f \<and> quotas_synced f)"

inductive ctl_step :: "ctl \<Rightarrow> ctl \<Rightarrow> bool" where
  work: "settled_world w \<Longrightarrow> processNextWorkItem w item st = Ret (go_on, st') \<Longrightarrow> ctl_step st st'"
| removal: "p \<in> set (removals st) \<Longrightarrow> pod_agrees p (c_mgr st) \<Longrightarrow> removePodFromList p (c_mgr st) = Ret m \<Longrightarrow>
     ctl_step st (st\<lparr>c_mgr := m, removals := remove1 p (removals st)\<rparr>)"
| added: "enqueueFaSTPod (Some f) st = Ret st' \<Longrightarrow> ctl_step st st'"
| updated: "fastpod_updated f st = Ret st' \<Longrightarrow> ctl_step st st'"
| deleted: "\<forall>f. obj = Object f \<longrightarrow> (\<forall>p \<in> set (pods_of f). pod_agrees p (c_mgr st)) \<Longrightarrow>
     handleDeletedFaSTPod pods_of obj (c_mgr st) = Ret m \<Longrightarrow> ctl_step st (st\<lparr>c_mgr := m\<rparr>)"
| observed: "handleObject w obj' st = Ret st' \<Longrightarrow> ctl_step st st'"
| pending: "resourceChanged keys st = (keys', st') \<Longrightarrow> ctl_step st st'"
| connect: "client_ok (ce_client ce) \<Longrightarrow> handleNodeConnection ce (c_mgr st) = Ret (r, m) \<Longrightarrow>
     ctl_step st (st\<lparr>c_mgr := m\<rparr>)"
| heartbeats: "heartbeat_loop n ms (c_mgr st) = Ret (r, m) \<Longrightarrow> ctl_step st (st\<lparr>c_mgr := m\<rparr>)"
| tick: "ctl_step st (st\<lparr>c_mgr := checkNodeLiveness now (c_mgr st)\<rparr>)"
| answers: "client_ok cl \<Longrightarrow> ctl_step st (st\<lparr>c_mgr := set_client n cl (c_mgr st)\<rparr>)"

inductive_cases ctl_stepE: "ctl_step st st'"

definition ctl_init :: "fastpod \<Rightarrow> ctl" where
  "ctl_init f = \<lparr>c_mgr = fst sys_init, fstp2Pods = Map.empty, draws = 0, cur = f, removals = [], c_log = []\<rparr>"

lemma ctl_init_mgr: "c_mgr (ctl_init f) = fst sys_init"
  by (simp add: ctl_init_def)

lemma work_steps:
  assumes "settled_world w" "processNextWorkItem w item st = Ret (go_on, st')"
  shows "mgr_steps (c_mgr st) (c_mgr st')"
proof (cases item)
  case (Some i)
  then show ?thesis
  proof (cases i)
    case (Inr key)
    then obtain err st1 where s: "syncHandler w key st = Ret (err, st1)" "c_mgr st' = c_mgr st1"
      using assms(2) Some by (auto simp: processNextWorkItem_def bind_go_Ret_iff split: option.splits if_splits)
    have "mgr_steps (c_mgr st) (c_mgr st1)"
      using assms(1) by (intro sync_manager_steps[OF _ s(1)]) (simp add: settled_world_def)
    then show ?thesis by (simp add: s(2))
  qed (use assms(2) Some in \<open>auto simp: processNextWorkItem_def\<close>)
qed (use assms(2) in \<open>simp add: processNextWorkItem_def\<close>)

lemma fold_emit_mgr: "c_mgr (fold (\<lambda>k s. emit (QueueAdd k) s) ks st) = c_mgr st"
  by (induction ks arbitrary: st) simp_all

lemma handleObject_mgr: "handleObject w obj st = Ret st' \<Longrightarrow> c_mgr st' = c_mgr st"
  by (auto simp: handleObject_def enqueueFaSTPod_def
      split: informed.splits option.splits if_splits get_answer.splits)

lemma ctl_step_simulates: "ctl_step st st' \<Longrightarrow> mgr_steps (c_mgr st) (c_mgr st')"
proof (induction rule: ctl_step.induct)
  case (work w item st go_on st')
  then show ?case by (rule work_steps)
next
  case (removal p st m)
  then show ?case using sys_step.remove_pod by fastforce
next
  case (deleted obj pods_of st m)
  then show ?case using sys_step.remove_fastpod
    by (cases obj) (fastforce simp: handleDeletedFaSTPod_def)+
next
  case (connect ce st r m)
  then show ?case using sys_step.connect by fastforce
next
  case (heartbeats n ms st r m)
  then show ?case using sys_step.heartbeats by fastforce
next
  case (tick st now)
  then show ?case using sys_step.tick by fastforce
next
  case (answers cl st n)
  then show ?case using sys_step.answers by fastforce
qed (auto simp: enqueueFaSTPod_def fastpod_updated_def resourceChanged_def bind_go_Ret_iff fold_emit_mgr
      dest!: handleObject_mgr)

interpretation ctl: step_refinement sys_step ctl_step "\<lambda>st. (c_mgr st, None)"
  by unfold_locales (rule ctl_step_simulates)

lemma ctl_reachable: "ctl_step\<^sup>*\<^sup>* (ctl_init f) st \<Longrightarrow> sys_step\<^sup>*\<^sup>* sys_init (c_mgr st, None)"
  using ctl.reachable[of sys_init "ctl_init f"] by (simp add: ctl_init_def sys_init_def)



end
