(* ===== verification/Controller_Run.thy ===== *)
theory Controller_Run
  imports Controller_System
begin

text \<open>
  What starts the operations of the controller manager: the event handlers \<open>NewController\<close> registers, the loops that
  \<open>Run\<close> starts (\<open>controller.go\<close>), the loop that accepts the connections of nodes (\<open>config_manager.go\<close>), and some unused
  or auxiliary code of the same packages. Everything a handler or a loop does is a sequence of steps of \<open>ctl_step\<close>.
\<close>

section \<open>Event handlers\<close>

text \<open>What the three informers report. A deleted object may be a tombstone.\<close>

datatype informer_event =
    FaSTPodAdded fastpod
  | FaSTPodUpdated fastpod fastpod
  | FaSTPodDeleted "fastpod informed"
  | PodAdded pod
  | PodUpdated pod pod
  | PodDeleted "pod informed"
  | NodeAdded string
  | NodeUpdated string
  | NodeDeleted string

text \<open>
  The handlers registered for the events, over the pending list and the state; pods that are added or updated, and
  nodes that are, have none. The removal that a deleted FaSTPod starts is a goroutine.
\<close>

definition NewController_handlers ::
  "world \<Rightarrow> (fastpod \<Rightarrow> pod list) \<Rightarrow> informer_event \<Rightarrow> string list \<times> ctl \<Rightarrow> (string list \<times> ctl) go" where
  "NewController_handlers w pods_of e s = (case s of (pending, st) \<Rightarrow> (case e of
     FaSTPodAdded f \<Rightarrow> bind_go (enqueueFaSTPod (Some f) st) (\<lambda>st'. Ret (pending, st'))
   | FaSTPodUpdated old new \<Rightarrow> bind_go (fastpod_updated new st) (\<lambda>st'. Ret (pending, st'))
   | FaSTPodDeleted obj \<Rightarrow> bind_go (handleDeletedFaSTPod pods_of obj (c_mgr st)) (\<lambda>m. Ret (pending, st\<lparr>c_mgr := m\<rparr>))
   | PodDeleted obj \<Rightarrow> bind_go (handleObject w obj st) (\<lambda>st'. Ret (pending, st'))
   | NodeDeleted n \<Rightarrow> Ret (resourceChanged pending st)
   | _ \<Rightarrow> Ret (pending, st)))"

fun handle_events ::
  "world \<Rightarrow> (fastpod \<Rightarrow> pod list) \<Rightarrow> informer_event list \<Rightarrow> string list \<times> ctl \<Rightarrow> (string list \<times> ctl) go" where
  "handle_events w pods_of [] s = Ret s"
| "handle_events w pods_of (e # es) s = bind_go (NewController_handlers w pods_of e s) (handle_events w pods_of es)"

section \<open>Loops\<close>

text \<open>A worker takes items off the queue until it is shut down. The API server may answer differently each time.\<close>

fun runWorker :: "(world \<times> (string + string) option) list \<Rightarrow> ctl \<Rightarrow> ctl go" where
  "runWorker [] st = Ret st"
| "runWorker ((w, item) # rest) st =
     bind_go (processNextWorkItem w item st) (\<lambda>(go_on, st'). if go_on then runWorker rest st' else Ret st')"

text \<open>Every tick of the pending insurance re-queues the pending list, until it is told to stop.\<close>

datatype pending_event = PendingTick | PendingDone

fun pendingInsurance :: "pending_event list \<Rightarrow> string list \<times> ctl \<Rightarrow> string list \<times> ctl" where
  "pendingInsurance [] s = s"
| "pendingInsurance (PendingDone # es) s = s"
| "pendingInsurance (PendingTick # es) (pending, st) = pendingInsurance es (resourceChanged pending st)"

datatype goroutine = PendingInsurance | ConfigManager | Worker

text \<open>What \<open>Run\<close> starts once the caches are filled; without them it returns an error.\<close>

definition Run :: "bool \<Rightarrow> nat \<Rightarrow> string + goroutine list" where
  "Run cachesSynced workers =
     (if \<not> cachesSynced then Inl ''failed to wait for caches to sync''
      else Inr (PendingInsurance # ConfigManager # replicate workers Worker))"

section \<open>Accepting connections\<close>

text \<open>
  The listener, the connections whose handlers were started, those closed when the controller stopped, and how often
  accepting failed. Accepting on a closed listener fails at once, always.
\<close>

record acceptor =
  listening :: bool
  handlers :: "nat list"
  closed_conns :: "nat set"
  failures_seen :: nat

datatype accept_event = Accepted nat | AcceptFailed | StopRequested

definition accept_step :: "mgr \<Rightarrow> accept_event \<Rightarrow> acceptor \<Rightarrow> acceptor option" where
  "accept_step m e a = (case e of
     Accepted conn \<Rightarrow> if listening a then Some (a\<lparr>handlers := handlers a @ [conn]\<rparr>) else None
   | AcceptFailed \<Rightarrow> Some (a\<lparr>failures_seen := Suc (failures_seen a)\<rparr>)
   | StopRequested \<Rightarrow> Some (a\<lparr>listening := False,
       closed_conns := closed_conns a \<union> {ConfigConn live | n live. nodesLiveness m n = Some live}\<rparr>))"

fun accept_loop :: "(mgr \<times> accept_event) list \<Rightarrow> acceptor \<Rightarrow> acceptor option" where
  "accept_loop [] a = Some a"
| "accept_loop ((m, e) # es) a = (case accept_step m e a of None \<Rightarrow> None | Some a' \<Rightarrow> accept_loop es a')"

text \<open>An error when listening fails; otherwise the state after some events of the loop, which nothing ends.\<close>

definition startConfigManager :: "bool \<Rightarrow> (mgr \<times> accept_event) list \<Rightarrow> (string + acceptor) option" where
  "startConfigManager listens es =
     (if \<not> listens then Some (Inl ''listen'')
      else map_option Inr (accept_loop es \<lparr>listening = True, handlers = [], closed_conns = {}, failures_seen = 0\<rparr>))"

section \<open>Unused and auxiliary code\<close>

definition FaSTGShareGPUsINfo :: string where
  "FaSTGShareGPUsINfo = ''fastgshare/gpu_info''"

text \<open>
  The deprecated update of a node's annotation; the map of memory sizes is traversed in some order. \<open>None\<close> where the node
  could not be read.
\<close>

fun gpu_infos :: "string list \<Rightarrow> smap \<Rightarrow> smap \<Rightarrow> smap \<Rightarrow> string" where
  "gpu_infos [] uuid2port uuid2mem uuid2type = []"
| "gpu_infos (k # ks) uuid2port uuid2mem uuid2type =
     k @ ''_'' @ sget uuid2type k @ '':'' @ sget uuid2mem k @ ''_'' @ sget uuid2port k @ '',''
       @ gpu_infos ks uuid2port uuid2mem uuid2type"

definition updateNodeGPUAnnotation ::
  "smap option \<Rightarrow> string list \<Rightarrow> smap \<Rightarrow> smap \<Rightarrow> smap \<Rightarrow> smap option" where
  "updateNodeGPUAnnotation annotations order uuid2port uuid2mem uuid2type =
     map_option (\<lambda>a. a(FaSTGShareGPUsINfo \<mapsto> gpu_infos order uuid2port uuid2mem uuid2type)) annotations"

text \<open>\<open>RandStr\<close> and \<open>GenerateGPUID\<close>: the letters at random positions below 36.\<close>

definition RandStr :: "(nat \<Rightarrow> nat) \<Rightarrow> nat \<Rightarrow> string" where
  "RandStr randIntn n = map (\<lambda>i. ''1234567890abcdefghijklmnopqrstuvwxyz'' ! randIntn i) [0 ..< n]"

definition GenerateGPUID :: "(nat \<Rightarrow> nat) \<Rightarrow> nat \<Rightarrow> string" where
  "GenerateGPUID randIntn n = map (\<lambda>i. ''1234567890abcdefghijklmnopqrstuvwxyz'' ! randIntn i) [0 ..< n]"

text \<open>The annotations \<open>PrintInfo\<close> prints.\<close>

definition PrintInfo :: "fastpod \<Rightarrow> string" where
  "PrintInfo f =
     CHR 0x0A # ''================= FaSTPod =================='' @ CHR 0x0A # ''name: '' @ f_namespace f @ ''/'' @ f_name f
       @ CHR 0x0A # ''annotation:'' @ [CHR 0x0A, CHR 0x09] @ ''fastgshare/gpu_request: '' @ sget (f_annotations f) ''fastgshare/gpu_request''
       @ [CHR 0x0A, CHR 0x09] @ ''GPUID: '' @ sget (f_annotations f) ''fastgshare/GPUID''
       @ [CHR 0x0A, CHR 0x09] @ ''BoundDeviceIs: '' @ CHR 0x0A # ''=============================================''"

section \<open>Properties\<close>



text \<open>The handlers are steps of the controller as well; those without a handler do nothing.\<close>

lemma handlers_refine:
  assumes "NewController_handlers w pods_of e (pending, st) = Ret (pending', st')"
    and "\<forall>f. e = FaSTPodDeleted (Object f) \<longrightarrow> (\<forall>p \<in> set (pods_of f). pod_agrees p (c_mgr st))"
  shows "ctl_step\<^sup>*\<^sup>* st st'"
proof (cases e)
  case (FaSTPodAdded f)
  then show ?thesis using assms(1) ctl_step.added by (auto simp: NewController_handlers_def bind_go_Ret_iff)
next
  case (FaSTPodUpdated f g)
  then show ?thesis using assms(1) ctl_step.updated by (auto simp: NewController_handlers_def bind_go_Ret_iff)
next
  case (FaSTPodDeleted obj)
  then show ?thesis using assms ctl_step.deleted[of obj pods_of st]
    by (auto simp: NewController_handlers_def bind_go_Ret_iff)
next
  case (PodDeleted obj)
  then show ?thesis using assms(1) ctl_step.observed by (auto simp: NewController_handlers_def bind_go_Ret_iff)
next
  case (NodeDeleted n)
  then show ?thesis using assms(1) ctl_step.pending by (auto simp: NewController_handlers_def)
qed (use assms(1) in \<open>simp_all add: NewController_handlers_def\<close>)

lemma accept_loop_stopped:
  "accept_loop es a = Some a' \<Longrightarrow> \<not> listening a \<Longrightarrow>
     \<not> listening a' \<and> handlers a' = handlers a
     \<and> failures_seen a' = failures_seen a + length (filter (\<lambda>e. snd e = AcceptFailed) es)"
proof (induction es arbitrary: a)
  case (Cons x es)
  obtain m e where x: "x = (m, e)" by (cases x)
  obtain a1 where a1: "accept_step m e a = Some a1" "accept_loop es a1 = Some a'"
    using Cons.prems(1) x by (auto split: option.splits)
  then have "\<not> listening a1" using Cons.prems(2) by (auto simp: accept_step_def split: accept_event.splits if_splits)
  from Cons.IH[OF a1(2) this] show ?case using a1(1) Cons.prems(2) x
    by (auto simp: accept_step_def split: accept_event.splits if_splits)
qed simp

lemma accept_loop_append:
  "accept_loop (es @ es') a = (case accept_loop es a of None \<Rightarrow> None | Some a' \<Rightarrow> accept_loop es' a')"
  by (induction es arbitrary: a) (auto split: option.splits)

text \<open>
  The configuration manager never returns once it listens. After the controller was told to stop it starts no more
  handlers, and all it does is fail to accept: each round of its loop is one more failure.
\<close>

theorem stopped_config_manager_spins:
  assumes "startConfigManager True (es @ (m, StopRequested) # es') = Some r"
  shows "\<exists>a. r = Inr a \<and> length (handlers a) = length (filter (\<lambda>(m, e). e \<noteq> AcceptFailed \<and> e \<noteq> StopRequested) es)
    \<and> failures_seen a = length (filter (\<lambda>e. snd e = AcceptFailed) (es @ es'))"
proof -
  let ?a = "\<lparr>listening = True, handlers = [], closed_conns = {}, failures_seen = 0\<rparr>"
  have count: "length (handlers b') = length (handlers b) + length (filter (\<lambda>(m, e). e \<noteq> AcceptFailed \<and> e \<noteq> StopRequested) es)
      \<and> failures_seen b' = failures_seen b + length (filter (\<lambda>e. snd e = AcceptFailed) es)"
    if "accept_loop es b = Some b'" for b b'
    using that
    by (induction es arbitrary: b)
      (fastforce simp: accept_step_def split: option.splits accept_event.splits if_splits)+
  obtain a where a: "r = Inr a" "accept_loop (es @ (m, StopRequested) # es') ?a = Some a"
    using assms by (auto simp: startConfigManager_def)
  then obtain b c where b: "accept_loop es ?a = Some b" "accept_step m StopRequested b = Some c" "accept_loop es' c = Some a"
    by (auto simp: accept_loop_append split: option.splits)
  then have c: "\<not> listening c" "handlers c = handlers b" "failures_seen c = failures_seen b" by (auto simp: accept_step_def)
  show ?thesis using count[OF b(1)] accept_loop_stopped[OF b(3) c(1)] c a(1) by simp
qed

theorem stopped_config_manager_spins_witness:
  "\<exists>a. startConfigManager True ([(demo_empty, Accepted 1)] @ (demo_empty, StopRequested) #
        [(demo_empty, AcceptFailed), (demo_empty, AcceptFailed)]) = Some (Inr a)
     \<and> length (handlers a) = 1 \<and> failures_seen a = 2"
proof -
  obtain r where "startConfigManager True ([(demo_empty, Accepted 1)] @ (demo_empty, StopRequested) #
        [(demo_empty, AcceptFailed), (demo_empty, AcceptFailed)]) = Some r"
    by (simp add: startConfigManager_def accept_step_def)
  from stopped_config_manager_spins[OF this] this show ?thesis by auto
qed

end
