(* ===== verification/Locking.thy ===== *)
theory Locking
  imports Main
begin

text \<open>
  Goroutines that share mutexes. A goroutine is the sequence of what it does that others can notice: acquiring and
  releasing mutexes, reading and writing shared variables, calls that return after some time, and waits that never
  end. Any number of them run, in any order, and new ones start at any time.

  The locale \<open>lock_order\<close> is the discipline under which they cannot deadlock, \<open>guarded_by\<close> the one under which
  accesses to a shared variable exclude each other.
\<close>

section \<open>Goroutines and mutexes\<close>

datatype ('l, 'x) act = Acquire 'l | Release 'l | Read 'x | Write 'x | External | Stuck

type_synonym ('l, 'x) thread = "('l, 'x) act list"

text \<open>Who holds each mutex, and what every goroutine has still to do.\<close>

type_synonym ('l, 'x) threads = "('l \<rightharpoonup> nat) \<times> ('l, 'x) thread list"

inductive run_step :: "('l, 'x) threads \<Rightarrow> ('l, 'x) threads \<Rightarrow> bool" where
  acquire: "i < length ts \<Longrightarrow> ts ! i = Acquire l # p \<Longrightarrow> own l = None \<Longrightarrow>
     run_step (own, ts) (own(l \<mapsto> i), ts[i := p])"
| release: "i < length ts \<Longrightarrow> ts ! i = Release l # p \<Longrightarrow> run_step (own, ts) (own(l := None), ts[i := p])"
| other: "i < length ts \<Longrightarrow> ts ! i = a # p \<Longrightarrow> a \<in> range Read \<union> range Write \<union> {External} \<Longrightarrow>
     run_step (own, ts) (own, ts[i := p])"

text \<open>A step of the system: one of a goroutine, or the start of a new one.\<close>

inductive sys :: "('l, 'x) thread set \<Rightarrow> ('l, 'x) threads \<Rightarrow> ('l, 'x) threads \<Rightarrow> bool"
  for programs :: "('l, 'x) thread set" where
  run: "run_step s s' \<Longrightarrow> sys programs s s'"
| start: "p \<in> programs \<Longrightarrow> sys programs (own, ts) (own, ts @ [p])"

abbreviation idle :: "('l, 'x) threads" where
  "idle \<equiv> (Map.empty, [])"

text \<open>
  Running a sequence with a set of mutexes held: what is held afterwards, or \<open>None\<close> where a mutex is acquired out of
  order (every mutex held must have a lower rank) or released without being held.
\<close>

fun locks_after :: "('l \<Rightarrow> nat) \<Rightarrow> 'l set \<Rightarrow> ('l, 'x) thread \<Rightarrow> 'l set option" where
  "locks_after rank H [] = Some H"
| "locks_after rank H (Acquire l # p) =
     (if \<forall>h \<in> H. rank h < rank l then locks_after rank (insert l H) p else None)"
| "locks_after rank H (Release l # p) = (if l \<in> H then locks_after rank (H - {l}) p else None)"
| "locks_after rank H (a # p) = locks_after rank H p"

lemma locks_after_append:
  "locks_after rank H (p @ q) = (case locks_after rank H p of None \<Rightarrow> None | Some H' \<Rightarrow> locks_after rank H' q)"
  by (induction rank H p rule: locks_after.induct) simp_all

lemma locks_after_concat:
  "(\<And>p. p \<in> set ps \<Longrightarrow> locks_after rank H p = Some H) \<Longrightarrow> locks_after rank H (concat ps) = Some H"
  by (induction ps) (simp_all add: locks_after_append)

text \<open>Every access to a variable happens under its mutex.\<close>

fun guarded :: "('x \<Rightarrow> 'l option) \<Rightarrow> 'l set \<Rightarrow> ('l, 'x) thread \<Rightarrow> bool" where
  "guarded g H [] = True"
| "guarded g H (Acquire l # p) = guarded g (insert l H) p"
| "guarded g H (Release l # p) = guarded g (H - {l}) p"
| "guarded g H (Read x # p) = ((case g x of None \<Rightarrow> True | Some l \<Rightarrow> l \<in> H) \<and> guarded g H p)"
| "guarded g H (Write x # p) = ((case g x of None \<Rightarrow> True | Some l \<Rightarrow> l \<in> H) \<and> guarded g H p)"
| "guarded g H (a # p) = guarded g H p"

lemma guarded_append:
  "locks_after rank H p = Some H' \<Longrightarrow> guarded g H (p @ q) = (guarded g H p \<and> guarded g H' q)"
proof (induction rank H p arbitrary: H' rule: locks_after.induct)
  case (2 rank H l p)
  then show ?case by (auto split: if_splits)
next
  case (3 rank H l p)
  then show ?case by (auto split: if_splits)
qed auto

lemma guarded_concat:
  assumes "\<And>p. p \<in> set ps \<Longrightarrow> locks_after rank H p = Some H \<and> guarded g H p"
  shows "guarded g H (concat ps)"
  using assms by (induction ps) (auto simp: guarded_append[of rank])

section \<open>No deadlock\<close>

text \<open>The mutexes a goroutine holds.\<close>

definition held :: "('l \<rightharpoonup> nat) \<Rightarrow> nat \<Rightarrow> 'l set" where
  "held own i = {l. own l = Some i}"

lemma held_simps:
  "own l = None \<Longrightarrow> held (own(l \<mapsto> i)) j = (if j = i then insert l (held own i) else held own j)"
  "own l = Some i \<Longrightarrow> held (own(l := None)) j = (if j = i then held own i - {l} else held own j)"
  by (auto simp: held_def)

definition well_locked :: "('l \<Rightarrow> nat) \<Rightarrow> ('l, 'x) threads \<Rightarrow> bool" where
  "well_locked rank s = ((\<forall>i < length (snd s). locks_after rank (held (fst s) i) (snd s ! i) = Some {})
     \<and> (\<forall>l i. fst s l = Some i \<longrightarrow> i < length (snd s)))"

text \<open>What a goroutine waits for: nothing where it is done or can go on.\<close>

definition can_run :: "('l, 'x) threads \<Rightarrow> nat \<Rightarrow> bool" where
  "can_run s i = (case snd s ! i of [] \<Rightarrow> False | Acquire l # p \<Rightarrow> fst s l = None | Stuck # p \<Rightarrow> False | a # p \<Rightarrow> True)"

lemma can_run_step: "i < length ts \<Longrightarrow> can_run (own, ts) i \<Longrightarrow> \<exists>s'. run_step (own, ts) s'"
proof -
  assume i: "i < length ts" and c: "can_run (own, ts) i"
  then obtain a q where a: "ts ! i = a # q" by (auto simp: can_run_def split: list.splits)
  show ?thesis
  proof (cases a)
    case (Acquire l)
    then show ?thesis using run_step.acquire[OF i, of l q own] a c by (auto simp: can_run_def)
  next
    case (Release l)
    then show ?thesis using run_step.release[OF i, of l q own] a by blast
  next
    case Stuck
    then show ?thesis using a c by (simp add: can_run_def)
  qed (use run_step.other[OF i a, of own] in blast)+
qed

locale lock_order =
  fixes rank :: "'l \<Rightarrow> nat" and programs :: "('l, 'x) thread set"
  assumes ordered: "p \<in> programs \<Longrightarrow> locks_after rank {} p = Some {}"
begin

lemma well_locked_step:
  assumes "sys programs s s'" "well_locked rank s"
  shows "well_locked rank s'"
  using assms
proof (induction rule: sys.induct)
  case (run s s')
  then show ?case
  proof (induction rule: run_step.induct)
    case (acquire i ts l p own)
    then have "locks_after rank (insert l (held own i)) p = Some {}"
      by (auto simp: well_locked_def split: if_splits)
    then show ?case using acquire by (auto simp: well_locked_def held_simps nth_list_update)
  next
    case (release i ts l p own)
    then have "locks_after rank (held own i - {l}) p = Some {}" "own l = Some i"
      by (auto simp: well_locked_def held_def[of own i] split: if_splits)
    then show ?case using release by (auto simp: well_locked_def held_simps nth_list_update split: if_splits)
  next
    case (other i ts a p own)
    then have "locks_after rank (held own i) p = Some {}" by (auto simp: well_locked_def)
    then show ?case using other(1,4) by (auto simp: well_locked_def nth_list_update)
  qed
next
  case (start p own ts)
  have "held own (length ts) = {}" using start(2) by (auto simp: held_def well_locked_def)
  then show ?case using start ordered[OF start(1)]
    by (auto simp: well_locked_def nth_append less_Suc_eq)
qed

lemma well_locked_reachable: "(sys programs)\<^sup>*\<^sup>* idle s \<Longrightarrow> well_locked rank s"
proof (induction rule: rtranclp_induct)
  case base
  then show ?case by (simp add: well_locked_def)
qed (rule well_locked_step)

text \<open>
  A goroutine that is not done waits for a mutex whose holder waits for one of higher rank: following the
  waiting goes up, so some goroutine can run.
\<close>

lemma waits_up:
  assumes ok: "well_locked rank (own, ts)" and i: "i < length ts" "ts ! i = Acquire l # p" "own l = Some j"
    and stuck: "\<forall>k < length ts. \<not> can_run (own, ts) k \<and> (\<forall>q. ts ! k \<noteq> Stuck # q)"
  shows "\<exists>m q. j < length ts \<and> ts ! j = Acquire m # q \<and> (\<exists>k. own m = Some k) \<and> rank l < rank m"
proof -
  have j: "j < length ts" "locks_after rank (held own j) (ts ! j) = Some {}" "l \<in> held own j"
    using ok i(3) by (auto simp: well_locked_def held_def)
  from stuck j(1) have c: "\<not> can_run (own, ts) j" "\<forall>q. ts ! j \<noteq> Stuck # q" by auto
  obtain a q where a: "ts ! j = a # q" using j(2,3) by (cases "ts ! j") auto
  obtain m where m: "a = Acquire m" "own m \<noteq> None" using c a by (cases a) (auto simp: can_run_def)
  then have "\<forall>h \<in> held own j. rank h < rank m" using j(2) a by (auto split: if_splits)
  then show ?thesis using j(1,3) a m by auto
qed

lemma no_deadlock:
  assumes reach: "(sys programs)\<^sup>*\<^sup>* idle (own, ts)"
    and work: "i < length ts" "ts ! i \<noteq> []" and free: "\<forall>k < length ts. \<forall>q. ts ! k \<noteq> Stuck # q"
  shows "\<exists>s'. run_step (own, ts) s'"
proof (rule ccontr)
  assume no: "\<nexists>s'. run_step (own, ts) s'"
  have ok: "well_locked rank (own, ts)" by (rule well_locked_reachable[OF reach])
  have stuck: "\<forall>k < length ts. \<not> can_run (own, ts) k \<and> (\<forall>q. ts ! k \<noteq> Stuck # q)"
    using no can_run_step free by blast
  define W where "W = {l. \<exists>k < length ts. \<exists>p j. ts ! k = Acquire l # p \<and> own l = Some j}"
  have "W \<subseteq> (\<lambda>k. case ts ! k of Acquire l # p \<Rightarrow> l) ` {..< length ts}" by (force simp: W_def)
  then have fin: "finite W" by (rule finite_subset) simp
  obtain a p where a: "ts ! i = a # p" using work(2) by (cases "ts ! i") auto
  have notrun: "\<not> can_run (own, ts) i" using stuck work(1) by blast
  have "a \<in> range Acquire" using stuck work(1) a by (cases a) (auto simp: can_run_def)
  then obtain l where "ts ! i = Acquire l # p" using a by auto
  moreover from this have "own l \<noteq> None" using notrun by (simp add: can_run_def)
  then obtain j where "own l = Some j" by blast
  ultimately have "l \<in> W" unfolding W_def using work(1) by blast
  then have "W \<noteq> {}" by blast
  then have "Max (rank ` W) \<in> rank ` W" using fin by (intro Max_in) simp_all
  then obtain l where l: "l \<in> W" "rank l = Max (rank ` W)" by auto
  then have max: "rank m \<le> rank l" if "m \<in> W" for m unfolding l(2) by (intro Max_ge finite_imageI fin imageI that)
  from l(1) obtain k q j where k: "k < length ts" "ts ! k = Acquire l # q" "own l = Some j" by (auto simp: W_def)
  from waits_up[OF ok k stuck] obtain m r where "m \<in> W" "rank l < rank m" by (auto simp: W_def)
  then show False using max[of m] by simp
qed

text \<open>A mutex has one holder, and it is one of the goroutines.\<close>

lemma holder: "(sys programs)\<^sup>*\<^sup>* idle (own, ts) \<Longrightarrow> own l = Some i \<Longrightarrow> i < length ts"
  using well_locked_reachable by (fastforce simp: well_locked_def)

end

section \<open>No conflicting accesses\<close>

definition accesses :: "('l, 'x) thread \<Rightarrow> 'x set" where
  "accesses p = (case p of Read x # q \<Rightarrow> {x} | Write x # q \<Rightarrow> {x} | _ \<Rightarrow> {})"

text \<open>Two goroutines are about to access a variable, and one of them writes it.\<close>

definition race :: "('l, 'x) threads \<Rightarrow> 'x \<Rightarrow> bool" where
  "race s x = (\<exists>i j. i < length (snd s) \<and> j < length (snd s) \<and> i \<noteq> j \<and> x \<in> accesses (snd s ! i)
     \<and> (\<exists>q. snd s ! j = Write x # q))"

locale guarded_by = lock_order rank programs
  for rank :: "'l \<Rightarrow> nat" and programs :: "('l, 'x) thread set" +
  fixes guard :: "'x \<Rightarrow> 'l option"
  assumes guards: "p \<in> programs \<Longrightarrow> guarded guard {} p"
begin

lemma guarded_step:
  assumes "sys programs s s'" "well_locked rank s" "\<forall>i < length (snd s). guarded guard (held (fst s) i) (snd s ! i)"
  shows "\<forall>i < length (snd s'). guarded guard (held (fst s') i) (snd s' ! i)"
  using assms
proof (induction rule: sys.induct)
  case (run s s')
  then show ?case
  proof (induction rule: run_step.induct)
    case (acquire i ts l p own)
    then have "guarded guard (insert l (held own i)) p" by fastforce
    then show ?case using acquire(5) held_simps(1)[of own l, OF acquire(3)] by (simp add: nth_list_update del: fun_upd_apply)
  next
    case (release i ts l p own)
    then have "guarded guard (held own i - {l}) p" "own l = Some i"
      by (fastforce, auto simp: well_locked_def held_def split: if_splits)
    then show ?case using release(4) held_simps(2)[of own l i] by (simp add: nth_list_update del: fun_upd_apply)
  next
    case (other i ts a p own)
    then have "guarded guard (held own i) p" by fastforce
    then show ?case using other by (auto simp: nth_list_update)
  qed
next
  case (start p own ts)
  have "held own (length ts) = {}" using start(2) by (auto simp: held_def well_locked_def)
  then show ?case using start guards[OF start(1)] by (auto simp: nth_append less_Suc_eq)
qed

lemma guarded_reachable:
  "(sys programs)\<^sup>*\<^sup>* idle s \<Longrightarrow> \<forall>i < length (snd s). guarded guard (held (fst s) i) (snd s ! i)"
proof (induction rule: rtranclp_induct)
  case (step s s')
  show ?case by (rule guarded_step[OF step(2) well_locked_reachable[OF step(1)] step(3)])
qed simp

lemma accesses_hold:
  "guarded guard H p \<Longrightarrow> x \<in> accesses p \<Longrightarrow> guard x = Some l \<Longrightarrow> l \<in> H"
  by (auto simp: accesses_def split: list.splits act.splits)

lemma no_race:
  assumes "(sys programs)\<^sup>*\<^sup>* idle s" "guard x = Some l"
  shows "\<not> race s x"
proof
  assume "race s x"
  then obtain i j q where i: "i < length (snd s)" "j < length (snd s)" "i \<noteq> j" "x \<in> accesses (snd s ! i)"
    "snd s ! j = Write x # q" by (auto simp: race_def)
  then have "x \<in> accesses (snd s ! j)" by (simp add: accesses_def)
  then have "l \<in> held (fst s) i" "l \<in> held (fst s) j"
    using guarded_reachable[OF assms(1)] accesses_hold[OF _ _ assms(2)] i by blast+
  then show False using i(3) by (simp add: held_def)
qed

end

section \<open>Waiting for ever\<close>

text \<open>A goroutine that hangs keeps its mutexes: whoever wants one of them waits for ever.\<close>

lemma stuck_step:
  assumes "sys programs s s'" "i < length (snd s)" "snd s ! i = Stuck # p"
  shows "i < length (snd s') \<and> snd s' ! i = Stuck # p"
  using assms
proof (induction rule: sys.induct)
  case (run s s')
  then show ?case by (induction rule: run_step.induct) (auto simp: nth_list_update)
qed (simp add: nth_append)

context lock_order
begin

lemma starved_step:
  assumes "sys programs s s'" "well_locked rank s" "snd s ! i = Stuck # p" "fst s l = Some i"
    "j < length (snd s)" "snd s ! j = Acquire l # q"
  shows "fst s' l = Some i \<and> snd s' ! j = Acquire l # q"
  using assms
proof (induction rule: sys.induct)
  case (run s s')
  then show ?case
  proof (induction rule: run_step.induct)
    case (acquire k ts m r own)
    then show ?case by (cases "k = j") auto
  next
    case (release k ts m r own)
    then have "own m = Some k" by (auto simp: well_locked_def held_def split: if_splits)
    then show ?case using release by (cases "k = j") (auto simp: nth_list_update)
  next
    case (other k ts a r own)
    then show ?case by (cases "k = j") auto
  qed
qed (simp add: nth_append)

lemma keeps_lock_step:
  assumes "sys programs s s'" "well_locked rank s" "snd s ! i = Stuck # p" "fst s l = Some i"
  shows "fst s' l = Some i"
  using assms
proof (induction rule: sys.induct)
  case (run s s')
  then show ?case
  proof (induction rule: run_step.induct)
    case (release k ts m r own)
    then have "own m = Some k" by (auto simp: well_locked_def held_def split: if_splits)
    then show ?case using release by auto
  qed auto
qed simp

lemma starves:
  assumes reach: "(sys programs)\<^sup>*\<^sup>* idle s" and i: "i < length (snd s)" "snd s ! i = Stuck # Release l # p"
    and later: "(sys programs)\<^sup>*\<^sup>* s s'"
  shows "fst s' l = Some i \<and> (\<forall>j q. j < length (snd s) \<longrightarrow> snd s ! j = Acquire l # q \<longrightarrow> snd s' ! j = Acquire l # q)"
proof -
  have l: "fst s l = Some i"
    using well_locked_reachable[OF reach] i by (auto simp: well_locked_def held_def split: if_splits)
  have "well_locked rank s' \<and> i < length (snd s') \<and> snd s' ! i = Stuck # Release l # p \<and> fst s' l = Some i
      \<and> (\<forall>j q. j < length (snd s) \<longrightarrow> snd s ! j = Acquire l # q \<longrightarrow> j < length (snd s') \<and> snd s' ! j = Acquire l # q)"
    using later
  proof (induction rule: rtranclp_induct)
    case base
    then show ?case using well_locked_reachable[OF reach] i l by blast
  next
    case (step y z)
    then have y: "well_locked rank y" "i < length (snd y)" "snd y ! i = Stuck # Release l # p" "fst y l = Some i" by auto
    have "length (snd y) \<le> length (snd z)"
      using step(2) by (induction rule: sys.induct) (auto elim: run_step.cases)
    then show ?case
      using step(3) well_locked_step[OF step(2) y(1)] stuck_step[OF step(2) y(2,3)] keeps_lock_step[OF step(2) y(1,3,4)]
        starved_step[OF step(2) y(1,3,4)] by (meson order_less_le_trans)
  qed
  then show ?thesis by blast
qed

end

section \<open>Reaching a state\<close>

lemma reach_start: "p \<in> programs \<Longrightarrow> (sys programs)\<^sup>*\<^sup>* s (own, ts) \<Longrightarrow> (sys programs)\<^sup>*\<^sup>* s (own, ts @ [p])"
  by (erule rtranclp.rtrancl_into_rtrancl) (rule sys.start)

lemma reach_acquire:
  "(sys programs)\<^sup>*\<^sup>* s (own, ts) \<Longrightarrow> i < length ts \<Longrightarrow> ts ! i = Acquire l # p \<Longrightarrow> own l = None \<Longrightarrow>
     (sys programs)\<^sup>*\<^sup>* s (own(l \<mapsto> i), ts[i := p])"
  by (erule rtranclp.rtrancl_into_rtrancl) (intro sys.run run_step.acquire)

lemma reach_other:
  "(sys programs)\<^sup>*\<^sup>* s (own, ts) \<Longrightarrow> i < length ts \<Longrightarrow> ts ! i = a # p \<Longrightarrow> a \<in> range Read \<union> range Write \<union> {External} \<Longrightarrow>
     (sys programs)\<^sup>*\<^sup>* s (own, ts[i := p])"
  by (erule rtranclp.rtrancl_into_rtrancl) (intro sys.run run_step.other)

end
