(* ===== verification/Controller_Locks.thy ===== *)
theory Controller_Locks
  imports Locking Reconcile
begin

text \<open>
  The mutexes of the controller manager (\<open>gpu_manager.go\<close>, \<open>config_manager.go\<close>, \<open>node_init.go\<close>, \<open>scheduler.go\<close>,
  \<open>controller.go\<close>): for every operation the sequences of what it locks, reads, writes and waits for, one per path
  through its code. A call to a configurator or the API server is \<open>External\<close>; \<open>Stuck\<close> is a wait group whose counter never
  reaches zero.
\<close>

section \<open>Mutexes and variables\<close>

datatype mutex = Fstp2PodsMtx | NodesInfoMtx | NodesLivenessMtx | PendingListMux

text \<open>
  The variables: the table of nodes with all it leads to, the table of liveness, its entries (which are pointers), the
  pods of the FaSTPods, the pending list, and the two maps in the status of a FaSTPod, which belong to one
  synchronisation.
\<close>

datatype shared = NodeTable | LivenessTable | LivenessEntries | Fstp2PodsTable | PendingTable | StatusMaps nat

type_synonym path = "(mutex, shared) thread"

fun mutex_rank :: "mutex \<Rightarrow> nat" where
  "mutex_rank Fstp2PodsMtx = 0"
| "mutex_rank NodesInfoMtx = 1"
| "mutex_rank NodesLivenessMtx = 2"
| "mutex_rank PendingListMux = 3"

fun mutex_of :: "shared \<Rightarrow> mutex option" where
  "mutex_of NodeTable = Some NodesInfoMtx"
| "mutex_of LivenessTable = Some NodesLivenessMtx"
| "mutex_of Fstp2PodsTable = Some Fstp2PodsMtx"
| "mutex_of PendingTable = Some PendingListMux"
| "mutex_of _ = None"

text \<open>Sets of paths: one after the other, any number of times, between \<open>Lock\<close> and \<open>Unlock\<close>.\<close>

definition seqs :: "path set \<Rightarrow> path set \<Rightarrow> path set" where
  "seqs P Q = {p @ q | p q. p \<in> P \<and> q \<in> Q}"

definition reps :: "path set \<Rightarrow> path set" where
  "reps P = {concat ps | ps. set ps \<subseteq> P}"

definition under :: "mutex \<Rightarrow> path set \<Rightarrow> path set" where
  "under m P = {Acquire m # p @ [Release m] | p. p \<in> P}"

section \<open>The operations\<close>

text \<open>The table of liveness is read under its mutex, the entry found in it after the mutex was released.\<close>

definition updatePodsGPUConfig_paths :: "path set" where
  "updatePodsGPUConfig_paths = seqs (under NodesLivenessMtx {[Read LivenessTable]})
     {[], [Read LivenessEntries], [Read LivenessEntries, Read NodeTable],
      [Read LivenessEntries, Read NodeTable, External]}"

definition ScheduleRequest_paths :: "path set" where
  "ScheduleRequest_paths = under NodesInfoMtx
     {[], [Read NodeTable], [Read NodeTable, External], [Read NodeTable, External, Write NodeTable]}"

text \<open>The type of the GPU is set, MPS is enabled for two of the types, and the pod is refused or recorded.\<close>

definition RequestGPU_paths :: "path set" where
  "RequestGPU_paths = under NodesInfoMtx
     ({[Read NodeTable]} \<union>
      seqs {[Read NodeTable, Write NodeTable], [Read NodeTable, Write NodeTable, External]}
        (seqs {[], [Write NodeTable]} ({[]} \<union> updatePodsGPUConfig_paths)))"

text \<open>Giving a GPU up: MPS is disabled, a virtual GPU is released, the entries are deleted.\<close>

definition give_up_paths :: "path set" where
  "give_up_paths = seqs {[], [External]} (seqs {[], [External], [External, Write NodeTable]} {[Write NodeTable]})"

definition removePodFromList_paths :: "path set" where
  "removePodFromList_paths = under NodesInfoMtx
     (seqs {[Read NodeTable]}
       (seqs ({[], [Write NodeTable]} \<union> seqs {[Write NodeTable]} (seqs updatePodsGPUConfig_paths {[Write NodeTable]}))
         ({[]} \<union> give_up_paths)))"

definition remove_pod_paths :: "path set" where
  "remove_pod_paths =
     {[Read NodeTable]} \<union>
     seqs {[Read NodeTable]}
       (seqs (seqs (reps {[Write NodeTable]}) ({[]} \<union> updatePodsGPUConfig_paths))
         (seqs ({[]} \<union> give_up_paths) {[External]}))"

definition removeFaSTPodFromList_paths :: "path set" where
  "removeFaSTPodFromList_paths = under NodesInfoMtx (reps remove_pod_paths)"

text \<open>A connection of a node: the handshake, the registration, the heartbeats.\<close>

definition heartbeat_paths :: "path set" where
  "heartbeat_paths = seqs {[External]} (under NodesLivenessMtx {[Read LivenessTable, Write LivenessEntries]})"

definition handleNodeConnection_paths :: "path set" where
  "handleNodeConnection_paths = {[External]} \<union>
     seqs {[External]}
       (seqs (under NodesInfoMtx {[Read NodeTable, Write NodeTable]})
         (seqs (under NodesLivenessMtx {[Read LivenessTable, Write LivenessTable], [Read LivenessTable, Write LivenessEntries]})
           (reps heartbeat_paths)))"

definition checkNodeLiveness_paths :: "path set" where
  "checkNodeLiveness_paths =
     reps (under NodesLivenessMtx (seqs {[Read LivenessTable]} (reps {[Read LivenessEntries], [Read LivenessEntries, Write LivenessEntries]})))"

text \<open>When the controller stops, the connections are closed without the mutex of the table.\<close>

definition stopConnections_paths :: "path set" where
  "stopConnections_paths = seqs {[Read LivenessTable]} (reps {[Read LivenessEntries, External]})"

text \<open>The quotas of a pod are changed in place, and its configuration is sent, without any mutex.\<close>

definition reconcileResourceConfig_paths :: "path set" where
  "reconcileResourceConfig_paths =
     reps ({[Read NodeTable]} \<union> seqs {[Read NodeTable, Write NodeTable]} (seqs updatePodsGPUConfig_paths {[External]}))"

text \<open>Creating pods, all under \<open>fstp2PodsMtx\<close>.\<close>

definition create_one_paths :: "path set" where
  "create_one_paths = {[]} \<union> ScheduleRequest_paths \<union>
     seqs ScheduleRequest_paths
       (seqs {[Read Fstp2PodsTable], [Read Fstp2PodsTable, Write Fstp2PodsTable]}
         (seqs RequestGPU_paths {[], [Write Fstp2PodsTable, External]}))"

text \<open>
  Deleting pods: the goroutines are started, and the worker waits until they have signalled as often as pods were
  to be deleted. None of them takes a mutex before it signals.
\<close>

definition delete_wait :: "world \<Rightarrow> pod list \<Rightarrow> int \<Rightarrow> (mutex, shared) act" where
  "delete_wait w existedPods diff =
     (let podsToDelete = (case getPodsToDelete (w_sort w) (w_kube w) (w_now w) existedPods diff of None \<Rightarrow> [] | Some ds \<Rightarrow> ds)
      in if int (length podsToDelete) < diff then Stuck else External)"

definition reconcileReplicas_paths :: "path set" where
  "reconcileReplicas_paths = under Fstp2PodsMtx (reps create_one_paths \<union> {[delete_wait w pods diff] | w pods diff. True})"

text \<open>The goroutine that deletes one pod of a FaSTPod: it changes the status of the FaSTPod, and then removes the pod.\<close>

definition delete_goroutine_paths :: "path set" where
  "delete_goroutine_paths = {External # Write (StatusMaps k) # p | k p. p \<in> removePodFromList_paths}"

definition sync_paths :: "path set" where
  "sync_paths = seqs ({[]} \<union> reconcileResourceConfig_paths) ({[]} \<union> reconcileReplicas_paths)"

definition pending_paths :: "path set" where
  "pending_paths = reps (under PendingListMux {[Read PendingTable, Write PendingTable]})"

text \<open>
  The goroutines of the controller: those that never touch the table of nodes outside its mutex, and all of them.
\<close>

definition steady_programs :: "path set" where
  "steady_programs = reps reconcileReplicas_paths \<union> delete_goroutine_paths \<union> removeFaSTPodFromList_paths
     \<union> handleNodeConnection_paths \<union> checkNodeLiveness_paths \<union> pending_paths"

definition controller_programs :: "path set" where
  "controller_programs = steady_programs \<union> reps sync_paths \<union> stopConnections_paths"

section \<open>The discipline\<close>

text \<open>Paths that leave the mutexes as they are, acquire them in order, and access variables under their mutex.\<close>

definition keeps :: "(shared \<Rightarrow> mutex option) \<Rightarrow> mutex set \<Rightarrow> path set \<Rightarrow> bool" where
  "keeps g H P = (\<forall>p \<in> P. locks_after mutex_rank H p = Some H \<and> guarded g H p)"

named_theorems keeps_intros

lemma keeps_seqs [keeps_intros]: "keeps g H P \<Longrightarrow> keeps g H Q \<Longrightarrow> keeps g H (seqs P Q)"
  by (auto simp: keeps_def seqs_def locks_after_append guarded_append)

lemma keeps_reps [keeps_intros]: "keeps g H P \<Longrightarrow> keeps g H (reps P)"
  by (force simp: keeps_def reps_def intro!: locks_after_concat guarded_concat[of _ mutex_rank])

lemma keeps_Un [keeps_intros]: "keeps g H P \<Longrightarrow> keeps g H Q \<Longrightarrow> keeps g H (P \<union> Q)"
  by (auto simp: keeps_def)

lemma keeps_under [keeps_intros]:
  "\<forall>h \<in> H. mutex_rank h < mutex_rank m \<Longrightarrow> keeps g (insert m H) P \<Longrightarrow> keeps g H (under m P)"
  by (fastforce simp: keeps_def under_def locks_after_append guarded_append)

lemma keeps_set [keeps_intros]:
  "keeps g H {}"
  "locks_after mutex_rank H p = Some H \<Longrightarrow> guarded g H p \<Longrightarrow> keeps g H P \<Longrightarrow> keeps g H (insert p P)"
  by (auto simp: keeps_def)

text \<open>A guard: none at all, or the mutex of each variable.\<close>

definition table_guard :: "(shared \<Rightarrow> mutex option) \<Rightarrow> bool" where
  "table_guard g = (g = mutex_of \<or> g = (\<lambda>x. None))"

lemma table_guardD:
  assumes "table_guard g"
  shows "g LivenessEntries = None" "g (StatusMaps k) = None" "g NodeTable = None \<or> g NodeTable = Some NodesInfoMtx"
    "g LivenessTable = None \<or> g LivenessTable = Some NodesLivenessMtx"
    "g Fstp2PodsTable = None \<or> g Fstp2PodsTable = Some Fstp2PodsMtx"
    "g PendingTable = None \<or> g PendingTable = Some PendingListMux"
  using assms by (auto simp: table_guard_def)

lemma updatePods_keeps:
  assumes "table_guard g" "g NodeTable = None \<or> NodesInfoMtx \<in> H" "\<forall>h \<in> H. mutex_rank h < 2"
  shows "keeps g H updatePodsGPUConfig_paths"
  unfolding updatePodsGPUConfig_paths_def
  using assms(2,3) table_guardD[OF assms(1)] by (auto intro!: keeps_intros split: option.splits)

lemma give_up_keeps:
  assumes "table_guard g" "NodesInfoMtx \<in> H"
  shows "keeps g H give_up_paths"
  unfolding give_up_paths_def using assms(2) table_guardD[OF assms(1)] by (auto intro!: keeps_intros split: option.splits)

lemma node_operations_keep:
  assumes g: "table_guard g" and H: "\<forall>h \<in> H. mutex_rank h < 1"
  shows "keeps g H ScheduleRequest_paths" "keeps g H RequestGPU_paths" "keeps g H removePodFromList_paths"
    "keeps g H removeFaSTPodFromList_paths"
proof -
  have H': "\<forall>h \<in> insert NodesInfoMtx H. mutex_rank h < 2" using H by auto
  note keep = updatePods_keeps[OF g _ H'] give_up_keeps[OF g]
  note t = table_guardD[OF g]
  show "keeps g H ScheduleRequest_paths"
    unfolding ScheduleRequest_paths_def using t H by (auto intro!: keeps_intros split: option.splits)
  show "keeps g H RequestGPU_paths"
    unfolding RequestGPU_paths_def using t H by (auto intro!: keeps_intros keep split: option.splits)
  show "keeps g H removePodFromList_paths"
    unfolding removePodFromList_paths_def using t H by (auto intro!: keeps_intros keep split: option.splits)
  show "keeps g H removeFaSTPodFromList_paths"
    unfolding removeFaSTPodFromList_paths_def remove_pod_paths_def using t H
    by (auto intro!: keeps_intros keep split: option.splits)
qed

lemma reconcileReplicas_keeps:
  assumes g: "table_guard g"
  shows "keeps g {} reconcileReplicas_paths"
proof -
  note keep = node_operations_keep[OF g, of "{Fstp2PodsMtx}"]
  have "keeps g {Fstp2PodsMtx} {[delete_wait w pods diff] | w pods diff. True}"
    by (auto simp: keeps_def delete_wait_def Let_def)
  then show ?thesis
    unfolding reconcileReplicas_paths_def create_one_paths_def using table_guardD[OF g]
    by (auto intro!: keeps_intros keep split: option.splits)
qed

lemma steady_keeps: "table_guard g \<Longrightarrow> keeps g {} steady_programs"
proof -
  assume g: "table_guard g"
  note t = table_guardD[OF g]
  have "keeps g {} delete_goroutine_paths"
    using node_operations_keep(3)[OF g, of "{}"] t(2) by (auto simp: keeps_def delete_goroutine_paths_def)
  moreover have "keeps g {} handleNodeConnection_paths"
    unfolding handleNodeConnection_paths_def heartbeat_paths_def using t
    by (auto intro!: keeps_intros split: option.splits)
  moreover have "keeps g {} checkNodeLiveness_paths" "keeps g {} pending_paths"
    unfolding checkNodeLiveness_paths_def pending_paths_def using t by (auto intro!: keeps_intros split: option.splits)
  ultimately show ?thesis
    unfolding steady_programs_def
    by (intro keeps_Un keeps_reps reconcileReplicas_keeps[OF g] node_operations_keep(4)[OF g]) simp_all
qed

lemma controller_keeps: "keeps (\<lambda>x. None) {} controller_programs"
proof -
  have g: "table_guard (\<lambda>x. None)" by (simp add: table_guard_def)
  show ?thesis
    unfolding controller_programs_def sync_paths_def reconcileResourceConfig_paths_def stopConnections_paths_def
    using steady_keeps[OF g] reconcileReplicas_keeps[OF g]
    by (auto intro!: keeps_intros updatePods_keeps[OF g])
qed

interpretation controller_locks: lock_order mutex_rank controller_programs
  by unfold_locales (use controller_keeps in \<open>auto simp: keeps_def\<close>)

interpretation steady: guarded_by mutex_rank steady_programs mutex_of
  by unfold_locales (use steady_keeps[of mutex_of] in \<open>auto simp: keeps_def table_guard_def\<close>)

section \<open>Properties\<close>

lemma in_reps: "p \<in> P \<Longrightarrow> p \<in> reps P"
  unfolding reps_def by (intro CollectI exI[of _ "[p]"]) simp

lemma in_under: "p \<in> P \<Longrightarrow> q = Acquire m # p @ [Release m] \<Longrightarrow> q \<in> under m P"
  by (auto simp: under_def)

lemma in_seqs: "p \<in> P \<Longrightarrow> q \<in> Q \<Longrightarrow> p @ q \<in> seqs P Q"
  by (auto simp: seqs_def)

text \<open>A worker that scales a FaSTPod down, a removal, a connection and a change of quotas.\<close>

lemma scale_down_program: "[Acquire Fstp2PodsMtx, delete_wait w pods diff, Release Fstp2PodsMtx] \<in> steady_programs"
proof -
  have "[Acquire Fstp2PodsMtx, delete_wait w pods diff, Release Fstp2PodsMtx] \<in> reconcileReplicas_paths"
    unfolding reconcileReplicas_paths_def by (rule in_under[of "[delete_wait w pods diff]"]) auto
  then show ?thesis by (simp add: steady_programs_def in_reps)
qed

lemma removal_path: "[Acquire NodesInfoMtx, Read NodeTable, Release NodesInfoMtx] \<in> removePodFromList_paths"
  unfolding removePodFromList_paths_def by (rule in_under[of "[Read NodeTable]"]) (simp_all add: seqs_def)

lemma delete_program:
  "[External, Write (StatusMaps k), Acquire NodesInfoMtx, Read NodeTable, Release NodesInfoMtx] \<in> steady_programs"
  using removal_path by (force simp: steady_programs_def delete_goroutine_paths_def)

lemma connection_program:
  "[External, Acquire NodesInfoMtx, Read NodeTable, Write NodeTable, Release NodesInfoMtx,
    Acquire NodesLivenessMtx, Read LivenessTable, Write LivenessTable, Release NodesLivenessMtx] \<in> steady_programs"
proof -
  have e: "[] \<in> reps heartbeat_paths" unfolding reps_def by (intro CollectI exI[of _ "[]"]) simp
  have n: "[Acquire NodesInfoMtx, Read NodeTable, Write NodeTable, Release NodesInfoMtx]
      \<in> under NodesInfoMtx {[Read NodeTable, Write NodeTable]}" by (rule in_under[OF singletonI]) simp
  have l: "[Acquire NodesLivenessMtx, Read LivenessTable, Write LivenessTable, Release NodesLivenessMtx]
      \<in> under NodesLivenessMtx {[Read LivenessTable, Write LivenessTable], [Read LivenessTable, Write LivenessEntries]}"
    by (rule in_under[OF insertI1]) simp
  have "[External] @ [Acquire NodesInfoMtx, Read NodeTable, Write NodeTable, Release NodesInfoMtx]
      @ [Acquire NodesLivenessMtx, Read LivenessTable, Write LivenessTable, Release NodesLivenessMtx] @ [] \<in> handleNodeConnection_paths"
    unfolding handleNodeConnection_paths_def by (intro UnI2 in_seqs n l e singletonI)
  then show ?thesis by (simp add: steady_programs_def)
qed

lemma quota_program: "[Read NodeTable] \<in> controller_programs"
proof -
  have q: "[Read NodeTable] \<in> reconcileResourceConfig_paths"
    unfolding reconcileResourceConfig_paths_def by (intro in_reps) simp
  have "[Read NodeTable] @ [] \<in> sync_paths" unfolding sync_paths_def seqs_def using q by blast
  then show ?thesis by (simp add: controller_programs_def in_reps)
qed

lemma steady_controller: "p \<in> steady_programs \<Longrightarrow> p \<in> controller_programs"
  by (simp add: controller_programs_def)

text \<open>
  (C29) The controller never deadlocks on its mutexes: however many workers, removals, connections and checks run, and
  however far each has got, if one of them is not done and none waits in a wait group that is never released, one of
  them can go on. The mutexes are always taken in the order \<open>fstp2PodsMtx\<close>, \<open>nodesInfoMtx\<close>, \<open>nodesLivenessMtx\<close>.
\<close>

theorem controller_deadlock_free:
  assumes "(sys controller_programs)\<^sup>*\<^sup>* idle (own, ts)"
    and "i < length ts" "ts ! i \<noteq> []" and "\<forall>k < length ts. \<forall>q. ts ! k \<noteq> Stuck # q"
  shows "\<exists>s'. run_step (own, ts) s'"
  by (rule controller_locks.no_deadlock[OF assms])

theorem controller_deadlock_free_witness:
  "\<exists>s'. run_step ([Fstp2PodsMtx \<mapsto> 0], [[External, Release Fstp2PodsMtx],
     [Acquire Fstp2PodsMtx, External, Release Fstp2PodsMtx]] :: path list) s'"
proof -
  have w: "delete_wait undefined [] 0 = External" by (simp add: delete_wait_def)
  note p = steady_controller[OF scale_down_program[of undefined "[]" 0, unfolded w]]
  have "(sys controller_programs)\<^sup>*\<^sup>* idle (Map.empty, ([] @ [[Acquire Fstp2PodsMtx, External, Release Fstp2PodsMtx]])
      @ [[Acquire Fstp2PodsMtx, External, Release Fstp2PodsMtx]])"
    by (intro reach_start p rtranclp.rtrancl_refl)
  from reach_acquire[OF this, of 0]
  have "(sys controller_programs)\<^sup>*\<^sup>* idle ([Fstp2PodsMtx \<mapsto> 0], [[External, Release Fstp2PodsMtx],
     [Acquire Fstp2PodsMtx, External, Release Fstp2PodsMtx]])" by simp
  from controller_deadlock_free[OF this, of 1] show ?thesis by (simp add: less_Suc_eq)
qed

text \<open>
  (C30) The tables exclude each other: as long as no quotas are being changed and the controller is not stopping, no two
  goroutines access the table of nodes, of liveness, of pods or of pending FaSTPods at the same time if one writes.
\<close>

theorem tables_exclusive:
  assumes "(sys steady_programs)\<^sup>*\<^sup>* idle s" "mutex_of x = Some m"
  shows "\<not> race s x"
  by (rule steady.no_race[OF assms])

theorem tables_exclusive_witness:
  "\<not> race ([NodesInfoMtx \<mapsto> 0], [[Read NodeTable, Write NodeTable, Release NodesInfoMtx,
      Acquire NodesLivenessMtx, Read LivenessTable, Write LivenessTable, Release NodesLivenessMtx]]) NodeTable"
proof -
  note p = connection_program
  have "(sys steady_programs)\<^sup>*\<^sup>* idle (Map.empty, [] @ [[External, Acquire NodesInfoMtx, Read NodeTable, Write NodeTable,
      Release NodesInfoMtx, Acquire NodesLivenessMtx, Read LivenessTable, Write LivenessTable, Release NodesLivenessMtx]])"
    by (intro reach_start p rtranclp.rtrancl_refl)
  from reach_other[OF this, of 0]
  have "(sys steady_programs)\<^sup>*\<^sup>* idle (Map.empty, [[Acquire NodesInfoMtx, Read NodeTable, Write NodeTable,
      Release NodesInfoMtx, Acquire NodesLivenessMtx, Read LivenessTable, Write LivenessTable, Release NodesLivenessMtx]])" by simp
  from reach_acquire[OF this, of 0]
  have "(sys steady_programs)\<^sup>*\<^sup>* idle ([NodesInfoMtx \<mapsto> 0], [[Read NodeTable, Write NodeTable,
      Release NodesInfoMtx, Acquire NodesLivenessMtx, Read LivenessTable, Write LivenessTable, Release NodesLivenessMtx]])" by simp
  from tables_exclusive[OF this, of NodeTable] show ?thesis by simp
qed


lemma scale_to_zero_waits: "pods \<noteq> [] \<Longrightarrow> delete_wait w pods (int (length pods)) = Stuck"
  by (simp add: delete_wait_def getPodsToDelete_def)

text \<open>
  (C39) Scaling one FaSTPod to zero stops the controller: the worker waits for ever with \<open>fstp2PodsMtx\<close> held, so that
  from then on no worker that wants to create or delete pods, for whatever FaSTPod, gets any further.
\<close>

theorem scale_to_zero_starves:
  assumes "(sys controller_programs)\<^sup>*\<^sup>* idle (own, ts)" "i < length ts" "pods \<noteq> []"
    and "ts ! i = [delete_wait w pods (int (length pods)), Release Fstp2PodsMtx]"
    and "(sys controller_programs)\<^sup>*\<^sup>* (own, ts) (own', ts')"
    and "j < length ts" "ts ! j = Acquire Fstp2PodsMtx # q"
  shows "own' Fstp2PodsMtx = Some i \<and> ts' ! j = Acquire Fstp2PodsMtx # q"
  using controller_locks.starves[OF assms(1) _ _ assms(5), of i Fstp2PodsMtx "[]"] assms(2,4,6,7)
    scale_to_zero_waits[OF assms(3)] by simp

theorem scale_to_zero_starves_witness:
  "\<exists>own ts w (p :: pod). (sys controller_programs)\<^sup>*\<^sup>* idle (own, ts)
     \<and> ts ! 0 = [delete_wait w [p] 1, Release Fstp2PodsMtx]
     \<and> (\<forall>own' ts'. (sys controller_programs)\<^sup>*\<^sup>* (own, ts) (own', ts') \<longrightarrow>
          ts' ! 1 = [Acquire Fstp2PodsMtx, External, Release Fstp2PodsMtx])"
proof -
  let ?w = "undefined :: world" and ?p = "undefined :: pod"
  have w: "delete_wait ?w [] 0 = External" by (simp add: delete_wait_def)
  have "(sys controller_programs)\<^sup>*\<^sup>* idle (Map.empty, ([] @ [[Acquire Fstp2PodsMtx, delete_wait ?w [?p] 1, Release Fstp2PodsMtx]])
      @ [[Acquire Fstp2PodsMtx, External, Release Fstp2PodsMtx]])"
    using steady_controller[OF scale_down_program[of ?w "[]" 0, unfolded w]] steady_controller[OF scale_down_program[of ?w "[?p]" 1]]
    by (intro reach_start rtranclp.rtrancl_refl)
  from reach_acquire[OF this, of 0]
  have r: "(sys controller_programs)\<^sup>*\<^sup>* idle ([Fstp2PodsMtx \<mapsto> 0], [[delete_wait ?w [?p] 1, Release Fstp2PodsMtx],
      [Acquire Fstp2PodsMtx, External, Release Fstp2PodsMtx]])" by simp
  have "ts' ! 1 = [Acquire Fstp2PodsMtx, External, Release Fstp2PodsMtx]"
    if "(sys controller_programs)\<^sup>*\<^sup>* ([Fstp2PodsMtx \<mapsto> 0], [[delete_wait ?w [?p] 1, Release Fstp2PodsMtx],
      [Acquire Fstp2PodsMtx, External, Release Fstp2PodsMtx]]) (own', ts')" for own' ts'
    using scale_to_zero_starves[OF r _ _ _ that, of 0 "[?p]" ?w 1] by simp
  with r show ?thesis by (intro exI conjI) auto
qed

end
