(* ===== verification/Deep_Copy.thy ===== *)
theory Deep_Copy
  imports Fastpod_Types
begin

text \<open>
  The deep copies of the resource type (\<open>zz_generated.deepcopy.go\<close>) over a heap: the maps, slices and pointers of a
  FaSTPod live in cells, so that two FaSTPods can share them. The informers hand out pointers into their cache; the
  controller and the gateway copy before they write. Objects of the Kubernetes libraries are copied by those
  libraries and are values here.

  The locale \<open>deep_copy\<close> is the contract of a copying function: the copy is equal, in new cells, and nothing else
  changes. It is interpreted for every shape of data a FaSTPod is made of.
\<close>

section \<open>The heap\<close>

type_synonym addr = nat

text \<open>A FaSTPod in memory; every pointer, map and slice is an address, nil is \<open>None\<close>.\<close>

record status_ref =
  rs_PrewarmPool :: "addr option"
  rs_ReadyReplicas :: int
  rs_AvailableReplicas :: int
  rs_Replicas :: int
  rs_BoundDeviceIDs :: "addr option"
  rs_BoundDeviceType :: "addr option"
  rs_GPUClientPort :: "addr option"
  rs_Usage :: "addr option"
  rs_Pod2Node :: "addr option"
  rs_Node2Id :: "addr option"
  rs_ResourceConfig :: "addr option"

record spec_ref =
  rs_PodSpec :: "container list"
  rs_SpecReplicas :: "addr option"
  rs_Selector :: "addr option"

record fastpod_ref =
  rf_TypeMeta :: string
  rf_ObjectMeta :: "string \<times> string \<times> smap \<times> smap"
  rf_Spec :: spec_ref
  rf_Status :: status_ref

text \<open>
  What a cell holds: a variable for a map (nil or the address of the map), a map, the elements of a slice, or a value.
\<close>

datatype cell =
    CVar "addr option"
  | CStrings smap
  | CInts "string \<rightharpoonup> int"
  | CUsages "string \<rightharpoonup> float64 \<times> float64"
  | CPods "addr option list"
  | CPod pod
  | CScheds "(string \<times> string) list"
  | CInt int
  | CSelector smap
  | CItems "fastpod_ref list"

record heap =
  cells :: "addr \<rightharpoonup> cell"
  nxt :: addr

definition alloc :: "cell \<Rightarrow> heap \<Rightarrow> addr \<times> heap" where
  "alloc c h = (nxt h, h\<lparr>cells := (cells h)(nxt h \<mapsto> c), nxt := Suc (nxt h)\<rparr>)"

definition store :: "addr \<Rightarrow> cell \<Rightarrow> heap \<Rightarrow> heap" where
  "store a c h = h\<lparr>cells := (cells h)(a \<mapsto> c)\<rparr>"

text \<open>A heap that has grown: the old cells are as they were.\<close>

definition grows :: "heap \<Rightarrow> heap \<Rightarrow> bool" where
  "grows h h' = (nxt h \<le> nxt h' \<and> (\<forall>a < nxt h. cells h' a = cells h a))"

lemma grows_refl [simp]: "grows h h"
  by (simp add: grows_def)

lemma grows_trans: "grows h h' \<Longrightarrow> grows h' h'' \<Longrightarrow> grows h h''"
  by (auto simp: grows_def)

lemma grows_alloc: "alloc c h = (a, h') \<Longrightarrow> grows h h' \<and> a = nxt h \<and> nxt h' = Suc (nxt h) \<and> cells h' a = Some c"
  by (auto simp: alloc_def grows_def)

lemma grows_store: "nxt h \<le> a \<Longrightarrow> grows h h' \<Longrightarrow> grows h (store a c h')"
  by (auto simp: grows_def store_def)

lemma store_simps [simp]: "nxt (store a c h) = nxt h" "cells (store a c h) b = (if b = a then Some c else cells h b)"
  by (simp_all add: store_def)

section \<open>The contract of a deep copy\<close>

text \<open>The elements of a slice, copied one after the other.\<close>

fun copy_all :: "('r \<Rightarrow> heap \<Rightarrow> 'r \<times> heap) \<Rightarrow> 'r list \<Rightarrow> heap \<Rightarrow> 'r list \<times> heap" where
  "copy_all copy [] h = ([], h)"
| "copy_all copy (p # ps) h =
     (case copy p h of (p', h1) \<Rightarrow> case copy_all copy ps h1 of (ps', h2) \<Rightarrow> (p' # ps', h2))"

text \<open>
  A copying function over references, the value behind a reference and the cells it is made of. A value depends on
  its own cells only.
\<close>

locale deep_copy =
  fixes copy :: "'r \<Rightarrow> heap \<Rightarrow> 'r \<times> heap"
    and view :: "heap \<Rightarrow> 'r \<Rightarrow> 'v" and cells_of :: "heap \<Rightarrow> 'r \<Rightarrow> addr set"
  assumes local: "\<forall>a \<in> cells_of h r. cells h' a = cells h a \<Longrightarrow> view h' r = view h r \<and> cells_of h' r = cells_of h r"
    and copies: "cells_of h r \<subseteq> {..< nxt h} \<Longrightarrow> copy r h = (r', h') \<Longrightarrow>
        grows h h' \<and> view h' r' = view h r \<and> cells_of h' r' \<subseteq> {nxt h ..< nxt h'}"
begin

lemma grown:
  assumes "grows h h'" "cells_of h r \<subseteq> {..< nxt h}"
  shows "view h' r = view h r \<and> cells_of h' r = cells_of h r"
  using assms by (intro local) (auto simp: grows_def subset_iff)

text \<open>A copy made at some time, seen later, is the value there was before.\<close>

lemma later:
  assumes "grows h0 h" "cells_of h0 r \<subseteq> {..< nxt h0}" "copy r h = (r', h')" "grows h' h''"
  shows "grows h0 h'" "view h'' r' = view h0 r" "cells_of h'' r' \<subseteq> {nxt h0 ..< nxt h''}"
proof -
  note old = grown[OF assms(1,2)]
  have "cells_of h r \<subseteq> {..< nxt h}" using old assms(1,2) by (auto simp: grows_def subset_iff)
  note c = copies[OF this assms(3)]
  have "cells_of h' r' \<subseteq> {..< nxt h'}" using c by auto
  note new = grown[OF assms(4) this]
  show "grows h0 h'" using assms(1) c by (blast intro: grows_trans)
  show "view h'' r' = view h0 r" using old c new by simp
  show "cells_of h'' r' \<subseteq> {nxt h0 ..< nxt h''}" using c new assms(1,4) by (force simp: grows_def)
qed

lemma step:
  assumes "grows h0 h" "cells_of h0 r \<subseteq> {..< nxt h0}" "copy r h = (r', h')"
  shows "grows h h'"
proof -
  have "cells_of h r \<subseteq> {..< nxt h}" using grown[OF assms(1,2)] assms(1,2) by (auto simp: grows_def subset_iff)
  then show ?thesis using copies assms(3) by blast
qed

lemma all_copies:
  assumes "grows h0 h" "\<Union> (cells_of h0 ` set ps) \<subseteq> {..< nxt h0}" "copy_all copy ps h = (ps', h')"
  shows "grows h0 h' \<and> grows h h' \<and> map (view h') ps' = map (view h0) ps
    \<and> \<Union> (cells_of h' ` set ps') \<subseteq> {nxt h ..< nxt h'}"
  using assms
proof (induction ps arbitrary: h ps')
  case (Cons p ps)
  obtain p' h1 ps2 where 1: "copy p h = (p', h1)" "copy_all copy ps h1 = (ps2, h')" "ps' = p' # ps2"
    using Cons.prems(3) by (auto split: prod.splits)
  have p: "cells_of h0 p \<subseteq> {..< nxt h0}" using Cons.prems(2) by simp
  then have ph: "cells_of h p \<subseteq> {..< nxt h}"
    using Cons.prems(1) grown[OF Cons.prems(1) p] by (auto simp: grows_def)
  have g1: "grows h0 h1" using later(1)[OF Cons.prems(1) p 1(1) grows_refl] .
  have ih: "grows h0 h' \<and> grows h1 h' \<and> map (view h') ps2 = map (view h0) ps
    \<and> \<Union> (cells_of h' ` set ps2) \<subseteq> {nxt h1 ..< nxt h'}"
    using Cons.IH[OF g1 _ 1(2)] Cons.prems(2) by simp
  then have g2: "grows h1 h'" by simp
  note k = later[OF Cons.prems(1) p 1(1) g2] and k2 = later[OF grows_refl ph 1(1) g2]
  have "nxt h \<le> nxt h1" using k2(1) by (simp add: grows_def)
  then have "\<Union> (cells_of h' ` set ps2) \<subseteq> {nxt h ..< nxt h'}" using ih by fastforce
  then show ?case using ih k k2 1(3) by (auto intro: grows_trans)
qed auto

text \<open>Writing into the copy leaves the original alone.\<close>

lemma isolated:
  assumes "cells_of h r \<subseteq> {..< nxt h}" "copy r h = (r', h')" "a \<in> cells_of h' r'"
  shows "view (store a c h') r = view h r"
proof -
  note k = copies[OF assms(1,2)]
  then have "nxt h \<le> a" using assms(3) by auto
  then have "\<forall>b \<in> cells_of h r. cells (store a c h') b = cells h b"
    using k assms(1) by (auto simp: grows_def subset_iff)
  from local[OF this] show ?thesis by simp
qed

end

section \<open>Pointers to values\<close>

text \<open>\<open>*out = new(T); **out = **in\<close>, for a type without pointers: also what \<open>make\<close> and \<open>copy\<close> do for a slice of values.\<close>

definition copy_ptr :: "addr option \<Rightarrow> heap \<Rightarrow> addr option \<times> heap" where
  "copy_ptr p h = (case p of
     None \<Rightarrow> (None, h)
   | Some a \<Rightarrow> (case cells h a of
       None \<Rightarrow> (None, h)
     | Some c \<Rightarrow> (case alloc c h of (b, h') \<Rightarrow> (Some b, h'))))"

definition view_ptr :: "heap \<Rightarrow> addr option \<Rightarrow> cell option" where
  "view_ptr h p = (case p of None \<Rightarrow> None | Some a \<Rightarrow> cells h a)"

definition cells_ptr :: "heap \<Rightarrow> addr option \<Rightarrow> addr set" where
  "cells_ptr h p = set_option p"

interpretation ptr: deep_copy copy_ptr view_ptr cells_ptr
proof
  show "grows h h' \<and> view_ptr h' r' = view_ptr h r \<and> cells_ptr h' r' \<subseteq> {nxt h ..< nxt h'}"
    if "cells_ptr h r \<subseteq> {..< nxt h}" "copy_ptr r h = (r', h')" for h r r' h'
    using that grows_alloc by (fastforce simp: copy_ptr_def view_ptr_def cells_ptr_def split: option.splits prod.splits)
qed (auto simp: view_ptr_def cells_ptr_def split: option.splits)

section \<open>Pointers to maps\<close>

text \<open>A pointer to a variable that is nil or a map: a new variable, and a new map with the same entries.\<close>

definition copy_map :: "addr option \<Rightarrow> heap \<Rightarrow> addr option \<times> heap" where
  "copy_map p h = (case p of
     None \<Rightarrow> (None, h)
   | Some a \<Rightarrow>
       (case alloc (CVar None) h of (out, h1) \<Rightarrow>
          (case cells h a of
             Some (CVar (Some m)) \<Rightarrow>
               (case copy_ptr (Some m) h1 of (m', h2) \<Rightarrow> (Some out, store out (CVar m') h2))
           | _ \<Rightarrow> (Some out, h1))))"

text \<open>Nil, a pointer to a nil map, or a pointer to a map with its entries.\<close>

definition view_map :: "heap \<Rightarrow> addr option \<Rightarrow> cell option option" where
  "view_map h p = (case p of
     None \<Rightarrow> None
   | Some a \<Rightarrow> Some (case cells h a of Some (CVar (Some m)) \<Rightarrow> cells h m | _ \<Rightarrow> None))"

definition cells_map :: "heap \<Rightarrow> addr option \<Rightarrow> addr set" where
  "cells_map h p = (case p of
     None \<Rightarrow> {}
   | Some a \<Rightarrow> insert a (case cells h a of Some (CVar (Some m)) \<Rightarrow> {m} | _ \<Rightarrow> {}))"

interpretation map_ptr: deep_copy copy_map view_map cells_map
proof
  show "grows h h' \<and> view_map h' r' = view_map h r \<and> cells_map h' r' \<subseteq> {nxt h ..< nxt h'}"
    if ok: "cells_map h r \<subseteq> {..< nxt h}" and c: "copy_map r h = (r', h')" for h r r' h'
  proof (cases r)
    case None
    then show ?thesis using c by (simp add: copy_map_def view_map_def cells_map_def)
  next
    case (Some a)
    obtain out h1 where h1: "alloc (CVar None) h = (out, h1)" by (cases "alloc (CVar None) h")
    note g1 = grows_alloc[OF h1]
    show ?thesis
    proof (cases "\<exists>m. cells h a = Some (CVar (Some m))")
      case True
      then obtain m where m: "cells h a = Some (CVar (Some m))" by blast
      obtain m' h2 where h2: "copy_ptr (Some m) h1 = (m', h2)" by (cases "copy_ptr (Some m) h1")
      have "cells_ptr h (Some m) \<subseteq> {..< nxt h}" using ok Some m by (simp add: cells_map_def cells_ptr_def)
      note k = ptr.later[OF conjunct1[OF g1] this h2 grows_refl]
      have out: "nxt h = out" "out < nxt h2" "nxt h1 = Suc out"
        using g1 ptr.copies[OF _ h2] ok Some m by (auto simp: grows_def cells_map_def cells_ptr_def)
      have m': "cells_ptr h2 m' \<subseteq> {nxt h1 ..< nxt h2}"
        using ptr.copies[OF _ h2] ok Some m g1 by (auto simp: cells_map_def cells_ptr_def grows_def)
      have r: "r' = Some out" "h' = store out (CVar m') h2" using c Some m h1 h2 by (auto simp: copy_map_def)
      have "grows h h'" using k(1) out r(2) by (simp add: grows_store)
      moreover have "view_map h' r' = view_map h r"
        using k(2) m' out(3) Some m r by (auto simp: view_map_def view_ptr_def cells_ptr_def split: option.splits)
      moreover have "cells_map h' r' \<subseteq> {nxt h ..< nxt h'}"
        using m' out r by (auto simp: cells_map_def cells_ptr_def split: option.splits)
      ultimately show ?thesis by blast
    next
      case False
      then have r: "r' = Some out" "h' = h1"
        using c Some h1 by (auto simp: copy_map_def split: option.splits cell.splits)
      have "(case cells h a of Some (CVar (Some m)) \<Rightarrow> cells h m | _ \<Rightarrow> None) = None"
        using False by (auto split: option.splits cell.splits)
      then show ?thesis using g1 Some r by (auto simp: view_map_def cells_map_def)
    qed
  qed
qed (auto simp: view_map_def cells_map_def split: option.splits cell.splits)

section \<open>Slices of pointers\<close>

text \<open>A new slice of the same length, filled with copies of the pods that are not nil.\<close>

definition copy_slice :: "addr option \<Rightarrow> heap \<Rightarrow> addr option \<times> heap" where
  "copy_slice p h = (case p of
     None \<Rightarrow> (None, h)
   | Some a \<Rightarrow> (case cells h a of
       Some (CPods ps) \<Rightarrow>
         (case alloc (CPods (replicate (length ps) None)) h of (out, h1) \<Rightarrow>
          case copy_all copy_ptr ps h1 of (ps', h2) \<Rightarrow> (Some out, store out (CPods ps') h2))
     | _ \<Rightarrow> (None, h)))"

text \<open>The pods of a slice; a slice that is nil is distinguished from an empty one.\<close>

definition view_slice :: "heap \<Rightarrow> addr option \<Rightarrow> cell option list option" where
  "view_slice h p = (case p of
     None \<Rightarrow> None
   | Some a \<Rightarrow> (case cells h a of Some (CPods ps) \<Rightarrow> Some (map (view_ptr h) ps) | _ \<Rightarrow> None))"

definition cells_slice :: "heap \<Rightarrow> addr option \<Rightarrow> addr set" where
  "cells_slice h p = (case p of
     None \<Rightarrow> {}
   | Some a \<Rightarrow> insert a (case cells h a of Some (CPods ps) \<Rightarrow> \<Union> (cells_ptr h ` set ps) | _ \<Rightarrow> {}))"

interpretation slice: deep_copy copy_slice view_slice cells_slice
proof
  show "grows h h' \<and> view_slice h' r' = view_slice h r \<and> cells_slice h' r' \<subseteq> {nxt h ..< nxt h'}"
    if ok: "cells_slice h r \<subseteq> {..< nxt h}" and c: "copy_slice r h = (r', h')" for h r r' h'
  proof (cases "\<exists>a ps. r = Some a \<and> cells h a = Some (CPods ps)")
    case True
    then obtain a ps where a: "r = Some a" "cells h a = Some (CPods ps)" by blast
    obtain out h1 where h1: "alloc (CPods (replicate (length ps) None)) h = (out, h1)"
      by (cases "alloc (CPods (replicate (length ps) None)) h")
    obtain ps' h2 where h2: "copy_all copy_ptr ps h1 = (ps', h2)" by (cases "copy_all copy_ptr ps h1")
    note g1 = grows_alloc[OF h1]
    have "\<Union> (cells_ptr h ` set ps) \<subseteq> {..< nxt h}" using ok a by (simp add: cells_slice_def)
    note k = ptr.all_copies[OF conjunct1[OF g1] this h2]
    have r: "r' = Some out" "h' = store out (CPods ps') h2" using c a h1 h2 by (auto simp: copy_slice_def)
    have out: "out = nxt h" "nxt h1 = Suc out" "out < nxt h2" using g1 k by (auto simp: grows_def)
    have same: "view_ptr h' q = view_ptr h2 q" if "q \<in> set ps'" for q
      using k that out by (force simp: view_ptr_def cells_ptr_def r(2) split: option.splits)
    have "view_slice h' r' = view_slice h r"
      using k same by (simp add: view_slice_def r a cong: map_cong)
    moreover have "cells_slice h' r' \<subseteq> {nxt h ..< nxt h'}"
      using k out by (auto simp: cells_slice_def r cells_ptr_def)
    moreover have "grows h h'" using k out by (simp add: r(2) grows_store)
    ultimately show ?thesis by blast
  next
    case False
    then show ?thesis using c
      by (auto simp: copy_slice_def view_slice_def cells_slice_def split: option.splits cell.splits)
  qed
next
  show "view_slice h' r = view_slice h r \<and> cells_slice h' r = cells_slice h r"
    if "\<forall>a \<in> cells_slice h r. cells h' a = cells h a" for h h' r
    using that ptr.local[of h _ h']
    by (force simp: view_slice_def cells_slice_def split: option.splits cell.splits)
qed

section \<open>The status\<close>

definition Status_DeepCopyInto :: "status_ref \<Rightarrow> heap \<Rightarrow> status_ref \<times> heap" where
  "Status_DeepCopyInto s h =
     (case copy_slice (rs_PrewarmPool s) h of (p1, h1) \<Rightarrow>
      case copy_map (rs_BoundDeviceIDs s) h1 of (p2, h2) \<Rightarrow>
      case copy_map (rs_BoundDeviceType s) h2 of (p3, h3) \<Rightarrow>
      case copy_map (rs_GPUClientPort s) h3 of (p4, h4) \<Rightarrow>
      case copy_map (rs_Usage s) h4 of (p5, h5) \<Rightarrow>
      case copy_map (rs_Pod2Node s) h5 of (p6, h6) \<Rightarrow>
      case copy_ptr (rs_Node2Id s) h6 of (p7, h7) \<Rightarrow>
      case copy_map (rs_ResourceConfig s) h7 of (p8, h8) \<Rightarrow>
      (s\<lparr>rs_PrewarmPool := p1, rs_BoundDeviceIDs := p2, rs_BoundDeviceType := p3,
         rs_GPUClientPort := p4, rs_Usage := p5, rs_Pod2Node := p6,
         rs_Node2Id := p7, rs_ResourceConfig := p8\<rparr>, h8))"

text \<open>The status as a value: the numbers, and what is behind the references.\<close>

record status_value =
  sv_numbers :: "int \<times> int \<times> int"
  sv_pool :: "cell option list option"
  sv_maps :: "cell option option list"
  sv_node2id :: "cell option"

definition status_maps_of :: "status_ref \<Rightarrow> addr option list" where
  "status_maps_of s = [rs_BoundDeviceIDs s, rs_BoundDeviceType s, rs_GPUClientPort s, rs_Usage s, rs_Pod2Node s, rs_ResourceConfig s]"

definition view_status :: "heap \<Rightarrow> status_ref \<Rightarrow> status_value" where
  "view_status h s = \<lparr>sv_numbers = (rs_ReadyReplicas s, rs_AvailableReplicas s, rs_Replicas s),
     sv_pool = view_slice h (rs_PrewarmPool s), sv_maps = map (view_map h) (status_maps_of s),
     sv_node2id = view_ptr h (rs_Node2Id s)\<rparr>"

definition cells_status :: "heap \<Rightarrow> status_ref \<Rightarrow> addr set" where
  "cells_status h s = cells_slice h (rs_PrewarmPool s) \<union> \<Union> (cells_map h ` set (status_maps_of s)) \<union> cells_ptr h (rs_Node2Id s)"

interpretation status: deep_copy Status_DeepCopyInto view_status cells_status
proof
  show "view_status h' r = view_status h r \<and> cells_status h' r = cells_status h r"
    if "\<forall>a \<in> cells_status h r. cells h' a = cells h a" for h h' r
    using that slice.local[of h "rs_PrewarmPool r" h'] ptr.local[of h "rs_Node2Id r" h']
      map_ptr.local[of h "rs_BoundDeviceIDs r" h'] map_ptr.local[of h "rs_BoundDeviceType r" h']
      map_ptr.local[of h "rs_GPUClientPort r" h'] map_ptr.local[of h "rs_Usage r" h']
      map_ptr.local[of h "rs_Pod2Node r" h'] map_ptr.local[of h "rs_ResourceConfig r" h']
    by (simp add: view_status_def cells_status_def status_maps_of_def)
  show "grows h h' \<and> view_status h' r' = view_status h r \<and> cells_status h' r' \<subseteq> {nxt h ..< nxt h'}"
    if ok: "cells_status h r \<subseteq> {..< nxt h}" and c: "Status_DeepCopyInto r h = (r', h')" for h r r' h'
  proof -
    have old: "cells_slice h (rs_PrewarmPool r) \<subseteq> {..< nxt h}" "cells_ptr h (rs_Node2Id r) \<subseteq> {..< nxt h}"
      "\<And>p. p \<in> set (status_maps_of r) \<Longrightarrow> cells_map h p \<subseteq> {..< nxt h}"
      using ok by (auto simp: cells_status_def)
    note m = old(3)[unfolded status_maps_of_def]
    obtain p1 h1 where c1: "copy_slice (rs_PrewarmPool r) h = (p1, h1)" by (cases "copy_slice (rs_PrewarmPool r) h")
    obtain p2 h2 where c2: "copy_map (rs_BoundDeviceIDs r) h1 = (p2, h2)" by (cases "copy_map (rs_BoundDeviceIDs r) h1")
    obtain p3 h3 where c3: "copy_map (rs_BoundDeviceType r) h2 = (p3, h3)" by (cases "copy_map (rs_BoundDeviceType r) h2")
    obtain p4 h4 where c4: "copy_map (rs_GPUClientPort r) h3 = (p4, h4)" by (cases "copy_map (rs_GPUClientPort r) h3")
    obtain p5 h5 where c5: "copy_map (rs_Usage r) h4 = (p5, h5)" by (cases "copy_map (rs_Usage r) h4")
    obtain p6 h6 where c6: "copy_map (rs_Pod2Node r) h5 = (p6, h6)" by (cases "copy_map (rs_Pod2Node r) h5")
    obtain p7 h7 where c7: "copy_ptr (rs_Node2Id r) h6 = (p7, h7)" by (cases "copy_ptr (rs_Node2Id r) h6")
    obtain p8 h8 where c8: "copy_map (rs_ResourceConfig r) h7 = (p8, h8)" by (cases "copy_map (rs_ResourceConfig r) h7")
    have r': "r' = r\<lparr>rs_PrewarmPool := p1, rs_BoundDeviceIDs := p2, rs_BoundDeviceType := p3, rs_GPUClientPort := p4, rs_Usage := p5, rs_Pod2Node := p6, rs_Node2Id := p7, rs_ResourceConfig := p8\<rparr>" "h' = h8"
      using c by (simp_all add: Status_DeepCopyInto_def c1 c2 c3 c4 c5 c6 c7 c8)
    have g1: "grows h h1" by (rule slice.later(1)[OF grows_refl _ c1 grows_refl]) (use old m in simp_all)
    have g2: "grows h h2" by (rule map_ptr.later(1)[OF g1 _ c2 grows_refl]) (use old m in simp_all)
    have g3: "grows h h3" by (rule map_ptr.later(1)[OF g2 _ c3 grows_refl]) (use old m in simp_all)
    have g4: "grows h h4" by (rule map_ptr.later(1)[OF g3 _ c4 grows_refl]) (use old m in simp_all)
    have g5: "grows h h5" by (rule map_ptr.later(1)[OF g4 _ c5 grows_refl]) (use old m in simp_all)
    have g6: "grows h h6" by (rule map_ptr.later(1)[OF g5 _ c6 grows_refl]) (use old m in simp_all)
    have g7: "grows h h7" by (rule ptr.later(1)[OF g6 _ c7 grows_refl]) (use old m in simp_all)
    have g8: "grows h h8" by (rule map_ptr.later(1)[OF g7 _ c8 grows_refl]) (use old m in simp_all)
    have b8: "grows h8 h8" by simp
    have s8: "grows h7 h8" by (rule map_ptr.step[OF g7 _ c8]) (use old m in simp_all)
    have b7: "grows h7 h8" by (rule grows_trans[OF s8 b8])
    have s7: "grows h6 h7" by (rule ptr.step[OF g6 _ c7]) (use old m in simp_all)
    have b6: "grows h6 h8" by (rule grows_trans[OF s7 b7])
    have s6: "grows h5 h6" by (rule map_ptr.step[OF g5 _ c6]) (use old m in simp_all)
    have b5: "grows h5 h8" by (rule grows_trans[OF s6 b6])
    have s5: "grows h4 h5" by (rule map_ptr.step[OF g4 _ c5]) (use old m in simp_all)
    have b4: "grows h4 h8" by (rule grows_trans[OF s5 b5])
    have s4: "grows h3 h4" by (rule map_ptr.step[OF g3 _ c4]) (use old m in simp_all)
    have b3: "grows h3 h8" by (rule grows_trans[OF s4 b4])
    have s3: "grows h2 h3" by (rule map_ptr.step[OF g2 _ c3]) (use old m in simp_all)
    have b2: "grows h2 h8" by (rule grows_trans[OF s3 b3])
    have s2: "grows h1 h2" by (rule map_ptr.step[OF g1 _ c2]) (use old m in simp_all)
    have b1: "grows h1 h8" by (rule grows_trans[OF s2 b2])
    note v1 = slice.later(2,3)[OF grows_refl _ c1 b1]
    note v2 = map_ptr.later(2,3)[OF g1 _ c2 b2]
    note v3 = map_ptr.later(2,3)[OF g2 _ c3 b3]
    note v4 = map_ptr.later(2,3)[OF g3 _ c4 b4]
    note v5 = map_ptr.later(2,3)[OF g4 _ c5 b5]
    note v6 = map_ptr.later(2,3)[OF g5 _ c6 b6]
    note v7 = ptr.later(2,3)[OF g6 _ c7 b7]
    note v8 = map_ptr.later(2,3)[OF g7 _ c8 b8]
    show ?thesis
      using g8 old m v1 v2 v3 v4 v5 v6 v7 v8
      by (simp add: r' view_status_def cells_status_def status_maps_of_def)
  qed
qed

section \<open>The specification and the FaSTPod\<close>

definition Spec_DeepCopyInto :: "spec_ref \<Rightarrow> heap \<Rightarrow> spec_ref \<times> heap" where
  "Spec_DeepCopyInto s h =
     (case copy_ptr (rs_SpecReplicas s) h of (p1, h1) \<Rightarrow>
      case copy_ptr (rs_Selector s) h1 of (p2, h2) \<Rightarrow>
      (s\<lparr>rs_SpecReplicas := p1, rs_Selector := p2\<rparr>, h2))"

definition FaSTPod_DeepCopyInto :: "fastpod_ref \<Rightarrow> heap \<Rightarrow> fastpod_ref \<times> heap" where
  "FaSTPod_DeepCopyInto f h =
     (case Spec_DeepCopyInto (rf_Spec f) h of (sp, h1) \<Rightarrow>
      case Status_DeepCopyInto (rf_Status f) h1 of (st, h2) \<Rightarrow>
      (f\<lparr>rf_Spec := sp, rf_Status := st\<rparr>, h2))"

text \<open>A nil receiver gives nil.\<close>

definition FaSTPod_DeepCopy :: "fastpod_ref option \<Rightarrow> heap \<Rightarrow> fastpod_ref option \<times> heap" where
  "FaSTPod_DeepCopy f h = (case f of
     None \<Rightarrow> (None, h) | Some f \<Rightarrow> (case FaSTPod_DeepCopyInto f h of (f', h') \<Rightarrow> (Some f', h')))"

definition view_spec :: "heap \<Rightarrow> spec_ref \<Rightarrow> container list \<times> cell option \<times> cell option" where
  "view_spec h s = (rs_PodSpec s, view_ptr h (rs_SpecReplicas s), view_ptr h (rs_Selector s))"

definition cells_spec :: "heap \<Rightarrow> spec_ref \<Rightarrow> addr set" where
  "cells_spec h s = cells_ptr h (rs_SpecReplicas s) \<union> cells_ptr h (rs_Selector s)"

type_synonym fastpod_value =
  "string \<times> (string \<times> string \<times> smap \<times> smap) \<times> (container list \<times> cell option \<times> cell option) \<times> status_value"

definition view_fastpod :: "heap \<Rightarrow> fastpod_ref \<Rightarrow> fastpod_value" where
  "view_fastpod h f = (rf_TypeMeta f, rf_ObjectMeta f, view_spec h (rf_Spec f), view_status h (rf_Status f))"

definition cells_fastpod :: "heap \<Rightarrow> fastpod_ref \<Rightarrow> addr set" where
  "cells_fastpod h f = cells_spec h (rf_Spec f) \<union> cells_status h (rf_Status f)"

interpretation spec: deep_copy Spec_DeepCopyInto view_spec cells_spec
proof
  show "view_spec h' r = view_spec h r \<and> cells_spec h' r = cells_spec h r"
    if "\<forall>a \<in> cells_spec h r. cells h' a = cells h a" for h h' r
    using that ptr.local[of h "rs_SpecReplicas r" h'] ptr.local[of h "rs_Selector r" h']
    by (simp add: view_spec_def cells_spec_def)
  show "grows h h' \<and> view_spec h' r' = view_spec h r \<and> cells_spec h' r' \<subseteq> {nxt h ..< nxt h'}"
    if ok: "cells_spec h r \<subseteq> {..< nxt h}" and c: "Spec_DeepCopyInto r h = (r', h')" for h r r' h'
  proof -
    have old: "cells_ptr h (rs_SpecReplicas r) \<subseteq> {..< nxt h}" "cells_ptr h (rs_Selector r) \<subseteq> {..< nxt h}"
      using ok by (auto simp: cells_spec_def)
    obtain p1 h1 where c1: "copy_ptr (rs_SpecReplicas r) h = (p1, h1)" by (cases "copy_ptr (rs_SpecReplicas r) h")
    obtain p2 h2 where c2: "copy_ptr (rs_Selector r) h1 = (p2, h2)" by (cases "copy_ptr (rs_Selector r) h1")
    have r': "r' = r\<lparr>rs_SpecReplicas := p1, rs_Selector := p2\<rparr>" "h' = h2"
      using c by (simp_all add: Spec_DeepCopyInto_def c1 c2)
    note g1 = ptr.later(1)[OF grows_refl old(1) c1 grows_refl]
    note v2 = ptr.later[OF g1 old(2) c2 grows_refl]
    note v1 = ptr.later(2,3)[OF grows_refl old(1) c1 ptr.step[OF g1 old(2) c2]]
    show ?thesis using v1 v2 by (simp add: r' view_spec_def cells_spec_def)
  qed
qed

interpretation fastpod: deep_copy FaSTPod_DeepCopyInto view_fastpod cells_fastpod
proof
  show "view_fastpod h' r = view_fastpod h r \<and> cells_fastpod h' r = cells_fastpod h r"
    if "\<forall>a \<in> cells_fastpod h r. cells h' a = cells h a" for h h' r
    using that spec.local[of h "rf_Spec r" h'] status.local[of h "rf_Status r" h']
    by (simp add: view_fastpod_def cells_fastpod_def)
  show "grows h h' \<and> view_fastpod h' r' = view_fastpod h r \<and> cells_fastpod h' r' \<subseteq> {nxt h ..< nxt h'}"
    if ok: "cells_fastpod h r \<subseteq> {..< nxt h}" and c: "FaSTPod_DeepCopyInto r h = (r', h')" for h r r' h'
  proof -
    have old: "cells_spec h (rf_Spec r) \<subseteq> {..< nxt h}" "cells_status h (rf_Status r) \<subseteq> {..< nxt h}"
      using ok by (auto simp: cells_fastpod_def)
    obtain p1 h1 where c1: "Spec_DeepCopyInto (rf_Spec r) h = (p1, h1)" by (cases "Spec_DeepCopyInto (rf_Spec r) h")
    obtain p2 h2 where c2: "Status_DeepCopyInto (rf_Status r) h1 = (p2, h2)" by (cases "Status_DeepCopyInto (rf_Status r) h1")
    have r': "r' = r\<lparr>rf_Spec := p1, rf_Status := p2\<rparr>" "h' = h2"
      using c by (simp_all add: FaSTPod_DeepCopyInto_def c1 c2)
    note g1 = spec.later(1)[OF grows_refl old(1) c1 grows_refl]
    note v2 = status.later[OF g1 old(2) c2 grows_refl]
    note v1 = spec.later(2,3)[OF grows_refl old(1) c1 status.step[OF g1 old(2) c2]]
    show ?thesis using v1 v2 by (simp add: r' view_fastpod_def cells_fastpod_def)
  qed
qed

section \<open>Lists of FaSTPods\<close>

record fastpod_list_ref =
  rl_TypeMeta :: string
  rl_ListMeta :: string
  rl_Items :: "addr option"

definition no_fastpod :: fastpod_ref where
  "no_fastpod = \<lparr>rf_TypeMeta = [], rf_ObjectMeta = ([], [], Map.empty, Map.empty),
     rf_Spec = \<lparr>rs_PodSpec = [], rs_SpecReplicas = None, rs_Selector = None\<rparr>,
     rf_Status = \<lparr>rs_PrewarmPool = None, rs_ReadyReplicas = 0, rs_AvailableReplicas = 0, rs_Replicas = 0,
       rs_BoundDeviceIDs = None, rs_BoundDeviceType = None, rs_GPUClientPort = None, rs_Usage = None,
       rs_Pod2Node = None, rs_Node2Id = None, rs_ResourceConfig = None\<rparr>\<rparr>"

definition FaSTPodList_DeepCopyInto :: "fastpod_list_ref \<Rightarrow> heap \<Rightarrow> fastpod_list_ref \<times> heap" where
  "FaSTPodList_DeepCopyInto l h = (case rl_Items l of
     None \<Rightarrow> (l, h)
   | Some a \<Rightarrow> (case cells h a of
       Some (CItems fs) \<Rightarrow>
         (case alloc (CItems (replicate (length fs) no_fastpod)) h of (out, h1) \<Rightarrow>
          case copy_all FaSTPod_DeepCopyInto fs h1 of (fs', h2) \<Rightarrow>
          (l\<lparr>rl_Items := Some out\<rparr>, store out (CItems fs') h2))
     | _ \<Rightarrow> (l\<lparr>rl_Items := None\<rparr>, h)))"

text \<open>The FaSTPods of a list, as values.\<close>

definition view_list :: "heap \<Rightarrow> fastpod_list_ref \<Rightarrow> fastpod_value list option" where
  "view_list h l = (case rl_Items l of
     None \<Rightarrow> None
   | Some a \<Rightarrow> (case cells h a of Some (CItems fs) \<Rightarrow> Some (map (view_fastpod h) fs) | _ \<Rightarrow> None))"

definition cells_list :: "heap \<Rightarrow> fastpod_list_ref \<Rightarrow> addr set" where
  "cells_list h l = (case rl_Items l of
     None \<Rightarrow> {}
   | Some a \<Rightarrow> insert a (case cells h a of Some (CItems fs) \<Rightarrow> \<Union> (cells_fastpod h ` set fs) | _ \<Rightarrow> {}))"

interpretation fastpods: deep_copy FaSTPodList_DeepCopyInto view_list cells_list
proof
  show "grows h h' \<and> view_list h' r' = view_list h r \<and> cells_list h' r' \<subseteq> {nxt h ..< nxt h'}"
    if ok: "cells_list h r \<subseteq> {..< nxt h}" and c: "FaSTPodList_DeepCopyInto r h = (r', h')" for h r r' h'
  proof (cases "\<exists>a fs. rl_Items r = Some a \<and> cells h a = Some (CItems fs)")
    case True
    then obtain a fs where a: "rl_Items r = Some a" "cells h a = Some (CItems fs)" by blast
    obtain out h1 where h1: "alloc (CItems (replicate (length fs) no_fastpod)) h = (out, h1)"
      by (cases "alloc (CItems (replicate (length fs) no_fastpod)) h")
    obtain fs' h2 where h2: "copy_all FaSTPod_DeepCopyInto fs h1 = (fs', h2)" by (cases "copy_all FaSTPod_DeepCopyInto fs h1")
    note g1 = grows_alloc[OF h1]
    have "\<Union> (cells_fastpod h ` set fs) \<subseteq> {..< nxt h}" using ok a by (simp add: cells_list_def)
    note k = fastpod.all_copies[OF conjunct1[OF g1] this h2]
    have r: "rl_Items r' = Some out" "h' = store out (CItems fs') h2"
      using c a h1 h2 by (auto simp: FaSTPodList_DeepCopyInto_def)
    have out: "out = nxt h" "nxt h1 = Suc out" "out < nxt h2" using g1 k by (auto simp: grows_def)
    have same: "view_fastpod h' q = view_fastpod h2 q \<and> cells_fastpod h' q = cells_fastpod h2 q" if "q \<in> set fs'" for q
    proof (rule fastpod.local)
      have "cells_fastpod h2 q \<subseteq> {nxt h1 ..< nxt h2}" using k that by blast
      then show "\<forall>b \<in> cells_fastpod h2 q. cells h' b = cells h2 b" using out by (auto simp: r(2))
    qed
    have "view_list h' r' = view_list h r" using k same by (simp add: view_list_def r a cong: map_cong)
    moreover have "cells_list h' r' \<subseteq> {nxt h ..< nxt h'}"
      using k out same by (fastforce simp: cells_list_def r)
    moreover have "grows h h'" using k out by (simp add: r(2) grows_store)
    ultimately show ?thesis by blast
  next
    case False
    show ?thesis
    proof (cases "rl_Items r")
      case None
      then show ?thesis using c by (simp add: FaSTPodList_DeepCopyInto_def view_list_def cells_list_def)
    next
      case (Some a)
      then have "\<not> (\<exists>fs. cells h a = Some (CItems fs))" using False by blast
      then show ?thesis using c Some
        by (cases "cells h a"; cases "the (cells h a)") (auto simp: FaSTPodList_DeepCopyInto_def view_list_def cells_list_def)
    qed
  qed
next
  show "view_list h' r = view_list h r \<and> cells_list h' r = cells_list h r"
    if "\<forall>a \<in> cells_list h r. cells h' a = cells h a" for h h' r
  proof (cases "\<exists>a fs. rl_Items r = Some a \<and> cells h a = Some (CItems fs)")
    case True
    then obtain a fs where a: "rl_Items r = Some a" "cells h a = Some (CItems fs)" by blast
    have "view_fastpod h' q = view_fastpod h q \<and> cells_fastpod h' q = cells_fastpod h q" if "q \<in> set fs" for q
      using \<open>\<forall>a \<in> cells_list h r. cells h' a = cells h a\<close> that a
      by (intro fastpod.local) (auto simp: cells_list_def)
    moreover have "cells h' a = cells h a" using that a by (simp add: cells_list_def)
    ultimately show ?thesis using a by (simp add: view_list_def cells_list_def cong: map_cong)
  next
    case False
    then show ?thesis using that by (auto simp: view_list_def cells_list_def split: option.splits cell.splits)
  qed
qed

section \<open>Properties\<close>

text \<open>
  (C36) A deep copy is equal to the original and shares nothing with it: the copy of a FaSTPod has its value, consists of
  new cells only, and whatever is written into one of them leaves the value of the original as it was, so that the
  controller may change its copy of an object of the cache.
\<close>

theorem deep_copy_isolates:
  assumes "cells_fastpod h f \<subseteq> {..< nxt h}" "FaSTPod_DeepCopy (Some f) h = (Some f', h')"
  shows "view_fastpod h' f' = view_fastpod h f \<and> view_fastpod h' f = view_fastpod h f
    \<and> cells_fastpod h' f' \<inter> cells_fastpod h f = {}
    \<and> (\<forall>a \<in> cells_fastpod h' f'. \<forall>c. view_fastpod (store a c h') f = view_fastpod h f)"
proof -
  have c: "FaSTPod_DeepCopyInto f h = (f', h')" using assms(2) by (auto simp: FaSTPod_DeepCopy_def split: prod.splits)
  note k = fastpod.copies[OF assms(1) c]
  have "cells_fastpod h' f' \<inter> cells_fastpod h f = {}" using k assms(1) by fastforce
  then show ?thesis using k fastpod.grown[OF conjunct1[OF k] assms(1)] fastpod.isolated[OF assms(1) c] by blast
qed

definition demo_ref :: fastpod_ref where
  "demo_ref = no_fastpod\<lparr>rf_Status := (rf_Status no_fastpod)\<lparr>rs_BoundDeviceIDs := Some 0\<rparr>\<rparr>"

definition demo_heap :: heap where
  "demo_heap = \<lparr>cells = [0 \<mapsto> CVar (Some 1), 1 \<mapsto> CStrings [''f-1'' \<mapsto> ''u1'']], nxt = 2\<rparr>"

theorem deep_copy_isolates_witness:
  "\<exists>f' h'. FaSTPod_DeepCopy (Some demo_ref) demo_heap = (Some f', h')
     \<and> view_fastpod (store 3 (CStrings Map.empty) h') demo_ref = view_fastpod demo_heap demo_ref"
proof -
  let ?f = "demo_ref\<lparr>rf_Status := (rf_Status demo_ref)\<lparr>rs_BoundDeviceIDs := Some 2\<rparr>\<rparr>"
  let ?h = "\<lparr>cells = [0 \<mapsto> CVar (Some 1), 1 \<mapsto> CStrings [''f-1'' \<mapsto> ''u1''], 3 \<mapsto> CStrings [''f-1'' \<mapsto> ''u1''], 2 \<mapsto> CVar (Some 3)], nxt = 4\<rparr>"
  have cells: "cells_fastpod demo_heap demo_ref \<subseteq> {..< nxt demo_heap}"
    by (simp add: cells_fastpod_def cells_spec_def cells_status_def status_maps_of_def cells_map_def cells_ptr_def cells_slice_def
        demo_ref_def no_fastpod_def demo_heap_def)
  have r: "FaSTPod_DeepCopy (Some demo_ref) demo_heap = (Some ?f, ?h)"
    by (simp add: FaSTPod_DeepCopy_def FaSTPod_DeepCopyInto_def Spec_DeepCopyInto_def Status_DeepCopyInto_def copy_ptr_def
        copy_map_def copy_slice_def alloc_def store_def demo_ref_def no_fastpod_def demo_heap_def fun_upd_twist)
  have "3 \<in> cells_fastpod ?h ?f"
    by (simp add: cells_fastpod_def cells_status_def status_maps_of_def cells_map_def)
  then show ?thesis using deep_copy_isolates[OF cells r] r by blast
qed

end
