(* ===== verification/Mps.thy ===== *)
theory Mps
  imports Prelude
begin

text \<open>
  The MPS server of a GPU (\<open>mps.go\<close>): its directories, its environment, and starting, probing and stopping
  the daemon. The operating system is an argument: \<open>'h\<close> is the state outside the program and the record \<open>os\<close>
  has the calls the code makes on it, each with the error it returns, if any.
\<close>

datatype stat = NotExist | StatError string | NamedPipe | OtherFile

record 'h os =
  os_RemoveAll :: "'h \<Rightarrow> string \<Rightarrow> string option \<times> 'h"
  os_MkdirAll :: "'h \<Rightarrow> string \<Rightarrow> string option \<times> 'h"
  os_Stat :: "'h \<Rightarrow> string \<Rightarrow> stat"
  os_Run :: "'h \<Rightarrow> string list \<Rightarrow> string list \<Rightarrow> string option \<times> 'h"
  os_Create :: "'h \<Rightarrow> string \<Rightarrow> bool \<times> 'h"
  os_WriteString :: "'h \<Rightarrow> string \<Rightarrow> string \<Rightarrow> 'h"

record MPSServer =
  m_UUID :: string
  m_Name :: string
  isEnabled :: bool

definition GetLogDir :: "MPSServer \<Rightarrow> string" where
  "GetLogDir m = ''/tmp/mps_log_'' @ m_UUID m"

definition GetPipeDir :: "MPSServer \<Rightarrow> string" where
  "GetPipeDir m = ''/tmp/mps_'' @ m_UUID m"

text \<open>The loops over the two directories.\<close>

fun create_dirs :: "'h os \<Rightarrow> string list \<Rightarrow> 'h \<Rightarrow> string option \<times> 'h" where
  "create_dirs os [] h = (None, h)"
| "create_dirs os (d # ds) h =
     (let (_, h1) = os_RemoveAll os h d; (err, h2) = os_MkdirAll os h1 d
      in case err of
           Some e \<Rightarrow> (Some (''failed to create directory '' @ d @ '': '' @ e), h2)
         | None \<Rightarrow> create_dirs os ds h2)"

definition CreateDirectories :: "'h os \<Rightarrow> MPSServer \<Rightarrow> 'h \<Rightarrow> string option \<times> 'h" where
  "CreateDirectories os m h = create_dirs os [GetPipeDir m, GetLogDir m] h"

fun remove_dirs :: "'h os \<Rightarrow> string list \<Rightarrow> string option \<Rightarrow> 'h \<Rightarrow> string option \<times> 'h" where
  "remove_dirs os [] lastErr h = (lastErr, h)"
| "remove_dirs os (d # ds) lastErr h =
     (let (err, h1) = os_RemoveAll os h d
      in remove_dirs os ds
           (case err of Some e \<Rightarrow> Some (''failed to remove directory '' @ d @ '': '' @ e) | None \<Rightarrow> lastErr) h1)"

definition CleanupDirectories :: "'h os \<Rightarrow> MPSServer \<Rightarrow> 'h \<Rightarrow> string option \<times> 'h" where
  "CleanupDirectories os m h = remove_dirs os [GetPipeDir m, GetLogDir m] None h"

definition BuildEnvironment :: "MPSServer \<Rightarrow> string list" where
  "BuildEnvironment m =
     [''CUDA_VISIBLE_DEVICES='' @ m_UUID m,
      ''CUDA_MPS_PIPE_DIRECTORY='' @ GetPipeDir m,
      ''CUDA_MPS_LOG_DIRECTORY='' @ GetLogDir m]"

definition StartMPSDaemon :: "'h os \<Rightarrow> MPSServer \<Rightarrow> 'h \<Rightarrow> (string option \<times> MPSServer) \<times> 'h" where
  "StartMPSDaemon os m h =
     (if isEnabled m then ((None, m), h)
      else let (err, h1) = os_Run os h [''nvidia-cuda-mps-control'', ''-d''] (BuildEnvironment m)
           in case err of
                Some e \<Rightarrow> ((Some (''failed to start MPS daemon: '' @ e), m), h1)
              | None \<Rightarrow> ((None, m\<lparr>isEnabled := True\<rparr>), h1))"

definition IsMPSDaemonRunning :: "'h os \<Rightarrow> MPSServer \<Rightarrow> 'h \<Rightarrow> string + bool" where
  "IsMPSDaemonRunning os m h =
     (let controlPipe = GetPipeDir m @ ''/control''
      in case os_Stat os h controlPipe of
           NotExist \<Rightarrow> Inr False
         | StatError e \<Rightarrow> Inl (''failed to stat '' @ controlPipe @ '': '' @ e)
         | OtherFile \<Rightarrow> Inr False
         | NamedPipe \<Rightarrow> Inr True)"

definition SetupMPSEnvironment :: "'h os \<Rightarrow> MPSServer \<Rightarrow> 'h \<Rightarrow> (string option \<times> MPSServer) \<times> 'h" where
  "SetupMPSEnvironment os m h =
     (if isEnabled m then ((None, m), h)
      else case IsMPSDaemonRunning os m h of
             Inl e \<Rightarrow> ((Some (''failed to check if MPS daemon is running: '' @ e), m), h)
           | Inr True \<Rightarrow> ((None, m), h)
           | Inr False \<Rightarrow>
               (case CreateDirectories os m h of
                  (Some e, h1) \<Rightarrow> ((Some (''failed to create MPS directories: '' @ e), m), h1)
                | (None, h1) \<Rightarrow>
                    (case StartMPSDaemon os m h1 of
                       ((Some e, m2), h2) \<Rightarrow>
                         ((Some (''failed to start MPS daemon: '' @ e), m2), snd (CleanupDirectories os m2 h2))
                     | ((None, m2), h2) \<Rightarrow> ((None, m2), h2))))"

definition StopMPSDaemon :: "'h os \<Rightarrow> MPSServer \<Rightarrow> 'h \<Rightarrow> (string option \<times> MPSServer) \<times> 'h" where
  "StopMPSDaemon os m h =
     (if \<not> isEnabled m then ((None, m), h)
      else case os_Run os h [''bash'', ''-c'', ''echo quit | nvidia-cuda-mps-control''] (BuildEnvironment m) of
             (Some e, h1) \<Rightarrow> ((Some (''failed to stop MPS daemon: '' @ e), m), h1)
           | (None, h1) \<Rightarrow>
               (if IsMPSDaemonRunning os m h1 = Inr True
                then ((Some ''MPS daemon is still running after quit'', m), h1)
                else ((None, m\<lparr>isEnabled := False\<rparr>), snd (CleanupDirectories os m h1))))"

text \<open>\<open>strings.Split\<close> at a character: one part more than there are separators.\<close>

fun split_at :: "char \<Rightarrow> string \<Rightarrow> string list" where
  "split_at sep [] = [[]]"
| "split_at sep (c # cs) =
     (if c = sep then [] # split_at sep cs
      else case split_at sep cs of [] \<Rightarrow> [[c]] | p # ps \<Rightarrow> (c # p) # ps)"

text \<open>The argument is the output of \<open>ps -ef\<close>, or the error of running it.\<close>

definition ListMPSProcesses :: "string + string \<Rightarrow> string + string list" where
  "ListMPSProcesses ps = (case ps of
     Inl e \<Rightarrow> Inl (''ps command failed: '' @ e)
   | Inr out \<Rightarrow> Inr (filter (\<lambda>line. Contains line ''mps'') (split_at (CHR 0x0A) out)))"

definition NewMPSServer :: "string \<Rightarrow> string \<Rightarrow> string + MPSServer" where
  "NewMPSServer nm uuid =
     (if uuid = [] then Inl ''UUID cannot be empty''
      else Inr \<lparr>m_UUID = uuid, m_Name = (if nm = [] then ''unnamed-gpu'' else nm), isEnabled = False\<rparr>)"

section \<open>What the operations do to the server\<close>

lemma SetupMPSEnvironment_frame:
  "SetupMPSEnvironment os m h = ((err, m'), h') \<Longrightarrow> m_UUID m' = m_UUID m \<and> m_Name m' = m_Name m"
  by (auto simp: SetupMPSEnvironment_def StartMPSDaemon_def split: if_splits sum.splits bool.splits prod.splits option.splits)

lemma StopMPSDaemon_frame:
  "StopMPSDaemon os m h = ((err, m'), h') \<Longrightarrow> m_UUID m' = m_UUID m \<and> m_Name m' = m_Name m"
  by (auto simp: StopMPSDaemon_def split: if_splits prod.splits option.splits)

lemma split_at_nonempty [simp]: "split_at sep s \<noteq> []"
  by (induction s) (auto split: list.splits)

lemma split_at_append: "sep \<notin> set a \<Longrightarrow> split_at sep (a @ sep # b) = a # split_at sep b"
  by (induction a) auto

lemma split_at_id: "sep \<notin> set a \<Longrightarrow> split_at sep a = [a]"
  by (induction a) auto

end
