(* ===== verification/Nvml.thy ===== *)
theory Nvml
  imports Prelude
begin

text \<open>
  The NVIDIA management library as the configurator sees it, and the wrappers of \<open>pkg/mig/mig.go\<close>.

  The library is an argument, the record \<open>nvml\<close> of its calls on the state \<open>'h\<close> outside the program; handles
  are numbers. A call returns \<open>Success\<close> with a result, one of the two codes the code tests for, or another
  code, given by its text. Only creating and destroying instances changes the state.
\<close>

datatype 'a nv = Success 'a | NotSupported | InvalidArgument | NvError string

type_synonym dev = nat
type_synonym gi = nat
type_synonym ci = nat

text \<open>The fields of the library's structs that the code reads.\<close>

record gi_profile =
  prof_Id :: int
  prof_MP :: int
  prof_MemorySizeMB :: int

record ci_profile =
  cip_Id :: int
  cip_InstanceCount :: int

record gi_info =
  gi_Id :: int
  gi_ProfileId :: int

record ci_info =
  ci_Id :: int
  ci_Device :: dev

record 'h nvml =
  nv_DeviceGetCount :: "'h \<Rightarrow> nat nv"
  nv_DeviceGetHandleByIndex :: "'h \<Rightarrow> int \<Rightarrow> dev nv"
  nv_GetName :: "'h \<Rightarrow> dev \<Rightarrow> string nv"
  nv_GetUUID :: "'h \<Rightarrow> dev \<Rightarrow> string nv"
  nv_GetMemoryInfo :: "'h \<Rightarrow> dev \<Rightarrow> int nv"
  nv_GetMigMode :: "'h \<Rightarrow> dev \<Rightarrow> bool \<times> unit nv"
  nv_GetMaxMigDeviceCount :: "'h \<Rightarrow> dev \<Rightarrow> nat nv"
  nv_GetMigDeviceHandleByIndex :: "'h \<Rightarrow> dev \<Rightarrow> nat \<Rightarrow> dev nv"
  nv_GetAttributes :: "'h \<Rightarrow> dev \<Rightarrow> int nv"
  nv_GetIndex :: "'h \<Rightarrow> dev \<Rightarrow> int nv"
  nv_GetComputeInstanceId :: "'h \<Rightarrow> dev \<Rightarrow> int nv"
  nv_GetGpuInstanceId :: "'h \<Rightarrow> dev \<Rightarrow> int nv"
  nv_GetGpuInstanceById :: "'h \<Rightarrow> dev \<Rightarrow> int \<Rightarrow> gi nv"
  nv_GetGpuInstanceProfileInfo :: "'h \<Rightarrow> dev \<Rightarrow> nat \<Rightarrow> gi_profile nv"
  nv_GetGpuInstances :: "'h \<Rightarrow> dev \<Rightarrow> gi_profile \<Rightarrow> gi list nv"
  nv_GetGpuInstanceRemainingCapacity :: "'h \<Rightarrow> dev \<Rightarrow> gi_profile \<Rightarrow> nat nv"
  nv_CreateGpuInstance :: "'h \<Rightarrow> dev \<Rightarrow> gi_profile \<Rightarrow> gi nv \<times> 'h"
  nv_gi_GetInfo :: "'h \<Rightarrow> gi \<Rightarrow> gi_info nv"
  nv_gi_Destroy :: "'h \<Rightarrow> gi \<Rightarrow> unit nv \<times> 'h"
  nv_GetComputeInstanceById :: "'h \<Rightarrow> gi \<Rightarrow> int \<Rightarrow> ci nv"
  nv_GetComputeInstanceProfileInfo :: "'h \<Rightarrow> gi \<Rightarrow> nat \<Rightarrow> nat \<Rightarrow> ci_profile nv"
  nv_GetComputeInstances :: "'h \<Rightarrow> gi \<Rightarrow> ci_profile \<Rightarrow> ci list nv"
  nv_CreateComputeInstance :: "'h \<Rightarrow> gi \<Rightarrow> ci_profile option \<Rightarrow> ci nv \<times> 'h"
  nv_ci_GetInfo :: "'h \<Rightarrow> ci \<Rightarrow> ci_info nv"
  nv_ci_Destroy :: "'h \<Rightarrow> ci \<Rightarrow> unit nv \<times> 'h"

text \<open>The numbers of profiles, constants of the library.\<close>

record profile_counts =
  GPU_INSTANCE_PROFILE_COUNT :: nat
  COMPUTE_INSTANCE_PROFILE_COUNT :: nat
  COMPUTE_INSTANCE_ENGINE_PROFILE_COUNT :: nat

section \<open>The wrappers\<close>

definition AssertMigEnabled :: "'h nvml \<Rightarrow> 'h \<Rightarrow> dev \<Rightarrow> string option" where
  "AssertMigEnabled nv h d =
     (case nv_GetMigMode nv h d of (mode, ret) \<Rightarrow>
        (case ret of
           NotSupported \<Rightarrow> Some ''MIG not supported''
         | Success _ \<Rightarrow> if \<not> mode then Some ''MIG mode disabled'' else None
         | _ \<Rightarrow> Some ''error getting MIG mode''))"

text \<open>
  The loops over the profile numbers. Numbers that are not supported are skipped, any other failure ends
  the loop with an error.
\<close>

fun gather :: "('i \<Rightarrow> 'a nv) \<Rightarrow> 'i list \<Rightarrow> 'a list \<Rightarrow> string + 'a list" where
  "gather f [] acc = Inr acc"
| "gather f (i # is) acc =
     (case f i of
        NotSupported \<Rightarrow> gather f is acc
      | InvalidArgument \<Rightarrow> gather f is acc
      | NvError e \<Rightarrow> Inl e
      | Success p \<Rightarrow> gather f is (acc @ [p]))"

definition GetPossiblGPUInstanceeProfiles ::
  "profile_counts \<Rightarrow> 'h nvml \<Rightarrow> 'h \<Rightarrow> dev \<Rightarrow> string + gi_profile list" where
  "GetPossiblGPUInstanceeProfiles pc nv h d =
     gather (nv_GetGpuInstanceProfileInfo nv h d) [0..<GPU_INSTANCE_PROFILE_COUNT pc] []"

definition ci_profile_numbers :: "profile_counts \<Rightarrow> (nat \<times> nat) list" where
  "ci_profile_numbers pc =
     concat (map (\<lambda>j. map (\<lambda>k. (j, k)) [0..<COMPUTE_INSTANCE_ENGINE_PROFILE_COUNT pc])
       [0..<COMPUTE_INSTANCE_PROFILE_COUNT pc])"

definition GetPossibleComputeInstanceProfiles ::
  "profile_counts \<Rightarrow> 'h nvml \<Rightarrow> 'h \<Rightarrow> gi \<Rightarrow> string + ci_profile list" where
  "GetPossibleComputeInstanceProfiles pc nv h g =
     gather (\<lambda>(j, k). nv_GetComputeInstanceProfileInfo nv h g j k) (ci_profile_numbers pc) []"

text \<open>No full profile is no error: the result is then nil.\<close>

definition GetFullUsageComputeInstanceProfile ::
  "profile_counts \<Rightarrow> 'h nvml \<Rightarrow> 'h \<Rightarrow> gi \<Rightarrow> string + ci_profile option" where
  "GetFullUsageComputeInstanceProfile pc nv h g =
     (case GetPossibleComputeInstanceProfiles pc nv h g of
        Inl e \<Rightarrow> Inl e
      | Inr ps \<Rightarrow> Inr (find_first (\<lambda>p. cip_InstanceCount p = 1) ps))"

text \<open>Calling \<open>f\<close> on every instance until one call returns an error; \<open>f\<close> may change the state \<open>'s\<close>, of which
  \<open>hw\<close> is the part outside the program.\<close>

fun walk_list :: "('x \<Rightarrow> 's \<Rightarrow> string option \<times> 's) \<Rightarrow> 'x list \<Rightarrow> 's \<Rightarrow> string option \<times> 's" where
  "walk_list f [] s = (None, s)"
| "walk_list f (x # xs) s = (case f x s of (Some e, s') \<Rightarrow> (Some e, s') | (None, s') \<Rightarrow> walk_list f xs s')"

fun walk ::
  "('s \<Rightarrow> 'i \<Rightarrow> 'p nv) \<Rightarrow> ('s \<Rightarrow> 'p \<Rightarrow> 'x list nv) \<Rightarrow> ('x \<Rightarrow> 'i \<Rightarrow> 'p \<Rightarrow> 's \<Rightarrow> string option \<times> 's) \<Rightarrow> 'i list \<Rightarrow> 's \<Rightarrow> string option \<times> 's" where
  "walk info instances f [] s = (None, s)"
| "walk info instances f (i # is) s =
     (case info s i of
        NotSupported \<Rightarrow> walk info instances f is s
      | InvalidArgument \<Rightarrow> walk info instances f is s
      | NvError e \<Rightarrow> (Some e, s)
      | Success p \<Rightarrow>
          (case instances s p of
             Success xs \<Rightarrow>
               (case walk_list (\<lambda>x. f x i p) xs s of
                  (Some e, s') \<Rightarrow> (Some e, s')
                | (None, s') \<Rightarrow> walk info instances f is s')
           | NvError e \<Rightarrow> (Some e, s)
           | NotSupported \<Rightarrow> (Some ''Not Supported'', s)
           | InvalidArgument \<Rightarrow> (Some ''Invalid Argument'', s)))"

definition WalkGpuInstances ::
  "profile_counts \<Rightarrow> 'h nvml \<Rightarrow> ('s \<Rightarrow> 'h) \<Rightarrow> dev \<Rightarrow> (gi \<Rightarrow> nat \<Rightarrow> gi_profile \<Rightarrow> 's \<Rightarrow> string option \<times> 's) \<Rightarrow> 's \<Rightarrow> string option \<times> 's" where
  "WalkGpuInstances pc nv hw d f s =
     walk (\<lambda>s. nv_GetGpuInstanceProfileInfo nv (hw s) d) (\<lambda>s. nv_GetGpuInstances nv (hw s) d) f [0..<GPU_INSTANCE_PROFILE_COUNT pc] s"

definition WalkComputeInstances ::
  "profile_counts \<Rightarrow> 'h nvml \<Rightarrow> ('s \<Rightarrow> 'h) \<Rightarrow> gi \<Rightarrow> (ci \<Rightarrow> nat \<Rightarrow> nat \<Rightarrow> ci_profile \<Rightarrow> 's \<Rightarrow> string option \<times> 's) \<Rightarrow> 's \<Rightarrow> string option \<times> 's" where
  "WalkComputeInstances pc nv hw g f s =
     walk (\<lambda>s (j, k). nv_GetComputeInstanceProfileInfo nv (hw s) g j k) (\<lambda>s. nv_GetComputeInstances nv (hw s) g)
       (\<lambda>c (j, k). f c j k) (ci_profile_numbers pc) s"

section \<open>What the loops compute\<close>

text \<open>Without a hard failure \<open>gather\<close> keeps the successes in order.\<close>

definition successes :: "'a nv list \<Rightarrow> 'a list" where
  "successes rs = concat (map (\<lambda>r. case r of Success x \<Rightarrow> [x] | _ \<Rightarrow> []) rs)"

lemma gather_eq:
  "gather f is acc = (if \<exists>i \<in> set is. \<exists>e. f i = NvError e then gather f is acc else Inr (acc @ successes (map f is)))"
  by (induction "is" arbitrary: acc) (auto simp: successes_def split: nv.splits)

lemma gather_ok:
  "(\<And>i e. i \<in> set is \<Longrightarrow> f i \<noteq> NvError e) \<Longrightarrow> gather f is acc = Inr (acc @ successes (map f is))"
  using gather_eq[of f "is" acc] by auto

lemma gather_sound: "gather f is acc = Inr ps \<Longrightarrow> set ps \<subseteq> set acc \<union> {p. \<exists>i \<in> set is. f i = Success p}"
  by (induction f "is" acc rule: gather.induct) (auto split: nv.splits)

end
