(* ===== verification/Virtual_Gpu.thy ===== *)
theory Virtual_Gpu
  imports Mps Nvml Float64
begin

text \<open>
  The resource manager of a node's configurator (\<open>virtual_resource.go\<close>, \<open>config.go\<close>): the GPUs it offers, MIG
  devices included, and provisioning and releasing them.

  A \<open>VirtualGPU\<close> is reached through pointers, from the list of offers and from the table of provisioned GPUs,
  and changed in place; the objects are therefore kept in a heap, and the two containers hold addresses.
\<close>

section \<open>Data\<close>

record MIGProperties =
  GPUInstance :: "gi option"
  ComputeInstance :: "ci option"
  mig_profile :: gi_profile

record GPU =
  g_UUID :: string
  g_Name :: string
  g_MemoryBytes :: int
  g_MultiProcessorCount :: int
  ParentDeviceIndex :: int
  g_ParentUUID :: string
  ProvisionedDevice :: dev
  mpsServer :: MPSServer

record VirtualGPU =
  v_Name :: string
  v_ID :: string
  DeviceIndex :: int
  v_MemoryBytes :: int
  v_MultiProcessorCount :: int
  IsProvisioned :: bool
  v_Mig :: "MIGProperties option"
  ProvisionedGPU :: "GPU option"
  Physical :: bool
  PhysicalGPUType :: string
  v_SMPercentage :: int

type_synonym addr = nat

record 'h rm =
  hw :: 'h
  PhysicalGPUs :: "dev list"
  VirtualGPUs :: "addr list"
  provisionedGPUs :: "string \<rightharpoonup> addr"
  heap :: "addr \<Rightarrow> VirtualGPU"
  fresh :: addr

text \<open>The packages and services a configurator runs on.\<close>

record 'h platform =
  pf_nvml :: "'h nvml"
  pf_os :: "'h os"
  pf_counts :: profile_counts

definition alloc :: "VirtualGPU \<Rightarrow> 'h rm \<Rightarrow> addr \<times> 'h rm" where
  "alloc v st = (fresh st, st\<lparr>heap := (heap st)(fresh st := v), fresh := Suc (fresh st)\<rparr>)"

definition upd :: "addr \<Rightarrow> (VirtualGPU \<Rightarrow> VirtualGPU) \<Rightarrow> 'h rm \<Rightarrow> 'h rm" where
  "upd a f st = st\<lparr>heap := (heap st)(a := f (heap st a))\<rparr>"

section \<open>SM counts\<close>

definition SmMap :: "string \<Rightarrow> int option" where
  "SmMap = [''t1000'' \<mapsto> 16, ''a100'' \<mapsto> 108, ''v100'' \<mapsto> 84, ''rtx2080ti'' \<mapsto> 68]"

definition GetSMCount :: "string \<Rightarrow> string + int" where
  "GetSMCount gpuNameFull =
     (let lower = ToLower gpuNameFull;
          gpuName = (if Contains lower ''a100'' then ''a100''
                     else if Contains lower ''v100'' then ''v100''
                     else if Contains lower ''t1000'' then ''t1000''
                     else if Contains lower ''rtx 2080'' then ''rtx2080ti''
                     else lower)
      in case SmMap gpuName of None \<Rightarrow> Inl (''GPU not found: '' @ gpuName) | Some n \<Rightarrow> Inr n)"

text \<open>\<open>int(math.Round(x))\<close>: the nearest integer, halves away from zero; 0 stands for what the conversion of NaN
  or an infinity gives, which is never asked for here.\<close>

definition int_Round :: "float64 \<Rightarrow> int" where
  "int_Round x = (case x of Fin q \<Rightarrow> if 0 \<le> q then \<lfloor>q + 1 / 2\<rfloor> else - \<lfloor>- q + 1 / 2\<rfloor> | _ \<Rightarrow> 0)"

definition sm_percentage :: "int \<Rightarrow> int \<Rightarrow> int" where
  "sm_percentage mp smCount = int_Round (fdiv (fmul (f_of_int mp) (Fin 100)) (f_of_int smCount))"

section \<open>Discovering the GPUs\<close>

text \<open>A failing library call makes the loop body \<open>continue\<close>: nothing is offered.\<close>

definition or_continue :: "'a nv \<Rightarrow> ('a \<Rightarrow> 'b option go) \<Rightarrow> 'b option go" where
  "or_continue r f = (case r of Success x \<Rightarrow> f x | _ \<Rightarrow> Ret None)"

text \<open>The offer for a GPU that is not partitioned.\<close>

definition physical_vgpu :: "nat \<Rightarrow> dev \<Rightarrow> string \<Rightarrow> string \<Rightarrow> int \<Rightarrow> int \<Rightarrow> VirtualGPU" where
  "physical_vgpu i device physicalGPUName uuid memTotal smCount =
     \<lparr>v_Name = physicalGPUName, v_ID = ''vgpu-physical-'' @ uuid, DeviceIndex = int i, v_MemoryBytes = memTotal,
      v_MultiProcessorCount = smCount, IsProvisioned = True, v_Mig = None,
      ProvisionedGPU = Some \<lparr>g_UUID = uuid, g_Name = physicalGPUName, g_MemoryBytes = memTotal,
        g_MultiProcessorCount = smCount, ParentDeviceIndex = int i, g_ParentUUID = uuid, ProvisionedDevice = device,
        mpsServer = \<lparr>m_UUID = uuid, m_Name = physicalGPUName, isEnabled = False\<rparr>\<rparr>,
      Physical = True, PhysicalGPUType = physicalGPUName, v_SMPercentage = 100\<rparr>"

text \<open>
  The offer for an existing MIG device, with the key it is recorded under. The flag of the MPS server is
  taken over from the entry recorded before, which must have a provisioned GPU.
\<close>

definition mig_vgpu ::
  "'h platform \<Rightarrow> nat \<Rightarrow> dev \<Rightarrow> string \<Rightarrow> string \<Rightarrow> int \<Rightarrow> 'h rm \<Rightarrow> nat \<Rightarrow> (string \<times> VirtualGPU) option go" where
  "mig_vgpu pf i device physicalGPUName uuid smCount st j =
     (let nv = pf_nvml pf; h = hw st
      in or_continue (nv_GetMigDeviceHandleByIndex nv h device j) (\<lambda>migDevice.
         or_continue (nv_GetName nv h migDevice) (\<lambda>migDeviceName.
         or_continue (nv_GetUUID nv h migDevice) (\<lambda>migDeviceUUID.
         or_continue (nv_GetMemoryInfo nv h migDevice) (\<lambda>memTotal.
         or_continue (nv_GetAttributes nv h migDevice) (\<lambda>mp.
         or_continue (nv_GetComputeInstanceId nv h migDevice) (\<lambda>computeInstanceID.
         or_continue (nv_GetGpuInstanceId nv h migDevice) (\<lambda>gpuInstanceID.
         or_continue (nv_GetGpuInstanceById nv h device gpuInstanceID) (\<lambda>gpuInstance.
         or_continue (nv_gi_GetInfo nv h gpuInstance) (\<lambda>info.
           (case GetPossiblGPUInstanceeProfiles (pf_counts pf) nv h device of
              Inl e \<Rightarrow> Ret None
            | Inr profiles \<Rightarrow>
                (case find_first (\<lambda>p. prof_Id p = gi_ProfileId info) profiles of
                   None \<Rightarrow> Ret None
                 | Some profile \<Rightarrow>
                     or_continue (nv_GetComputeInstanceById nv h gpuInstance computeInstanceID) (\<lambda>computeInstance.
                       bind_go (case provisionedGPUs st migDeviceUUID of
                                  None \<Rightarrow> Ret False
                                | Some old \<Rightarrow> bind_go (deref (ProvisionedGPU (heap st old))) (\<lambda>g.
                                    Ret (isEnabled (mpsServer g)))) (\<lambda>enabled.
                         Ret (Some (migDeviceUUID,
                           \<lparr>v_Name = migDeviceName, v_ID = ''vgpu-mig-'' @ migDeviceUUID, DeviceIndex = int i,
                            v_MemoryBytes = memTotal, v_MultiProcessorCount = mp, IsProvisioned = True,
                            v_Mig = Some \<lparr>GPUInstance = Some gpuInstance, ComputeInstance = Some computeInstance,
                              mig_profile = profile\<rparr>,
                            ProvisionedGPU = Some \<lparr>g_UUID = migDeviceUUID, g_Name = migDeviceName,
                              g_MemoryBytes = memTotal, g_MultiProcessorCount = mp, ParentDeviceIndex = int i,
                              g_ParentUUID = uuid, ProvisionedDevice = migDevice,
                              mpsServer = \<lparr>m_UUID = migDeviceUUID, m_Name = migDeviceName, isEnabled = enabled\<rparr>\<rparr>,
                            Physical = False, PhysicalGPUType = physicalGPUName,
                            v_SMPercentage = sm_percentage mp smCount\<rparr>))))))))))))))))"

text \<open>Recording a provisioned GPU, and offering it.\<close>

definition record_vgpu :: "string \<Rightarrow> VirtualGPU \<Rightarrow> 'h rm \<Rightarrow> addr \<times> 'h rm" where
  "record_vgpu key v st = (case alloc v st of (a, st1) \<Rightarrow>
     (a, st1\<lparr>provisionedGPUs := (provisionedGPUs st1)(key \<mapsto> a)\<rparr>))"

fun mig_loop ::
  "'h platform \<Rightarrow> nat \<Rightarrow> dev \<Rightarrow> string \<Rightarrow> string \<Rightarrow> int \<Rightarrow> nat list \<Rightarrow> addr list \<Rightarrow> 'h rm \<Rightarrow> (addr list \<times> 'h rm) go" where
  "mig_loop pf i device nm uuid smCount [] gpus st = Ret (gpus, st)"
| "mig_loop pf i device nm uuid smCount (j # js) gpus st =
     bind_go (mig_vgpu pf i device nm uuid smCount st j) (\<lambda>r.
       case r of
         None \<Rightarrow> mig_loop pf i device nm uuid smCount js gpus st
       | Some (key, v) \<Rightarrow> (case record_vgpu key v st of (a, st1) \<Rightarrow>
           mig_loop pf i device nm uuid smCount js (gpus @ [a]) st1))"

text \<open>The offers for what could still be created with a profile, and for all profiles.\<close>

definition profile_vgpu :: "nat \<Rightarrow> string \<Rightarrow> int \<Rightarrow> gi_profile \<Rightarrow> nat \<Rightarrow> VirtualGPU" where
  "profile_vgpu i physicalGPUName smCount profile j =
     \<lparr>v_Name = physicalGPUName @ ''-mig-profile-'' @ Itoa (prof_Id profile),
      v_ID = ''vgpu-'' @ Itoa (int i) @ ''-profile'' @ Itoa (prof_Id profile) @ ''-'' @ Itoa (int j),
      DeviceIndex = int i, v_MemoryBytes = prof_MemorySizeMB profile * 1024 * 1024 mod 2 ^ 64,
      v_MultiProcessorCount = prof_MP profile, IsProvisioned = False,
      v_Mig = Some \<lparr>GPUInstance = None, ComputeInstance = None, mig_profile = profile\<rparr>, ProvisionedGPU = None,
      Physical = False, PhysicalGPUType = physicalGPUName,
      v_SMPercentage = sm_percentage (prof_MP profile) smCount\<rparr>"

fun offer_all :: "VirtualGPU list \<Rightarrow> addr list \<Rightarrow> 'h rm \<Rightarrow> addr list \<times> 'h rm" where
  "offer_all [] gpus st = (gpus, st)"
| "offer_all (v # vs) gpus st = (case alloc v st of (a, st1) \<Rightarrow> offer_all vs (gpus @ [a]) st1)"

fun profile_loop ::
  "'h platform \<Rightarrow> nat \<Rightarrow> dev \<Rightarrow> string \<Rightarrow> int \<Rightarrow> gi_profile list \<Rightarrow> addr list \<Rightarrow> 'h rm \<Rightarrow> addr list \<times> 'h rm" where
  "profile_loop pf i device nm smCount [] gpus st = (gpus, st)"
| "profile_loop pf i device nm smCount (p # ps) gpus st =
     (case nv_GetGpuInstanceRemainingCapacity (pf_nvml pf) (hw st) device p of
        Success n \<Rightarrow> (case offer_all (map (profile_vgpu i nm smCount p) [0..<n]) gpus st of (gpus1, st1) \<Rightarrow>
                       profile_loop pf i device nm smCount ps gpus1 st1)
      | _ \<Rightarrow> profile_loop pf i device nm smCount ps gpus st)"

text \<open>
  The body of the loop over the physical GPUs, for the GPU with index \<open>i\<close>. The MIG mode is read before the
  return code of that call is looked at.
\<close>

definition discover_gpu :: "'h platform \<Rightarrow> nat \<Rightarrow> dev \<Rightarrow> addr list \<Rightarrow> 'h rm \<Rightarrow> (addr list \<times> 'h rm) go" where
  "discover_gpu pf i device gpus st =
     (let nv = pf_nvml pf; h = hw st
      in case (nv_GetName nv h device, nv_GetUUID nv h device, nv_GetMemoryInfo nv h device) of
           (Success nm, Success uuid, Success memTotal) \<Rightarrow>
             (case nv_GetMigMode nv h device of (migEnabled, ret) \<Rightarrow>
                (case (GetSMCount nm, migEnabled) of
                   (Inl e, True) \<Rightarrow> Ret (gpus, st)
                 | (sm, _) \<Rightarrow>
                     let smCount = (case sm of Inl e \<Rightarrow> 0 | Inr n \<Rightarrow> n)
                     in if ret = NotSupported \<or> ret = Success () \<and> \<not> migEnabled
                        then (case record_vgpu uuid (physical_vgpu i device nm uuid memTotal smCount) st of (a, st1) \<Rightarrow>
                                Ret (gpus @ [a], st1))
                        else if ret \<noteq> Success () then Ret (gpus, st)
                        else (case nv_GetMaxMigDeviceCount nv h device of
                                Success migCount \<Rightarrow>
                                  bind_go (mig_loop pf i device nm uuid smCount [0..<migCount] gpus st) (\<lambda>(gpus1, st1).
                                    case GetPossiblGPUInstanceeProfiles (pf_counts pf) nv (hw st1) device of
                                      Inl e \<Rightarrow> Ret (gpus1, st1)
                                    | Inr profiles \<Rightarrow> Ret (profile_loop pf i device nm smCount profiles gpus1 st1))
                              | _ \<Rightarrow> Ret (gpus, st))))
         | _ \<Rightarrow> Ret (gpus, st))"

fun discover_all :: "'h platform \<Rightarrow> nat \<Rightarrow> dev list \<Rightarrow> addr list \<Rightarrow> 'h rm \<Rightarrow> (addr list \<times> 'h rm) go" where
  "discover_all pf i [] gpus st = Ret (gpus, st)"
| "discover_all pf i (d # ds) gpus st =
     bind_go (discover_gpu pf i d gpus st) (\<lambda>(gpus1, st1). discover_all pf (Suc i) ds gpus1 st1)"

definition getAvailableVirtualResources :: "'h platform \<Rightarrow> 'h rm \<Rightarrow> (addr list \<times> 'h rm) go" where
  "getAvailableVirtualResources pf st = discover_all pf 0 (PhysicalGPUs st) [] st"

definition getAndSetAvailableVirtualResources :: "'h platform \<Rightarrow> 'h rm \<Rightarrow> (addr list \<times> 'h rm) go" where
  "getAndSetAvailableVirtualResources pf st =
     bind_go (getAvailableVirtualResources pf st) (\<lambda>(gpus, st1). Ret (gpus, st1\<lparr>VirtualGPUs := gpus\<rparr>))"

fun device_handles :: "'h nvml \<Rightarrow> 'h \<Rightarrow> nat list \<Rightarrow> dev list \<Rightarrow> string + dev list" where
  "device_handles nv h [] ds = Inr ds"
| "device_handles nv h (i # is) ds =
     (case nv_DeviceGetHandleByIndex nv h (int i) of
        Success d \<Rightarrow> device_handles nv h is (ds @ [d])
      | _ \<Rightarrow> Inl (''failed to get device handle for GPU '' @ Itoa (int i)))"

text \<open>The heap of a new manager is empty: no address below \<open>fresh\<close> is in use. The first argument is whether
  initialising the library succeeds.\<close>

definition NewResourceManager :: "bool \<Rightarrow> 'h platform \<Rightarrow> VirtualGPU \<Rightarrow> 'h \<Rightarrow> (string + 'h rm) go" where
  "NewResourceManager nvmlInit pf unused h =
     (if \<not> nvmlInit then Ret (Inl ''failed to initialize NVML'')
      else case nv_DeviceGetCount (pf_nvml pf) h of
             Success n \<Rightarrow>
               (case device_handles (pf_nvml pf) h [0..<n] [] of
                  Inl e \<Rightarrow> Ret (Inl e)
                | Inr ds \<Rightarrow>
                    bind_go (getAvailableVirtualResources pf \<lparr>hw = h, PhysicalGPUs = ds, VirtualGPUs = [],
                        provisionedGPUs = Map.empty, heap = (\<lambda>a. unused), fresh = 0\<rparr>) (\<lambda>(gpus, st).
                      Ret (Inr (st\<lparr>VirtualGPUs := gpus\<rparr>))))
           | _ \<Rightarrow> Ret (Inl ''failed to get device count''))"

section \<open>Lookups\<close>

definition GetVirtualGPU :: "string \<Rightarrow> 'h rm \<Rightarrow> string + addr" where
  "GetVirtualGPU deviceUUID st = (case provisionedGPUs st deviceUUID of
     Some a \<Rightarrow> Inr a
   | None \<Rightarrow> Inl (''virtual GPU with uuid '' @ deviceUUID @ '' not found''))"

definition FindVirtualGPU :: "int \<Rightarrow> 'h rm \<Rightarrow> string + addr" where
  "FindVirtualGPU profileID st =
     (case find_first (\<lambda>a. \<not> IsProvisioned (heap st a)
              \<and> (case v_Mig (heap st a) of None \<Rightarrow> False | Some m \<Rightarrow> prof_Id (mig_profile m) = profileID)) (VirtualGPUs st) of
        Some a \<Rightarrow> Inr a
      | None \<Rightarrow> Inl (''virtual GPU with profile id '' @ Itoa profileID @ '' not found''))"

definition FindVirtualGPUUsingUUID :: "string \<Rightarrow> 'h rm \<Rightarrow> string + addr" where
  "FindVirtualGPUUsingUUID uuid st = (case provisionedGPUs st uuid of
     Some a \<Rightarrow> Inr a
   | None \<Rightarrow> Inl (''virtual GPU with uuid '' @ uuid @ '' not found''))"

fun find_mig_device :: "'h nvml \<Rightarrow> 'h \<Rightarrow> dev \<Rightarrow> int \<Rightarrow> int \<Rightarrow> nat list \<Rightarrow> dev option" where
  "find_mig_device nv h parent targetGi targetCi [] = None"
| "find_mig_device nv h parent targetGi targetCi (i # is) =
     (case nv_GetMigDeviceHandleByIndex nv h parent i of
        Success migDev \<Rightarrow>
          (case (nv_GetGpuInstanceId nv h migDev, nv_GetComputeInstanceId nv h migDev) of
             (Success gpuId, Success computeId) \<Rightarrow>
               if gpuId mod 2 ^ 32 = targetGi \<and> computeId mod 2 ^ 32 = targetCi then Some migDev
               else find_mig_device nv h parent targetGi targetCi is
           | _ \<Rightarrow> find_mig_device nv h parent targetGi targetCi is)
      | _ \<Rightarrow> find_mig_device nv h parent targetGi targetCi is)"

definition FindMigDeviceUUIDForComputeInstance :: "'h nvml \<Rightarrow> 'h \<Rightarrow> dev \<Rightarrow> int \<Rightarrow> int \<Rightarrow> string + dev" where
  "FindMigDeviceUUIDForComputeInstance nv h parent targetGi targetCi =
     (case nv_GetMaxMigDeviceCount nv h parent of
        Success migCount \<Rightarrow>
          (case find_mig_device nv h parent targetGi targetCi [0..<migCount] of
             Some d \<Rightarrow> Inr d
           | None \<Rightarrow> Inl ''MIG device UUID not found for compute instance'')
      | _ \<Rightarrow> Inl ''failed to get MIG device count'')"

section \<open>Provisioning and releasing\<close>

definition set_hw :: "'h \<Rightarrow> 'h rm \<Rightarrow> 'h rm" where
  "set_hw h st = st\<lparr>hw := h\<rparr>"

definition destroy_gi :: "'h platform \<Rightarrow> gi \<Rightarrow> 'h rm \<Rightarrow> unit nv \<times> 'h rm" where
  "destroy_gi pf g st = (case nv_gi_Destroy (pf_nvml pf) (hw st) g of (r, h) \<Rightarrow> (r, set_hw h st))"

definition destroy_ci :: "'h platform \<Rightarrow> ci \<Rightarrow> 'h rm \<Rightarrow> unit nv \<times> 'h rm" where
  "destroy_ci pf c st = (case nv_ci_Destroy (pf_nvml pf) (hw st) c of (r, h) \<Rightarrow> (r, set_hw h st))"

definition set_mig :: "(MIGProperties \<Rightarrow> MIGProperties) \<Rightarrow> VirtualGPU \<Rightarrow> VirtualGPU" where
  "set_mig f v = v\<lparr>v_Mig := map_option f (v_Mig v)\<rparr>"

text \<open>
  The failures after the compute instance exists: both instances are destroyed, the GPU instance first, and
  the errors of that are not looked at. The object itself stays marked as provisioned.
\<close>

definition abandon :: "'h platform \<Rightarrow> gi \<Rightarrow> ci \<Rightarrow> 'h rm \<Rightarrow> 'h rm" where
  "abandon pf g c st = snd (destroy_ci pf c (snd (destroy_gi pf g st)))"

definition or_abandon ::
  "'a nv \<Rightarrow> string \<Rightarrow> 'h platform \<Rightarrow> gi \<Rightarrow> ci \<Rightarrow> 'h rm \<Rightarrow> ('a \<Rightarrow> string option \<times> 'h rm) \<Rightarrow> string option \<times> 'h rm" where
  "or_abandon r msg pf g c st f = (case r of Success x \<Rightarrow> f x | _ \<Rightarrow> (Some msg, abandon pf g c st))"

text \<open>The last part of \<open>Access\<close>: finding the MIG device of the new compute instance and recording it.\<close>

definition access_device :: "'h platform \<Rightarrow> addr \<Rightarrow> dev \<Rightarrow> gi \<Rightarrow> gi_info \<Rightarrow> ci \<Rightarrow> 'h rm \<Rightarrow> string option \<times> 'h rm" where
  "access_device pf a device gpuInstance giInfo computeInstance st =
     (let nv = pf_nvml pf; h = hw st; v = heap st a
      in or_abandon (nv_ci_GetInfo nv h computeInstance) ''failed to get compute instance info'' pf gpuInstance computeInstance st (\<lambda>ciInfo.
         or_abandon (nv_GetIndex nv h (ci_Device ciInfo)) ''failed to get compute instance index'' pf gpuInstance computeInstance st (\<lambda>_.
           (case FindMigDeviceUUIDForComputeInstance nv h device (gi_Id giInfo) (ci_Id ciInfo) of
              Inl e \<Rightarrow> (Some (''failed to get compute instance mig device handle: '' @ e),
                        abandon pf gpuInstance computeInstance st)
            | Inr migdev \<Rightarrow>
                or_abandon (nv_GetName nv h migdev) ''failed to get mig device name'' pf gpuInstance computeInstance st (\<lambda>migdevName.
                or_abandon (nv_GetUUID nv h migdev) ''failed to get mig device uuid'' pf gpuInstance computeInstance st (\<lambda>migdevUUID.
                or_abandon (nv_GetUUID nv h device) ''failed to get parent device uuid'' pf gpuInstance computeInstance st (\<lambda>parentUUID.
                or_abandon (nv_GetMemoryInfo nv h (ci_Device ciInfo)) ''failed to get compute instance memory info'' pf gpuInstance computeInstance st (\<lambda>memTotal.
                  let g = \<lparr>g_UUID = migdevUUID, g_Name = migdevName, g_MemoryBytes = memTotal,
                        g_MultiProcessorCount = v_MultiProcessorCount v, ParentDeviceIndex = DeviceIndex v,
                        g_ParentUUID = parentUUID, ProvisionedDevice = ci_Device ciInfo,
                        mpsServer = \<lparr>m_UUID = migdevUUID, m_Name = migdevName, isEnabled = False\<rparr>\<rparr>;
                      st1 = upd a (\<lambda>v. v\<lparr>ProvisionedGPU := Some g\<rparr>) st
                  in (None, st1\<lparr>provisionedGPUs := (provisionedGPUs st1)(migdevUUID \<mapsto> a)\<rparr>)))))))))"

definition Access :: "'h platform \<Rightarrow> addr \<Rightarrow> 'h rm \<Rightarrow> (string option \<times> 'h rm) go" where
  "Access pf a st =
     (let nv = pf_nvml pf; v = heap st a
      in if IsProvisioned v then Ret (None, st)
         else case nv_DeviceGetHandleByIndex nv (hw st) (DeviceIndex v) of
                Success device \<Rightarrow>
                  bind_go (deref (v_Mig v)) (\<lambda>mig.
                    case nv_CreateGpuInstance nv (hw st) device (mig_profile mig) of
                      (Success gpuInstance, h1) \<Rightarrow>
                        let st1 = set_hw h1 st
                        in (case nv_gi_GetInfo nv h1 gpuInstance of
                              Success giInfo \<Rightarrow>
                                let st2 = upd a (set_mig (\<lambda>m. m\<lparr>GPUInstance := Some gpuInstance\<rparr>)) st1
                                in (case GetFullUsageComputeInstanceProfile (pf_counts pf) nv h1 gpuInstance of
                                      Inl e \<Rightarrow>
                                        (case destroy_gi pf gpuInstance st2 of
                                           (Success _, st3) \<Rightarrow> Ret (Some (''failed to get compute instance profiles: '' @ e), st3)
                                         | (_, st3) \<Rightarrow> Ret (Some (''failed to destroy GPU instance: on failure to get compute instance profiles: '' @ e), st3))
                                    | Inr ciProfile \<Rightarrow>
                                        (case nv_CreateComputeInstance nv h1 gpuInstance ciProfile of
                                           (Success computeInstance, h2) \<Rightarrow>
                                             Ret (access_device pf a device gpuInstance giInfo computeInstance
                                               (upd a (\<lambda>v. set_mig (\<lambda>m. m\<lparr>ComputeInstance := Some computeInstance\<rparr>) v\<lparr>IsProvisioned := True\<rparr>)
                                                 (set_hw h2 st2)))
                                         | (_, h2) \<Rightarrow>
                                             Ret (Some ''failed to create compute instance'', snd (destroy_gi pf gpuInstance (set_hw h2 st2)))))
                            | _ \<Rightarrow> Ret (Some ''failed to get gpu instance info'', snd (destroy_gi pf gpuInstance st1)))
                    | (_, h1) \<Rightarrow> Ret (Some ''failed to create GPU instance'', set_hw h1 st))
              | _ \<Rightarrow> Ret (Some (''failed to get device handle for GPU '' @ Itoa (DeviceIndex v)), st))"

text \<open>The two halves of \<open>Release\<close> that destroy an instance, if there is one.\<close>

definition release_ci :: "'h platform \<Rightarrow> addr \<Rightarrow> MIGProperties \<Rightarrow> 'h rm \<Rightarrow> string option \<times> 'h rm" where
  "release_ci pf a mig st = (case ComputeInstance mig of
     None \<Rightarrow> (None, st)
   | Some c \<Rightarrow> (case destroy_ci pf c st of
       (Success _, st1) \<Rightarrow> (None, upd a (set_mig (\<lambda>m. m\<lparr>ComputeInstance := None\<rparr>)) st1)
     | (_, st1) \<Rightarrow> (Some ''failed to destroy compute instance'', st1)))"

definition release_gi :: "'h platform \<Rightarrow> addr \<Rightarrow> MIGProperties \<Rightarrow> 'h rm \<Rightarrow> string option \<times> 'h rm" where
  "release_gi pf a mig st = (case GPUInstance mig of
     None \<Rightarrow> (None, st)
   | Some g \<Rightarrow> (case destroy_gi pf g st of
       (Success _, st1) \<Rightarrow> (None, upd a (set_mig (\<lambda>m. m\<lparr>GPUInstance := None\<rparr>)) st1)
     | (_, st1) \<Rightarrow> (Some ''failed to destroy GPU instance'', st1)))"

definition set_server :: "MPSServer \<Rightarrow> VirtualGPU \<Rightarrow> VirtualGPU" where
  "set_server m v = v\<lparr>ProvisionedGPU := map_option (\<lambda>g. g\<lparr>mpsServer := m\<rparr>) (ProvisionedGPU v)\<rparr>"

definition stop_server :: "'h platform \<Rightarrow> addr \<Rightarrow> GPU \<Rightarrow> 'h rm \<Rightarrow> string option \<times> 'h rm" where
  "stop_server pf a g st = (case StopMPSDaemon (pf_os pf) (mpsServer g) (hw st) of
     ((err, m), h) \<Rightarrow> (err, upd a (set_server m) (set_hw h st)))"

definition Release :: "'h platform \<Rightarrow> addr \<Rightarrow> 'h rm \<Rightarrow> (string option \<times> 'h rm) go" where
  "Release pf a st =
     (let v = heap st a
      in if \<not> IsProvisioned v \<or> Physical v then Ret (None, st)
         else case ProvisionedGPU v of
                None \<Rightarrow> Ret (None, st)
              | Some g \<Rightarrow>
                  let st1 = snd (stop_server pf a g st)
                  in bind_go (deref (v_Mig v)) (\<lambda>mig.
                       case release_ci pf a mig st1 of
                         (Some e, st2) \<Rightarrow> Ret (Some e, st2)
                       | (None, st2) \<Rightarrow>
                           (case release_gi pf a mig st2 of
                              (Some e, st3) \<Rightarrow> Ret (Some e, st3)
                            | (None, st3) \<Rightarrow>
                                Ret (None, upd a (\<lambda>v. v\<lparr>IsProvisioned := False, ProvisionedGPU := None\<rparr>)
                                  (st3\<lparr>provisionedGPUs := (provisionedGPUs st3)(g_UUID g := None)\<rparr>)))))"

text \<open>
  \<open>CleanUp\<close> ranges over the table twice. Go visits the keys in some order, here the argument; an entry that
  was deleted meanwhile is not visited.
\<close>

fun stop_all :: "'h platform \<Rightarrow> string list \<Rightarrow> 'h rm \<Rightarrow> 'h rm" where
  "stop_all pf [] st = st"
| "stop_all pf (k # ks) st =
     stop_all pf ks
       (case provisionedGPUs st k of
          None \<Rightarrow> st
        | Some a \<Rightarrow> (case ProvisionedGPU (heap st a) of
            None \<Rightarrow> st
          | Some g \<Rightarrow> if isEnabled (mpsServer g) then snd (stop_server pf a g st) else st))"

fun release_all :: "'h platform \<Rightarrow> string list \<Rightarrow> 'h rm \<Rightarrow> 'h rm go" where
  "release_all pf [] st = Ret st"
| "release_all pf (k # ks) st =
     (case provisionedGPUs st k of
        None \<Rightarrow> release_all pf ks st
      | Some a \<Rightarrow>
          if IsProvisioned (heap st a)
          then bind_go (Release pf a st) (\<lambda>(_, st1). release_all pf ks st1)
          else release_all pf ks st)"

definition CleanUp :: "'h platform \<Rightarrow> string list \<Rightarrow> string list \<Rightarrow> 'h rm \<Rightarrow> 'h rm go" where
  "CleanUp pf order1 order2 st = release_all pf order2 (stop_all pf order1 st)"

end
