(* ===== verification/Configurator.thy ===== *)
theory Configurator
  imports Virtual_Gpu Seti
begin

text \<open>
  The gRPC service of a node's configurator (\<open>server_methods.go\<close>, \<open>server.go\<close>), the files it writes for the
  scheduler on the node (\<open>fastpod_config.go\<close>), and the settings of its main program.

  A method takes the platform, its request and the state of the resource manager, and returns the response,
  or an error, with the new state.
\<close>

section \<open>Messages\<close>

definition mapToSetiGPU :: "GPU \<Rightarrow> SetiGPU" where
  "mapToSetiGPU g =
     \<lparr>sg_uuid = g_UUID g, sg_name = g_Name g, sg_memory = g_MemoryBytes g,
      sg_mp = to_signed 32 (g_MultiProcessorCount g), sg_parentIndex = to_signed 32 (ParentDeviceIndex g),
      sg_parentUuid = g_ParentUUID g, sg_mpsEnabled = isEnabled (mpsServer g),
      sg_mpsConfig = Some \<lparr>mc_device = g_UUID g, mc_log = GetLogDir (mpsServer g), mc_tmp = GetPipeDir (mpsServer g)\<rparr>\<rparr>"

text \<open>The field \<open>IsPhysical\<close> of the message is not set, so that it is false.\<close>

definition mapToSetiVirtualGPU :: "VirtualGPU \<Rightarrow> SetiVirtualGPU" where
  "mapToSetiVirtualGPU v =
     \<lparr>sv_profile = map_option (\<lambda>m. prof_Id (mig_profile m)) (v_Mig v), sv_id = v_ID v,
      sv_deviceIndex = to_signed 32 (DeviceIndex v), sv_memory = v_MemoryBytes v,
      sv_mp = to_signed 32 (v_MultiProcessorCount v), sv_isProvisioned = IsProvisioned v, sv_isPhysical = False,
      sv_type = PhysicalGPUType v, sv_smPercentage = to_signed 32 (v_SMPercentage v),
      sv_gpu = map_option mapToSetiGPU (ProvisionedGPU v)\<rparr>"

record RequestVirtualGPURequest =
  rq_Profileid :: "int option"
  rq_DeviceUuid :: "string option"
  rq_UseMps :: bool

record RequestVirtualGPUResponse =
  rr_id :: string
  rr_deviceIndex :: int
  rr_memory :: int
  rr_mp :: int
  rr_gpu :: "SetiGPU option"
  rr_available :: "SetiVirtualGPU list"

text \<open>\<open>getAndSetAvailableVirtualResources\<close>, with the offers as messages.\<close>

definition list_gpus :: "'h platform \<Rightarrow> 'h rm \<Rightarrow> (SetiVirtualGPU list \<times> 'h rm) go" where
  "list_gpus pf st = bind_go (getAndSetAvailableVirtualResources pf st) (\<lambda>(gpus, st1).
     Ret (map (\<lambda>a. mapToSetiVirtualGPU (heap st1 a)) gpus, st1))"

section \<open>Offering, requesting and releasing\<close>

definition GetAvailableGPUs :: "'h platform \<Rightarrow> 'h rm \<Rightarrow> (SetiVirtualGPU list \<times> 'h rm) go" where
  "GetAvailableGPUs pf st = list_gpus pf st"

definition GetHealth :: "'h rm \<Rightarrow> bool \<times> 'h rm" where
  "GetHealth st = (True, st)"

text \<open>The GPU a request is for: the first free offer of a profile, or a provisioned GPU.\<close>

definition requested_gpu :: "RequestVirtualGPURequest \<Rightarrow> 'h rm \<Rightarrow> string + addr" where
  "requested_gpu rq st = (case rq_Profileid rq of
     Some p \<Rightarrow> map_sum (\<lambda>e. ''failed to find suitable virtual GPU: '' @ e) id (FindVirtualGPU p st)
   | None \<Rightarrow> (case rq_DeviceUuid rq of
       Some u \<Rightarrow> map_sum (\<lambda>e. ''failed to find suitable virtual GPU: '' @ e) id (GetVirtualGPU u st)
     | None \<Rightarrow> Inl ''no profile ID or device UUID provided''))"

text \<open>
  Starting the MPS daemon for a request works on a copy of the server: only the outside changes. A failure is
  logged.
\<close>

definition request_mps_server :: "'h platform \<Rightarrow> addr \<Rightarrow> 'h rm \<Rightarrow> 'h rm" where
  "request_mps_server pf a st = (case ProvisionedGPU (heap st a) of
     None \<Rightarrow> st
   | Some g \<Rightarrow> set_hw (snd (SetupMPSEnvironment (pf_os pf) (mpsServer g) (hw st))) st)"

definition request_response :: "VirtualGPU \<Rightarrow> SetiVirtualGPU list \<Rightarrow> RequestVirtualGPUResponse" where
  "request_response v available =
     \<lparr>rr_id = v_ID v, rr_deviceIndex = to_signed 32 (DeviceIndex v), rr_memory = v_MemoryBytes v,
      rr_mp = to_signed 32 (v_MultiProcessorCount v), rr_gpu = map_option mapToSetiGPU (ProvisionedGPU v),
      rr_available = available\<rparr>"

definition RequestVirtualGPU ::
  "'h platform \<Rightarrow> RequestVirtualGPURequest \<Rightarrow> 'h rm \<Rightarrow> ((string + RequestVirtualGPUResponse) \<times> 'h rm) go" where
  "RequestVirtualGPU pf rq st =
     (case requested_gpu rq st of
        Inl e \<Rightarrow> Ret (Inl e, st)
      | Inr a \<Rightarrow>
          bind_go (if rq_Profileid rq \<noteq> None \<and> \<not> IsProvisioned (heap st a) \<and> v_Mig (heap st a) \<noteq> None
                   then Access pf a st else Ret (None, st)) (\<lambda>(err, st1).
            case err of
              Some e \<Rightarrow> Ret (Inl (''failed to provision virtual GPU: '' @ e), st1)
            | None \<Rightarrow>
                let st2 = (if rq_UseMps rq then request_mps_server pf a st1 else st1); v = heap st2 a
                in bind_go (list_gpus pf st2) (\<lambda>(available, st3). Ret (Inr (request_response v available), st3))))"

definition ReleaseVirtualGPU :: "'h platform \<Rightarrow> string \<Rightarrow> 'h rm \<Rightarrow> (ReleaseVirtualGPUResponse \<times> 'h rm) go" where
  "ReleaseVirtualGPU pf uuid st =
     (case FindVirtualGPUUsingUUID uuid st of
        Inl e \<Rightarrow> Ret (\<lparr>rv_success = False, rv_message = ''Failed to find virtual GPU: '' @ e, rv_available = []\<rparr>, st)
      | Inr a \<Rightarrow>
          bind_go (Release pf a st) (\<lambda>(err, st1).
            case err of
              Some e \<Rightarrow> Ret (\<lparr>rv_success = False, rv_message = ''Failed to release virtual GPU: '' @ e, rv_available = []\<rparr>, st1)
            | None \<Rightarrow>
                bind_go (list_gpus pf st1) (\<lambda>(available, st2).
                  Ret (\<lparr>rv_success = True, rv_message = ''Successfully released virtual GPU '' @ uuid,
                        rv_available = available\<rparr>, st2))))"

definition GetGPU :: "string \<Rightarrow> 'h rm \<Rightarrow> string + GetGPUResponse" where
  "GetGPU uuid st = (case GetVirtualGPU uuid st of
     Inl e \<Rightarrow> Inl (''failed to get GPU: '' @ e)
   | Inr a \<Rightarrow> Inr \<lparr>gg_gpu = Some (mapToSetiVirtualGPU (heap st a))\<rparr>)"

section \<open>MPS\<close>

text \<open>The response comes with an error, so that the caller sees only the error.\<close>

definition EnableMPS :: "'h platform \<Rightarrow> string \<Rightarrow> 'h rm \<Rightarrow> ((EnableMPSResponse \<times> string option) \<times> 'h rm) go" where
  "EnableMPS pf uuid st =
     (case provisionedGPUs st uuid of
        None \<Rightarrow> Ret ((\<lparr>em_success = False, em_message = ''Device with UUID '' @ uuid @ '' not found'', em_config = None\<rparr>,
                     Some (''device with UUID '' @ uuid @ '' not found'')), st)
      | Some a \<Rightarrow>
          bind_go (deref (ProvisionedGPU (heap st a))) (\<lambda>g.
            let started = \<lambda>m st'. Ret ((\<lparr>em_success = True, em_message = ''Successfully enabled MPS for device '' @ uuid,
                    em_config = Some \<lparr>mc_device = uuid, mc_log = GetLogDir m, mc_tmp = GetPipeDir m\<rparr>\<rparr>, None), st')
            in if isEnabled (mpsServer g) then started (mpsServer g) st
               else (case SetupMPSEnvironment (pf_os pf) (mpsServer g) (hw st) of
                       ((Some e, m), h) \<Rightarrow>
                         Ret ((\<lparr>em_success = False, em_message = ''Failed to start MPS daemon: '' @ e, em_config = None\<rparr>, Some e),
                              upd a (set_server m) (set_hw h st))
                     | ((None, m), h) \<Rightarrow> started m (upd a (set_server (m\<lparr>isEnabled := True\<rparr>)) (set_hw h st)))))"

definition DisableMPS :: "'h platform \<Rightarrow> string \<Rightarrow> 'h rm \<Rightarrow> (DisableMPSResponse \<times> 'h rm) go" where
  "DisableMPS pf uuid st =
     (case provisionedGPUs st uuid of
        None \<Rightarrow> Ret (\<lparr>dm_success = False, dm_message = ''Device with UUID '' @ uuid @ '' not found''\<rparr>, st)
      | Some a \<Rightarrow>
          bind_go (deref (ProvisionedGPU (heap st a))) (\<lambda>g.
            let stopped = \<lparr>dm_success = True, dm_message = ''Successfully disabled MPS for device '' @ uuid\<rparr>
            in if \<not> isEnabled (mpsServer g) then Ret (stopped, st)
               else (case StopMPSDaemon (pf_os pf) (mpsServer g) (hw st) of
                       ((Some e, m), h) \<Rightarrow>
                         Ret (\<lparr>dm_success = False, dm_message = ''Failed to stop MPS daemon: '' @ e\<rparr>,
                              upd a (set_server m) (set_hw h st))
                     | ((None, m), h) \<Rightarrow> Ret (stopped, upd a (set_server (m\<lparr>isEnabled := False\<rparr>)) (set_hw h st)))))"

end
