(* ===== verification/Config_Files.thy ===== *)
theory Config_Files
  imports Configurator
begin

text \<open>
  The files a configurator writes for the scheduler on its node (\<open>fastpod_config.go\<close>, \<open>UpdateMPSConfigs\<close> of
  \<open>server_methods.go\<close> and the message types of \<open>types.go\<close>), and reading them back.
\<close>

section \<open>Formatting\<close>

text \<open>\<open>%f\<close>: six decimals, rounded to even on the exact value.\<close>

definition pad :: "nat \<Rightarrow> string \<Rightarrow> string" where
  "pad n s = replicate (n - length s) (CHR ''0'') @ s"

definition format_f :: "float64 \<Rightarrow> string" where
  "format_f x = (case x of
     NaN \<Rightarrow> ''NaN'' | PInf \<Rightarrow> ''+Inf'' | NInf \<Rightarrow> ''-Inf''
   | Fin q \<Rightarrow> let n = nat (rhe (\<bar>q\<bar> * 1000000))
             in (if q < 0 then ''-'' else []) @ digits (n div 1000000) @ ''.'' @ pad 6 (digits (n mod 1000000)))"

text \<open>\<open>filepath.Join\<close> of a rooted directory and a name: empty parts and dots are dropped, and two dots take the
  part before them away.\<close>

fun clean_parts :: "string list \<Rightarrow> string list \<Rightarrow> string list" where
  "clean_parts acc [] = rev acc"
| "clean_parts acc (p # ps) =
     (if p = [] \<or> p = ''.'' then clean_parts acc ps
      else if p = ''..'' then clean_parts (tl acc) ps
      else clean_parts (p # acc) ps)"

definition path_join :: "string \<Rightarrow> string \<Rightarrow> string" where
  "path_join dir name =
     (let ps = clean_parts [] (split_at (CHR ''/'') (dir @ ''/'' @ name))
      in if ps = [] then ''/'' else concat (map (\<lambda>p. CHR ''/'' # p) ps))"

section \<open>The messages and the files\<close>

record PodGPURequest =
  pr_Key :: string
  pr_QtRequest :: float64
  pr_QtLimit :: float64
  pr_SMPartition :: int
  pr_Memory :: int
  pr_GPUClientPort :: int

record UpdatePodsGPUConfigMessage =
  GpuUUID :: string
  PodGPURequests :: "PodGPURequest list"

definition GPUClientsIPFile :: string where
  "GPUClientsIPFile = ''/fastpod/library/GPUClientsIP.txt''"
definition FastSchedulerConfigDir :: string where
  "FastSchedulerConfigDir = ''/fastpod/scheduler/config''"
definition GPUClientsPortConfigDir :: string where
  "GPUClientsPortConfigDir = ''/fastpod/scheduler/gpu_clients''"
definition GPUClientsIPEnv :: string where
  "GPUClientsIPEnv = ''FaSTPod_GPUClientsIP''"

abbreviation newline :: char where
  "newline \<equiv> CHR 0x0A"

definition podGPUSchedulerConfigFromat :: "PodGPURequest \<Rightarrow> string" where
  "podGPUSchedulerConfigFromat r = pr_Key r @ '' '' @ format_f (pr_QtRequest r) @ '' '' @ format_f (pr_QtLimit r)
     @ '' '' @ Itoa (pr_SMPartition r) @ '' '' @ Itoa (pr_Memory r) @ [newline]"

definition PodGPUClientsPortConfigFormat :: "PodGPURequest \<Rightarrow> string" where
  "PodGPUClientsPortConfigFormat r = pr_Key r @ '' '' @ Itoa (pr_GPUClientPort r) @ [newline]"

text \<open>Writing to a file that could not be created is an error that is ignored, and writes nothing.\<close>

definition write_if :: "'h os \<Rightarrow> bool \<Rightarrow> string \<Rightarrow> string \<Rightarrow> 'h \<Rightarrow> 'h" where
  "write_if os created path s h = (if created then os_WriteString os h path s else h)"

fun write_lines :: "'h os \<Rightarrow> bool \<Rightarrow> string \<Rightarrow> string list \<Rightarrow> 'h \<Rightarrow> 'h" where
  "write_lines os created path [] h = h"
| "write_lines os created path (l # ls) h = write_lines os created path ls (write_if os created path l h)"

definition handleMsg :: "'h os \<Rightarrow> UpdatePodsGPUConfigMessage \<Rightarrow> 'h \<Rightarrow> 'h" where
  "handleMsg os msg h =
     (let confPath = path_join FastSchedulerConfigDir (GpuUUID msg);
          gcPortFilePath = path_join GPUClientsPortConfigDir (GpuUUID msg);
          rs = PodGPURequests msg;
          head = Itoa (int (length rs)) @ [newline];
          (conf, h1) = os_Create os h confPath;
          (ports, h2) = os_Create os h1 gcPortFilePath;
          h3 = write_lines os conf confPath (map podGPUSchedulerConfigFromat rs) (write_if os conf confPath head h2)
      in write_lines os ports gcPortFilePath (map PodGPUClientsPortConfigFormat rs)
           (write_if os ports gcPortFilePath head h3))"

text \<open>\<open>initFiles\<close>: the error it returns, if any. The first argument is the value of the environment variable.\<close>

definition initFiles :: "string \<Rightarrow> 'h os \<Rightarrow> 'h \<Rightarrow> string option \<times> 'h" where
  "initFiles env os h =
     (case os_Create os h GPUClientsIPFile of
        (False, h1) \<Rightarrow> (Some ''cannot create the GPUClientsIPFile'', h1)
      | (True, h1) \<Rightarrow>
          (case os_MkdirAll os (os_WriteString os h1 GPUClientsIPFile (env @ [newline])) FastSchedulerConfigDir of
             (Some e, h2) \<Rightarrow> (Some e, h2)
           | (None, h2) \<Rightarrow> os_MkdirAll os h2 GPUClientsPortConfigDir))"

section \<open>The service method and the message loop\<close>

definition to_pod_request :: "FastPodGPUConfig \<Rightarrow> PodGPURequest" where
  "to_pod_request c = \<lparr>pr_Key = fc_key c, pr_QtRequest = fc_qt_request c, pr_QtLimit = fc_qt_limit c,
     pr_SMPartition = fc_sm_partition c, pr_Memory = fc_memory c, pr_GPUClientPort = fc_port c\<rparr>"

definition UpdateMPSConfigs :: "'h platform \<Rightarrow> UpdateMPSConfigsRequest \<Rightarrow> 'h rm \<Rightarrow> string option \<times> 'h rm" where
  "UpdateMPSConfigs pf rq st =
     (case provisionedGPUs st (um_device rq) of
        None \<Rightarrow> (Some (''device with UUID '' @ um_device rq @ '' not found''), st)
      | Some _ \<Rightarrow>
          (None, set_hw (handleMsg (pf_os pf) \<lparr>GpuUUID = um_device rq,
             PodGPURequests = map to_pod_request (um_configs rq)\<rparr> (hw st)) st))"

text \<open>
  The loop over the messages of the old protocol: it ends at the first line that is not a message. The
  argument \<open>decode\<close> is \<open>DecodeFromByte\<close>.
\<close>

fun recvMsgAndWriteConfig :: "(string \<Rightarrow> UpdatePodsGPUConfigMessage option) \<Rightarrow> 'h os \<Rightarrow> string list \<Rightarrow> 'h \<Rightarrow> 'h" where
  "recvMsgAndWriteConfig decode os [] h = h"
| "recvMsgAndWriteConfig decode os (l # ls) h =
     (case decode l of None \<Rightarrow> h | Some msg \<Rightarrow> recvMsgAndWriteConfig decode os ls (handleMsg os msg h))"

section \<open>Reading the files back\<close>

text \<open>The content of a file that \<open>handleMsg\<close> creates, and a reader for the file of ports.\<close>

definition port_file :: "PodGPURequest list \<Rightarrow> string" where
  "port_file rs = Itoa (int (length rs)) @ [newline] @ concat (map PodGPUClientsPortConfigFormat rs)"

definition read_port_line :: "string \<Rightarrow> (string \<times> int) option" where
  "read_port_line l = (case split_at (CHR '' '') l of
     [k, p] \<Rightarrow> (case ParseInt p of (n, None) \<Rightarrow> Some (k, n) | _ \<Rightarrow> None)
   | _ \<Rightarrow> None)"

definition read_port_file :: "string \<Rightarrow> (string \<times> int) option list option" where
  "read_port_file s = (case split_at newline s of
     [] \<Rightarrow> None
   | n # ls \<Rightarrow> (case ParseInt n of
       (k, None) \<Rightarrow> if int (length ls) = k + 1 then Some (map read_port_line (butlast ls)) else None
     | _ \<Rightarrow> None))"

end
