(* ===== verification/Service_Invariant.thy ===== *)
theory Service_Invariant
  imports Config_Files
begin

text \<open>
  The invariant of a configurator's resource manager: every entry of the table of provisioned GPUs is a live
  object with a provisioned GPU of that UUID, and with MIG properties unless it is physical. It rules out every
  nil pointer the methods could dereference, so that no sequence of calls makes the service panic.
\<close>

section \<open>Returning with a postcondition\<close>

definition returns :: "('a \<Rightarrow> bool) \<Rightarrow> 'a go \<Rightarrow> bool" where
  "returns P m \<longleftrightarrow> (\<exists>x. m = Ret x \<and> P x)"

lemma returns_Ret [simp]: "returns P (Ret x) = P x"
  by (simp add: returns_def)

lemma returns_bind: "returns Q m \<Longrightarrow> (\<And>x. Q x \<Longrightarrow> returns P (f x)) \<Longrightarrow> returns P (bind_go m f)"
  by (auto simp: returns_def)

lemma returns_mono: "returns Q m \<Longrightarrow> (\<And>x. Q x \<Longrightarrow> P x) \<Longrightarrow> returns P m"
  by (auto simp: returns_def)

section \<open>The invariant\<close>

definition entry_ok :: "string \<Rightarrow> VirtualGPU \<Rightarrow> bool" where
  "entry_ok key v \<longleftrightarrow> IsProvisioned v \<and> (Physical v \<or> v_Mig v \<noteq> None)
     \<and> (\<exists>g. ProvisionedGPU v = Some g \<and> g_UUID g = key \<and> m_UUID (mpsServer g) = key)"

definition rm_ok :: "'h rm \<Rightarrow> bool" where
  "rm_ok st \<longleftrightarrow> (\<forall>k a. provisionedGPUs st k = Some a \<longrightarrow> a < fresh st \<and> entry_ok k (heap st a))
     \<and> (\<forall>a \<in> set (VirtualGPUs st). a < fresh st)"

lemma rm_okD:
  assumes "rm_ok st" "provisionedGPUs st k = Some a"
  shows "a < fresh st" "entry_ok k (heap st a)"
  using assms by (auto simp: rm_ok_def)

lemma entry_okE:
  assumes "entry_ok k v"
  obtains g where "ProvisionedGPU v = Some g" "g_UUID g = k" "m_UUID (mpsServer g) = k" "IsProvisioned v"
    "\<not> Physical v \<Longrightarrow> v_Mig v \<noteq> None"
  using assms by (auto simp: entry_ok_def)

lemma rm_ok_frame [simp]:
  "rm_ok (set_hw h st) = rm_ok st" "rm_ok (st\<lparr>hw := h\<rparr>) = rm_ok st"
  by (simp_all add: rm_ok_def set_hw_def)

lemma set_hw_frame [simp]:
  "provisionedGPUs (set_hw h st) = provisionedGPUs st" "heap (set_hw h st) = heap st" "hw (set_hw h st) = h"
  "fresh (set_hw h st) = fresh st" "VirtualGPUs (set_hw h st) = VirtualGPUs st" "PhysicalGPUs (set_hw h st) = PhysicalGPUs st"
  by (simp_all add: set_hw_def)

lemma upd_frame [simp]:
  "provisionedGPUs (upd a f st) = provisionedGPUs st" "hw (upd a f st) = hw st" "fresh (upd a f st) = fresh st"
  "VirtualGPUs (upd a f st) = VirtualGPUs st" "PhysicalGPUs (upd a f st) = PhysicalGPUs st"
  "heap (upd a f st) a' = (if a' = a then f (heap st a) else heap st a')"
  by (simp_all add: upd_def)

lemma rm_ok_upd:
  assumes "rm_ok st" "\<And>k. provisionedGPUs st k = Some a \<Longrightarrow> entry_ok k (heap st a) \<Longrightarrow> entry_ok k (f (heap st a))"
  shows "rm_ok (upd a f st)"
  using assms by (auto simp: rm_ok_def)

lemma entry_ok_set_mig: "entry_ok k v \<Longrightarrow> entry_ok k (set_mig f v)"
  by (auto simp: entry_ok_def set_mig_def)

lemma rm_ok_alloc: "rm_ok st \<Longrightarrow> alloc v st = (a, st') \<Longrightarrow> rm_ok st' \<and> a < fresh st' \<and> fresh st \<le> fresh st'"
  by (force simp: rm_ok_def alloc_def)

lemma rm_ok_record:
  "rm_ok st \<Longrightarrow> entry_ok k v \<Longrightarrow> record_vgpu k v st = (a, st') \<Longrightarrow> rm_ok st' \<and> a < fresh st' \<and> fresh st \<le> fresh st'"
  by (force simp: rm_ok_def record_vgpu_def alloc_def split: if_splits)

section \<open>Discovery\<close>

text \<open>What a discovery keeps: the invariant, and that the offers collected so far are live.\<close>

definition found_ok :: "addr list \<times> 'h rm \<Rightarrow> bool" where
  "found_ok r = (case r of (gpus, st) \<Rightarrow> rm_ok st \<and> (\<forall>a \<in> set gpus. a < fresh st))"

lemma physical_vgpu_ok: "entry_ok uuid (physical_vgpu i d nm uuid t n)"
  by (simp add: entry_ok_def physical_vgpu_def)

lemma returns_or_continue:
  "(\<And>x. r = Success x \<Longrightarrow> returns P (f x)) \<Longrightarrow> P None \<Longrightarrow> returns P (or_continue r f)"
  by (auto simp: or_continue_def split: nv.splits)

lemma mig_vgpu_ok:
  assumes "rm_ok st"
  shows "returns (\<lambda>r. case r of None \<Rightarrow> True | Some (k, v) \<Rightarrow> entry_ok k v) (mig_vgpu pf i d nm uuid n st j)"
  unfolding mig_vgpu_def Let_def
  apply (intro returns_or_continue; (simp; fail)?)
  apply (split sum.split, intro conjI allI impI; (simp; fail)?)
  apply (split option.split, intro conjI allI impI; (simp; fail)?)
  apply (rule returns_or_continue; (simp; fail)?)
  apply (rule returns_bind[where Q = "\<lambda>_. True"])
   apply (auto simp: entry_ok_def elim!: entry_okE dest!: rm_okD(2)[OF assms] split: option.splits)
  done

lemma mig_loop_ok:
  "found_ok (gpus, st) \<Longrightarrow> returns found_ok (mig_loop pf i d nm uuid n js gpus st)"
proof (induction js arbitrary: gpus st)
  case (Cons j js)
  then have "rm_ok st" by (simp add: found_ok_def)
  from mig_vgpu_ok[OF this] show ?case
    unfolding mig_loop.simps
  proof (rule returns_bind)
    fix r :: "(string \<times> VirtualGPU) option"
    assume r: "case r of None \<Rightarrow> True | Some (k, v) \<Rightarrow> entry_ok k v"
    show "returns found_ok (case r of None \<Rightarrow> mig_loop pf i d nm uuid n js gpus st
       | Some (key, v) \<Rightarrow> (case record_vgpu key v st of (a, st1) \<Rightarrow> mig_loop pf i d nm uuid n js (gpus @ [a]) st1))"
    proof (cases r)
      case None
      then show ?thesis using Cons by simp
    next
      case (Some kv)
      obtain k v where kv: "kv = (k, v)" by (cases kv)
      obtain a st1 where a: "record_vgpu k v st = (a, st1)" by (cases "record_vgpu k v st")
      have "found_ok (gpus @ [a], st1)"
        using rm_ok_record[OF \<open>rm_ok st\<close> _ a] r Some kv Cons.prems by (fastforce simp: found_ok_def)
      then show ?thesis using Cons.IH Some kv a by simp
    qed
  qed
qed simp

lemma offer_all_ok: "found_ok (gpus, st) \<Longrightarrow> found_ok (offer_all vs gpus st)"
proof (induction vs arbitrary: gpus st)
  case (Cons v vs)
  obtain a st1 where a: "alloc v st = (a, st1)" by (cases "alloc v st")
  have "found_ok (gpus @ [a], st1)"
    using rm_ok_alloc[OF _ a] Cons.prems by (fastforce simp: found_ok_def)
  then show ?case using Cons.IH a by simp
qed simp

lemma profile_loop_ok: "found_ok (gpus, st) \<Longrightarrow> found_ok (profile_loop pf i d nm n ps gpus st)"
proof (induction ps arbitrary: gpus st)
  case (Cons p ps)
  show ?case
  proof (cases "nv_GetGpuInstanceRemainingCapacity (pf_nvml pf) (hw st) d p")
    case (Success m)
    obtain g1 st1 where o: "offer_all (map (profile_vgpu i nm n p) [0..<m]) gpus st = (g1, st1)"
      by (cases "offer_all (map (profile_vgpu i nm n p) [0..<m]) gpus st")
    with offer_all_ok[OF Cons.prems] have "found_ok (g1, st1)" by metis
    then show ?thesis using Cons.IH Success o by simp
  qed (use Cons in simp_all)
qed simp

lemma discover_gpu_ok:
  assumes "found_ok (gpus, st)"
  shows "returns found_ok (discover_gpu pf i d gpus st)"
proof -
  have rec: "found_ok (gpus @ [a], st1)" if "record_vgpu uuid (physical_vgpu i d nm uuid t n) st = (a, st1)" for uuid nm t n a st1
    using rm_ok_record[OF _ physical_vgpu_ok that] assms by (fastforce simp: found_ok_def)
  have mig: "returns found_ok (bind_go (mig_loop pf i d nm uuid n js gpus st) (\<lambda>(gpus1, st1).
      case GetPossiblGPUInstanceeProfiles (pf_counts pf) (pf_nvml pf) (hw st1) d of
        Inl e \<Rightarrow> Ret (gpus1, st1) | Inr profiles \<Rightarrow> Ret (profile_loop pf i d nm n profiles gpus1 st1)))" for nm uuid n js
    using mig_loop_ok[OF assms] by (rule returns_bind) (auto intro: profile_loop_ok split: sum.splits)
  show ?thesis
    using assms mig by (auto simp: discover_gpu_def Let_def rec split: nv.splits prod.splits sum.splits bool.splits)
qed

lemma discover_all_ok: "found_ok (gpus, st) \<Longrightarrow> returns found_ok (discover_all pf i ds gpus st)"
proof (induction ds arbitrary: i gpus st)
  case (Cons d ds)
  show ?case
    unfolding discover_all.simps
    by (rule returns_bind[OF discover_gpu_ok[OF Cons.prems]]) (use Cons.IH in auto)
qed simp

lemma getAndSet_ok: "rm_ok st \<Longrightarrow> returns (\<lambda>(gpus, st'). rm_ok st') (getAndSetAvailableVirtualResources pf st)"
  unfolding getAndSetAvailableVirtualResources_def getAvailableVirtualResources_def
  by (rule returns_bind[OF discover_all_ok]) (auto simp: found_ok_def rm_ok_def)

lemma NewResourceManager_ok:
  "returns (\<lambda>r. case r of Inl e \<Rightarrow> True | Inr st \<Rightarrow> rm_ok st) (NewResourceManager ini pf v h)"
proof -
  have "returns (\<lambda>r. case r of Inl e \<Rightarrow> True | Inr st \<Rightarrow> rm_ok st)
     (bind_go (getAvailableVirtualResources pf \<lparr>hw = h, PhysicalGPUs = ds, VirtualGPUs = [],
        provisionedGPUs = Map.empty, heap = (\<lambda>a. v), fresh = 0\<rparr>) (\<lambda>(gpus, st). Ret (Inr (st\<lparr>VirtualGPUs := gpus\<rparr>))))" for ds
    unfolding getAvailableVirtualResources_def
    by (rule returns_bind[OF discover_all_ok]) (auto simp: found_ok_def rm_ok_def)
  then show ?thesis by (auto simp: NewResourceManager_def split: nv.splits sum.splits)
qed

section \<open>Provisioning and releasing\<close>

lemma unprovisioned_not_recorded:
  "rm_ok st \<Longrightarrow> \<not> IsProvisioned (heap st a) \<Longrightarrow> provisionedGPUs st k \<noteq> Some a"
  by (auto dest!: rm_okD(2) simp: entry_ok_def)

lemma destroy_frame [simp]:
  "provisionedGPUs (snd (destroy_gi pf g st)) = provisionedGPUs st" "heap (snd (destroy_gi pf g st)) = heap st"
  "fresh (snd (destroy_gi pf g st)) = fresh st" "VirtualGPUs (snd (destroy_gi pf g st)) = VirtualGPUs st"
  "provisionedGPUs (snd (destroy_ci pf c st)) = provisionedGPUs st" "heap (snd (destroy_ci pf c st)) = heap st"
  "fresh (snd (destroy_ci pf c st)) = fresh st" "VirtualGPUs (snd (destroy_ci pf c st)) = VirtualGPUs st"
  "rm_ok (snd (destroy_gi pf g st)) = rm_ok st" "rm_ok (snd (destroy_ci pf c st)) = rm_ok st"
  "rm_ok (abandon pf g c st) = rm_ok st"
  by (simp_all add: destroy_gi_def destroy_ci_def abandon_def split_beta)

lemma or_abandon_ok:
  "rm_ok st \<Longrightarrow> (\<And>x. r = Success x \<Longrightarrow> rm_ok (snd (f x))) \<Longrightarrow> rm_ok (snd (or_abandon r msg pf g c st f))"
  by (auto simp: or_abandon_def split: nv.splits)

lemma rm_ok_provision:
  assumes "rm_ok st" "a < fresh st" "\<And>k. provisionedGPUs st k \<noteq> Some a" "entry_ok u (f (heap st a))"
  shows "rm_ok ((upd a f st)\<lparr>provisionedGPUs := (provisionedGPUs st)(u \<mapsto> a)\<rparr>)"
  using assms by (auto simp: rm_ok_def upd_def)

lemma access_device_ok:
  assumes "rm_ok st" "a < fresh st" "\<And>k. provisionedGPUs st k \<noteq> Some a"
    and "IsProvisioned (heap st a)" "v_Mig (heap st a) \<noteq> None"
  shows "rm_ok (snd (access_device pf a d g info c st))"
proof -
  have prov: "rm_ok ((upd a (ProvisionedGPU_update (\<lambda>_. Some g)) st)\<lparr>provisionedGPUs := (provisionedGPUs st)(u \<mapsto> a)\<rparr>)"
    if "g_UUID g = u" "m_UUID (mpsServer g) = u" for g u
    using assms that by (intro rm_ok_provision) (auto simp: entry_ok_def)
  show ?thesis
    unfolding access_device_def Let_def
    by (intro or_abandon_ok assms(1) | split sum.split, intro conjI allI impI | (simp add: assms(1) prov))+
qed

lemma Access_ok:
  assumes "rm_ok st" "a < fresh st" "v_Mig (heap st a) \<noteq> None"
  shows "returns (\<lambda>(err, st'). rm_ok st') (Access pf a st)"
proof (cases "IsProvisioned (heap st a)")
  case True
  then show ?thesis using assms(1) by (simp add: Access_def)
next
  case False
  note free = unprovisioned_not_recorded[OF assms(1) False]
  have up: "rm_ok (upd a f (set_hw h st))" for f h using assms(1) free by (intro rm_ok_upd) auto
  have dev: "rm_ok (snd (access_device pf a d g info c (upd a (\<lambda>v. set_mig f v\<lparr>IsProvisioned := True\<rparr>) (set_hw h2 (upd a (set_mig f') (set_hw h1 st))))))"
    for d g info c f f' h1 h2
    using assms free up by (intro access_device_ok rm_ok_upd) (auto simp: set_mig_def)
  show ?thesis
    using assms(3) False assms(1) up dev
    by (auto simp: Access_def Let_def deref_def destroy_gi_def split_beta split: nv.splits prod.splits sum.splits option.splits)
qed

lemma rm_ok_set_server:
  assumes "rm_ok st" "ProvisionedGPU (heap st a) = Some g" "m_UUID m = m_UUID (mpsServer g)"
  shows "rm_ok (upd a (set_server m) (set_hw h st))"
  using assms by (intro rm_ok_upd) (auto simp: entry_ok_def set_server_def)

lemma stop_server_ok:
  assumes "rm_ok st" "ProvisionedGPU (heap st a) = Some g"
  shows "rm_ok (snd (stop_server pf a g st))"
proof -
  obtain err m h where s: "StopMPSDaemon (pf_os pf) (mpsServer g) (hw st) = ((err, m), h)"
    by (metis prod.exhaust)
  have "m_UUID m = m_UUID (mpsServer g)" using StopMPSDaemon_frame[OF s] by simp
  then show ?thesis using rm_ok_set_server[OF assms] by (simp add: stop_server_def s)
qed

lemma stop_server_frame:
  "provisionedGPUs (snd (stop_server pf a g st)) = provisionedGPUs st"
  "v_Mig (heap (snd (stop_server pf a g st)) b) = v_Mig (heap st b)"
  "IsProvisioned (heap (snd (stop_server pf a g st)) b) = IsProvisioned (heap st b)"
  by (simp_all add: stop_server_def set_server_def split_beta)

lemma release_parts_ok:
  assumes "rm_ok st"
  shows "rm_ok (snd (release_ci pf a m st))" "rm_ok (snd (release_gi pf a m st))"
    "provisionedGPUs (snd (release_ci pf a m st)) = provisionedGPUs st"
    "provisionedGPUs (snd (release_gi pf a m st)) = provisionedGPUs st"
proof -
  have "rm_ok (upd a (set_mig f) (set_hw h st))" for f h using assms by (intro rm_ok_upd entry_ok_set_mig) auto
  then show "rm_ok (snd (release_ci pf a m st))" "rm_ok (snd (release_gi pf a m st))"
    "provisionedGPUs (snd (release_ci pf a m st)) = provisionedGPUs st"
    "provisionedGPUs (snd (release_gi pf a m st)) = provisionedGPUs st"
    using assms
    by (auto simp: release_ci_def release_gi_def destroy_ci_def destroy_gi_def split_beta split: option.splits nv.splits prod.splits)
qed

lemma rm_ok_release:
  assumes "rm_ok st" "provisionedGPUs st k = Some a"
  shows "rm_ok (upd a f (st\<lparr>provisionedGPUs := (provisionedGPUs st)(k := None)\<rparr>))"
proof -
  have "k' = k" if "provisionedGPUs st k' = Some a" for k'
    using rm_okD(2)[OF assms] rm_okD(2)[OF assms(1) that] by (auto simp: entry_ok_def)
  then show ?thesis using assms(1) by (auto simp: rm_ok_def upd_def)
qed

lemma Release_ok:
  assumes "rm_ok st" "provisionedGPUs st k = Some a"
  shows "returns (\<lambda>(err, st'). rm_ok st') (Release pf a st)"
proof (cases "Physical (heap st a)")
  case True
  then show ?thesis using assms(1) by (simp add: Release_def)
next
  case False
  obtain g mig where g: "ProvisionedGPU (heap st a) = Some g" "g_UUID g = k" "v_Mig (heap st a) = Some mig"
    using rm_okD(2)[OF assms] False by (auto simp: entry_ok_def)
  define st1 where "st1 = snd (stop_server pf a g st)"
  have ok1: "rm_ok st1" "provisionedGPUs st1 = provisionedGPUs st"
    using stop_server_ok[OF assms(1) g(1)] stop_server_frame(1) by (simp_all add: st1_def)
  note parts = release_parts_ok[OF ok1(1)]
  obtain e2 st2 where 2: "release_ci pf a mig st1 = (e2, st2)" by (cases "release_ci pf a mig st1")
  then have ok2: "rm_ok st2" "provisionedGPUs st2 = provisionedGPUs st" using parts ok1(2) by (metis snd_conv)+
  obtain e3 st3 where 3: "release_gi pf a mig st2 = (e3, st3)" by (cases "release_gi pf a mig st2")
  then have ok3: "rm_ok st3" "provisionedGPUs st3 = provisionedGPUs st"
    using release_parts_ok[OF ok2(1)] ok2(2) by (metis snd_conv)+
  have "rm_ok (upd a f (st3\<lparr>provisionedGPUs := (provisionedGPUs st3)(g_UUID g := None)\<rparr>))" for f
    using ok3 assms(2) g(2) by (intro rm_ok_release) auto
  then show ?thesis
    using False g ok2 ok3 assms(1) by (auto simp: Release_def Let_def st1_def[symmetric] 2 3 split: option.splits)
qed

lemma stop_all_ok: "rm_ok st \<Longrightarrow> rm_ok (stop_all pf ks st)"
proof (induction ks arbitrary: st)
  case (Cons k ks)
  then show ?case by (auto intro!: Cons.IH stop_server_ok split: option.splits)
qed simp

lemma release_all_ok: "rm_ok st \<Longrightarrow> returns rm_ok (release_all pf ks st)"
proof (induction ks arbitrary: st)
  case (Cons k ks)
  show ?case
  proof (cases "provisionedGPUs st k")
    case None
    then show ?thesis using Cons by simp
  next
    case (Some a)
    have "returns rm_ok (bind_go (Release pf a st) (\<lambda>(_, st1). release_all pf ks st1))"
      by (rule returns_bind[OF Release_ok[OF Cons.prems Some]]) (use Cons.IH in auto)
    then show ?thesis using Some Cons by auto
  qed
qed simp

section \<open>The methods\<close>

lemma list_gpus_ok: "rm_ok st \<Longrightarrow> returns (\<lambda>(gpus, st'). rm_ok st') (list_gpus pf st)"
  unfolding list_gpus_def by (rule returns_bind[OF getAndSet_ok]) auto

lemma requested_gpu_ok:
  "rm_ok st \<Longrightarrow> requested_gpu rq st = Inr a \<Longrightarrow> a < fresh st"
  by (auto simp: requested_gpu_def FindVirtualGPU_def GetVirtualGPU_def rm_ok_def dest!: find_first_SomeD split: option.splits)

lemma RequestVirtualGPU_ok:
  assumes "rm_ok st"
  shows "returns (\<lambda>(r, st'). rm_ok st') (RequestVirtualGPU pf rq st)"
proof (cases "requested_gpu rq st")
  case (Inl e)
  then show ?thesis using assms by (simp add: RequestVirtualGPU_def)
next
  case (Inr a)
  note a = requested_gpu_ok[OF assms Inr]
  have acc: "returns (\<lambda>(err, st'). rm_ok st') (if rq_Profileid rq \<noteq> None \<and> \<not> IsProvisioned (heap st a) \<and> v_Mig (heap st a) \<noteq> None
      then Access pf a st else Ret (None, st))" using Access_ok[OF assms a] assms by simp
  have srv: "rm_ok (request_mps_server pf a st')" if "rm_ok st'" for st'
    using that by (auto simp: request_mps_server_def split: option.splits)
  have lst: "returns (\<lambda>(r, st'). rm_ok st') (bind_go (list_gpus pf st2) (\<lambda>(available, st3). Ret (Inr (request_response v available), st3)))"
    if "rm_ok st2" for st2 v using list_gpus_ok[OF that] by (rule returns_bind) auto
  show ?thesis
    unfolding RequestVirtualGPU_def Inr sum.case
    by (intro returns_bind[OF acc]) (auto simp: Let_def intro!: lst srv split: option.splits)
qed

lemma ReleaseVirtualGPU_ok:
  assumes "rm_ok st"
  shows "returns (\<lambda>(r, st'). rm_ok st') (ReleaseVirtualGPU pf u st)"
proof (cases "provisionedGPUs st u")
  case None
  then show ?thesis using assms by (simp add: ReleaseVirtualGPU_def FindVirtualGPUUsingUUID_def)
next
  case (Some a)
  have "returns (\<lambda>(r, st'). rm_ok st') (bind_go (list_gpus pf st1) (\<lambda>(available, st2). Ret (f available, st2)))"
    if "rm_ok st1" for st1 f using list_gpus_ok[OF that] by (rule returns_bind) auto
  then show ?thesis
    unfolding ReleaseVirtualGPU_def FindVirtualGPUUsingUUID_def Some option.case sum.case
    by (intro returns_bind[OF Release_ok[OF assms Some]]) (auto split: option.splits)
qed

lemma EnableMPS_ok:
  assumes "rm_ok st"
  shows "returns (\<lambda>(r, st'). rm_ok st') (EnableMPS pf u st)"
proof (cases "provisionedGPUs st u")
  case None
  then show ?thesis using assms by (simp add: EnableMPS_def)
next
  case (Some a)
  from rm_okD(2)[OF assms Some] obtain g where g: "ProvisionedGPU (heap st a) = Some g" "m_UUID (mpsServer g) = u"
    by (rule entry_okE)
  obtain err m h where s: "SetupMPSEnvironment (pf_os pf) (mpsServer g) (hw st) = ((err, m), h)" by (metis prod.exhaust)
  have "rm_ok (upd a (set_server m') (set_hw h st))" if "m_UUID m' = u" for m'
    using rm_ok_set_server[OF assms g(1)] that g(2) by simp
  then show ?thesis
    using assms Some g s SetupMPSEnvironment_frame[OF s] by (auto simp: EnableMPS_def Let_def split: option.splits)
qed

lemma DisableMPS_ok:
  assumes "rm_ok st"
  shows "returns (\<lambda>(r, st'). rm_ok st') (DisableMPS pf u st)"
proof (cases "provisionedGPUs st u")
  case None
  then show ?thesis using assms by (simp add: DisableMPS_def)
next
  case (Some a)
  from rm_okD(2)[OF assms Some] obtain g where g: "ProvisionedGPU (heap st a) = Some g" "m_UUID (mpsServer g) = u"
    by (rule entry_okE)
  obtain err m h where s: "StopMPSDaemon (pf_os pf) (mpsServer g) (hw st) = ((err, m), h)" by (metis prod.exhaust)
  have "rm_ok (upd a (set_server m') (set_hw h st))" if "m_UUID m' = u" for m'
    using rm_ok_set_server[OF assms g(1)] that g(2) by simp
  then show ?thesis
    using assms Some g s StopMPSDaemon_frame[OF s] by (auto simp: DisableMPS_def Let_def split: option.splits)
qed

end
