(* ===== verification/Config_Roundtrip.thy ===== *)
theory Config_Roundtrip
  imports Config_Files Gpu_Properties
begin

text \<open>
  The configuration of a GPU from end to end: what the controller manager sends for the pods of a GPU is what
  can be read back from the files the configurator of the node writes.
\<close>

section \<open>Text files\<close>

lemma split_lines: "(\<And>l. l \<in> set ls \<Longrightarrow> sep \<notin> set l) \<Longrightarrow> split_at sep (concat (map (\<lambda>l. l @ [sep]) ls)) = ls @ [[]]"
  by (induction ls) (simp_all add: split_at_append)

lemma Itoa_chars: "c \<in> set (Itoa n) \<Longrightarrow> is_digit c \<or> c = CHR ''-''"
  using digits_all_digits by (auto simp: Itoa_def split: if_splits)

lemma Itoa_no_sep: "\<not> is_digit c \<Longrightarrow> c \<noteq> CHR ''-'' \<Longrightarrow> c \<notin> set (Itoa n)"
  using Itoa_chars by blast

lemma seps_no_digit [simp]: "\<not> is_digit newline" "\<not> is_digit (CHR '' '')" "\<not> is_digit (CHR ''.'')" "\<not> is_digit (CHR ''/'')"
  by (simp_all add: is_digit_def)

text \<open>A name that is one part of a path, and a key that is one word of a line.\<close>

definition plain :: "string \<Rightarrow> bool" where
  "plain u \<longleftrightarrow> u \<noteq> [] \<and> u \<noteq> ''.'' \<and> u \<noteq> ''..'' \<and> CHR ''/'' \<notin> set u"

definition word :: "string \<Rightarrow> bool" where
  "word k \<longleftrightarrow> CHR '' '' \<notin> set k \<and> newline \<notin> set k"

lemma path_join_plain:
  "plain u \<Longrightarrow> path_join FastSchedulerConfigDir u = FastSchedulerConfigDir @ ''/'' @ u"
  "plain u \<Longrightarrow> path_join GPUClientsPortConfigDir u = GPUClientsPortConfigDir @ ''/'' @ u"
  by (simp_all add: path_join_def plain_def FastSchedulerConfigDir_def GPUClientsPortConfigDir_def split_at_id)

lemma paths_differ: "plain u \<Longrightarrow> path_join FastSchedulerConfigDir u \<noteq> path_join GPUClientsPortConfigDir u"
  unfolding path_join_plain by (simp add: FastSchedulerConfigDir_def GPUClientsPortConfigDir_def)

section \<open>Writing\<close>

text \<open>Documented behaviour of files: creating empties a file, writing appends, other files are not touched.\<close>

definition file_store :: "'h os \<Rightarrow> ('h \<Rightarrow> string \<rightharpoonup> string) \<Rightarrow> bool" where
  "file_store os files \<longleftrightarrow>
     (\<forall>h p. files (snd (os_Create os h p)) = (if fst (os_Create os h p) then (files h)(p \<mapsto> []) else files h))
     \<and> (\<forall>h p s c. files h p = Some c \<longrightarrow> files (os_WriteString os h p s) = (files h)(p \<mapsto> c @ s))"

lemma write_lines_content:
  assumes "file_store os files" "files h p = Some c"
  shows "files (write_lines os True p ls h) = (files h)(p \<mapsto> c @ concat ls)"
  using assms(2)
proof (induction ls arbitrary: h c)
  case (Cons l ls)
  have "files (os_WriteString os h p l) = (files h)(p \<mapsto> c @ l)"
    using assms(1) Cons.prems by (simp add: file_store_def)
  with Cons.IH[of "os_WriteString os h p l" "c @ l"] show ?case by (auto simp: write_if_def fun_eq_iff)
qed auto

definition conf_file :: "PodGPURequest list \<Rightarrow> string" where
  "conf_file rs = Itoa (int (length rs)) @ [newline] @ concat (map podGPUSchedulerConfigFromat rs)"

lemma handleMsg_files:
  assumes os: "file_store os files" and ok: "\<And>h p. fst (os_Create os h p)" and u: "plain (GpuUUID msg)"
    and h': "h' = handleMsg os msg h"
  shows "files h' (path_join FastSchedulerConfigDir (GpuUUID msg)) = Some (conf_file (PodGPURequests msg))"
    and "files h' (path_join GPUClientsPortConfigDir (GpuUUID msg)) = Some (port_file (PodGPURequests msg))"
proof -
  let ?c = "path_join FastSchedulerConfigDir (GpuUUID msg)" and ?p = "path_join GPUClientsPortConfigDir (GpuUUID msg)"
  let ?rs = "PodGPURequests msg" and ?n = "Itoa (int (length (PodGPURequests msg))) @ [newline]"
  define h1 where "h1 = snd (os_Create os h ?c)"
  define h2 where "h2 = snd (os_Create os h1 ?p)"
  define h3 where "h3 = write_lines os True ?c (?n # map podGPUSchedulerConfigFromat ?rs) h2"
  have eq: "h' = write_lines os True ?p (?n # map PodGPUClientsPortConfigFormat ?rs) h3"
    using ok[of h ?c] ok[of h1 ?p]
    by (simp add: h' handleMsg_def h1_def h2_def h3_def Let_def split_beta write_if_def)
  have 2: "files h2 = (files h)(?c \<mapsto> [], ?p \<mapsto> [])" using os ok by (simp add: file_store_def h1_def h2_def)
  have 3: "files h3 = (files h)(?p \<mapsto> [], ?c \<mapsto> conf_file ?rs)"
    unfolding h3_def using write_lines_content[OF os, of h2 ?c "[]" "?n # map podGPUSchedulerConfigFromat ?rs"] paths_differ[OF u] 2
    by (simp add: conf_file_def fun_upd_twist del: write_lines.simps)
  have "files h' = (files h)(?c \<mapsto> conf_file ?rs, ?p \<mapsto> port_file ?rs)"
    unfolding eq using write_lines_content[OF os, of h3 ?p "[]" "?n # map PodGPUClientsPortConfigFormat ?rs"] paths_differ[OF u] 3
    by (simp add: port_file_def fun_upd_twist del: write_lines.simps)
  then show "files h' ?c = Some (conf_file ?rs)" "files h' ?p = Some (port_file ?rs)"
    using paths_differ[OF u] by simp_all
qed

section \<open>Reading\<close>

lemma read_lines:
  assumes "\<And>r. r \<in> set rs \<Longrightarrow> newline \<notin> set (line r)"
  shows "split_at newline (Itoa n @ [newline] @ concat (map (\<lambda>r. line r @ [newline]) rs)) = Itoa n # map line rs @ [[]]"
proof -
  have "split_at newline (concat (map (\<lambda>l. l @ [newline]) (map line rs))) = map line rs @ [[]]"
    using assms by (intro split_lines) auto
  then show ?thesis by (simp add: split_at_append Itoa_no_sep comp_def)
qed

definition in64 :: "int \<Rightarrow> bool" where
  "in64 n \<longleftrightarrow> - (2 ^ 63) \<le> n \<and> n < 2 ^ 63"

lemma read_port_file:
  assumes "\<And>r. r \<in> set rs \<Longrightarrow> word (pr_Key r) \<and> in64 (pr_GPUClientPort r)" "in64 (int (length rs))"
  shows "read_port_file (port_file rs) = Some (map (\<lambda>r. Some (pr_Key r, pr_GPUClientPort r)) rs)"
proof -
  let ?line = "\<lambda>r. pr_Key r @ '' '' @ Itoa (pr_GPUClientPort r)"
  have fmt: "PodGPUClientsPortConfigFormat = (\<lambda>r. ?line r @ [newline])"
    by (simp add: PodGPUClientsPortConfigFormat_def fun_eq_iff)
  have "split_at newline (port_file rs) = Itoa (int (length rs)) # map ?line rs @ [[]]"
    unfolding port_file_def fmt using assms by (intro read_lines) (auto simp: word_def Itoa_no_sep)
  moreover have "read_port_line (?line r) = Some (pr_Key r, pr_GPUClientPort r)" if "r \<in> set rs" for r
    using assms(1)[OF that]
    by (simp add: read_port_line_def word_def in64_def split_at_append split_at_id Itoa_no_sep ParseInt_Itoa)
  ultimately show ?thesis using assms(2) by (simp add: read_port_file_def in64_def ParseInt_Itoa)
qed

section \<open>Quotas\<close>

lemma rhe_near: "\<bar>of_int (rhe x) - x\<bar> \<le> 1 / 2"
  unfolding rhe_def Let_def abs_le_iff using of_int_floor_le[of x] floor_correct[of x]
  by (simp split: if_splits; linarith)

lemma scan_zeros: "scan_uint 0 (replicate k (CHR ''0'') @ s) = scan_uint 0 s"
  by (induction k) (simp_all add: is_digit_def digit_val_def)

lemma ParseInt_pad:
  assumes "n < 2 ^ 63"
  shows "ParseInt (pad k (digits n)) = (int n, None)"
proof -
  have h: "is_digit (hd (pad k (digits n)))"
    using hd_digits_digit[of n] by (cases "k - length (digits n)") (simp_all add: pad_def is_digit_def)
  then have "hd (pad k (digits n)) \<noteq> CHR ''-''" "hd (pad k (digits n)) \<noteq> CHR ''+''" by (auto simp: is_digit_def)
  moreover have "scan_uint 0 (pad k (digits n)) = Inr n" using assms by (simp add: pad_def scan_zeros scan_digits)
  moreover have "pad k (digits n) \<noteq> []" by (simp add: pad_def)
  ultimately show ?thesis using assms by (simp add: ParseInt_def Let_def)
qed

lemma ParseInt_digits: "n < 2 ^ 63 \<Longrightarrow> ParseInt (digits n) = (int n, None)"
  using ParseInt_pad[of n 0] by (simp add: pad_def)

text \<open>A decimal with six places, as the exact fraction.\<close>

definition read_f :: "string \<Rightarrow> rat option" where
  "read_f s = (case split_at (CHR ''.'') s of
     [a, b] \<Rightarrow> (case (ParseInt a, ParseInt b) of
       ((m, None), (n, None)) \<Rightarrow> Some (of_int (m * 1000000 + n) / 1000000) | _ \<Rightarrow> None)
   | _ \<Rightarrow> None)"

definition near :: "rat \<Rightarrow> float64 \<Rightarrow> bool" where
  "near q x = (case x of Fin y \<Rightarrow> \<bar>q - y\<bar> \<le> 1 / 2000000 | _ \<Rightarrow> False)"

lemma digits_no_sep: "\<not> is_digit c \<Longrightarrow> c \<notin> set (digits n)" "\<not> is_digit c \<Longrightarrow> c \<notin> set (pad k (digits n))"
  using digits_all_digits[of n] by (auto simp: pad_def is_digit_def)

lemma format_f_word: "c = CHR '' '' \<or> c = newline \<Longrightarrow> quota_ok x \<Longrightarrow> c \<notin> set (format_f x)"
  by (auto simp: format_f_def quota_ok_def Let_def digits_no_sep split: float64.splits)

lemma read_format_f:
  assumes "quota_ok x"
  obtains q where "read_f (format_f x) = Some q" "near q x"
proof -
  obtain y where y: "x = Fin y" "0 \<le> y" "y \<le> 1" using assms by (auto simp: quota_ok_def split: float64.splits)
  let ?n = "nat (rhe (y * 1000000))"
  have pos: "0 \<le> rhe (y * 1000000)" using rhe_mono[of 0 "y * 1000000"] rhe_of_int[of 0] y(2) by simp
  have "rhe (y * 1000000) \<le> 1000000" using rhe_mono[of "y * 1000000" "of_int 1000000"] y(3) unfolding rhe_of_int by simp
  then have n: "?n \<le> 1000000" by simp
  have f: "format_f x = digits (?n div 1000000) @ CHR ''.'' # pad 6 (digits (?n mod 1000000))"
    using y by (simp add: format_f_def Let_def)
  have small: "?n div 1000000 < 2 ^ 63" "?n mod 1000000 < 2 ^ 63"
    using n by (auto intro: le_less_trans[OF div_le_dividend] less_trans[of _ "1000000"])
  have r: "read_f (format_f x) = Some (of_int (int (?n div 1000000) * 1000000 + int (?n mod 1000000)) / 1000000)"
    using small by (simp add: read_f_def f split_at_append split_at_id digits_no_sep ParseInt_digits ParseInt_pad)
  have "int (?n div 1000000 * 1000000 + ?n mod 1000000) = int ?n" by (simp only: div_mult_mod_eq)
  then have "int (?n div 1000000) * 1000000 + int (?n mod 1000000) = rhe (y * 1000000)"
    unfolding of_nat_add of_nat_mult of_nat_numeral using pos by (simp only: nat_0_le)
  with r have "read_f (format_f x) = Some (of_int (rhe (y * 1000000)) / 1000000)" by simp
  moreover have "near (of_int (rhe (y * 1000000)) / 1000000) x"
  proof -
    have "(of_int (rhe (y * 1000000)) / 1000000 :: rat) - y = (of_int (rhe (y * 1000000)) - y * 1000000) / 1000000"
      by (simp add: diff_divide_distrib)
    then have "\<bar>(of_int (rhe (y * 1000000)) / 1000000 :: rat) - y\<bar> = \<bar>of_int (rhe (y * 1000000)) - y * 1000000\<bar> / 1000000"
      by (simp only: abs_divide abs_numeral)
    then show ?thesis using rhe_near[of "y * 1000000"] by (simp add: near_def y(1))
  qed
  ultimately show thesis by (rule that)
qed

section \<open>The scheduler's file\<close>

definition read_conf_line :: "string \<Rightarrow> (string \<times> rat \<times> rat \<times> int \<times> int) option" where
  "read_conf_line l = (case split_at (CHR '' '') l of
     [k, q, qlim, sm, mem] \<Rightarrow>
       (case (read_f q, read_f qlim, ParseInt sm, ParseInt mem) of
          (Some q', Some qlim', (s, None), (m, None)) \<Rightarrow> Some (k, q', qlim', s, m)
        | _ \<Rightarrow> None)
   | _ \<Rightarrow> None)"

definition read_conf_file :: "string \<Rightarrow> (string \<times> rat \<times> rat \<times> int \<times> int) option list option" where
  "read_conf_file s = (case split_at newline s of
     [] \<Rightarrow> None
   | n # ls \<Rightarrow> (case ParseInt n of
       (k, None) \<Rightarrow> if int (length ls) = k + 1 then Some (map read_conf_line (butlast ls)) else None
     | _ \<Rightarrow> None))"

text \<open>What the accounting keeps of an entry, and what fits into the message.\<close>

definition sendable :: "FastPodReq \<Rightarrow> bool" where
  "sendable r \<longleftrightarrow> word (fp_Key r) \<and> quota_ok (QtRequest r) \<and> quota_ok (QtLimit r) \<and> in64 (SMPartition r)
     \<and> in64 (fp_Memory r) \<and> - (2 ^ 31) \<le> GPUClientPort r \<and> GPUClientPort r < 2 ^ 31"

abbreviation sent_request :: "FastPodReq \<Rightarrow> PodGPURequest" where
  "sent_request r \<equiv> to_pod_request (to_config r)"

definition conf_entry :: "FastPodReq \<Rightarrow> (string \<times> rat \<times> rat \<times> int \<times> int) option \<Rightarrow> bool" where
  "conf_entry r e \<longleftrightarrow> (\<exists>q qlim. e = Some (fp_Key r, q, qlim, SMPartition r, fp_Memory r)
     \<and> near q (QtRequest r) \<and> near qlim (QtLimit r))"

lemma sent_port: "sendable r \<Longrightarrow> pr_GPUClientPort (sent_request r) = GPUClientPort r"
  using to_signed_id[of 32 "GPUClientPort r"] by (simp add: sendable_def to_pod_request_def to_config_def)

lemma sent_key: "pr_Key (sent_request r) = fp_Key r"
  by (simp add: to_pod_request_def to_config_def)

lemma read_conf_line_entry:
  assumes "sendable r"
  shows "conf_entry r (read_conf_line (fp_Key r @ '' '' @ format_f (QtRequest r) @ '' '' @ format_f (QtLimit r) @ '' ''
    @ Itoa (SMPartition r) @ '' '' @ Itoa (fp_Memory r)))"
proof -
  obtain q where q: "read_f (format_f (QtRequest r)) = Some q" "near q (QtRequest r)"
    using assms read_format_f by (auto simp: sendable_def)
  obtain l where l: "read_f (format_f (QtLimit r)) = Some l" "near l (QtLimit r)"
    using assms read_format_f by (auto simp: sendable_def)
  show ?thesis
    using assms q l
    by (simp add: conf_entry_def read_conf_line_def sendable_def word_def in64_def split_at_append split_at_id
        Itoa_no_sep format_f_word ParseInt_Itoa)
qed

lemma read_conf_file_entries:
  assumes "\<And>r. r \<in> set l \<Longrightarrow> sendable r" "in64 (int (length l))"
  shows "\<exists>es. read_conf_file (conf_file (map sent_request l)) = Some es \<and> list_all2 conf_entry l es"
proof -
  let ?line = "\<lambda>r. fp_Key r @ '' '' @ format_f (QtRequest r) @ '' '' @ format_f (QtLimit r) @ '' ''
    @ Itoa (SMPartition r) @ '' '' @ Itoa (fp_Memory r)"
  have fmt: "podGPUSchedulerConfigFromat (sent_request r) = ?line r @ [newline]" for r
    by (simp add: podGPUSchedulerConfigFromat_def to_pod_request_def to_config_def)
  have "newline \<notin> set (?line r)" if "r \<in> set l" for r
    using assms(1)[OF that] by (simp add: sendable_def word_def Itoa_no_sep format_f_word)
  from read_lines[of l ?line, OF this] have "split_at newline (conf_file (map sent_request l))
      = Itoa (int (length l)) # map ?line l @ [[]]" by (simp add: conf_file_def fmt comp_def)
  then have "read_conf_file (conf_file (map sent_request l)) = Some (map (\<lambda>r. read_conf_line (?line r)) l)"
    using assms(2) by (simp add: read_conf_file_def in64_def ParseInt_Itoa comp_def)
  moreover have "list_all2 conf_entry l (map (\<lambda>r. read_conf_line (?line r)) l)"
    using assms(1) read_conf_line_entry by (simp add: list_all2_conv_all_nth)
  ultimately show ?thesis by blast
qed

section \<open>Property\<close>

text \<open>
  (C8) The configuration a node is sent arrives: when the controller manager sends the pods of a GPU, the two
  files the configurator writes for that GPU can be read back to the same pods in the same order, with the same
  keys, SM partitions, memory sizes and ports, and with quotas that differ by at most half a millionth.
\<close>

theorem sent_configuration_arrives:
  assumes "file_store (pf_os pf) files" "\<And>h p. fst (os_Create (pf_os pf) h p)" "plain u"
    and "provisionedGPUs st u = Some a" "\<And>r. r \<in> set l \<Longrightarrow> sendable r" "in64 (int (length l))"
    and "UpdateMPSConfigs pf \<lparr>um_device = u, um_configs = map to_config l\<rparr> st = (err, st')"
  shows "\<exists>conf ports es. err = None
    \<and> files (hw st') (path_join FastSchedulerConfigDir u) = Some conf \<and> read_conf_file conf = Some es \<and> list_all2 conf_entry l es
    \<and> files (hw st') (path_join GPUClientsPortConfigDir u) = Some ports
    \<and> read_port_file ports = Some (map (\<lambda>r. Some (fp_Key r, GPUClientPort r)) l)"
proof -
  let ?msg = "\<lparr>GpuUUID = u, PodGPURequests = map sent_request l\<rparr>"
  have h: "err = None" "hw st' = handleMsg (pf_os pf) ?msg (hw st)"
    using assms(4,7) by (auto simp: UpdateMPSConfigs_def set_hw_def comp_def)
  from handleMsg_files[OF assms(1,2) _ h(2)] assms(3)
  have files: "files (hw st') (path_join FastSchedulerConfigDir u) = Some (conf_file (map sent_request l))"
    "files (hw st') (path_join GPUClientsPortConfigDir u) = Some (port_file (map sent_request l))" by simp_all
  have "word (pr_Key r) \<and> in64 (pr_GPUClientPort r)" if "r \<in> set (map sent_request l)" for r
  proof -
    from that obtain x where x: "r = sent_request x" "sendable x" using assms(5) by auto
    have "word (pr_Key (sent_request x))" using x(2) by (simp add: sendable_def to_pod_request_def to_config_def)
    moreover have "in64 (GPUClientPort x)" using x(2) by (simp add: sendable_def in64_def)
    ultimately show ?thesis using sent_port[OF x(2)] x(1) by simp
  qed
  from read_port_file[of "map sent_request l", OF this] assms(6)
  have "read_port_file (port_file (map sent_request l))
      = Some (map (\<lambda>r. Some (pr_Key (sent_request r), pr_GPUClientPort (sent_request r))) l)"
    by (simp only: length_map map_map comp_def)
  then have "read_port_file (port_file (map sent_request l)) = Some (map (\<lambda>r. Some (fp_Key r, GPUClientPort r)) l)"
    unfolding sent_key using assms(5) sent_port by (simp cong: map_cong)
  with read_conf_file_entries[OF assms(5,6)] files h(1) show ?thesis by blast
qed

text \<open>A store of files for the example: everything succeeds, no daemon runs.\<close>

definition demo_os :: "(string \<rightharpoonup> string) os" where
  "demo_os = \<lparr>os_RemoveAll = (\<lambda>h d. (None, h)), os_MkdirAll = (\<lambda>h d. (None, h)), os_Stat = (\<lambda>h p. NotExist),
     os_Run = (\<lambda>h c e. (None, h)), os_Create = (\<lambda>h p. (True, h(p \<mapsto> []))),
     os_WriteString = (\<lambda>h p s. h(p \<mapsto> (case h p of None \<Rightarrow> [] | Some c \<Rightarrow> c) @ s))\<rparr>"

theorem sent_configuration_arrives_witness:
  "\<exists>nv pc v ports. let pf = \<lparr>pf_nvml = nv, pf_os = demo_os, pf_counts = pc\<rparr>;
       st = \<lparr>hw = Map.empty, PhysicalGPUs = [], VirtualGPUs = [], provisionedGPUs = [''u1'' \<mapsto> 0], heap = (\<lambda>a. v), fresh = 1\<rparr>;
       st' = snd (UpdateMPSConfigs pf \<lparr>um_device = ''u1'', um_configs = map to_config [demo_entry]\<rparr> st)
     in hw st' ''/fastpod/scheduler/gpu_clients/u1'' = Some ports \<and> read_port_file ports = Some [Some (''ns/f-1'', 56001)]"
proof -
  fix nv :: "(string \<rightharpoonup> string) nvml" and pc :: profile_counts and v :: VirtualGPU
  let ?pf = "\<lparr>pf_nvml = nv, pf_os = demo_os, pf_counts = pc\<rparr>"
  let ?st = "\<lparr>hw = Map.empty, PhysicalGPUs = [], VirtualGPUs = [], provisionedGPUs = [''u1'' \<mapsto> 0], heap = (\<lambda>a. v), fresh = 1\<rparr>"
  obtain err st' where r: "UpdateMPSConfigs ?pf \<lparr>um_device = ''u1'', um_configs = map to_config [demo_entry]\<rparr> ?st = (err, st')"
    by (cases "UpdateMPSConfigs ?pf \<lparr>um_device = ''u1'', um_configs = map to_config [demo_entry]\<rparr> ?st")
  have "file_store (pf_os ?pf) id" "plain ''u1''" by (simp_all add: file_store_def demo_os_def plain_def)
  moreover have "sendable demo_entry"
    by (simp add: sendable_def demo_entry_def word_def quota_ok_def in64_def)
  ultimately obtain ports where
    "id (hw st') (path_join GPUClientsPortConfigDir ''u1'') = Some ports"
    "read_port_file ports = Some (map (\<lambda>r. Some (fp_Key r, GPUClientPort r)) [demo_entry])"
    using sent_configuration_arrives[OF _ _ _ _ _ _ r, of id 0] by (auto simp: demo_os_def in64_def)
  moreover have "path_join GPUClientsPortConfigDir ''u1'' = ''/fastpod/scheduler/gpu_clients/u1''"
    using path_join_plain(2)[of "''u1''"] by (simp add: plain_def GPUClientsPortConfigDir_def)
  ultimately show ?thesis using r by (intro exI[of _ nv] exI[of _ pc] exI[of _ v]) (simp add: demo_entry_def Let_def)
qed

end
