(* ===== verification/Service_Properties.thy ===== *)
theory Service_Properties
  imports Service_Invariant Config_Roundtrip
begin

text \<open>
  Properties of a configurator: no sequence of calls makes it panic, the share of the SMs it reports is a
  percentage, what a listing does to the MPS flag, and what a failed provisioning leaves behind; and the
  composition with the controller manager, whose client is answered by this service.
\<close>

section \<open>Sequences of calls\<close>

datatype call =
    CallList
  | CallRequest RequestVirtualGPURequest
  | CallRelease string
  | CallEnable string
  | CallDisable string
  | CallUpdate UpdateMPSConfigsRequest
  | CallGet string
  | CallStop "string list" "string list"

text \<open>The state after a call; \<open>GetGPU\<close> reads it only, and \<open>CallStop\<close> is \<open>Server.Stop\<close>, which cleans up.\<close>

fun serve :: "'h platform \<Rightarrow> call \<Rightarrow> 'h rm \<Rightarrow> 'h rm go" where
  "serve pf CallList st = bind_go (GetAvailableGPUs pf st) (\<lambda>(_, st'). Ret st')"
| "serve pf (CallRequest rq) st = bind_go (RequestVirtualGPU pf rq st) (\<lambda>(_, st'). Ret st')"
| "serve pf (CallRelease u) st = bind_go (ReleaseVirtualGPU pf u st) (\<lambda>(_, st'). Ret st')"
| "serve pf (CallEnable u) st = bind_go (EnableMPS pf u st) (\<lambda>(_, st'). Ret st')"
| "serve pf (CallDisable u) st = bind_go (DisableMPS pf u st) (\<lambda>(_, st'). Ret st')"
| "serve pf (CallUpdate rq) st = Ret (snd (UpdateMPSConfigs pf rq st))"
| "serve pf (CallGet u) st = Ret st"
| "serve pf (CallStop o1 o2) st = CleanUp pf o1 o2 st"

fun serve_all :: "'h platform \<Rightarrow> call list \<Rightarrow> 'h rm \<Rightarrow> 'h rm go" where
  "serve_all pf [] st = Ret st"
| "serve_all pf (c # cs) st = bind_go (serve pf c st) (serve_all pf cs)"

lemma returns_state: "returns (\<lambda>(r, st'). rm_ok st') m \<Longrightarrow> returns rm_ok (bind_go m (\<lambda>(_, st'). Ret st'))"
  by (erule returns_bind) auto

lemma serve_ok: "rm_ok st \<Longrightarrow> returns rm_ok (serve pf c st)"
  by (cases c)
    (auto simp: GetAvailableGPUs_def UpdateMPSConfigs_def CleanUp_def split: option.splits
      intro!: returns_state list_gpus_ok RequestVirtualGPU_ok ReleaseVirtualGPU_ok EnableMPS_ok DisableMPS_ok
        release_all_ok stop_all_ok)

lemma serve_all_ok: "rm_ok st \<Longrightarrow> returns rm_ok (serve_all pf cs st)"
  by (induction cs arbitrary: st) (auto intro: returns_bind serve_ok)


section \<open>Percentages\<close>

lemma int_Round_bounds: "0 \<le> q \<Longrightarrow> q \<le> of_int n \<Longrightarrow> 0 \<le> int_Round (Fin q) \<and> int_Round (Fin q) \<le> n"
  unfolding int_Round_def by (simp add: floor_le_iff)

text \<open>
  The SM percentage is a percentage: for a MIG device or profile with at most the SMs of its GPU, the
  rounded quotient lies between 0 and 100, and it is 100 for all the SMs.
\<close>

theorem sm_percentage_range:
  assumes "0 \<le> mp" "mp \<le> sm" "0 < sm" "sm \<le> 2 ^ 40"
  shows "0 \<le> sm_percentage mp sm \<and> sm_percentage mp sm \<le> 100 \<and> sm_percentage sm sm = 100"
proof -
  have small: "f_of_int n = Fin (of_int n)" if "0 \<le> n" "n \<le> sm" for n
    using that assms(4) by (intro fl_small_int) simp
  have mul: "fl (of_int n * 100) = Fin (of_int n * 100)" if "0 \<le> n" "n \<le> sm" for n
    using fl_small_int[of "n * 100"] that assms(4) by (simp add: f_of_int_def)
  have eq: "sm_percentage n sm = int_Round (fl (of_int n * 100 / of_int sm))" if "0 \<le> n" "n \<le> sm" for n
    using small[OF that] small[of sm] mul[OF that] assms(3) by (simp add: sm_percentage_def)
  have b: "0 \<le> (of_int mp * 100 / of_int sm :: rat)" "(of_int mp * 100 / of_int sm :: rat) \<le> 100"
    using assms(1-3) by (simp_all add: field_simps)
  have r100: "rnd 100 = 100" using rnd_of_int[of 100] by simp
  have "0 \<le> rnd (of_int mp * 100 / of_int sm)" "rnd (of_int mp * 100 / of_int sm) \<le> 100"
    using rnd_mono[OF b(1)] rnd_mono[OF b(2)] r100 by simp_all
  moreover from this have "fl (of_int mp * 100 / of_int sm) = Fin (rnd (of_int mp * 100 / of_int sm))"
    by (auto simp: fl_Fin_iff abs_if intro: le_less_trans[of _ 100])
  moreover have "fl 100 = Fin 100" using r100 by (simp add: fl_Fin_iff)
  moreover have "\<lfloor>201 / 2 :: rat\<rfloor> = 100" by (rule floor_unique) simp_all
  ultimately show ?thesis
    using eq[OF assms(1,2)] eq[of sm] int_Round_bounds[of "rnd (of_int mp * 100 / of_int sm)" 100] assms(3)
    by (simp add: int_Round_def)
qed

theorem sm_percentage_range_witness: "sm_percentage 14 108 \<le> 100 \<and> sm_percentage 108 108 = 100"
  using sm_percentage_range[of 14 108] by simp

section \<open>The MPS flag\<close>

text \<open>
  Listing the GPUs forgets that MPS is running on a GPU that is not partitioned: its entry is replaced by
  one with the flag off, so that disabling MPS after a listing reports success without running a command, and a
  daemon that was started stays.
\<close>

theorem listing_forgets_mps:
  assumes "PhysicalGPUs st = [d]" "nv_GetName (pf_nvml pf) (hw st) d = Success nm"
    and "nv_GetUUID (pf_nvml pf) (hw st) d = Success u" "nv_GetMemoryInfo (pf_nvml pf) (hw st) d = Success t"
    and "nv_GetMigMode (pf_nvml pf) (hw st) d = (False, r)" "r = NotSupported \<or> r = Success ()"
  shows "\<exists>l st1. GetAvailableGPUs pf st = Ret (l, st1) \<and> hw st1 = hw st
    \<and> DisableMPS pf u st1 = Ret (\<lparr>dm_success = True, dm_message = ''Successfully disabled MPS for device '' @ u\<rparr>, st1)"
  using assms
  by (auto simp: GetAvailableGPUs_def list_gpus_def getAndSetAvailableVirtualResources_def getAvailableVirtualResources_def
      discover_gpu_def record_vgpu_def alloc_def physical_vgpu_def DisableMPS_def Let_def split: sum.splits)

definition demo_nvml :: "'h nvml" where
  "demo_nvml = \<lparr>nv_DeviceGetCount = (\<lambda>h. Success 1), nv_DeviceGetHandleByIndex = (\<lambda>h i. Success 0),
     nv_GetName = (\<lambda>h d. Success ''NVIDIA A100''), nv_GetUUID = (\<lambda>h d. Success ''u1''),
     nv_GetMemoryInfo = (\<lambda>h d. Success 4000), nv_GetMigMode = (\<lambda>h d. (False, NotSupported)),
     nv_GetMaxMigDeviceCount = (\<lambda>h d. NotSupported), nv_GetMigDeviceHandleByIndex = (\<lambda>h d i. NotSupported),
     nv_GetAttributes = (\<lambda>h d. NotSupported), nv_GetIndex = (\<lambda>h d. Success 0),
     nv_GetComputeInstanceId = (\<lambda>h d. NotSupported), nv_GetGpuInstanceId = (\<lambda>h d. NotSupported),
     nv_GetGpuInstanceById = (\<lambda>h d i. NotSupported), nv_GetGpuInstanceProfileInfo = (\<lambda>h d i. NotSupported),
     nv_GetGpuInstances = (\<lambda>h d p. NotSupported), nv_GetGpuInstanceRemainingCapacity = (\<lambda>h d p. NotSupported),
     nv_CreateGpuInstance = (\<lambda>h d p. (Success 0, h)), nv_gi_GetInfo = (\<lambda>h g. Success \<lparr>gi_Id = 0, gi_ProfileId = 19\<rparr>),
     nv_gi_Destroy = (\<lambda>h g. (Success (), h)), nv_GetComputeInstanceById = (\<lambda>h g i. NotSupported),
     nv_GetComputeInstanceProfileInfo = (\<lambda>h g j k. NotSupported), nv_GetComputeInstances = (\<lambda>h g p. NotSupported),
     nv_CreateComputeInstance = (\<lambda>h g p. (Success 0, h)), nv_ci_GetInfo = (\<lambda>h c. NvError ''lost''),
     nv_ci_Destroy = (\<lambda>h c. (Success (), h))\<rparr>"

definition demo_platform :: "(string \<rightharpoonup> string) platform" where
  "demo_platform = \<lparr>pf_nvml = demo_nvml, pf_os = demo_os, pf_counts = \<lparr>GPU_INSTANCE_PROFILE_COUNT = 10,
     COMPUTE_INSTANCE_PROFILE_COUNT = 0, COMPUTE_INSTANCE_ENGINE_PROFILE_COUNT = 0\<rparr>\<rparr>"

definition demo_device :: "bool \<Rightarrow> VirtualGPU" where
  "demo_device on = set_server \<lparr>m_UUID = ''u1'', m_Name = ''NVIDIA A100'', isEnabled = on\<rparr>
     (physical_vgpu 0 0 ''NVIDIA A100'' ''u1'' 4000 108)"

definition demo_rm :: "bool \<Rightarrow> (string \<rightharpoonup> string) rm" where
  "demo_rm on = \<lparr>hw = Map.empty, PhysicalGPUs = [0], VirtualGPUs = [0], provisionedGPUs = [''u1'' \<mapsto> 0],
     heap = (\<lambda>a. demo_device on), fresh = 1\<rparr>"

theorem listing_forgets_mps_witness:
  "\<exists>l st1. GetAvailableGPUs demo_platform (demo_rm True) = Ret (l, st1)
     \<and> (\<exists>m. DisableMPS demo_platform ''u1'' st1 = Ret (\<lparr>dm_success = True, dm_message = m\<rparr>, st1))"
  using listing_forgets_mps[of "demo_rm True" 0 demo_platform "''NVIDIA A100''" "''u1''" 4000 NotSupported]
  by (auto simp: demo_rm_def demo_platform_def demo_nvml_def)

lemma demo_sm: "GetSMCount ''NVIDIA A100'' = Inr 108"
  by code_simp

lemma demo_new_rm:
  "NewResourceManager True demo_platform (demo_device False) Map.empty = Ret (Inr (demo_rm False))"
  by (auto simp: NewResourceManager_def demo_platform_def demo_nvml_def getAvailableVirtualResources_def discover_gpu_def
      record_vgpu_def alloc_def demo_rm_def demo_device_def set_server_def physical_vgpu_def demo_sm Let_def fun_eq_iff)


section \<open>A failed provisioning\<close>

lemma Release_without_gpu: "ProvisionedGPU (heap st a) = None \<Longrightarrow> Release pf a st = Ret (None, st)"
  by (simp add: Release_def Let_def)

text \<open>
  Provisioning that fails after the compute instance was created loses the offer: both instances are
  destroyed again, but the object stays marked as provisioned without having a GPU, so that it is never found
  for its profile again, and releasing it does nothing.
\<close>

theorem failed_provisioning_loses_offer:
  assumes "\<not> IsProvisioned (heap st a)" "ProvisionedGPU (heap st a) = None" "v_Mig (heap st a) = Some mig"
    and "nv_DeviceGetHandleByIndex (pf_nvml pf) (hw st) (DeviceIndex (heap st a)) = Success d"
    and "nv_CreateGpuInstance (pf_nvml pf) (hw st) d (mig_profile mig) = (Success g, h1)"
    and "nv_gi_GetInfo (pf_nvml pf) h1 g = Success info"
    and "GetFullUsageComputeInstanceProfile (pf_counts pf) (pf_nvml pf) h1 g = Inr cip"
    and "nv_CreateComputeInstance (pf_nvml pf) h1 g cip = (Success c, h2)"
    and "\<And>x. nv_ci_GetInfo (pf_nvml pf) h2 c \<noteq> Success x"
  shows "\<exists>e st'. Access pf a st = Ret (Some e, st') \<and> IsProvisioned (heap st' a) \<and> ProvisionedGPU (heap st' a) = None
    \<and> provisionedGPUs st' = provisionedGPUs st \<and> VirtualGPUs st' = VirtualGPUs st
    \<and> hw st' = snd (nv_ci_Destroy (pf_nvml pf) (snd (nv_gi_Destroy (pf_nvml pf) h2 g)) c)
    \<and> Release pf a st' = Ret (None, st') \<and> (\<forall>p. FindVirtualGPU p st' \<noteq> Inr a)"
proof -
  let ?st = "upd a (\<lambda>v. set_mig (\<lambda>m. m\<lparr>ComputeInstance := Some c\<rparr>) v\<lparr>IsProvisioned := True\<rparr>)
    (set_hw h2 (upd a (set_mig (\<lambda>m. m\<lparr>GPUInstance := Some g\<rparr>)) (set_hw h1 st)))"
  let ?st' = "abandon pf g c ?st"
  have "access_device pf a d g info c ?st = (Some ''failed to get compute instance info'', ?st')"
    using assms(9) by (auto simp: access_device_def or_abandon_def Let_def split: nv.splits)
  then have acc: "Access pf a st = Ret (Some ''failed to get compute instance info'', ?st')"
    using assms(1,3-8) by (simp add: Access_def Let_def)
  have fr: "IsProvisioned (heap ?st' a)" "ProvisionedGPU (heap ?st' a) = None" "provisionedGPUs ?st' = provisionedGPUs st"
    "VirtualGPUs ?st' = VirtualGPUs st" "hw ?st' = snd (nv_ci_Destroy (pf_nvml pf) (snd (nv_gi_Destroy (pf_nvml pf) h2 g)) c)"
    using assms(2) by (simp_all add: abandon_def set_mig_def destroy_gi_def destroy_ci_def split_beta)
  then have "FindVirtualGPU p ?st' \<noteq> Inr a" for p
    by (auto simp: FindVirtualGPU_def dest: find_first_SomeD split: option.splits)
  moreover have "Release pf a ?st' = Ret (None, ?st')" using fr(2) by (rule Release_without_gpu)
  ultimately show ?thesis using acc fr by blast
qed

theorem failed_provisioning_loses_offer_witness:
  "\<exists>e st'. Access demo_platform 0 ((demo_rm False)\<lparr>heap := \<lambda>a. profile_vgpu 0 ''NVIDIA A100'' 108
        \<lparr>prof_Id = 19, prof_MP = 14, prof_MemorySizeMB = 4864\<rparr> 0\<rparr>) = Ret (Some e, st') \<and> FindVirtualGPU 19 st' \<noteq> Inr 0"
  using failed_provisioning_loses_offer[of "(demo_rm False)\<lparr>heap := \<lambda>a. profile_vgpu 0 ''NVIDIA A100'' 108
        \<lparr>prof_Id = 19, prof_MP = 14, prof_MemorySizeMB = 4864\<rparr> 0\<rparr>" 0
      "\<lparr>GPUInstance = None, ComputeInstance = None, mig_profile = \<lparr>prof_Id = 19, prof_MP = 14, prof_MemorySizeMB = 4864\<rparr>\<rparr>"
      demo_platform 0 0 Map.empty "\<lparr>gi_Id = 0, gi_ProfileId = 19\<rparr>" None 0 Map.empty]
  by (auto simp: profile_vgpu_def demo_rm_def demo_platform_def demo_nvml_def GetFullUsageComputeInstanceProfile_def
      GetPossibleComputeInstanceProfiles_def ci_profile_numbers_def)

section \<open>The controller manager's client, answered by the service\<close>

text \<open>The answers of the service in one state, as the client of the controller manager sees them.\<close>

definition answer :: "(('r \<times> string option) \<times> 'h rm) go \<Rightarrow> 'r option" where
  "answer m = (case m of Ret ((r, e), st) \<Rightarrow> client_result (Some r, e) | _ \<Rightarrow> None)"

definition rpc_of :: "'h platform \<Rightarrow> 'h rm \<Rightarrow> rpc" where
  "rpc_of pf st =
     \<lparr>rpc_EnableMPS = (\<lambda>u. answer (EnableMPS pf u st)),
      rpc_DisableMPS = (\<lambda>u. answer (bind_go (DisableMPS pf u st) (\<lambda>(r, st'). Ret ((r, None), st')))),
      rpc_ReleaseVirtualGPU = (\<lambda>u. answer (bind_go (ReleaseVirtualGPU pf u st) (\<lambda>(r, st'). Ret ((r, None), st')))),
      rpc_GetGPU = (\<lambda>u. case GetGPU u st of Inl e \<Rightarrow> client_result (None, Some e) | Inr r \<Rightarrow> client_result (Some r, None :: string option)),
      rpc_UpdateMPSConfigs = (\<lambda>rq. fst (UpdateMPSConfigs pf rq st) = None)\<rparr>"

lemma rpc_of_GetGPU:
  assumes "rm_ok st" "provisionedGPUs st u = Some a"
  obtains g where "rpc_GetGPU (rpc_of pf st) u = Some \<lparr>gg_gpu = Some (mapToSetiVirtualGPU (heap st a))\<rparr>"
    "ProvisionedGPU (heap st a) = Some g" "g_UUID g = u"
  using rm_okD(2)[OF assms] assms(2) that
  by (auto simp: rpc_of_def GetGPU_def GetVirtualGPU_def client_result_def elim!: entry_okE)


lemma demo_rm_ok: "rm_ok (demo_rm on)"
  by (simp add: rm_ok_def demo_rm_def entry_ok_def demo_device_def set_server_def physical_vgpu_def)


end
