(* ===== verification/Json.thy ===== *)
theory Json
  imports Prelude
begin

text \<open>
  The part of Go's \<open>encoding/json\<close> that the program uses, on byte strings: \<open>json.Marshal\<close> and \<open>json.Unmarshal\<close> for
  structs whose fields are strings, booleans and 64-bit integers.

  Marshalling replaces bytes that are not UTF-8 by the replacement character and escapes control characters, quotes
  and the characters \<open>HTMLEscape\<close> escapes. Unmarshalling checks the whole text first, then stores the members of the
  object one by one: a name matches a field exactly or up to case, unknown names are skipped, \<open>null\<close> changes nothing,
  and a value of the wrong type is an error that does not stop the rest from being stored.

  The printed form of a value is read back as the value (\<open>parse_print\<close>), up to the replacement of invalid bytes.
\<close>

section \<open>UTF-8\<close>

abbreviation byte :: "char \<Rightarrow> nat" where
  "byte c \<equiv> of_char c"

text \<open>The length that the first byte of a rune announces, 0 for a byte no rune begins with.\<close>

definition seq_len :: "char \<Rightarrow> nat" where
  "seq_len c = (if byte c < 0x80 then 1
     else if 0xC2 \<le> byte c \<and> byte c \<le> 0xDF then 2
     else if 0xE0 \<le> byte c \<and> byte c \<le> 0xEF then 3
     else if 0xF0 \<le> byte c \<and> byte c \<le> 0xF4 then 4
     else 0)"

definition continuation :: "char \<Rightarrow> bool" where
  "continuation c = (0x80 \<le> byte c \<and> byte c \<le> 0xBF)"

text \<open>The second byte excludes overlong forms, surrogates and runes beyond U+10FFFF.\<close>

definition second_ok :: "char \<Rightarrow> char \<Rightarrow> bool" where
  "second_ok c d = (continuation d
     \<and> (byte c = 0xE0 \<longrightarrow> 0xA0 \<le> byte d) \<and> (byte c = 0xED \<longrightarrow> byte d \<le> 0x9F)
     \<and> (byte c = 0xF0 \<longrightarrow> 0x90 \<le> byte d) \<and> (byte c = 0xF4 \<longrightarrow> byte d \<le> 0x8F))"

text \<open>The bytes of the first rune and what follows; \<open>None\<close> where \<open>utf8.DecodeRune\<close> reports an invalid byte.\<close>

definition split_rune :: "string \<Rightarrow> (string \<times> string) option" where
  "split_rune s = (case s of
     [] \<Rightarrow> None
   | c # t \<Rightarrow>
       let k = seq_len c - 1
       in if seq_len c = 0 \<or> length t < k then None
          else if (0 < k \<longrightarrow> second_ok c (t ! 0)) \<and> list_all continuation (take k t)
          then Some (c # take k t, drop k t) else None)"

definition replacement :: string where
  "replacement = [CHR 0xEF, CHR 0xBF, CHR 0xBD]"

lemma split_rune_SomeD:
  "split_rune s = Some (r, t) \<Longrightarrow> s = r @ t \<and> r \<noteq> [] \<and> length t < length s"
  by (auto simp: split_rune_def Let_def split: list.splits if_splits)

lemma split_rune_length: "split_rune s = Some (r, t) \<Longrightarrow> length t < length s"
  using split_rune_SomeD by blast

lemma split_rune_append: "split_rune s = Some (r, t) \<Longrightarrow> split_rune (r @ u) = Some (r, u)"
  by (auto simp: split_rune_def Let_def split: list.splits if_splits simp: nth_append)

lemma split_rune_ascii [simp]: "byte c < 0x80 \<Longrightarrow> split_rune (c # s) = Some ([c], s)"
  by (simp add: split_rune_def seq_len_def)

lemma split_rune_hd: "split_rune (c # s) = Some (r, t) \<Longrightarrow> \<exists>r'. r = c # r'"
  by (auto simp: split_rune_def Let_def split: if_splits)

function valid_utf8 :: "string \<Rightarrow> bool" where
  "valid_utf8 s = (s = [] \<or> (case split_rune s of None \<Rightarrow> False | Some (r, t) \<Rightarrow> valid_utf8 t))"
  by pat_completeness auto
termination by (relation "measure length") (auto dest: split_rune_length)

text \<open>Every invalid byte is replaced on its own.\<close>

function to_valid :: "string \<Rightarrow> string" where
  "to_valid [] = []"
| "to_valid (c # s) = (case split_rune (c # s) of None \<Rightarrow> replacement @ to_valid s | Some (r, t) \<Rightarrow> r @ to_valid t)"
  by pat_completeness auto
termination by (relation "measure length") (auto dest: split_rune_length)

declare valid_utf8.simps [simp del] to_valid.simps(2) [simp del]

lemma valid_utf8_Nil [simp]: "valid_utf8 []"
  by (subst valid_utf8.simps) simp

lemma valid_utf8_Cons: "valid_utf8 (c # s) = (case split_rune (c # s) of None \<Rightarrow> False | Some (r, t) \<Rightarrow> valid_utf8 t)"
  by (subst valid_utf8.simps) simp

lemma to_valid_id: "valid_utf8 s \<Longrightarrow> to_valid s = s"
proof (induction "length s" arbitrary: s rule: less_induct)
  case less
  show ?case
  proof (cases s)
    case (Cons c u)
    with less.prems obtain r t where r: "split_rune s = Some (r, t)" "valid_utf8 t"
      by (auto simp: valid_utf8_Cons split: option.splits)
    have "to_valid t = t" using less.hyps[OF split_rune_length[OF r(1)] r(2)] .
    moreover have "to_valid s = r @ to_valid t" using r(1) Cons by (simp add: to_valid.simps(2))
    ultimately show ?thesis using split_rune_SomeD[OF r(1)] by simp
  qed simp
qed

lemma valid_ascii: "list_all (\<lambda>c. byte c < 0x80) s \<Longrightarrow> valid_utf8 s"
proof (induction s)
  case (Cons c s)
  then show ?case by (simp add: valid_utf8_Cons)
qed simp

text \<open>The bytes of a rune that is not a surrogate.\<close>

definition encode_rune :: "nat \<Rightarrow> string" where
  "encode_rune n =
     (if n < 0x80 then [char_of n]
      else if n < 0x800 then [char_of (0xC0 + n div 64), char_of (0x80 + n mod 64)]
      else if n < 0x10000 then
        [char_of (0xE0 + n div 4096), char_of (0x80 + n div 64 mod 64), char_of (0x80 + n mod 64)]
      else [char_of (0xF0 + n div 262144), char_of (0x80 + n div 4096 mod 64),
            char_of (0x80 + n div 64 mod 64), char_of (0x80 + n mod 64)])"

section \<open>Strings\<close>

definition hex_digit :: "nat \<Rightarrow> char" where
  "hex_digit n = (if n < 10 then char_of (48 + n) else char_of (87 + n))"

definition hex_val :: "char \<Rightarrow> nat option" where
  "hex_val c = (if is_digit c then Some (byte c - 48)
     else if 97 \<le> byte c \<and> byte c \<le> 102 then Some (byte c - 87)
     else if 65 \<le> byte c \<and> byte c \<le> 70 then Some (byte c - 55) else None)"

definition quote_char :: char where
  "quote_char = CHR 0x22"

definition escape_ascii :: "char \<Rightarrow> string" where
  "escape_ascii c =
     (if c = quote_char \<or> c = CHR 0x5C then [CHR 0x5C, c]
      else if c = CHR 0x08 then [CHR 0x5C, CHR ''b'']
      else if c = CHR 0x0C then [CHR 0x5C, CHR ''f'']
      else if c = CHR 0x0A then [CHR 0x5C, CHR ''n'']
      else if c = CHR 0x0D then [CHR 0x5C, CHR ''r'']
      else if c = CHR 0x09 then [CHR 0x5C, CHR ''t'']
      else if byte c < 0x20 \<or> c = CHR ''<'' \<or> c = CHR ''>'' \<or> c = CHR ''&''
      then [CHR 0x5C, CHR ''u'', CHR ''0'', CHR ''0'', hex_digit (byte c div 16), hex_digit (byte c mod 16)]
      else [c])"

function quote_body :: "string \<Rightarrow> string" where
  "quote_body [] = []"
| "quote_body (c # s) = (case split_rune (c # s) of
     None \<Rightarrow> CHR 0x5C # ''ufffd'' @ quote_body s
   | Some (r, t) \<Rightarrow>
       (if byte c < 0x80 then escape_ascii c
        else if r = [CHR 0xE2, CHR 0x80, CHR 0xA8] then CHR 0x5C # ''u2028''
        else if r = [CHR 0xE2, CHR 0x80, CHR 0xA9] then CHR 0x5C # ''u2029''
        else r) @ quote_body t)"
  by pat_completeness auto
termination by (relation "measure length") (auto dest: split_rune_length)

declare quote_body.simps(2) [simp del]

definition hex4 :: "string \<Rightarrow> (nat \<times> string) option" where
  "hex4 s = (case s of
     a # b # c # d # t \<Rightarrow>
       (case (hex_val a, hex_val b, hex_val c, hex_val d) of
          (Some a, Some b, Some c, Some d) \<Rightarrow> Some (((a * 16 + b) * 16 + c) * 16 + d, t)
        | _ \<Rightarrow> None)
   | _ \<Rightarrow> None)"

definition unescape :: "char \<Rightarrow> char option" where
  "unescape e = (if e = quote_char \<or> e = CHR 0x5C \<or> e = CHR ''/'' then Some e
     else if e = CHR ''b'' then Some (CHR 0x08) else if e = CHR ''f'' then Some (CHR 0x0C)
     else if e = CHR ''n'' then Some (CHR 0x0A) else if e = CHR ''r'' then Some (CHR 0x0D)
     else if e = CHR ''t'' then Some (CHR 0x09) else None)"

definition surrogate :: "nat \<Rightarrow> bool" where
  "surrogate n = (0xD800 \<le> n \<and> n < 0xE000)"

text \<open>The low surrogate that must follow a high one: the rune both denote and the rest.\<close>

definition low_surrogate :: "nat \<Rightarrow> string \<Rightarrow> (nat \<times> string) option" where
  "low_surrogate hi s = (case s of
     a # b # t \<Rightarrow>
       if a = CHR 0x5C \<and> b = CHR ''u''
       then (case hex4 t of
               None \<Rightarrow> None
             | Some (lo, u) \<Rightarrow>
                 if hi < 0xDC00 \<and> 0xDC00 \<le> lo \<and> lo < 0xE000
                 then Some ((hi - 0xD800) * 1024 + (lo - 0xDC00) + 0x10000, u) else None)
       else None
   | _ \<Rightarrow> None)"

lemma hex4_length: "hex4 s = Some (n, t) \<Longrightarrow> length t < length s"
  by (auto simp: hex4_def split: list.splits option.splits)

lemma low_surrogate_length: "low_surrogate hi s = Some (n, t) \<Longrightarrow> length t < length s"
  by (auto simp: low_surrogate_def dest!: hex4_length split: list.splits option.splits if_splits)

text \<open>What follows the opening quote of a string: its value and what follows the closing quote.\<close>

definition cons_str :: "string \<Rightarrow> (string \<times> string) option \<Rightarrow> (string \<times> string) option" where
  "cons_str p r = (case r of None \<Rightarrow> None | Some (v, t) \<Rightarrow> Some (p @ v, t))"

lemma cons_str_simps [simp]: "cons_str p None = None" "cons_str p (Some (v, t)) = Some (p @ v, t)"
  by (simp_all add: cons_str_def)

function read_string :: "string \<Rightarrow> (string \<times> string) option" where
  "read_string [] = None"
| "read_string (c # s) =
     (if c = quote_char then Some ([], s)
      else if byte c < 0x20 then None
      else if c = CHR 0x5C then
        (case s of
           [] \<Rightarrow> None
         | e # s1 \<Rightarrow>
             if e = CHR ''u'' then
               (case hex4 s1 of
                  None \<Rightarrow> None
                | Some (n, s2) \<Rightarrow>
                    if \<not> surrogate n then cons_str (encode_rune n) (read_string s2)
                    else (case low_surrogate n s2 of
                            None \<Rightarrow> cons_str replacement (read_string s2)
                          | Some (m, s3) \<Rightarrow> cons_str (encode_rune m) (read_string s3)))
             else (case unescape e of
                     None \<Rightarrow> None
                   | Some d \<Rightarrow> cons_str [d] (read_string s1)))
      else (case split_rune (c # s) of
              None \<Rightarrow> cons_str replacement (read_string s)
            | Some (r, t) \<Rightarrow> cons_str r (read_string t)))"
  by pat_completeness auto
termination
  by (relation "measure length") (auto dest!: hex4_length low_surrogate_length split_rune_length)

declare read_string.simps(2) [simp del]

lemma cons_str_cons_str [simp]: "cons_str p (cons_str q r) = cons_str (p @ q) r"
  by (auto simp: cons_str_def split: option.splits)

lemma hex_val_digit [simp]: "n < 16 \<Longrightarrow> hex_val (hex_digit n) = Some n"
  by (auto simp: hex_val_def hex_digit_def is_digit_def of_char_of)

lemma hex4_ascii:
  assumes "n < 0x80"
  shows "hex4 (CHR ''0'' # CHR ''0'' # hex_digit (n div 16) # hex_digit (n mod 16) # t) = Some (n, t)"
proof -
  have "hex_val (CHR ''0'') = Some 0" by (simp add: hex_val_def is_digit_def)
  then show ?thesis using assms by (simp add: hex4_def div_less_iff_less_mult)
qed

lemma read_plain:
  "c \<noteq> quote_char \<Longrightarrow> c \<noteq> CHR 0x5C \<Longrightarrow> \<not> byte c < 0x20 \<Longrightarrow> split_rune (c # s) = Some (r, t) \<Longrightarrow>
     read_string (c # s) = cons_str r (read_string t)"
  by (simp add: read_string.simps)

lemma read_escaped:
  "e \<noteq> CHR ''u'' \<Longrightarrow> unescape e = Some d \<Longrightarrow> read_string (CHR 0x5C # e # t) = cons_str [d] (read_string t)"
  by (simp add: read_string.simps quote_char_def)

lemma read_hex:
  "hex4 u = Some (n, t) \<Longrightarrow> \<not> surrogate n \<Longrightarrow>
     read_string (CHR 0x5C # CHR ''u'' # u) = cons_str (encode_rune n) (read_string t)"
  by (simp add: read_string.simps quote_char_def)

lemma read_escape:
  assumes "byte c < 0x80"
  shows "read_string (escape_ascii c @ t) = cons_str [c] (read_string t)"
proof -
  consider (self) "c = quote_char \<or> c = CHR 0x5C"
    | (short) "c \<in> {CHR 0x08, CHR 0x0C, CHR 0x0A, CHR 0x0D, CHR 0x09}"
    | (hex) "escape_ascii c = [CHR 0x5C, CHR ''u'', CHR ''0'', CHR ''0'', hex_digit (byte c div 16), hex_digit (byte c mod 16)]"
    | (plain) "escape_ascii c = [c]" "c \<noteq> quote_char" "c \<noteq> CHR 0x5C" "\<not> byte c < 0x20"
    by (cases "c = quote_char \<or> c = CHR 0x5C"; cases "c \<in> {CHR 0x08, CHR 0x0C, CHR 0x0A, CHR 0x0D, CHR 0x09}";
        cases "byte c < 0x20 \<or> c = CHR ''<'' \<or> c = CHR ''>'' \<or> c = CHR ''&''") (simp_all add: escape_ascii_def)
  then show ?thesis
  proof cases
    case self
    then show ?thesis
      using read_escaped[of quote_char quote_char t] read_escaped[of "CHR 0x5C" "CHR 0x5C" t]
      by (auto simp: escape_ascii_def unescape_def quote_char_def)
  next
    case short
    then show ?thesis
      by (auto simp: escape_ascii_def unescape_def quote_char_def read_escaped)
  next
    case hex
    have "encode_rune (byte c) = [c]" using assms by (simp add: encode_rune_def)
    moreover have "\<not> surrogate (byte c)" using assms by (simp add: surrogate_def)
    ultimately show ?thesis using read_hex[OF hex4_ascii[OF assms, of t]] hex by simp
  next
    case plain
    then show ?thesis using read_plain[OF plain(2-4) split_rune_ascii[OF assms]] by simp
  qed
qed

lemma read_named_rune:
  "read_string (CHR 0x5C # ''ufffd'' @ t) = cons_str replacement (read_string t)"
  "read_string (CHR 0x5C # ''u2028'' @ t) = cons_str [CHR 0xE2, CHR 0x80, CHR 0xA8] (read_string t)"
  "read_string (CHR 0x5C # ''u2029'' @ t) = cons_str [CHR 0xE2, CHR 0x80, CHR 0xA9] (read_string t)"
proof -
  have h: "hex4 (''fffd'' @ t) = Some (0xFFFD, t)" "hex4 (''2028'' @ t) = Some (0x2028, t)"
    "hex4 (''2029'' @ t) = Some (0x2029, t)"
    by (simp_all add: hex4_def hex_val_def is_digit_def)
  have e: "encode_rune 0xFFFD = replacement" "encode_rune 0x2028 = [CHR 0xE2, CHR 0x80, CHR 0xA8]"
    "encode_rune 0x2029 = [CHR 0xE2, CHR 0x80, CHR 0xA9]"
    by (simp_all add: encode_rune_def replacement_def char_of_def bit_0)
  show "read_string (CHR 0x5C # ''ufffd'' @ t) = cons_str replacement (read_string t)"
    using read_hex[OF h(1)] by (simp add: e surrogate_def)
  show "read_string (CHR 0x5C # ''u2028'' @ t) = cons_str [CHR 0xE2, CHR 0x80, CHR 0xA8] (read_string t)"
    using read_hex[OF h(2)] by (simp add: e surrogate_def)
  show "read_string (CHR 0x5C # ''u2029'' @ t) = cons_str [CHR 0xE2, CHR 0x80, CHR 0xA9] (read_string t)"
    using read_hex[OF h(3)] by (simp add: e surrogate_def)
qed

text \<open>A string comes back with its invalid bytes replaced.\<close>

lemma read_quoted: "read_string (quote_body s @ quote_char # t) = Some (to_valid s, t)"
proof (induction s rule: to_valid.induct)
  case 1
  then show ?case by (simp add: read_string.simps)
next
  case (2 c s)
  show ?case
  proof (cases "split_rune (c # s)")
    case None
    then show ?thesis using "2.IH"(1) read_named_rune(1)[of "quote_body s @ quote_char # t"]
      by (simp add: quote_body.simps(2) to_valid.simps(2))
  next
    case (Some p)
    obtain r u where p: "p = (r, u)" by (cases p)
    have ih: "read_string (quote_body u @ quote_char # t) = Some (to_valid u, t)" using "2.IH"(2)[OF Some p[symmetric]] .
    show ?thesis
    proof (cases "byte c < 0x80")
      case True
      then have "r = [c]" "u = s" using Some p by auto
      then show ?thesis using True Some p ih read_escape[OF True, of "quote_body s @ quote_char # t"]
        by (simp add: quote_body.simps(2) to_valid.simps(2))
    next
      case False
      then have c: "c \<noteq> quote_char" "c \<noteq> CHR 0x5C" "\<not> byte c < 0x20" by (auto simp: quote_char_def)
      obtain r' where r': "r = c # r'" using split_rune_hd[of c s r u] Some p by auto
      have "split_rune (c # r' @ quote_body u @ quote_char # t) = Some (r, quote_body u @ quote_char # t)"
        using split_rune_append[of "c # s" r u] Some p r' by simp
      from read_plain[OF c this] ih
      have "read_string (r @ quote_body u @ quote_char # t) = Some (r @ to_valid u, t)" by (simp add: r')
      then show ?thesis using False Some p ih read_named_rune(2,3)[of "quote_body u @ quote_char # t"]
        by (simp add: quote_body.simps(2) to_valid.simps(2))
    qed
  qed
qed

lemma read_string_length: "read_string s = Some (v, t) \<Longrightarrow> length t < length s"
proof (induction "length s" arbitrary: s v rule: less_induct)
  case less
  have rec: "cons_str p (read_string u) = Some (v, t) \<Longrightarrow> length u < length s \<Longrightarrow> length t < length s" for p u
    using less.hyps[of u] by (cases "read_string u") (auto simp: cons_str_def split: prod.splits intro: less_trans)
  from less.prems show ?case
    by (cases s) (auto simp: read_string.simps(2) split: if_splits option.splits list.splits prod.splits
        dest!: rec hex4_length low_surrogate_length split_rune_length)
qed

section \<open>Numbers\<close>

datatype num_state = Minus | Zero | Integer | Dot | Fraction | Exponent | ExpSign | ExpDigits

definition num_accept :: "num_state \<Rightarrow> bool" where
  "num_accept q = (q = Zero \<or> q = Integer \<or> q = Fraction \<or> q = ExpDigits)"

definition num_next :: "num_state \<Rightarrow> char \<Rightarrow> num_state option" where
  "num_next q c = (case q of
     Minus \<Rightarrow> if c = CHR ''0'' then Some Zero else if is_digit c then Some Integer else None
   | Zero \<Rightarrow> if c = CHR ''.'' then Some Dot else if c = CHR ''e'' \<or> c = CHR ''E'' then Some Exponent else None
   | Integer \<Rightarrow> if is_digit c then Some Integer else if c = CHR ''.'' then Some Dot
       else if c = CHR ''e'' \<or> c = CHR ''E'' then Some Exponent else None
   | Dot \<Rightarrow> if is_digit c then Some Fraction else None
   | Fraction \<Rightarrow> if is_digit c then Some Fraction
       else if c = CHR ''e'' \<or> c = CHR ''E'' then Some Exponent else None
   | Exponent \<Rightarrow> if c = CHR ''+'' \<or> c = CHR ''-'' then Some ExpSign
       else if is_digit c then Some ExpDigits else None
   | ExpSign \<Rightarrow> if is_digit c then Some ExpDigits else None
   | ExpDigits \<Rightarrow> if is_digit c then Some ExpDigits else None)"

text \<open>The longest number from a state on, and what follows it.\<close>

fun scan_num :: "num_state \<Rightarrow> string \<Rightarrow> (string \<times> string) option" where
  "scan_num q [] = (if num_accept q then Some ([], []) else None)"
| "scan_num q (c # s) = (case num_next q c of
     None \<Rightarrow> if num_accept q then Some ([], c # s) else None
   | Some q' \<Rightarrow> cons_str [c] (scan_num q' s))"

text \<open>A number begins like one after a minus sign, or with the minus sign.\<close>

definition read_num :: "string \<Rightarrow> (string \<times> string) option" where
  "read_num s = (case s of
     [] \<Rightarrow> None
   | c # t \<Rightarrow> if c = CHR ''-'' then cons_str [c] (scan_num Minus t) else scan_num Minus s)"

definition num_ok :: "string \<Rightarrow> bool" where
  "num_ok n = (read_num n = Some (n, []))"

definition num_char :: "char \<Rightarrow> bool" where
  "num_char c = (is_digit c \<or> c \<in> set ''+-.eE'')"

definition stops_num :: "string \<Rightarrow> bool" where
  "stops_num t = (t = [] \<or> \<not> num_char (hd t))"

lemma scan_num_length: "scan_num q s = Some (n, t) \<Longrightarrow> length t \<le> length s"
proof (induction s arbitrary: q n)
  case (Cons c s)
  then show ?case using Cons.IH
    by (auto simp: cons_str_def le_Suc_eq split: if_splits option.splits prod.splits)
qed (auto split: if_splits)

lemma read_num_length:
  assumes "read_num s = Some (n, t)"
  shows "length t < length s"
proof (cases s)
  case (Cons c u)
  show ?thesis
  proof (cases "c = CHR ''-''")
    case True
    then show ?thesis using assms Cons scan_num_length[of Minus u]
      by (auto simp: read_num_def cons_str_def split: option.splits prod.splits)
  next
    case False
    then obtain q where "cons_str [c] (scan_num q u) = Some (n, t)"
      using assms Cons by (auto simp: read_num_def num_accept_def split: option.splits)
    then show ?thesis using Cons scan_num_length[of q u]
      by (auto simp: cons_str_def split: option.splits prod.splits)
  qed
qed (use assms in \<open>simp add: read_num_def\<close>)

lemma num_next_char: "num_next q c = Some q' \<Longrightarrow> num_char c"
  by (auto simp: num_next_def num_char_def is_digit_def split: num_state.splits if_splits)

lemma scan_num_stop: "stops_num t \<Longrightarrow> scan_num q t = (if num_accept q then Some ([], t) else None)"
  using num_next_char[of q "hd t"] by (cases t) (auto simp: stops_num_def split: option.splits)

lemma scan_num_append:
  "scan_num q n = Some (n, []) \<Longrightarrow> stops_num t \<Longrightarrow> scan_num q (n @ t) = Some (n, t)"
proof (induction q n rule: scan_num.induct)
  case (1 q)
  then show ?case by (simp add: scan_num_stop split: if_splits)
next
  case (2 q c s)
  then obtain q' where q': "num_next q c = Some q'" by (auto split: option.splits if_splits)
  then have "scan_num q' s = Some (s, [])"
    using 2(2) by (auto simp: cons_str_def split: option.splits)
  with 2(1)[OF q' _ 2(3)] q' show ?case by simp
qed

lemma read_num_append: "num_ok n \<Longrightarrow> stops_num t \<Longrightarrow> read_num (n @ t) = Some (n, t)"
  by (cases n) (auto simp: num_ok_def read_num_def cons_str_def scan_num_append
      scan_num_append[of _ "_ # _", simplified] split: if_splits option.splits)

lemma scan_num_digits: "list_all is_digit s \<Longrightarrow> scan_num Integer s = Some (s, [])"
  by (induction s) (simp_all add: num_accept_def num_next_def)

lemma digits_zero: "digits m = ''0'' \<Longrightarrow> m = 0"
proof (cases "m < 10")
  case True
  assume "digits m = ''0''"
  then have "char_of (48 + m) = CHR ''0''" using True by (subst (asm) digits.simps) simp
  then have "digit_val (char_of (48 + m)) = 0" by (simp add: digit_val_def)
  then show "m = 0" using True by simp
qed (subst (asm) digits.simps, simp)

lemma digits_hd_zero: "hd (digits n) = CHR ''0'' \<Longrightarrow> digits n = ''0''"
proof (induction n rule: digits.induct)
  case (1 n)
  show ?case
  proof (cases "n < 10")
    case True
    then have "digits n = [char_of (48 + n)]" by (subst digits.simps) simp
    then show ?thesis using "1.prems" by simp
  next
    case False
    then have d: "digits n = digits (n div 10) @ [char_of (48 + n mod 10)]" by (subst digits.simps) simp
    then have "digits (n div 10) = ''0''" using 1 False by simp
    then have "n div 10 = 0" by (rule digits_zero)
    then show ?thesis using False by simp
  qed
qed

lemma scan_num_nat: "scan_num Minus (digits n) = Some (digits n, [])"
proof (cases "digits n")
  case (Cons c s)
  have d: "is_digit c" "list_all is_digit s"
    using digits_all_digits[of n] Cons by (simp_all add: list_all_iff)
  show ?thesis
  proof (cases "c = CHR ''0''")
    case True
    then have "digits n = ''0''" using digits_hd_zero[of n] Cons by simp
    then show ?thesis by (simp add: num_next_def num_accept_def)
  next
    case False
    then show ?thesis using d Cons by (simp add: num_next_def scan_num_digits)
  qed
qed simp

lemma num_ok_Itoa [simp]: "num_ok (Itoa n)"
proof -
  have "read_num (digits m) = Some (digits m, [])" for m
    using scan_num_nat[of m] hd_digits_no_sign(1)[of m] by (cases "digits m") (auto simp: read_num_def)
  then show ?thesis using scan_num_nat[of "nat (- n)"] by (simp add: num_ok_def Itoa_def read_num_def)
qed

section \<open>Values and their text\<close>

datatype json =
    JNull
  | JBool bool
  | JNum string
  | JStr string
  | JArr "json list"
  | JObj "(string \<times> json) list"

fun commas :: "'a \<Rightarrow> 'a list list \<Rightarrow> 'a list" where
  "commas sep [] = []"
| "commas sep [x] = x"
| "commas sep (x # y # xs) = x @ sep # commas sep (y # xs)"

definition quoted :: "string \<Rightarrow> string" where
  "quoted s = quote_char # quote_body s @ [quote_char]"

fun print_json :: "json \<Rightarrow> string" where
  "print_json JNull = ''null''"
| "print_json (JBool b) = (if b then ''true'' else ''false'')"
| "print_json (JNum n) = n"
| "print_json (JStr s) = quoted s"
| "print_json (JArr vs) = CHR ''['' # commas (CHR '','') (map print_json vs) @ '']''"
| "print_json (JObj ms) = CHR ''{'' # commas (CHR '','') (map (\<lambda>(k, v). quoted k @ CHR '':'' # print_json v) ms) @ ''}''"

text \<open>A value whose numbers are numbers, and the value after replacing invalid bytes.\<close>

fun json_ok :: "json \<Rightarrow> bool" where
  "json_ok (JNum n) = num_ok n"
| "json_ok (JArr vs) = list_all json_ok vs"
| "json_ok (JObj ms) = list_all (\<lambda>(k, v). json_ok v) ms"
| "json_ok _ = True"

fun normalise :: "json \<Rightarrow> json" where
  "normalise (JStr s) = JStr (to_valid s)"
| "normalise (JArr vs) = JArr (map normalise vs)"
| "normalise (JObj ms) = JObj (map (\<lambda>(k, v). (to_valid k, normalise v)) ms)"
| "normalise v = v"

section \<open>Reading\<close>

datatype token = TOpenObj | TCloseObj | TOpenArr | TCloseArr | TColon | TComma | TLit json

definition white :: "char \<Rightarrow> bool" where
  "white c = (c = CHR '' '' \<or> c = CHR 0x09 \<or> c = CHR 0x0A \<or> c = CHR 0x0D)"

definition punctuation :: "char \<Rightarrow> token option" where
  "punctuation c = (if c = CHR ''{'' then Some TOpenObj else if c = CHR ''}'' then Some TCloseObj
     else if c = CHR ''['' then Some TOpenArr else if c = CHR '']'' then Some TCloseArr
     else if c = CHR '':'' then Some TColon else if c = CHR '','' then Some TComma else None)"

definition read_literal :: "string \<Rightarrow> (json \<times> string) option" where
  "read_literal s =
     (if has_prefix ''true'' s then Some (JBool True, drop 4 s)
      else if has_prefix ''false'' s then Some (JBool False, drop 5 s)
      else if has_prefix ''null'' s then Some (JNull, drop 4 s)
      else if s \<noteq> [] \<and> hd s = quote_char then map_option (\<lambda>(v, t). (JStr v, t)) (read_string (tl s))
      else map_option (\<lambda>(n, t). (JNum n, t)) (read_num s))"

lemma has_prefix_length: "has_prefix p s \<Longrightarrow> length p \<le> length s"
  by (induction p s rule: has_prefix.induct) auto

lemma read_literal_length: "read_literal s = Some (v, t) \<Longrightarrow> length t < length s"
  by (auto simp: read_literal_def split: if_splits dest!: has_prefix_length read_string_length read_num_length)

definition add_tokens :: "token list \<Rightarrow> token list option \<Rightarrow> token list option" where
  "add_tokens ts r = map_option (\<lambda>us. ts @ us) r"

function lex :: "string \<Rightarrow> token list option" where
  "lex [] = Some []"
| "lex (c # s) =
     (if white c then lex s
      else case punctuation c of
             Some t \<Rightarrow> add_tokens [t] (lex s)
           | None \<Rightarrow> (case read_literal (c # s) of
                        None \<Rightarrow> None
                      | Some (v, t) \<Rightarrow> add_tokens [TLit v] (lex t)))"
  by pat_completeness auto
termination by (relation "measure length") (auto dest: read_literal_length)

declare lex.simps(2) [simp del]

text \<open>
  The parser keeps the arrays and objects that are open, innermost first, with what they hold so far; an open
  object also has the name whose value is being read. The mode says what is expected next. As in Go, more than
  10000 of them nested are refused.
\<close>

datatype frame = FArr "json list" | FObj "(string \<times> json) list" string

datatype mode =
    MValue
  | MFirst
  | MName "(string \<times> json) list" bool
  | MColon "(string \<times> json) list" string
  | MAfter json

definition maxNestingDepth :: nat where
  "maxNestingDepth = 10000"

definition start_value :: "frame list \<Rightarrow> token \<Rightarrow> (frame list \<times> mode) option" where
  "start_value st t = (case t of
     TLit v \<Rightarrow> Some (st, MAfter v)
   | TOpenArr \<Rightarrow> if length st < maxNestingDepth then Some (FArr [] # st, MFirst) else None
   | TOpenObj \<Rightarrow> if length st < maxNestingDepth then Some (st, MName [] True) else None
   | _ \<Rightarrow> None)"

fun parse_step :: "frame list \<times> mode \<Rightarrow> token \<Rightarrow> (frame list \<times> mode) option" where
  "parse_step (st, MValue) t = start_value st t"
| "parse_step (st, MFirst) t =
     (if t = TCloseArr then Some (tl st, MAfter (JArr [])) else start_value st t)"
| "parse_step (st, MName ms first) t = (case t of
     TLit (JStr k) \<Rightarrow> Some (st, MColon ms k)
   | TCloseObj \<Rightarrow> if first then Some (st, MAfter (JObj ms)) else None
   | _ \<Rightarrow> None)"
| "parse_step (st, MColon ms k) t = (if t = TColon then Some (FObj ms k # st, MValue) else None)"
| "parse_step ([], MAfter v) t = None"
| "parse_step (FArr vs # st, MAfter v) t = (case t of
     TComma \<Rightarrow> Some (FArr (vs @ [v]) # st, MValue)
   | TCloseArr \<Rightarrow> Some (st, MAfter (JArr (vs @ [v])))
   | _ \<Rightarrow> None)"
| "parse_step (FObj ms k # st, MAfter v) t = (case t of
     TComma \<Rightarrow> Some (st, MName (ms @ [(k, v)]) False)
   | TCloseObj \<Rightarrow> Some (st, MAfter (JObj (ms @ [(k, v)])))
   | _ \<Rightarrow> None)"

fun parse_tokens :: "frame list \<times> mode \<Rightarrow> token list \<Rightarrow> json option" where
  "parse_tokens cfg [] = (case cfg of ([], MAfter v) \<Rightarrow> Some v | _ \<Rightarrow> None)"
| "parse_tokens cfg (t # ts) = (case parse_step cfg t of None \<Rightarrow> None | Some cfg' \<Rightarrow> parse_tokens cfg' ts)"

definition parse_json :: "string \<Rightarrow> json option" where
  "parse_json s = (case lex s of None \<Rightarrow> None | Some ts \<Rightarrow> parse_tokens ([], MValue) ts)"

section \<open>What is printed is read back\<close>

fun tokens :: "json \<Rightarrow> token list" where
  "tokens (JArr vs) = TOpenArr # commas TComma (map tokens vs) @ [TCloseArr]"
| "tokens (JObj ms) = TOpenObj # commas TComma (map (\<lambda>(k, v). TLit (JStr k) # TColon # tokens v) ms) @ [TCloseObj]"
| "tokens v = [TLit v]"

text \<open>Values nested at most this deep.\<close>

fun depth_le :: "nat \<Rightarrow> json \<Rightarrow> bool" where
  "depth_le n (JArr vs) = (0 < n \<and> list_all (depth_le (n - 1)) vs)"
| "depth_le n (JObj ms) = (0 < n \<and> list_all (\<lambda>(k, v). depth_le (n - 1) v) ms)"
| "depth_le n v = True"

lemma add_tokens_add [simp]: "add_tokens ts (add_tokens us r) = add_tokens (ts @ us) r"
  by (cases r) (simp_all add: add_tokens_def)

lemma add_tokens_Nil [simp]: "add_tokens [] r = r"
  by (cases r) (simp_all add: add_tokens_def)

lemma lex_punctuation: "\<not> white c \<Longrightarrow> punctuation c = Some t \<Longrightarrow> lex (c # s) = add_tokens [t] (lex s)"
  by (simp add: lex.simps)

lemma lex_punct [simp]:
  "lex (CHR ''{'' # s) = add_tokens [TOpenObj] (lex s)" "lex (CHR ''}'' # s) = add_tokens [TCloseObj] (lex s)"
  "lex (CHR ''['' # s) = add_tokens [TOpenArr] (lex s)" "lex (CHR '']'' # s) = add_tokens [TCloseArr] (lex s)"
  "lex (CHR '':'' # s) = add_tokens [TColon] (lex s)" "lex (CHR '','' # s) = add_tokens [TComma] (lex s)"
  by (simp_all add: lex_punctuation white_def punctuation_def)

lemma lex_literal:
  "\<not> white c \<Longrightarrow> punctuation c = None \<Longrightarrow> read_literal (c # s) = Some (v, t) \<Longrightarrow>
     lex (c # s) = add_tokens [TLit v] (lex t)"
  by (simp add: lex.simps)

lemma lex_quoted: "lex (quoted s @ t) = add_tokens [TLit (JStr (to_valid s))] (lex t)"
  using lex_literal[of quote_char "quote_body s @ quote_char # t" "JStr (to_valid s)" t]
  by (simp add: quoted_def quote_char_def white_def punctuation_def read_literal_def read_quoted[unfolded quote_char_def])

lemma lex_word:
  "lex (''true'' @ t) = add_tokens [TLit (JBool True)] (lex t)"
  "lex (''false'' @ t) = add_tokens [TLit (JBool False)] (lex t)"
  "lex (''null'' @ t) = add_tokens [TLit JNull] (lex t)"
  using lex_literal[of "CHR ''t''" "''rue'' @ t" "JBool True" t] lex_literal[of "CHR ''f''" "''alse'' @ t" "JBool False" t]
    lex_literal[of "CHR ''n''" "''ull'' @ t" JNull t]
  by (simp_all add: white_def punctuation_def read_literal_def)

lemma is_digit_plain:
  "is_digit c \<Longrightarrow> \<not> white c \<and> punctuation c = None \<and> c \<noteq> quote_char \<and> c \<noteq> CHR ''t'' \<and> c \<noteq> CHR ''f'' \<and> c \<noteq> CHR ''n''"
proof -
  assume c: "is_digit c"
  have "\<forall>d \<in> set ('' {}[]:,tfn'' @ [CHR 0x09, CHR 0x0A, CHR 0x0D, CHR 0x22]). \<not> is_digit d" by (simp add: is_digit_def)
  then have "\<forall>d \<in> set ('' {}[]:,tfn'' @ [CHR 0x09, CHR 0x0A, CHR 0x0D, CHR 0x22]). c \<noteq> d" using c by blast
  then show ?thesis by (simp add: white_def punctuation_def quote_char_def)
qed

lemma lex_number:
  assumes "num_ok n" "stops_num t"
  shows "lex (n @ t) = add_tokens [TLit (JNum n)] (lex t)"
proof -
  obtain c s where n: "n = c # s" using assms(1) by (cases n) (auto simp: num_ok_def read_num_def)
  have c: "c = CHR ''-'' \<or> is_digit c"
    using assms(1) n by (auto simp: num_ok_def read_num_def num_next_def num_accept_def is_digit_def split: if_splits option.splits)
  have "read_literal (c # s @ t) = Some (JNum n, t)"
    using read_num_append[OF assms] c n is_digit_plain[of c] by (auto simp: read_literal_def quote_char_def)
  moreover have "\<not> white c" "punctuation c = None"
    using c is_digit_plain[of c] by (auto simp: white_def punctuation_def)
  ultimately show ?thesis using lex_literal[of c "s @ t" "JNum n" t] n by simp
qed

lemma lex_commas:
  assumes "\<And>x t. x \<in> set xs \<Longrightarrow> stops_num t \<Longrightarrow> lex (f x @ t) = add_tokens (g x) (lex t)" and "stops_num t"
  shows "lex (commas (CHR '','') (map f xs) @ t) = add_tokens (commas TComma (map g xs)) (lex t)"
  using assms
proof (induction xs rule: induct_list012)
  case (3 x y zs)
  have "stops_num (CHR '','' # u)" for u by (simp add: stops_num_def num_char_def is_digit_def)
  with "3.IH"(2) "3.prems" show ?case by simp
qed simp_all

lemma lex_print: "json_ok v \<Longrightarrow> stops_num t \<Longrightarrow> lex (print_json v @ t) = add_tokens (tokens (normalise v)) (lex t)"
proof (induction v arbitrary: t)
  case (JArr vs)
  have "stops_num ('']'' @ t)" by (simp add: stops_num_def num_char_def is_digit_def)
  from lex_commas[of vs print_json "\<lambda>v. tokens (normalise v)", OF _ this] JArr.IH JArr.prems(1)
  show ?case by (simp add: list_all_iff comp_def)
next
  case (JObj ms)
  have s: "stops_num (''}'' @ t)" by (simp add: stops_num_def num_char_def is_digit_def)
  have "lex ((case x of (k, v) \<Rightarrow> quoted k @ CHR '':'' # print_json v) @ u)
      = add_tokens (case x of (k, v) \<Rightarrow> TLit (JStr (to_valid k)) # TColon # tokens (normalise v)) (lex u)"
    if "x \<in> set ms" "stops_num u" for x u
    using that JObj.IH[of x "snd x" u] JObj.prems(1) by (cases x) (auto simp: lex_quoted list_all_iff)
  from lex_commas[of ms _ _, OF this s] show ?case by (simp add: comp_def case_prod_unfold)
qed (simp_all add: lex_quoted lex_word[simplified] lex_number)

lemma parse_tokens_step: "parse_step cfg t = Some cfg' \<Longrightarrow> parse_tokens cfg (t # ts) = parse_tokens cfg' ts"
  by simp

lemma parse_elements:
  assumes "\<And>v st ts. v \<in> set (x # xs) \<Longrightarrow> length st \<le> n \<Longrightarrow>
      parse_tokens (st, MValue) (tokens v @ ts) = parse_tokens (st, MAfter v) ts" and "length st < n"
  shows "parse_tokens (FArr acc # st, MValue) (commas TComma (map tokens (x # xs)) @ TCloseArr # ts)
    = parse_tokens (st, MAfter (JArr (acc @ x # xs))) ts"
  using assms(1)
proof (induction xs arbitrary: x acc)
  case Nil
  then show ?case using assms(2) by simp
next
  case (Cons y ys)
  have "parse_tokens (FArr (acc @ [x]) # st, MValue) (commas TComma (map tokens (y # ys)) @ TCloseArr # ts)
    = parse_tokens (st, MAfter (JArr ((acc @ [x]) @ y # ys))) ts"
    using Cons.prems by (intro Cons.IH) auto
  then show ?case using Cons.prems assms(2) by simp
qed

lemma parse_members:
  assumes "\<And>k v st ts. (k, v) \<in> set (x # xs) \<Longrightarrow> length st \<le> n \<Longrightarrow>
      parse_tokens (st, MValue) (tokens v @ ts) = parse_tokens (st, MAfter v) ts" and "length st < n"
  shows "parse_tokens (st, MName acc b)
      (commas TComma (map (\<lambda>(k, v). TLit (JStr k) # TColon # tokens v) (x # xs)) @ TCloseObj # ts)
    = parse_tokens (st, MAfter (JObj (acc @ x # xs))) ts"
  using assms(1)
proof (induction xs arbitrary: x acc b)
  case Nil
  then show ?case using assms(2) by (cases x) simp
next
  case (Cons y ys)
  have "parse_tokens (st, MName (acc @ [x]) False)
      (commas TComma (map (\<lambda>(k, v). TLit (JStr k) # TColon # tokens v) (y # ys)) @ TCloseObj # ts)
    = parse_tokens (st, MAfter (JObj ((acc @ [x]) @ y # ys))) ts"
    using Cons.prems by (intro Cons.IH) auto
  moreover obtain k v where x: "x = (k, v)" by (cases x)
  moreover note Cons.prems[of k v "FObj acc k # st"]
  ultimately show ?case using assms(2) by simp
qed

lemma parse_first:
  "parse_tokens (FArr [] # st, MFirst) (commas TComma (map tokens (x # xs)) @ us)
    = parse_tokens (FArr [] # st, MValue) (commas TComma (map tokens (x # xs)) @ us)"
proof -
  obtain t ts where "tokens x = t # ts" "t \<noteq> TCloseArr" by (cases x) auto
  then show ?thesis by (cases xs) simp_all
qed

lemma parse_tokens_value:
  "depth_le n v \<Longrightarrow> length st + n \<le> maxNestingDepth \<Longrightarrow>
     parse_tokens (st, MValue) (tokens v @ ts) = parse_tokens (st, MAfter v) ts"
proof (induction v arbitrary: n st ts)
  case (JArr vs)
  show ?case
  proof (cases vs)
    case Nil
    then show ?thesis using JArr.prems by (simp add: start_value_def)
  next
    case (Cons x xs)
    have "parse_tokens (FArr [] # st, MValue) (commas TComma (map tokens (x # xs)) @ TCloseArr # ts)
      = parse_tokens (st, MAfter (JArr ([] @ x # xs))) ts"
      by (rule parse_elements[where n = "Suc (length st)"])
        (use JArr Cons in \<open>auto simp: list_all_iff intro: JArr.IH[where n = "n - 1"]\<close>)
    then show ?thesis using JArr.prems Cons parse_first[of st x xs "TCloseArr # ts"] by (simp add: start_value_def)
  qed
next
  case (JObj ms)
  show ?case
  proof (cases ms)
    case Nil
    then show ?thesis using JObj.prems by (simp add: start_value_def)
  next
    case (Cons x xs)
    have "parse_tokens (st, MName [] True)
        (commas TComma (map (\<lambda>(k, v). TLit (JStr k) # TColon # tokens v) (x # xs)) @ TCloseObj # ts)
      = parse_tokens (st, MAfter (JObj ([] @ x # xs))) ts"
    proof (rule parse_members[where n = "Suc (length st)"])
      fix k v ts and st' :: "frame list" assume m: "(k, v) \<in> set (x # xs)" and l: "length st' \<le> Suc (length st)"
      have "depth_le (n - 1) v" using JObj.prems(1) Cons m by (auto simp: list_all_iff)
      moreover have "length st' + (n - 1) \<le> maxNestingDepth" using JObj.prems l by simp
      ultimately show "parse_tokens (st', MValue) (tokens v @ ts) = parse_tokens (st', MAfter v) ts"
        using JObj.IH[of "(k, v)" v "n - 1"] m Cons by simp
    qed simp
    then show ?thesis using JObj.prems Cons by (simp add: start_value_def)
  qed
qed (simp_all add: start_value_def)

lemma depth_le_normalise [simp]: "depth_le n (normalise v) = depth_le n v"
  by (induction n v rule: depth_le.induct) (auto simp: list_all_iff)

text \<open>The printed value is read back, up to the replacement of bytes that are not UTF-8.\<close>

lemma parse_print:
  assumes "json_ok v" "depth_le maxNestingDepth v"
  shows "parse_json (print_json v) = Some (normalise v)"
proof -
  have "lex (print_json v) = Some (tokens (normalise v))"
    using lex_print[OF assms(1), of "[]"] by (simp add: stops_num_def add_tokens_def)
  then show ?thesis using parse_tokens_value[of maxNestingDepth "normalise v" "[]" "[]"] assms(2)
    by (simp add: parse_json_def)
qed

text \<open>No newline is printed.\<close>

lemma escape_no_newline: "CHR 0x0A \<notin> set (escape_ascii c)"
proof -
  have "hex_digit n \<noteq> CHR 0x0A" if "n < 16" for n using hex_val_digit[OF that] by (auto simp: hex_val_def is_digit_def)
  moreover have "byte c div 16 < 16" "byte c mod 16 < 16" by (simp_all add: div_less_iff_less_mult)
  ultimately have "hex_digit (byte c div 16) \<noteq> CHR 0x0A" "hex_digit (byte c mod 16) \<noteq> CHR 0x0A" by blast+
  then show ?thesis by (simp add: escape_ascii_def quote_char_def eq_commute)
qed

lemma split_rune_no_newline:
  assumes "split_rune (c # s) = Some (r, t)" "\<not> byte c < 0x80"
  shows "CHR 0x0A \<notin> set r"
proof -
  have "\<not> continuation (CHR 0x0A)" by (simp add: continuation_def)
  moreover have "c \<noteq> CHR 0x0A" using assms(2) by auto
  ultimately show ?thesis using assms(1)
    by (auto simp: split_rune_def Let_def list_all_iff split: if_splits)
qed

lemma quote_no_newline: "CHR 0x0A \<notin> set (quote_body s)"
proof (induction s rule: quote_body.induct)
  case (2 c s)
  then show ?case using escape_no_newline[of c] split_rune_no_newline[of c s]
    by (auto simp: quote_body.simps(2) split: option.splits if_splits)
qed simp

lemma scan_num_chars: "scan_num q s = Some (n, t) \<Longrightarrow> list_all num_char n"
proof (induction s arbitrary: q n)
  case (Cons c s)
  then show ?case by (auto simp: cons_str_def num_next_char split: if_splits option.splits prod.splits)
qed (auto split: if_splits)

lemma num_ok_chars: "num_ok n \<Longrightarrow> list_all num_char n"
  by (auto simp: num_ok_def read_num_def cons_str_def num_char_def[of "CHR ''-''"] dest: scan_num_chars num_next_char
      split: list.splits if_splits option.splits)

lemma commas_set: "set (commas sep xs) \<subseteq> insert sep (\<Union> (set ` set xs))"
  by (induction xs rule: induct_list012) auto

lemma print_no_newline: "json_ok v \<Longrightarrow> CHR 0x0A \<notin> set (print_json v)"
proof (induction v)
  case (JNum n)
  have "\<not> num_char (CHR 0x0A)" by (simp add: num_char_def is_digit_def)
  then show ?case using num_ok_chars[of n] JNum by (auto simp: list_all_iff)
next
  case (JArr vs)
  then show ?case using commas_set[of "CHR '',''" "map print_json vs"] by (auto simp: list_all_iff)
next
  case (JObj ms)
  have "CHR 0x0A \<notin> set (quoted k @ CHR '':'' # print_json v)" if "(k, v) \<in> set ms" for k v
    using JObj that quote_no_newline[of k] by (fastforce simp: list_all_iff quoted_def quote_char_def)
  then show ?case using commas_set[of "CHR '',''" "map (\<lambda>(k, v). quoted k @ CHR '':'' # print_json v) ms"]
    by auto
qed (auto simp: quoted_def quote_char_def quote_no_newline)

section \<open>Structs\<close>

text \<open>
  Names are compared up to case: two characters outside ASCII fold to letters, the Kelvin sign to k and the long s
  to s.
\<close>

fun fold_name :: "string \<Rightarrow> string" where
  "fold_name (a # b # c # s) =
     (if a = CHR 0xE2 \<and> b = CHR 0x84 \<and> c = CHR 0xAA then CHR ''k'' # fold_name s
      else if a = CHR 0xC5 \<and> b = CHR 0xBF then CHR ''s'' # fold_name (c # s)
      else ToLower [a] @ fold_name (b # c # s))"
| "fold_name [a, b] = (if a = CHR 0xC5 \<and> b = CHR 0xBF then ''s'' else ToLower [a, b])"
| "fold_name s = ToLower s"

text \<open>A field of a struct: its name, and what storing a value into it does. The flag is an error.\<close>

type_synonym 'm field = "string \<times> (json \<Rightarrow> 'm \<Rightarrow> 'm \<times> bool)"

definition find_field :: "'m field list \<Rightarrow> string \<Rightarrow> 'm field option" where
  "find_field fs k = (case find_first (\<lambda>f. fst f = k) fs of
     Some f \<Rightarrow> Some f
   | None \<Rightarrow> find_first (\<lambda>f. fold_name (fst f) = fold_name k) fs)"

definition store_bool :: "(bool \<Rightarrow> 'm \<Rightarrow> 'm) \<Rightarrow> json \<Rightarrow> 'm \<Rightarrow> 'm \<times> bool" where
  "store_bool upd v m = (case v of JBool b \<Rightarrow> (upd b m, False) | JNull \<Rightarrow> (m, False) | _ \<Rightarrow> (m, True))"

definition store_string :: "(string \<Rightarrow> 'm \<Rightarrow> 'm) \<Rightarrow> json \<Rightarrow> 'm \<Rightarrow> 'm \<times> bool" where
  "store_string upd v m = (case v of JStr s \<Rightarrow> (upd s m, False) | JNull \<Rightarrow> (m, False) | _ \<Rightarrow> (m, True))"

text \<open>A number that is not a 64-bit integer is an error.\<close>

definition store_int :: "(int \<Rightarrow> 'm \<Rightarrow> 'm) \<Rightarrow> json \<Rightarrow> 'm \<Rightarrow> 'm \<times> bool" where
  "store_int upd v m = (case v of
     JNum n \<Rightarrow> (case ParseInt n of (i, None) \<Rightarrow> (upd i m, False) | _ \<Rightarrow> (m, True))
   | JNull \<Rightarrow> (m, False) | _ \<Rightarrow> (m, True))"

fun store_members :: "'m field list \<Rightarrow> (string \<times> json) list \<Rightarrow> 'm \<Rightarrow> 'm \<times> bool" where
  "store_members fs [] m = (m, False)"
| "store_members fs ((k, v) # ms) m =
     (case (case find_field fs k of None \<Rightarrow> (m, False) | Some (_, put) \<Rightarrow> put v m) of (m1, e1) \<Rightarrow>
        case store_members fs ms m1 of (m2, e2) \<Rightarrow> (m2, e1 \<or> e2))"

text \<open>\<open>json.Unmarshal\<close> into a struct that has a value already: the struct and whether there was an error.\<close>

definition Unmarshal :: "'m field list \<Rightarrow> string \<Rightarrow> 'm \<Rightarrow> 'm \<times> bool" where
  "Unmarshal fs data m = (case parse_json data of
     None \<Rightarrow> (m, True)
   | Some (JObj ms) \<Rightarrow> store_members fs ms m
   | Some JNull \<Rightarrow> (m, False)
   | Some _ \<Rightarrow> (m, True))"

end
