(* ===== verification/Wire.thy ===== *)
theory Wire
  imports Json Node_Connection "HOL-Library.Sublist"
begin

text \<open>
  Messages on the connection between a configurator and the controller manager (\<open>pkg/types/types.go\<close>): a message is
  its JSON form followed by a newline, and a receiver reads up to the next newline. The locale \<open>wire_format\<close> is what a
  type of messages must provide, its JSON form and its fields, and the law that the one leads back through the other;
  it is interpreted for the three messages that are sent.
\<close>

abbreviation nl :: char where
  "nl \<equiv> CHR 0x0A"

section \<open>Framing\<close>

text \<open>\<open>json.Marshal\<close>, for a type whose values have the given JSON form; \<open>None\<close> where a value has none.\<close>

definition Marshal :: "('m \<Rightarrow> json option) \<Rightarrow> 'm \<Rightarrow> string option" where
  "Marshal form m = map_option print_json (form m)"

definition EncodeToByte :: "('m \<Rightarrow> json option) \<Rightarrow> 'm \<Rightarrow> string option" where
  "EncodeToByte form m = (case Marshal form m of None \<Rightarrow> None | Some buf \<Rightarrow> Some (buf @ [nl]))"

text \<open>The struct decoded into, and whether there was an error.\<close>

definition DecodeFromByte :: "'m field list \<Rightarrow> string \<Rightarrow> 'm \<Rightarrow> 'm \<times> bool" where
  "DecodeFromByte fs data v = Unmarshal fs (if data \<noteq> [] \<and> last data = nl then butlast data else data) v"

text \<open>
  The lines that successive calls of \<open>ReadBytes\<close> return without an error, when the stream holds the given bytes: a
  last line without a newline comes with an error or is waited for. The first argument is the line begun.
\<close>

fun read_lines :: "string \<Rightarrow> string \<Rightarrow> string list" where
  "read_lines acc [] = []"
| "read_lines acc (c # s) = (if c = nl then (acc @ [c]) # read_lines [] s else read_lines (acc @ [c]) s)"

lemma read_lines_frame: "nl \<notin> set b \<Longrightarrow> read_lines acc (b @ nl # s) = (acc @ b @ [nl]) # read_lines [] s"
  by (induction b arbitrary: acc) auto

lemma read_lines_open: "nl \<notin> set b \<Longrightarrow> read_lines acc b = []"
  by (induction b arbitrary: acc) auto

text \<open>Whatever a stream of lines is cut to, as many lines are read as there are newlines.\<close>

lemma read_lines_stream:
  assumes "\<And>b. b \<in> set bs \<Longrightarrow> nl \<notin> set b" and "prefix xs (concat (map (\<lambda>b. b @ [nl]) bs))"
  shows "read_lines [] xs = map (\<lambda>b. b @ [nl]) (take (count_list xs nl) bs)"
  using assms
proof (induction bs arbitrary: xs)
  case (Cons b bs)
  have b: "nl \<notin> set b" using Cons.prems(1) by simp
  have "prefix xs ((b @ [nl]) @ concat (map (\<lambda>b. b @ [nl]) bs))" using Cons.prems(2) by simp
  then consider (part) "prefix xs b" | (frame) ys where "xs = b @ nl # ys" "prefix ys (concat (map (\<lambda>b. b @ [nl]) bs))"
    by (auto simp: prefix_append prefix_Cons)
  then show ?case
  proof cases
    case part
    then have "nl \<notin> set xs" using b by (meson set_mono_prefix subsetD)
    then show ?thesis by (simp add: read_lines_open count_list_0_iff)
  next
    case frame
    have "count_list b nl = 0" using b by (simp add: count_list_0_iff)
    then show ?thesis using Cons.IH[OF _ frame(2)] Cons.prems(1) b frame(1) by (simp add: read_lines_frame)
  qed
qed simp

lemma DecodeFromByte_frame [simp]: "DecodeFromByte fs (b @ [nl]) v = Unmarshal fs b v"
  by (simp add: DecodeFromByte_def)

section \<open>Types of messages\<close>

text \<open>
  The JSON form of a value and the fields of its type, with the value a receiver decodes into and the one that
  arrives: the same, unless a string is not UTF-8.
\<close>

locale wire_format =
  fixes form :: "'m \<Rightarrow> json option" and fs :: "'m field list" and zero :: 'm
    and sendable :: "'m \<Rightarrow> bool" and arriving :: "'m \<Rightarrow> 'm"
  assumes form: "sendable m \<Longrightarrow> \<exists>ms. form m = Some (JObj ms) \<and> list_all (\<lambda>(k, v). json_ok v \<and> depth_le 1 v) ms
      \<and> store_members fs (map (\<lambda>(k, v). (to_valid k, normalise v)) ms) zero = (arriving m, False)"
begin

lemma encode: "sendable m \<Longrightarrow> \<exists>b. EncodeToByte form m = Some (b @ [nl]) \<and> nl \<notin> set b
    \<and> DecodeFromByte fs (b @ [nl]) zero = (arriving m, False)"
proof -
  assume "sendable m"
  then obtain ms where ms: "form m = Some (JObj ms)" "list_all (\<lambda>(k, v). json_ok v \<and> depth_le 1 v) ms"
    "store_members fs (map (\<lambda>(k, v). (to_valid k, normalise v)) ms) zero = (arriving m, False)"
    using form by blast
  have ok: "json_ok (JObj ms)" using ms(2) by (auto simp: list_all_iff)
  have "depth_le 1 v \<Longrightarrow> depth_le (maxNestingDepth - 1) v" for v
    by (cases v) (auto simp: maxNestingDepth_def list_all_iff elim!: depth_le.elims)
  then have "depth_le maxNestingDepth (JObj ms)"
    using ms(2) by (auto simp: list_all_iff maxNestingDepth_def)
  then show ?thesis using ms parse_print[OF ok] print_no_newline[OF ok]
    by (intro exI[of _ "print_json (JObj ms)"])
      (simp add: EncodeToByte_def Marshal_def Unmarshal_def del: print_json.simps)
qed

text \<open>The bytes of a message without the newline.\<close>

definition body :: "'m \<Rightarrow> string" where
  "body m = (case EncodeToByte form m of None \<Rightarrow> [] | Some b \<Rightarrow> butlast b)"

lemma body: "sendable m \<Longrightarrow> EncodeToByte form m = Some (body m @ [nl]) \<and> nl \<notin> set (body m)
    \<and> DecodeFromByte fs (body m @ [nl]) zero = (arriving m, False)"
  using encode[of m] by (auto simp: body_def)

end

section \<open>The messages\<close>

record heartbeat_message = Alive :: bool

record ack_message = Ok :: bool

definition hello_form :: "hello \<Rightarrow> json option" where
  "hello_form h = Some (JObj [(''Hostname'', JStr (hello_Hostname h)), (''GrpcPort'', JNum (Itoa (GrpcPort h)))])"

definition hello_fields :: "hello field list" where
  "hello_fields = [(''Hostname'', store_string (\<lambda>s h. h\<lparr>hello_Hostname := s\<rparr>)),
                   (''GrpcPort'', store_int (\<lambda>n h. h\<lparr>GrpcPort := n\<rparr>))]"

definition no_hello :: hello where
  "no_hello = \<lparr>hello_Hostname = [], GrpcPort = 0\<rparr>"

definition heartbeat_form :: "heartbeat_message \<Rightarrow> json option" where
  "heartbeat_form m = Some (JObj [(''alive'', JBool (Alive m))])"

definition heartbeat_fields :: "heartbeat_message field list" where
  "heartbeat_fields = [(''alive'', store_bool (\<lambda>b m. m\<lparr>Alive := b\<rparr>))]"

definition ack_form :: "ack_message \<Rightarrow> json option" where
  "ack_form m = Some (JObj [(''ok'', JBool (Ok m))])"

definition ack_fields :: "ack_message field list" where
  "ack_fields = [(''ok'', store_bool (\<lambda>b m. m\<lparr>Ok := b\<rparr>))]"

definition valid_hello :: "hello \<Rightarrow> hello" where
  "valid_hello h = h\<lparr>hello_Hostname := to_valid (hello_Hostname h)\<rparr>"

lemma to_valid_ascii: "list_all (\<lambda>c. byte c < 0x80) s \<Longrightarrow> to_valid s = s"
  by (rule to_valid_id[OF valid_ascii])

interpretation hello_wire: wire_format hello_form hello_fields no_hello
  "\<lambda>h. - (2 ^ 63) \<le> GrpcPort h \<and> GrpcPort h < 2 ^ 63" valid_hello
  by unfold_locales
    (simp add: hello_form_def hello_fields_def no_hello_def valid_hello_def to_valid_ascii find_field_def store_string_def
      store_int_def ParseInt_Itoa)

interpretation heartbeat_wire: wire_format heartbeat_form heartbeat_fields "\<lparr>Alive = False\<rparr>" "\<lambda>_. True" "\<lambda>m. m"
  by unfold_locales (simp add: heartbeat_form_def heartbeat_fields_def to_valid_ascii find_field_def store_bool_def)

interpretation ack_wire: wire_format ack_form ack_fields "\<lparr>Ok = False\<rparr>" "\<lambda>_. True" "\<lambda>m. m"
  by unfold_locales (simp add: ack_form_def ack_fields_def to_valid_ascii find_field_def store_bool_def)

section \<open>A connection\<close>

text \<open>
  What a configurator writes: its hello message and then heartbeats. A message that cannot be encoded would not be
  written.
\<close>

definition written :: "('m \<Rightarrow> json option) \<Rightarrow> 'm \<Rightarrow> string" where
  "written form m = (case EncodeToByte form m of None \<Rightarrow> [] | Some b \<Rightarrow> b)"

definition session_bytes :: "hello \<Rightarrow> heartbeat_message list \<Rightarrow> string" where
  "session_bytes h beats = written hello_form h @ concat (map (written heartbeat_form) beats)"

text \<open>
  What the controller makes of the lines it reads: the hello message, if it could be decoded, and the field of a
  heartbeat, if it could be.
\<close>

definition receive_hello :: "string list \<Rightarrow> hello option" where
  "receive_hello ls = (case ls of
     [] \<Rightarrow> None
   | res # _ \<Rightarrow> (case DecodeFromByte hello_fields res no_hello of (h, err) \<Rightarrow> if err then None else Some h))"

definition receive_heartbeat :: "string \<Rightarrow> bool option" where
  "receive_heartbeat l =
     (case DecodeFromByte heartbeat_fields l \<lparr>Alive = False\<rparr> of (m, err) \<Rightarrow> if err then None else Some (Alive m))"

lemma hello_body:
  assumes "- (2 ^ 63) \<le> GrpcPort h" "GrpcPort h < 2 ^ 63"
  shows "written hello_form h = hello_wire.body h @ [nl]" "nl \<notin> set (hello_wire.body h)"
    "receive_hello ((hello_wire.body h @ [nl]) # ls) = Some (valid_hello h)"
  using hello_wire.body[of h] assms by (auto simp: written_def receive_hello_def)

lemma heartbeat_body:
  "written heartbeat_form = (\<lambda>m. heartbeat_wire.body m @ [nl])" "nl \<notin> set (heartbeat_wire.body m)"
  "receive_heartbeat (heartbeat_wire.body m @ [nl]) = Some (Alive m)"
  using heartbeat_wire.body by (auto simp: written_def receive_heartbeat_def)

lemma session_lines:
  assumes "- (2 ^ 63) \<le> GrpcPort h" "GrpcPort h < 2 ^ 63" "prefix xs (session_bytes h beats)"
  shows "read_lines [] xs =
    map (\<lambda>b. b @ [nl]) (take (count_list xs nl) (hello_wire.body h # map heartbeat_wire.body beats))"
proof (rule read_lines_stream)
  have "session_bytes h beats = concat (map (\<lambda>b. b @ [nl]) (hello_wire.body h # map heartbeat_wire.body beats))"
    by (simp add: session_bytes_def hello_body(1)[OF assms(1,2)] heartbeat_body(1) comp_def)
  then show "prefix xs (concat (map (\<lambda>b. b @ [nl]) (hello_wire.body h # map heartbeat_wire.body beats)))"
    using assms(3) by simp
qed (use hello_body(2)[OF assms(1,2)] heartbeat_body(2) in auto)

lemma session_hello:
  assumes "- (2 ^ 63) \<le> GrpcPort h" "GrpcPort h < 2 ^ 63" "prefix xs (session_bytes h beats)"
  shows "receive_hello (read_lines [] xs) = (if nl \<in> set xs then Some (valid_hello h) else None)"
proof (cases "count_list xs nl")
  case 0
  then show ?thesis by (simp add: session_lines[OF assms] receive_hello_def count_list_0_iff)
next
  case (Suc n)
  then have "nl \<in> set xs" by (metis count_list_0_iff nat.distinct(1))
  then show ?thesis using Suc hello_body(3)[OF assms(1,2)] by (simp add: session_lines[OF assms])
qed

lemma session_heartbeats:
  assumes "- (2 ^ 63) \<le> GrpcPort h" "GrpcPort h < 2 ^ 63" "prefix xs (session_bytes h beats)"
  shows "map receive_heartbeat (tl (read_lines [] xs)) = map (Some \<circ> Alive) (take (count_list xs nl - 1) beats)"
  by (cases "count_list xs nl") (simp_all add: session_lines[OF assms] heartbeat_body(3) take_map comp_def)

text \<open>
  (C13) Whatever the stream of a connection is cut to, by the network or by its end, the controller gets the messages
  that arrived in full, in order, and nothing else: the configurator's host name, with bytes that are not UTF-8
  replaced, and its port, then the heartbeats.
\<close>

theorem framed_messages_delivered:
  assumes "- (2 ^ 63) \<le> GrpcPort h" "GrpcPort h < 2 ^ 63" "prefix xs (session_bytes h beats)"
  shows "receive_hello (read_lines [] xs) = (if nl \<in> set xs then Some (valid_hello h) else None)
    \<and> map receive_heartbeat (tl (read_lines [] xs)) = map (Some \<circ> Alive) (take (count_list xs nl - 1) beats)"
  using session_hello[OF assms] session_heartbeats[OF assms] by (rule conjI)

theorem framed_messages_delivered_witness:
  "receive_hello (read_lines [] (session_bytes \<lparr>hello_Hostname = ''n<1>'', GrpcPort = 5001\<rparr> [\<lparr>Alive = True\<rparr>]))
     = Some \<lparr>hello_Hostname = ''n<1>'', GrpcPort = 5001\<rparr>"
proof -
  let ?h = "\<lparr>hello_Hostname = ''n<1>'', GrpcPort = 5001\<rparr>"
  have "nl \<in> set (session_bytes ?h [\<lparr>Alive = True\<rparr>])"
    by (simp add: session_bytes_def written_def EncodeToByte_def Marshal_def hello_form_def)
  moreover have "valid_hello ?h = ?h" by (simp add: valid_hello_def to_valid_ascii)
  ultimately show ?thesis
    using framed_messages_delivered[of ?h "session_bytes ?h [\<lparr>Alive = True\<rparr>]" "[\<lparr>Alive = True\<rparr>]"] by simp
qed

end
