(* ===== verification/Configurator_Client.thy ===== *)
theory Configurator_Client
  imports Configurator Node_Connection
begin

text \<open>
  The configurator as a client of the controller manager (\<open>fastconfigurator.go\<close>), its start and stop
  (\<open>server.go\<close>) and the settings of its main program.

  \<open>maintainConnection\<close> is a state machine: its phases are the places where it waits, an event is what the
  network, a signal or the message handler does there, and the actions are the calls it makes on a connection.
\<close>

section \<open>Keeping the connection\<close>

definition maxHeartbeatFailures :: nat where
  "maxHeartbeatFailures = 3"

datatype beat_result = BeatSent | BeatBroken | BeatFailed

datatype conn_event =
    SignalReceived
  | DialFailed
  | Dialed
  | HelloFailed
  | HelloSent
  | AckBad
  | AckOk
  | HandlerExited
  | Beat beat_result

datatype conn_action = OpenConn | CloseConn

datatype phase = Dialing | Greeting | AwaitAck | Beating nat | Stopped

text \<open>
  One step; \<open>None\<close> where the event cannot occur. A signal is looked at before each dial and in the heartbeat
  loop only.
\<close>

fun conn_step :: "phase \<Rightarrow> conn_event \<Rightarrow> (phase \<times> conn_action list) option" where
  "conn_step Dialing SignalReceived = Some (Stopped, [])"
| "conn_step Dialing DialFailed = Some (Dialing, [])"
| "conn_step Dialing Dialed = Some (Greeting, [OpenConn])"
| "conn_step Greeting HelloFailed = Some (Dialing, [CloseConn])"
| "conn_step Greeting HelloSent = Some (AwaitAck, [])"
| "conn_step AwaitAck AckBad = Some (Dialing, [CloseConn])"
| "conn_step AwaitAck AckOk = Some (Beating 0, [])"
| "conn_step (Beating n) SignalReceived = Some (Stopped, [CloseConn])"
| "conn_step (Beating n) HandlerExited = Some (Dialing, [CloseConn])"
| "conn_step (Beating n) (Beat BeatSent) = Some (Beating 0, [])"
| "conn_step (Beating n) (Beat BeatBroken) = Some (Dialing, [CloseConn])"
| "conn_step (Beating n) (Beat BeatFailed) =
     (if Suc n \<ge> maxHeartbeatFailures then Some (Dialing, [CloseConn]) else Some (Beating (Suc n), []))"
| "conn_step _ _ = None"

inductive maintainConnection :: "phase \<Rightarrow> conn_action list \<Rightarrow> bool" where
  start: "maintainConnection Dialing []"
| step: "maintainConnection p acts \<Longrightarrow> conn_step p e = Some (p', acts') \<Longrightarrow> maintainConnection p' (acts @ acts')"

definition connected_phase :: "phase \<Rightarrow> bool" where
  "connected_phase p = (case p of Dialing \<Rightarrow> False | Stopped \<Rightarrow> False | _ \<Rightarrow> True)"

text \<open>The deprecated sender of heartbeats: whether it gives the connection up. The first argument is the number
  of failures so far.\<close>

fun send_beats :: "nat \<Rightarrow> bool list \<Rightarrow> bool" where
  "send_beats failed [] = False"
| "send_beats failed (ok # oks) =
     (if ok then send_beats 0 oks
      else if Suc failed \<ge> maxHeartbeatFailures then True else send_beats (Suc failed) oks)"

definition sendNodeHeartbeats :: "bool \<Rightarrow> bool list \<Rightarrow> bool" where
  "sendNodeHeartbeats firstOk oks = (if \<not> firstOk then True else send_beats 0 oks)"

section \<open>Starting and stopping\<close>

definition NewConfigurationServer :: "bool \<Rightarrow> 'h platform \<Rightarrow> VirtualGPU \<Rightarrow> 'h \<Rightarrow> (string + 'h rm) go" where
  "NewConfigurationServer ini pf unused h =
     bind_go (NewResourceManager ini pf unused h) (\<lambda>r.
       case r of Inl e \<Rightarrow> Ret (Inl (''failed to create resource manager: '' @ e)) | Inr rm \<Rightarrow> Ret (Inr rm))"

text \<open>The manager is taken from the server before the error is looked at: a nil server panics.\<close>

definition NewServer :: "bool \<Rightarrow> bool \<Rightarrow> 'h platform \<Rightarrow> VirtualGPU \<Rightarrow> 'h \<Rightarrow> (string + 'h rm) go" where
  "NewServer listens ini pf unused h =
     (if \<not> listens then Ret (Inl ''failed to create listener'')
      else bind_go (NewConfigurationServer ini pf unused h) (\<lambda>r.
             case r of Inl e \<Rightarrow> Panic | Inr rm \<Rightarrow> Ret (Inr rm)))"

definition Stop :: "'h platform \<Rightarrow> string list \<Rightarrow> string list \<Rightarrow> 'h rm \<Rightarrow> 'h rm go" where
  "Stop pf order1 order2 st = CleanUp pf order1 order2 st"

text \<open>The hello message, whatever the port the service listens on.\<close>

definition hello_message :: "string \<Rightarrow> int \<Rightarrow> hello" where
  "hello_message hostname grpcPort = \<lparr>hello_Hostname = hostname, GrpcPort = 5001\<rparr>"

text \<open>The settings of the main program: flags, overridden by environment variables that are not empty. The port
  of the environment is taken when it does not parse.\<close>

record settings =
  set_ctr_mgr_ip_port :: string
  set_fastfunc_ip_port :: string
  set_grpc_port :: int

definition main_settings :: "settings \<Rightarrow> string \<Rightarrow> string \<Rightarrow> string \<Rightarrow> settings" where
  "main_settings flags env_ctr env_func env_port =
     (let s1 = (if env_ctr \<noteq> [] then flags\<lparr>set_ctr_mgr_ip_port := env_ctr\<rparr> else flags);
          s2 = (if env_func \<noteq> [] then s1\<lparr>set_fastfunc_ip_port := env_func\<rparr> else s1)
      in if env_port \<noteq> []
         then (case Atoi env_port of (p, err) \<Rightarrow> if err \<noteq> None then s2\<lparr>set_grpc_port := p\<rparr> else s2)
         else s2)"

section \<open>Shutting down\<close>

text \<open>
  \<open>Run\<close> waits for a signal on a channel of capacity 1, from which the goroutines of the two connections receive as
  well. A signal that finds the channel full is dropped; one that is there is received by any one of them, which
  then ends. The process ends when the main goroutine does.
\<close>

record run_state =
  main_waits :: bool
  connections :: "string list"
  signalled :: bool

datatype run_event = Signal | MainReceives | ConnectionReceives string

fun run_step :: "run_event \<Rightarrow> run_state \<Rightarrow> run_state option" where
  "run_step Signal s = Some (s\<lparr>signalled := True\<rparr>)"
| "run_step MainReceives s =
     (if signalled s \<and> main_waits s then Some (s\<lparr>signalled := False, main_waits := False\<rparr>) else None)"
| "run_step (ConnectionReceives c) s =
     (if signalled s \<and> c \<in> set (connections s)
      then Some (s\<lparr>signalled := False, connections := remove1 c (connections s)\<rparr>) else None)"

fun run_events :: "run_event list \<Rightarrow> run_state \<Rightarrow> run_state option" where
  "run_events [] s = Some s"
| "run_events (e # es) s = (case run_step e s of None \<Rightarrow> None | Some s' \<Rightarrow> run_events es s')"

definition Run_init :: run_state where
  "Run_init = \<lparr>main_waits = True, connections = [''controller-manager'', ''fastfunc-controller''], signalled = False\<rparr>"

section \<open>Properties\<close>

lemma run_events_receivers:
  assumes "run_events es s = Some s'"
  shows "length (filter (\<lambda>e. e \<noteq> Signal) es) + length (connections s') + (if main_waits s' then 1 else 0)
    = length (connections s) + (if main_waits s then 1 else 0)"
  using assms
proof (induction es arbitrary: s)
  case (Cons e es)
  then obtain s1 where s1: "run_step e s = Some s1" "run_events es s1 = Some s'" by (auto split: option.splits)
  show ?case using Cons.IH[OF s1(2)] s1(1)
    by (cases e) (auto split: if_splits dest: length_remove1_Suc)
qed simp

text \<open>
  One signal need not end the process: two can be taken by the connections, and only when three have been received
  the main goroutine has ended.
\<close>

theorem shutdown_takes_three_signals:
  "(\<exists>es s. length (filter (\<lambda>e. e = Signal) es) = 2 \<and> run_events es Run_init = Some s \<and> main_waits s \<and> \<not> signalled s)
   \<and> (run_events es Run_init = Some s \<longrightarrow> 3 \<le> length (filter (\<lambda>e. e \<noteq> Signal) es) \<longrightarrow> \<not> main_waits s)"
proof (intro conjI impI)
  let ?es = "[Signal, ConnectionReceives ''controller-manager'', Signal, ConnectionReceives ''fastfunc-controller'']"
  have "\<exists>s. run_events ?es Run_init = Some s \<and> main_waits s \<and> \<not> signalled s" by (simp add: Run_init_def)
  then show "\<exists>es s. length (filter (\<lambda>e. e = Signal) es) = 2 \<and> run_events es Run_init = Some s \<and> main_waits s \<and> \<not> signalled s"
    by (intro exI[of _ ?es]) simp
  show "\<not> main_waits s" if "run_events es Run_init = Some s" "3 \<le> length (filter (\<lambda>e. e \<noteq> Signal) es)"
    using run_events_receivers[OF that(1)] that(2) by (auto simp: Run_init_def)
qed

lemma conn_step_invariant:
  assumes "conn_step p e = Some (p', acts')"
  shows "(acts' = [] \<and> connected_phase p' = connected_phase p) \<or> (acts' = [OpenConn] \<and> \<not> connected_phase p \<and> connected_phase p')
    \<or> (acts' = [CloseConn] \<and> connected_phase p \<and> \<not> connected_phase p')"
  using assms
  by (induction p e rule: conn_step.induct) (auto simp: connected_phase_def split: if_splits)

text \<open>The connections open after a sequence of actions.\<close>

fun open_conns :: "conn_action list \<Rightarrow> int" where
  "open_conns [] = 0"
| "open_conns (OpenConn # as) = 1 + open_conns as"
| "open_conns (CloseConn # as) = open_conns as - 1"

lemma open_conns_append: "open_conns (as @ bs) = open_conns as + open_conns bs"
  by (induction "as" rule: open_conns.induct) simp_all

text \<open>
  (C17) The configurator never holds more than one connection to a controller and leaks none: at any time exactly
  one is open while it greets, waits for the acknowledgement or sends heartbeats, and none while it dials or
  after it stopped; and fewer than three heartbeats in a row have failed.
\<close>

theorem connection_never_leaks:
  assumes "maintainConnection p acts"
  shows "open_conns acts = (if connected_phase p then 1 else 0) \<and> (\<forall>n. p = Beating n \<longrightarrow> n < 3)"
  using assms
proof (induction rule: maintainConnection.induct)
  case start
  then show ?case by (simp add: connected_phase_def)
next
  case (step p acts e p' acts')
  have "open_conns (acts @ acts') = (if connected_phase p' then 1 else 0)"
    using conn_step_invariant[OF step(2)] step.IH by (auto simp: open_conns_append)
  moreover have "n < 3" if "p' = Beating n" for n
    using step(2) that step.IH
    by (induction p e rule: conn_step.induct) (auto simp: maxHeartbeatFailures_def split: if_splits)
  ultimately show ?case by blast
qed

theorem connection_never_leaks_witness:
  "\<exists>acts. maintainConnection (Beating 1) acts \<and> open_conns acts = 1"
proof -
  note next_step = maintainConnection.step
  have "maintainConnection Greeting [OpenConn]" using next_step[OF maintainConnection.start, of Dialed] by simp
  then have "maintainConnection AwaitAck [OpenConn]" using next_step[of Greeting "[OpenConn]" HelloSent] by simp
  then have "maintainConnection (Beating 0) [OpenConn]" using next_step[of AwaitAck "[OpenConn]" AckOk] by simp
  then have m: "maintainConnection (Beating 1) [OpenConn]"
    using next_step[of "Beating 0" "[OpenConn]" "Beat BeatFailed"] by (simp add: maxHeartbeatFailures_def)
  from connection_never_leaks[OF m] m show ?thesis by (auto simp: connected_phase_def)
qed

end
