(* ===== verification/Node_Liveness.thy ===== *)
theory Node_Liveness
  imports Demo
begin

text \<open>
  The liveness of a node from its connection to the periodic check: the connection handler, the heartbeat loop
  and \<open>checkNodeLiveness\<close> together.
\<close>

lemma handleNodeConnection_live:
  assumes "handleNodeConnection ce st = Ret (Some n, st1)"
  shows "nodesLiveness st1 n = Some \<lparr>ConfigConn = ce_conn ce, Status = NodeReady, LastHeartbeat = 0\<rparr>"
  using assms by (auto simp: handleNodeConnection_def bind_go_Ret_iff init_liveness_def split: option.splits prod.splits if_splits)

lemma last_alive: "\<forall>m \<in> set ms. fst m = Some True \<Longrightarrow> takeWhile (\<lambda>m. fst m = Some True) ms = ms"
  by (simp add: takeWhile_eq_all_conv)

text \<open>
  The liveness of a connected node: after heartbeats that all said the node is alive, the next periodic
  check leaves the node ready exactly when the last of them is at most 240 seconds old. A node that has just
  connected and has not yet sent one counts from the zero time, so that a check between its connection and its
  first heartbeat marks it not ready.
\<close>

theorem liveness_from_connection:
  assumes "handleNodeConnection ce st = Ret (Some n, st1)" "heartbeat_loop n ms st1 = Ret (go_on, st2)"
    and "\<forall>m \<in> set ms. fst m = Some True" "0 \<le> now - last (0 # map snd ms)" "now - last (0 # map snd ms) < 2 ^ 63"
  shows "\<exists>live. nodesLiveness (checkNodeLiveness now st2) n = Some live
    \<and> (Status live = NodeReady \<longleftrightarrow> now - last (0 # map snd ms) \<le> 240 * 10 ^ 9)"
proof -
  note l1 = handleNodeConnection_live[OF assms(1)]
  obtain live where live: "nodesLiveness st2 n = Some live" "Status live = NodeReady"
    "LastHeartbeat live = last (0 # map snd ms)"
    using heartbeat_loop_result[OF l1, of ms] assms(2,3) last_alive[OF assms(3)] by (auto split: if_splits)
  have "time_Sub now (LastHeartbeat live) = now - last (0 # map snd ms)" using live(3) assms(4,5) by (simp add: time_Sub_def)
  then show ?thesis using live by (auto simp: checkNodeLiveness_def checkTickerItv_def)
qed

theorem liveness_from_connection_witness:
  "\<exists>live. nodesLiveness (checkNodeLiveness (10 ^ 18) (demo_mgr (demo_node demo_ports Map.empty))) ''n1'' = Some live
     \<and> Status live = NodeNotReady"
proof -
  have "heartbeat_loop ''n1'' [] (demo_mgr (demo_node demo_ports Map.empty)) = Ret (True, demo_mgr (demo_node demo_ports Map.empty))"
    by simp
  from liveness_from_connection[OF demo_connected this, of "10 ^ 18"] show ?thesis
    by (auto intro: NodeStatus.exhaust)
qed

end
