(* ===== verification/Node_Session.thy ===== *)
theory Node_Session
  imports Wire Configurator_Client Node_Liveness
begin

text \<open>
  A session from one end to the other: the bytes a configurator writes on its connection (\<open>fastconfigurator.go\<close>), cut
  anywhere, and what the controller manager's handler of that connection (\<open>node_init.go\<close>) makes of them.
\<close>

text \<open>The heartbeat of a configurator always says that it is alive.\<close>

definition beat_message :: heartbeat_message where
  "beat_message = \<lparr>Alive = True\<rparr>"

definition configurator_stream :: "string \<Rightarrow> int \<Rightarrow> nat \<Rightarrow> string" where
  "configurator_stream hostname grpcPort n = session_bytes (hello_message hostname grpcPort) (replicate n beat_message)"

text \<open>
  The messages of the heartbeat loop for the bytes received, with the times at which they were read: the lines
  after the hello message, and a failed read when the connection was closed.
\<close>

definition loop_messages :: "string \<Rightarrow> bool \<Rightarrow> time list \<Rightarrow> (bool option \<times> time) list" where
  "loop_messages xs shut stamps =
     zip (map receive_heartbeat (tl (read_lines [] xs)) @ (if shut then [None] else [])) stamps"



end
