(* ===== verification/Gateway.thy ===== *)
theory Gateway
  imports Reconcile
begin

text \<open>
  The gateway through which functions are deployed and called (\<open>pkg/customized_openfaas/server\<close>): one handler per
  route over an HTTP response writer and the client of the API server.

  A handler returns the writer and the log of the calls it has made to the API server. The API server is an
  argument: what it answers may depend on all the calls made before, so that any behaviour of it is covered. Of
  the clients in the repository it is used that \<open>Get\<close> and \<open>List\<close> return an empty object beside an error. The
  JSON codec, the task queue and the function \<open>httputil.Errorf\<close> of the provider library are arguments as well.
\<close>

section \<open>Requests and responses\<close>

text \<open>
  \<open>http.ResponseWriter\<close>: the first status written stays, writing a body writes 200 first, and a header set after
  the status has no effect. A handler that writes nothing answers 200.
\<close>

record writer =
  wr_code :: "int option"
  wr_type :: string
  wr_body :: string

definition fresh_writer :: writer where
  "fresh_writer = \<lparr>wr_code = None, wr_type = [], wr_body = []\<rparr>"

definition WriteHeader :: "int \<Rightarrow> writer \<Rightarrow> writer" where
  "WriteHeader c w = (if wr_code w = None then w\<lparr>wr_code := Some c\<rparr> else w)"

definition Write :: "string \<Rightarrow> writer \<Rightarrow> writer" where
  "Write s w = (let w' = WriteHeader 200 w in w'\<lparr>wr_body := wr_body w' @ s\<rparr>)"

definition SetContentType :: "string \<Rightarrow> writer \<Rightarrow> writer" where
  "SetContentType t w = (if wr_code w = None then w\<lparr>wr_type := t\<rparr> else w)"

definition http_Error :: "string \<Rightarrow> int \<Rightarrow> writer \<Rightarrow> writer" where
  "http_Error msg c w = Write (msg @ [CHR 0x0A]) (WriteHeader c (SetContentType ''text/plain; charset=utf-8'' w))"

definition status_of :: "writer \<Rightarrow> int" where
  "status_of w = (case wr_code w of None \<Rightarrow> 200 | Some c \<Rightarrow> c)"

lemmas writer_defs = fresh_writer_def WriteHeader_def Write_def SetContentType_def http_Error_def status_of_def

text \<open>A request: its method, the variables of its path, its query parameter \<open>namespace\<close> and its body.\<close>

record request =
  rq_method :: string
  rq_name :: string
  rq_params :: string
  rq_namespace :: string
  rq_body :: string

record FastpodResources =
  GPUQuotaLimit :: string
  GPUQuotaRequest :: string
  res_Memory :: string
  res_SMPartition :: string

record FastpodDeployment =
  d_Service :: string
  d_Containers :: "container list"
  d_Namespace :: string
  d_Labels :: "smap option"
  d_Annotations :: smap
  d_Resources :: "FastpodResources option"

record FastpodStatus =
  fs_Name :: string
  fs_Labels :: smap
  fs_Containers :: "container list"
  fs_Annotations :: smap
  fs_Replicas :: int
  fs_AvailableReplicas :: int

section \<open>The environment\<close>

datatype api_call =
    ApiGet string string
  | ApiList string
  | ApiCreate string fastpod
  | ApiUpdate string fastpod
  | ApiDelete string string
  | ApiListNamespaces

record api =
  a_get :: "api_call list \<Rightarrow> string \<Rightarrow> string \<Rightarrow> get_answer"
  a_list :: "api_call list \<Rightarrow> string \<Rightarrow> string + fastpod list"
  a_create :: "api_call list \<Rightarrow> string \<Rightarrow> fastpod \<Rightarrow> string option"
  a_update :: "api_call list \<Rightarrow> string \<Rightarrow> fastpod \<Rightarrow> string option"
  a_delete :: "api_call list \<Rightarrow> string \<Rightarrow> string \<Rightarrow> string option"
  a_namespaces :: "api_call list \<Rightarrow> string + (string \<times> smap) list"
  a_lister :: "api_call list \<Rightarrow> string \<Rightarrow> string \<Rightarrow> string + fastpod"

record codec =
  j_deployment :: "string \<Rightarrow> string + FastpodDeployment"
  j_function :: "string \<Rightarrow> string + string"
  j_scale :: "string \<Rightarrow> string + int"
  j_namespace :: "string \<Rightarrow> string \<Rightarrow> string + string"
  m_status :: "FastpodStatus \<Rightarrow> string + string"
  m_statuses :: "fastpod_status list \<Rightarrow> string + string"
  m_strings :: "string list \<Rightarrow> string + string"
  m_info :: "string \<times> string \<times> string \<times> string \<Rightarrow> string + string"

record tasks =
  t_Delay :: "string \<Rightarrow> string \<Rightarrow> bool"
  t_Get :: "string \<Rightarrow> string \<Rightarrow> bool"
  t_Errorf :: "int \<Rightarrow> string \<Rightarrow> writer \<Rightarrow> writer"

type_synonym 'a handled = "('a \<times> api_call list) go"

section \<open>Replicas\<close>

definition lookup_namespace :: "string \<Rightarrow> string \<Rightarrow> string" where
  "lookup_namespace defaultNamespace namespace = (if namespace \<noteq> [] then namespace else defaultNamespace)"

text \<open>\<open>uint64(x)\<close> of an \<open>int32\<close>: a negative number wraps.\<close>

definition to_uint64 :: "int \<Rightarrow> int" where
  "to_uint64 x = x mod 2 ^ 64"

definition gw_getReplicas :: "string + fastpod \<Rightarrow> int \<times> int" where
  "gw_getReplicas listed =
     (case listed of
        Inl e \<Rightarrow> (0, 0)
      | Inr f \<Rightarrow> (to_uint64 (StatusReplicas (f_status f)), to_uint64 (AvailableReplicas (f_status f))))"

definition toFastpodStatus :: "fastpod \<Rightarrow> FastpodStatus" where
  "toFastpodStatus f =
     \<lparr>fs_Name = f_name f, fs_Labels = f_labels f, fs_Containers = f_containers f, fs_Annotations = f_annotations f,
      fs_Replicas = to_uint64 (StatusReplicas (f_status f)),
      fs_AvailableReplicas = to_uint64 (AvailableReplicas (f_status f))\<rparr>"

definition makeReplicaReader :: "string \<Rightarrow> codec \<Rightarrow> api \<Rightarrow> request \<Rightarrow> api_call list \<Rightarrow> writer handled" where
  "makeReplicaReader defaultNamespace js k r calls =
     (let ns = lookup_namespace defaultNamespace (rq_namespace r);
          calls1 = calls @ [ApiGet ns (rq_name r)];
          w = fresh_writer
      in case a_get k calls ns (rq_name r) of
           NotFound e \<Rightarrow> Ret (Write e (WriteHeader 404 w), calls1)
         | GetFailed e \<Rightarrow> Ret (Write e (WriteHeader 404 w), calls1)
         | Found f \<Rightarrow>
             (case gw_getReplicas (a_lister k calls1 ns (rq_name r)) of (desired, available) \<Rightarrow>
                case m_status js (toFastpodStatus f\<lparr>fs_AvailableReplicas := available, fs_Replicas := desired\<rparr>) of
                  Inl e \<Rightarrow> Ret (Write ''Failed to marshal fastpod status'' (WriteHeader 500 w), calls1)
                | Inr res \<Rightarrow>
                    Ret (Write res (WriteHeader 200 (SetContentType ''applications/json'' w)), calls1)))"

text \<open>The handler that should scale a function only reads it: the update is commented out.\<close>

definition makeReplicaHandler :: "string \<Rightarrow> codec \<Rightarrow> api \<Rightarrow> request \<Rightarrow> api_call list \<Rightarrow> writer handled" where
  "makeReplicaHandler defaultNamespace js k r calls =
     (let ns = lookup_namespace defaultNamespace (rq_namespace r);
          calls1 = calls @ [ApiGet ns (rq_name r)];
          w = fresh_writer
      in if ns = ''kube-system''
         then Ret (http_Error ''unable to list within the kube-system namespace'' 401 w, calls)
         else case j_scale js (rq_body r) of
                Inl e \<Rightarrow> Ret (Write e (WriteHeader 400 w), calls)
              | Inr replicas \<Rightarrow>
                  (case a_get k calls ns (rq_name r) of
                     NotFound e \<Rightarrow> Ret (Write e (WriteHeader 500 w), calls1)
                   | GetFailed e \<Rightarrow> Ret (Write e (WriteHeader 500 w), calls1)
                   | Found f \<Rightarrow> bind_go (deref (f_replicas f)) (\<lambda>replica. Ret (w, calls1))))"

section \<open>Deployment, deletion, listing\<close>

definition zero_status :: fastpod_status where
  "zero_status =
     \<lparr>ReadyReplicas = 0, AvailableReplicas = 0, StatusReplicas = 0, BoundDeviceIDs = None, GPUClientPorts = None,
      UsageStatus = None, Pod2Node = None, ResourceConfig = None\<rparr>"

definition toFastpod :: "FastpodDeployment \<Rightarrow> string \<Rightarrow> fastpod go" where
  "toFastpod d namespace =
     bind_go (deref (d_Labels d)) (\<lambda>labels.
       Ret \<lparr>f_namespace = namespace, f_name = d_Service d, f_labels = labels, f_annotations = d_Annotations d,
            f_containers = d_Containers d, f_initContainers = [], f_volumes = [], f_replicas = None,
            f_selector = None, f_status = zero_status\<rparr>)"

text \<open>An existing FaSTPod gets the specification and the labels of the new one.\<close>

definition replace_spec :: "fastpod \<Rightarrow> fastpod \<Rightarrow> fastpod" where
  "replace_spec new got =
     got\<lparr>f_containers := f_containers new, f_initContainers := f_initContainers new, f_volumes := f_volumes new,
         f_replicas := f_replicas new, f_selector := f_selector new, f_labels := f_labels new\<rparr>"

definition accepted :: "string \<Rightarrow> string option \<Rightarrow> writer \<Rightarrow> writer" where
  "accepted msg err w =
     (case err of Some e \<Rightarrow> Write (msg @ e) (WriteHeader 500 w) | None \<Rightarrow> WriteHeader 202 w)"

definition makeApplyHandler :: "string \<Rightarrow> codec \<Rightarrow> api \<Rightarrow> request \<Rightarrow> api_call list \<Rightarrow> writer handled" where
  "makeApplyHandler defaultNamespace js k r calls =
     (case j_deployment js (rq_body r) of
        Inl e \<Rightarrow> Ret (Write e (WriteHeader 400 fresh_writer), calls)
      | Inr req \<Rightarrow>
          let ns = lookup_namespace defaultNamespace (d_Namespace req);
              calls1 = calls @ [ApiGet ns (d_Service req)]
          in (case a_get k calls ns (d_Service req) of
                GetFailed e \<Rightarrow> Ret (Write e (WriteHeader 500 fresh_writer), calls1)
              | Found got \<Rightarrow>
                  bind_go (toFastpod req ns) (\<lambda>new.
                    let updated = replace_spec new got
                    in Ret (accepted ''Error updating fastpod : '' (a_update k calls1 ns updated) fresh_writer,
                            calls1 @ [ApiUpdate ns updated]))
              | NotFound e \<Rightarrow>
                  bind_go (toFastpod req ns) (\<lambda>new.
                    Ret (accepted ''Error creating fastpod: '' (a_create k calls1 ns new) fresh_writer,
                         calls1 @ [ApiCreate ns new]))))"

text \<open>The guard of the next handler reads the query parameter and not the namespace that is used.\<close>

definition makeDeleteHandler :: "string \<Rightarrow> codec \<Rightarrow> api \<Rightarrow> request \<Rightarrow> api_call list \<Rightarrow> writer handled" where
  "makeDeleteHandler defaultNamespace js k r calls =
     (let ns = lookup_namespace defaultNamespace (rq_namespace r); w = fresh_writer
      in if rq_namespace r = ''kube-system''
         then Ret (http_Error ''unable to list within the kube-system namespace'' 401 w, calls)
         else case j_function js (rq_body r) of
                Inl e \<Rightarrow> Ret (Write e (WriteHeader 400 w), calls)
              | Inr functionName \<Rightarrow>
                  if functionName = [] then Ret (Write ''No fastpod provided'' (WriteHeader 400 w), calls)
                  else Ret (case a_delete k calls ns functionName of
                              None \<Rightarrow> w
                            | Some e \<Rightarrow> Write e (WriteHeader 500 w),
                            calls @ [ApiDelete ns functionName]))"

text \<open>After a failed \<open>List\<close> the handler goes on with the empty list that the client returns beside the error.\<close>

definition makeListHandler :: "string \<Rightarrow> codec \<Rightarrow> api \<Rightarrow> request \<Rightarrow> api_call list \<Rightarrow> writer handled" where
  "makeListHandler defaultNamespace js k r calls =
     (let ns = (if rq_namespace r \<noteq> [] \<and> rq_namespace r \<noteq> ''fast-gshare'' then rq_namespace r else defaultNamespace)
      in if ns = ''kube-system''
         then Ret (http_Error ''unable to list within the kube-system'' 401 fresh_writer, calls)
         else (case (case a_list k calls ns of
                       Inl e \<Rightarrow> (Write e (WriteHeader 400 fresh_writer), [])
                     | Inr items \<Rightarrow> (fresh_writer, items)) of (w, items) \<Rightarrow>
                 Ret (case m_statuses js (map f_status items) of
                        Inl e \<Rightarrow> Write ''Failed to marshal fastpods'' (WriteHeader 500 w)
                      | Inr out \<Rightarrow> Write out (WriteHeader 200 (SetContentType ''application/json'' w)),
                      calls @ [ApiList ns])))"

section \<open>Namespaces\<close>

fun findNamespace :: "string \<Rightarrow> string list \<Rightarrow> bool" where
  "findNamespace target [] = False"
| "findNamespace target (n # items) = (n = target \<or> findNamespace target items)"

definition ListNamespaces :: "string \<Rightarrow> string + (string \<times> smap) list \<Rightarrow> string list" where
  "ListNamespaces defaultNamespace listed =
     (case listed of
        Inl e \<Rightarrow> [defaultNamespace]
      | Inr items \<Rightarrow>
          let found = map fst (filter (\<lambda>(n, a). a ''fast-gshare'' \<noteq> None) items)
          in if findNamespace defaultNamespace found then found else found @ [defaultNamespace])"

definition MakeNamespacesLister :: "string \<Rightarrow> bool \<Rightarrow> codec \<Rightarrow> api \<Rightarrow> api_call list \<Rightarrow> writer handled" where
  "MakeNamespacesLister defaultNamespace clusterRole js k calls =
     (case (if clusterRole then (ListNamespaces defaultNamespace (a_namespaces k calls), calls @ [ApiListNamespaces])
            else ([defaultNamespace], calls)) of (namespaces, calls1) \<Rightarrow>
        Ret (case m_strings js namespaces of
               Inl e \<Rightarrow> http_Error ''Failed to list namespaces'' 500 fresh_writer
             | Inr out \<Rightarrow> Write out (WriteHeader 200 (SetContentType ''application/json'' fresh_writer)), calls1))"

text \<open>
  The namespace a request is about: from the query of a GET, from the body of a POST, PUT or DELETE (decoding
  keeps the default where the body has none), and the default for any other method.
\<close>

definition NewNamsespaceResolver ::
  "string \<Rightarrow> codec \<Rightarrow> api \<Rightarrow> request \<Rightarrow> api_call list \<Rightarrow> (string \<times> string option) \<times> api_call list" where
  "NewNamsespaceResolver defaultNamespace js k r calls =
     (case (if rq_method r = ''GET'' then Inr (lookup_namespace defaultNamespace (rq_namespace r))
            else if rq_method r = ''POST'' \<or> rq_method r = ''PUT'' \<or> rq_method r = ''DELETE''
            then j_namespace js defaultNamespace (rq_body r)
            else Inr defaultNamespace) of
        Inl e \<Rightarrow> (([], Some ''unable to unmarshal json request''), calls)
      | Inr ns \<Rightarrow>
          let calls1 = calls @ [ApiListNamespaces]
          in if findNamespace ns (ListNamespaces defaultNamespace (a_namespaces k calls)) then ((ns, None), calls1)
             else ((ns, Some (''unable to manage secretes within the '' @ ns @ '' namespace'')), calls1))"

section \<open>Calling a function, health and information\<close>

definition proxyRequest :: "tasks \<Rightarrow> request \<Rightarrow> writer" where
  "proxyRequest t r =
     (if rq_name r = [] then t_Errorf t 400 ''Provide function name in the request path'' fresh_writer
      else let taskName = ''index.'' @ rq_name r
           in if \<not> t_Delay t taskName (rq_params r)
              then t_Errorf t 500 (''Can't reach service for: '' @ rq_name r @ ''.'') fresh_writer
              else WriteHeader (if t_Get t taskName (rq_params r) then 200 else 502)
                     (SetContentType ''text/plain'' fresh_writer))"

definition NewHandlerFunc :: "tasks \<Rightarrow> request \<Rightarrow> writer" where
  "NewHandlerFunc t r =
     (if rq_method r \<in> {''POST'', ''PUT'', ''PATCH'', ''DELETE'', ''GET'', ''OPTIONS'', ''HEAD''}
      then proxyRequest t r else WriteHeader 405 fresh_writer)"

definition makeHealthReader :: writer where
  "makeHealthReader = Write ''OK'' (WriteHeader 200 fresh_writer)"

definition BuildVersion :: "string \<Rightarrow> string" where
  "BuildVersion version = (if version = [] then ''dev'' else version)"

definition makeInfoHandler :: "codec \<Rightarrow> string \<Rightarrow> string \<Rightarrow> writer" where
  "makeInfoHandler js gitCommit version =
     (case m_info js (''kubernetes'', ''fastgshare-operator'', gitCommit, BuildVersion version) of
        Inl e \<Rightarrow> Write ''Failed to marshal info'' (WriteHeader 500 fresh_writer)
      | Inr out \<Rightarrow> Write out (WriteHeader 200 (SetContentType ''application/json'' fresh_writer)))"

section \<open>The routes of the server\<close>

text \<open>The fields of \<open>types.FaaSHandlers\<close> that \<open>New\<close> fills, except the one for logs. An update is answered as a health check.\<close>

datatype route =
  FunctionProxy | DeleteHandler | DeployHandler | FunctionReader | ReplicaReader | ReplicaUpdater | UpdateHandler
| HealthHandler | InfoHandler | ListNamespaceHandler

record gateway =
  gw_namespace :: string
  gw_clusterRole :: bool
  gw_version :: "string \<times> string"
  gw_codec :: codec
  gw_tasks :: tasks

fun handle :: "gateway \<Rightarrow> api \<Rightarrow> route \<Rightarrow> request \<Rightarrow> api_call list \<Rightarrow> writer handled" where
  "handle g k FunctionProxy r calls = Ret (NewHandlerFunc (gw_tasks g) r, calls)"
| "handle g k DeleteHandler r calls = makeDeleteHandler (gw_namespace g) (gw_codec g) k r calls"
| "handle g k DeployHandler r calls = makeApplyHandler (gw_namespace g) (gw_codec g) k r calls"
| "handle g k FunctionReader r calls = makeListHandler (gw_namespace g) (gw_codec g) k r calls"
| "handle g k ReplicaReader r calls = makeReplicaReader (gw_namespace g) (gw_codec g) k r calls"
| "handle g k ReplicaUpdater r calls = makeReplicaHandler (gw_namespace g) (gw_codec g) k r calls"
| "handle g k UpdateHandler r calls = Ret (makeHealthReader, calls)"
| "handle g k HealthHandler r calls = Ret (makeHealthReader, calls)"
| "handle g k InfoHandler r calls = Ret (makeInfoHandler (gw_codec g) (fst (gw_version g)) (snd (gw_version g)), calls)"
| "handle g k ListNamespaceHandler r calls =
     MakeNamespacesLister (gw_namespace g) (gw_clusterRole g) (gw_codec g) k calls"

end
