(* ===== verification/Gateway_Logs.thy ===== *)
theory Gateway_Logs
  imports Pod_Request Wire
begin

text \<open>
  The logs of a function (\<open>log.go\<close>, \<open>logs.go\<close> of \<open>pkg/customized_openfaas/k8s\<close>): the choice of the pods, the loop
  that starts a reader per pod and counts the readers, and the lines a reader turns into messages. Parsing a
  time stamp, the list of pods and the stream of a pod are arguments.
\<close>

section \<open>Lines and messages\<close>

record Log =
  l_Text :: string
  l_Namespace :: string
  l_PodName :: string
  l_FunctionName :: string
  l_Timestamp :: time

text \<open>\<open>strings.SplitN(s, " ", 2)\<close>.\<close>

fun split_first :: "char \<Rightarrow> string \<Rightarrow> string \<times> string option" where
  "split_first d [] = ([], None)"
| "split_first d (c # s) =
     (if c = d then ([], Some s) else case split_first d s of (a, b) \<Rightarrow> (c # a, b))"

definition extractTimestampAndMsg :: "(string \<Rightarrow> time option) \<Rightarrow> string \<Rightarrow> string \<times> time" where
  "extractTimestampAndMsg parse logText =
     (case split_first (CHR '' '') logText of (stamp, rest) \<Rightarrow>
        case parse stamp of
          None \<Rightarrow> ([], 0)
        | Some ts \<Rightarrow> (case rest of Some msg \<Rightarrow> (msg, ts) | None \<Rightarrow> ([], ts)))"

text \<open>\<open>bytes.Trim(line, "\x00")\<close>.\<close>

definition trim_zero :: "string \<Rightarrow> string" where
  "trim_zero s = rev (dropWhile (\<lambda>c. c = CHR 0x00) (rev (dropWhile (\<lambda>c. c = CHR 0x00) s)))"

definition defaultLogSince :: int where
  "defaultLogSince = 5 * 60"

text \<open>The seconds since a time, truncated; \<open>now\<close> is the clock.\<close>

definition parseSince :: "time \<Rightarrow> time option \<Rightarrow> int" where
  "parseSince now r =
     (case r of
        None \<Rightarrow> defaultLogSince
      | Some t \<Rightarrow> if t = 0 then defaultLogSince else quot (time_Sub now t) 1000000000)"

record PodLogOptions =
  lo_Follow :: bool
  lo_Container :: string
  lo_TailLines :: "int option"
  lo_SinceSeconds :: "int option"

definition log_options :: "time \<Rightarrow> string \<Rightarrow> int \<Rightarrow> time option \<Rightarrow> bool \<Rightarrow> PodLogOptions" where
  "log_options now container n_tail since follow =
     (let t = (if n_tail > 0 then Some n_tail else None)
      in \<lparr>lo_Follow = follow, lo_Container = container, lo_TailLines = t,
          lo_SinceSeconds = (if t = None \<or> since \<noteq> None then Some (parseSince now since) else None)\<rparr>)"

text \<open>
  One reader: the stream of a pod is its text and the error that ends it, \<open>None\<close> for the end of the file. The
  field \<open>Namespace\<close> of a message is not set.
\<close>

definition podLogs ::
  "(string \<Rightarrow> time option) \<Rightarrow> (string \<Rightarrow> PodLogOptions \<Rightarrow> string + (string \<times> string option)) \<Rightarrow> time
     \<Rightarrow> string \<Rightarrow> string \<Rightarrow> int \<Rightarrow> time option \<Rightarrow> bool \<Rightarrow> Log list \<times> string option" where
  "podLogs parse stream now pod container n_tail since follow =
     (case stream pod (log_options now container n_tail since follow) of
        Inl e \<Rightarrow> ([], Some e)
      | Inr (content, err) \<Rightarrow>
          (map (\<lambda>line. case extractTimestampAndMsg parse (trim_zero line) of (msg, ts) \<Rightarrow>
                  \<lparr>l_Text = msg, l_Namespace = [], l_PodName = pod, l_FunctionName = container, l_Timestamp = ts\<rparr>)
               (read_lines [] content), err))"

section \<open>The pods of a function\<close>

text \<open>A selector is the list of the labels a pod has to have.\<close>

type_synonym label_selector = "(string \<times> string) list"

definition selects :: "label_selector \<Rightarrow> pod \<Rightarrow> bool" where
  "selects sel p = list_all (\<lambda>(k, v). p_labels p k = Some v) sel"

definition functionSelector :: "string \<Rightarrow> label_selector" where
  "functionSelector functionName = [(''faas_function'', functionName)]"

text \<open>The answer of the API server is the list of pods that match the selector in the namespace.\<close>

definition startFunctionPodInformer ::
  "(string \<Rightarrow> label_selector \<Rightarrow> string + pod list) \<Rightarrow> string \<Rightarrow> string \<Rightarrow> string + string list" where
  "startFunctionPodInformer list_pods functionName namespace =
     (case list_pods namespace (functionSelector functionName) of
        Inl e \<Rightarrow> Inl e
      | Inr pods \<Rightarrow> if pods = [] then Inl ''no matching instances found'' else Inr (map p_name pods))"

definition log_namespace :: "string \<Rightarrow> string \<Rightarrow> string" where
  "log_namespace functionNamespace namespace =
     (if namespace \<noteq> [] \<and> ToLower namespace \<noteq> ''kube-system'' then namespace else functionNamespace)"

section \<open>The loop over the readers\<close>

text \<open>
  The state of the goroutine of \<open>GetLogs\<close>: the counter \<open>watching\<close> of type \<open>uint\<close>; the pods for which \<open>podLogs\<close> runs
  and has not reported its end (\<open>readers\<close>), and those whose inner goroutine reads lines (\<open>reading\<close>); the pods
  waiting in the channel \<open>added\<close>; whether the context is cancelled and whether the goroutine has returned, which
  closes the channel of messages; and whether a message was sent to the closed channel, which panics. The channel
  \<open>added\<close> is closed when the context is cancelled: it then yields empty names once it is drained, as long as the
  goroutine does not choose to see the cancellation.
\<close>

record watch =
  watching :: "64 word"
  readers :: "string list"
  reading :: "string list"
  added :: "string list"
  cancelled :: bool
  returned :: bool
  crashed :: bool

datatype watch_event =
  PodAdded string | TakePod | LineRead string | StreamEnded string | ReaderFinished string | Cancel | SeeCancel

definition start_reader :: "string \<Rightarrow> watch \<Rightarrow> watch" where
  "start_reader p s =
     s\<lparr>watching := watching s + 1, readers := readers s @ [p], reading := reading s @ [p]\<rparr>"

text \<open>\<open>podLogs\<close> ends when its inner goroutine has ended or the context is cancelled.\<close>

fun watch_step :: "bool \<Rightarrow> watch_event \<Rightarrow> watch \<Rightarrow> watch option" where
  "watch_step follow (PodAdded p) s =
     (if cancelled s then None else Some (s\<lparr>added := added s @ [p]\<rparr>))"
| "watch_step follow TakePod s =
     (if returned s then None
      else case added s of
             p # ps \<Rightarrow> Some (start_reader p (s\<lparr>added := ps\<rparr>))
           | [] \<Rightarrow> if cancelled s then Some (start_reader [] s) else None)"
| "watch_step follow (LineRead p) s =
     (if p \<notin> set (reading s) then None else Some (s\<lparr>crashed := crashed s \<or> returned s\<rparr>))"
| "watch_step follow (StreamEnded p) s =
     (if p \<notin> set (reading s) then None else Some (s\<lparr>reading := remove1 p (reading s)\<rparr>))"
| "watch_step follow (ReaderFinished p) s =
     (if returned s \<or> p \<notin> set (readers s)
         \<or> (\<not> cancelled s \<and> count_list (readers s) p \<le> count_list (reading s) p) then None
      else let n = watching s - 1
           in Some (s\<lparr>watching := n, readers := remove1 p (readers s), returned := (n = 0 \<and> \<not> follow)\<rparr>))"
| "watch_step follow Cancel s = Some (s\<lparr>cancelled := True\<rparr>)"
| "watch_step follow SeeCancel s =
     (if returned s \<or> \<not> cancelled s then None else Some (s\<lparr>returned := True\<rparr>))"

definition watch_init :: watch where
  "watch_init =
     \<lparr>watching = 0, readers = [], reading = [], added = [], cancelled = False, returned = False, crashed = False\<rparr>"

fun watch_run :: "bool \<Rightarrow> watch_event list \<Rightarrow> watch \<Rightarrow> watch option" where
  "watch_run follow [] s = Some s"
| "watch_run follow (e # es) s = (case watch_step follow e s of None \<Rightarrow> None | Some s' \<Rightarrow> watch_run follow es s')"

text \<open>
  The states the goroutine can reach and the number of steps to them; the informer adds the pods that exist, and
  later ones, one by one.
\<close>

inductive watched :: "bool \<Rightarrow> nat \<Rightarrow> watch \<Rightarrow> bool" for follow where
  watched_init: "watched follow 0 watch_init"
| watched_step: "watched follow n s \<Longrightarrow> watch_step follow e s = Some s' \<Longrightarrow> watched follow (Suc n) s'"

text \<open>\<open>GetLogs\<close> fails when no pod is found, and otherwise starts the loop.\<close>

definition GetLogs :: "(string \<Rightarrow> label_selector \<Rightarrow> string + pod list) \<Rightarrow> string \<Rightarrow> string \<Rightarrow> string + watch" where
  "GetLogs list_pods functionName namespace =
     (case startFunctionPodInformer list_pods functionName namespace of
        Inl e \<Rightarrow> Inl e
      | Inr pods \<Rightarrow> Inr (watch_init\<lparr>added := pods\<rparr>))"

definition Query :: "(string \<Rightarrow> label_selector \<Rightarrow> string + pod list) \<Rightarrow> string \<Rightarrow> string \<Rightarrow> string \<Rightarrow> string + watch" where
  "Query list_pods functionNamespace nm namespace =
     GetLogs list_pods nm (log_namespace functionNamespace namespace)"

definition log_message :: "Log \<Rightarrow> time \<times> string \<times> string \<times> string \<times> string" where
  "log_message l = (l_Timestamp l, l_Text l, l_FunctionName l, l_PodName l, l_Namespace l)"

section \<open>The counter is the number of readers\<close>

lemma watched_run:
  assumes "watched follow n s" "watch_run follow es s = Some s'"
  shows "watched follow (n + length es) s'"
  using assms
proof (induction es arbitrary: n s)
  case (Cons e es)
  then obtain s1 where "watch_step follow e s = Some s1" "watch_run follow es s1 = Some s'"
    by (auto split: option.splits)
  then show ?case using Cons.IH[OF watched_step[OF Cons.prems(1)]] by simp
qed simp

text \<open>
  The invariant: the counter is the number of readers; and as long as the request is not cancelled, a line is
  read only for a running reader, nothing was sent to a closed channel, and the goroutine has returned only if
  the stream is not followed and the counter is zero.
\<close>

definition watch_ok :: "bool \<Rightarrow> watch \<Rightarrow> bool" where
  "watch_ok follow s \<longleftrightarrow>
     watching s = of_nat (length (readers s)) \<and>
     (\<not> cancelled s \<longrightarrow> \<not> crashed s \<and> (\<forall>p. count_list (reading s) p \<le> count_list (readers s) p)
        \<and> (returned s \<longrightarrow> \<not> follow \<and> watching s = 0))"

lemma count_list_remove1: "count_list (remove1 x xs) y = count_list xs y - (if x = y then 1 else 0)"
  by (induction xs) (auto simp: count_list_0_iff)

lemma counter_after_end:
  assumes "p \<in> set xs" "n = (of_nat (length xs) :: 64 word)"
  shows "n - 1 = of_nat (length (remove1 p xs))"
  using length_remove1_Suc[OF assms(1)] assms(2) by simp

lemma watch_ok_added [simp]: "watch_ok follow (s\<lparr>added := as\<rparr>) = watch_ok follow s"
  by (simp add: watch_ok_def)

lemma start_reader_ok: "watch_ok follow s \<Longrightarrow> \<not> returned s \<Longrightarrow> watch_ok follow (start_reader p s)"
  by (auto simp: watch_ok_def start_reader_def)

lemma no_reading:
  assumes "watch_ok follow s" "\<not> cancelled s" "returned s" "length (readers s) < 2 ^ 64"
  shows "readers s = []" "reading s = []"
proof -
  have ok: "watching s = of_nat (length (readers s))" "watching s = 0"
    "\<And>p. count_list (reading s) p \<le> count_list (readers s) p"
    using assms(1-3) unfolding watch_ok_def by blast+
  have "length (readers s) = unat (of_nat (length (readers s)) :: 64 word)"
    using assms(4) by (simp add: unat_of_nat take_bit_eq_mod)
  also have "\<dots> = 0" using ok(1,2) by (metis unat_0)
  finally show r: "readers s = []" by simp
  have "count_list (reading s) p = 0" for p using ok(3)[of p] by (simp add: r)
  then show "reading s = []" by (cases "reading s") (simp, metis count_list_0_iff list.set_intros(1))
qed

lemma watch_step_ok:
  assumes step: "watch_step follow e s = Some s'" and ok: "watch_ok follow s"
    and "length (readers s) < 2 ^ 64"
  shows "watch_ok follow s'"
proof (cases e)
  case (PodAdded p)
  with step ok show ?thesis by (auto simp: watch_ok_def split: if_splits)
next
  case TakePod
  with step ok TakePod show ?thesis
    by (auto split: if_splits list.splits intro!: start_reader_ok)
next
  case (LineRead p)
  then have "reading s \<noteq> []" using step by (auto split: if_splits)
  then have "\<not> cancelled s \<longrightarrow> \<not> returned s" using no_reading assms by blast
  with step ok LineRead show ?thesis by (auto simp: watch_ok_def split: if_splits)
next
  case (StreamEnded p)
  with step ok show ?thesis
    by (auto simp: watch_ok_def count_list_remove1 le_diff_conv le_SucI split: if_splits)
next
  case (ReaderFinished p)
  then have p: "p \<in> set (readers s)" "\<not> returned s"
    and c: "cancelled s \<or> count_list (reading s) p < count_list (readers s) p"
    and s': "s' = s\<lparr>watching := watching s - 1, readers := remove1 p (readers s),
      returned := (watching s - 1 = 0 \<and> \<not> follow)\<rparr>"
    using step by (auto simp: Let_def not_le split: if_splits)
  have "watching s - 1 = of_nat (length (remove1 p (readers s)))"
    using counter_after_end[OF p(1)] ok by (simp add: watch_ok_def)
  then show ?thesis using ok c p(2) unfolding s' watch_ok_def
    by (auto simp: count_list_remove1)
qed (use step ok in \<open>auto simp: watch_ok_def split: if_splits\<close>)

lemma watch_step_readers: "watch_step follow e s = Some s' \<Longrightarrow> length (readers s') \<le> Suc (length (readers s))"
  by (cases e) (auto simp: Let_def start_reader_def length_remove1 split: if_splits list.splits)

lemma watched_ok:
  assumes "watched follow n s" "n < 2 ^ 64"
  shows "watch_ok follow s \<and> length (readers s) \<le> n"
  using assms
proof induction
  case watched_init
  show ?case by (simp add: watch_init_def watch_ok_def)
next
  case (watched_step n s e s')
  then show ?case using watch_step_ok watch_step_readers[OF watched_step.hyps(2)] by fastforce
qed

text \<open>
  (C26) The log stream of a function: in every state the goroutine reaches in fewer than \<open>2 ^ 64\<close> steps, the counter
  is the number of readers that have not finished. Unless the request is cancelled, nothing is sent to the closed
  channel of messages, a followed stream goes on, and a stream that is not followed ends with no reader left.
\<close>

theorem log_loop_exact:
  assumes "watched follow n s" "n < 2 ^ 64"
  shows "unat (watching s) = length (readers s) \<and>
    (\<not> cancelled s \<longrightarrow> \<not> crashed s \<and> (returned s \<longrightarrow> \<not> follow \<and> readers s = [] \<and> reading s = []))"
proof -
  have ok: "watch_ok follow s" "length (readers s) < 2 ^ 64" using watched_ok[OF assms] assms(2) by auto
  have "unat (watching s) = length (readers s)"
    using ok by (simp add: watch_ok_def unat_of_nat take_bit_eq_mod)
  then show ?thesis using ok no_reading[OF ok(1) _ _ ok(2)] by (auto simp: watch_ok_def)
qed

theorem log_loop_exact_witness:
  "\<exists>s. watch_run False [PodAdded ''a'', TakePod, LineRead ''a'', StreamEnded ''a'', ReaderFinished ''a''] watch_init = Some s
     \<and> unat (watching s) = length (readers s)
     \<and> (\<not> cancelled s \<longrightarrow> \<not> crashed s \<and> (returned s \<longrightarrow> \<not> False \<and> readers s = [] \<and> reading s = []))"
proof -
  obtain s where run: "watch_run False [PodAdded ''a'', TakePod, LineRead ''a'', StreamEnded ''a'', ReaderFinished ''a''] watch_init = Some s"
    by (simp add: watch_init_def start_reader_def Let_def)
  from watched_run[OF watched_init this] have "watched False 5 s" by (simp add: eval_nat_numeral)
  then show ?thesis using log_loop_exact[of False 5 s] run by auto
qed

text \<open>
  What can go wrong with a log stream. Cancelling the request while a line is being read closes the channel
  under the reader, which panics; and a stream that is not followed can end while a pod still waits to be read,
  when the readers started so far finish first.
\<close>

theorem log_stream_hazards:
  "(\<exists>n s. watched follow n s \<and> crashed s) \<and>
   (\<exists>n s. watched False n s \<and> returned s \<and> \<not> cancelled s \<and> added s = [q])"
proof
  have "\<exists>s. watch_run follow [PodAdded p, TakePod, Cancel, SeeCancel, LineRead p] watch_init = Some s \<and> crashed s" for p
    by (simp add: watch_init_def start_reader_def)
  then show "\<exists>n s. watched follow n s \<and> crashed s" using watched_run[OF watched_init] by blast
  have "\<exists>s. watch_run False [PodAdded p, PodAdded q, TakePod, StreamEnded p, ReaderFinished p] watch_init = Some s
          \<and> returned s \<and> \<not> cancelled s \<and> added s = [q]" for p
    by (simp add: watch_init_def start_reader_def Let_def)
  then show "\<exists>n s. watched False n s \<and> returned s \<and> \<not> cancelled s \<and> added s = [q]"
    using watched_run[OF watched_init] by blast
qed

section \<open>A stream that is not followed ends\<close>

text \<open>The pod of a function.\<close>

definition demo_function_pod :: pod where
  "demo_function_pod = newPod demo_fastpod
     \<lparr>IsWarm = False, BoundDevUUID = ''u1'', SchedNode = ''n1'', SchedvGPUID = ''u1'', PodName = ''f-1'', par_MPSConfig = None\<rparr>"

text \<open>
  The steps the goroutine and its readers take by themselves, when no pod is added, no request is cancelled and
  the streams of the pods end: at most three per pod.
\<close>

definition own_event :: "watch_event \<Rightarrow> bool" where
  "own_event e = (case e of TakePod \<Rightarrow> True | StreamEnded p \<Rightarrow> True | ReaderFinished p \<Rightarrow> True | _ \<Rightarrow> False)"

definition watch_measure :: "watch \<Rightarrow> nat" where
  "watch_measure s = 3 * length (added s) + length (reading s) + length (readers s)"

lemma watch_step_decreases:
  assumes "watch_step follow e s = Some s'" "own_event e" "\<not> cancelled s"
  shows "watch_measure s' < watch_measure s \<and> \<not> cancelled s'"
  using assms
  by (cases e) (auto simp: own_event_def watch_measure_def start_reader_def Let_def length_remove1
      intro!: diff_less length_pos_if_in_set split: if_splits list.splits)

lemma watch_run_bounded:
  assumes "watch_run follow es s = Some s'" "list_all own_event es" "\<not> cancelled s"
  shows "length es + watch_measure s' \<le> watch_measure s \<and> \<not> cancelled s'"
  using assms
proof (induction es arbitrary: s)
  case (Cons e es)
  then obtain s1 where s1: "watch_step follow e s = Some s1" "watch_run follow es s1 = Some s'"
    by (auto split: option.splits)
  have "watch_measure s1 < watch_measure s \<and> \<not> cancelled s1"
    using watch_step_decreases[OF s1(1)] Cons.prems by simp
  then show ?case using Cons.IH[OF s1(2)] Cons.prems by simp
qed simp

text \<open>A state in which no such step is possible has returned, or nothing was ever started.\<close>

lemma count_list_less:
  assumes "xs \<noteq> []" "ys = []"
  shows "\<exists>p \<in> set xs. count_list ys p < count_list xs p"
  using assms by (cases xs) auto

lemma stuck_returned:
  assumes "\<And>e. own_event e \<Longrightarrow> watch_step follow e s = None" "\<not> returned s" "\<not> cancelled s"
  shows "added s = [] \<and> reading s = [] \<and> readers s = []"
proof (intro conjI)
  show "added s = []" using assms(1)[of TakePod] assms(2) by (auto simp: own_event_def split: list.splits if_splits)
  show r: "reading s = []"
  proof (rule ccontr)
    assume "reading s \<noteq> []"
    then obtain p where "p \<in> set (reading s)" by (cases "reading s") auto
    then show False using assms(1)[of "StreamEnded p"] by (simp add: own_event_def)
  qed
  show "readers s = []"
  proof (rule ccontr)
    assume "readers s \<noteq> []"
    then obtain p where "p \<in> set (readers s)" "count_list (reading s) p < count_list (readers s) p"
      using count_list_less r by blast
    then show False using assms(1)[of "ReaderFinished p"] assms(2) by (simp add: own_event_def Let_def)
  qed
qed

text \<open>As long as the goroutine has not returned, a state without readers is one in which none was started.\<close>

definition none_lost :: "string list \<Rightarrow> watch \<Rightarrow> bool" where
  "none_lost ps s \<longleftrightarrow> watching s = of_nat (length (readers s)) \<and> (readers s = [] \<and> \<not> returned s \<longrightarrow> added s = ps)"

lemma watch_step_none_lost:
  assumes "watch_step False e s = Some s'" "own_event e" "none_lost ps s" "\<not> cancelled s"
  shows "none_lost ps s'"
proof (cases e)
  case (ReaderFinished p)
  then have p: "p \<in> set (readers s)"
    and s': "s' = s\<lparr>watching := watching s - 1, readers := remove1 p (readers s), returned := (watching s - 1 = 0)\<rparr>"
    using assms(1) by (auto simp: Let_def split: if_splits)
  have "watching s - 1 = of_nat (length (remove1 p (readers s)))"
    using counter_after_end[OF p, of "watching s"] assms(3) by (simp add: none_lost_def)
  then show ?thesis by (auto simp: none_lost_def s')
qed (use assms in \<open>auto simp: own_event_def none_lost_def start_reader_def split: if_splits list.splits\<close>)

lemma watch_run_none_lost:
  assumes "watch_run False es s = Some s'" "list_all own_event es" "none_lost ps s" "\<not> cancelled s"
  shows "none_lost ps s'"
  using assms
proof (induction es arbitrary: s)
  case (Cons e es)
  then obtain s1 where s1: "watch_step False e s = Some s1" "watch_run False es s1 = Some s'"
    by (auto split: option.splits)
  then show ?case
    using Cons.IH[OF s1(2)] watch_step_none_lost[OF s1(1)] watch_step_decreases[OF s1(1)] Cons.prems by auto
qed simp



section \<open>The pods of the controller\<close>

lemma newPod_label:
  "f_labels f k = None \<Longrightarrow> k \<notin> {''fast_function'', ''app'', ''controller''} \<Longrightarrow> p_labels (newPod f params) k = None"
  by (simp add: newPod_def makeLabels_def Let_def map_add_def)

text \<open>
  The gateway looks for the pods of a function by the label \<open>faas_function\<close>, which the controller never sets
  (it sets \<open>fast_function\<close>): in a cluster of pods made for FaSTPods without that label of their own, asking for
  the logs of any function fails, although the pods run.
\<close>

theorem logs_miss_controller_pods:
  assumes "\<And>p. p \<in> set cluster \<Longrightarrow> \<exists>f params. p = newPod f params \<and> f_labels f ''faas_function'' = None"
    and "\<And>ns sel. list_pods ns sel = Inr (filter (\<lambda>p. p_namespace p = ns \<and> selects sel p) cluster)"
  shows "Query list_pods functionNamespace nm namespace = Inl ''no matching instances found''"
proof -
  have "\<not> selects (functionSelector nm) p" if "p \<in> set cluster" for p
    using assms(1)[OF that] newPod_label[of _ "''faas_function''"]
    by (auto simp: selects_def functionSelector_def)
  then have "filter (\<lambda>p. p_namespace p = ns \<and> selects (functionSelector nm) p) cluster = []" for ns
    by (auto simp: filter_empty_conv)
  then show ?thesis
    by (simp add: Query_def GetLogs_def startFunctionPodInformer_def assms(2))
qed

text \<open>A cluster with that one pod.\<close>

definition demo_list :: "string \<Rightarrow> label_selector \<Rightarrow> string + pod list" where
  "demo_list ns sel = Inr (filter (\<lambda>p. p_namespace p = ns \<and> selects sel p) [demo_function_pod])"

theorem logs_miss_controller_pods_witness:
  "Query demo_list ''ns'' ''f'' [] = Inl ''no matching instances found''"
proof (rule logs_miss_controller_pods[where cluster = "[demo_function_pod]"])
  show "\<exists>f params. p = newPod f params \<and> f_labels f ''faas_function'' = None" if "p \<in> set [demo_function_pod]" for p
    using that by (intro exI[of _ demo_fastpod]) (auto simp: demo_function_pod_def demo_fastpod_def demo_exclusive_def)
qed (simp add: demo_list_def)

end
