(* ===== verification/Operator.thy ===== *)
theory Operator
  imports Gateway Gateway_Logs
begin

text \<open>
  The operator beside the gateway (\<open>pkg/controller\<close>), which keeps a service per function, and the table of functions
  it shares with the gateway (\<open>proxy.go\<close>, \<open>types.go\<close> of \<open>pkg/customized_openfaas/k8s\<close>).

  The state is the table of functions and the log of the calls to the API server, the work queue and the event
  recorder; what the API server answers is an argument that may depend on the calls made before.
\<close>

section \<open>The table of functions\<close>

record PodInfo =
  pi_Rate :: float64
  pi_PossiTimeout :: bool
  pi_Timeout :: bool

type_synonym function_table = "string \<rightharpoonup> (string \<rightharpoonup> PodInfo)"

definition AddFunc :: "string \<Rightarrow> function_table \<Rightarrow> function_table" where
  "AddFunc funcname db = db(funcname \<mapsto> Map.empty)"

definition DeleteFunction :: "string \<Rightarrow> function_table \<Rightarrow> function_table" where
  "DeleteFunction nm db = db(nm := None)"

text \<open>The body of \<open>DeletePodInfo\<close> is commented out.\<close>

definition DeletePodInfo :: "string \<Rightarrow> string \<Rightarrow> function_table \<Rightarrow> function_table" where
  "DeletePodInfo funcName podName db = db"

text \<open>The order of the pods of a function, by what is known of them; \<open>Rate\<close> is only compared.\<close>

definition PodsWithInfos_Less :: "(string \<rightharpoonup> PodInfo) \<Rightarrow> string \<Rightarrow> string \<Rightarrow> bool" where
  "PodsWithInfos_Less podInfos name_i name_j =
     (case (podInfos name_i, podInfos name_j) of
        (Some info1, Some info2) \<Rightarrow>
          if pi_Timeout info1 \<or> pi_Timeout info2 then pi_Timeout info1
          else if pi_PossiTimeout info1 \<or> pi_PossiTimeout info2 then pi_PossiTimeout info1
          else if pi_Rate info1 = Fin 0 \<or> pi_Rate info2 = Fin 0 then pi_Rate info1 = Fin 0
          else flt (pi_Rate info1) (pi_Rate info2)
      | (info1, _) \<Rightarrow> info1 \<noteq> None)"

section \<open>Services and daemon sets\<close>

record service =
  s_name :: string
  s_namespace :: string
  s_annotations :: smap
  s_owner :: owner_ref
  s_selector :: label_selector
  s_port :: int

record daemonset =
  ds_name :: string
  ds_namespace :: string
  ds_selector :: label_selector
  ds_labels :: smap
  ds_containers :: "container list"
  ds_volumes :: "(string \<times> string) list"

definition functionPort :: int where
  "functionPort = 8080"

definition function_name :: "fastpod \<Rightarrow> string" where
  "function_name f = (case f_labels f ''fast_function'' of Some v \<Rightarrow> v | None \<Rightarrow> f_name f)"

definition newService :: "fastpod \<Rightarrow> service" where
  "newService f =
     \<lparr>s_name = function_name f, s_namespace = f_namespace f,
      s_annotations = [''prometheus.io.scrape'' \<mapsto> ''false''],
      s_owner = \<lparr>o_kind = ''FaSTPod'', o_name = f_name f\<rparr>,
      s_selector = [(''fast_function'', function_name f)], s_port = functionPort\<rparr>"

text \<open>\<open>marshal\<close> is the JSON form of the specification, None when it has none.\<close>

definition annotationFunctionSpec :: string where
  "annotationFunctionSpec = ''fast-gshare.fastpod.spec''"

definition makeAnnotations :: "(fastpod \<Rightarrow> string option) \<Rightarrow> fastpod \<Rightarrow> smap" where
  "makeAnnotations marshal f =
     (let annotations = [''prometheus.io.scrape'' \<mapsto> ''false''] ++ f_annotations f
      in case marshal f of
           None \<Rightarrow> annotations
         | Some specJSON \<Rightarrow> annotations(annotationFunctionSpec \<mapsto> specJSON))"

definition newDaemonset :: "fastpod \<Rightarrow> daemonset" where
  "newDaemonset f =
     \<lparr>ds_name = f_name f @ ''-init'', ds_namespace = f_namespace f, ds_selector = [(''init'', f_name f)],
      ds_labels = [''init'' \<mapsto> f_name f], ds_containers = f_initContainers f, ds_volumes = f_volumes f\<rparr>"

section \<open>State and environment\<close>

datatype op_call =
    OpGetService string string
  | OpCreateService string service
  | OpUpdateService string service
  | OpGetFaSTPod string string
  | OpCreateDaemonSet string daemonset
  | OpEvent string
  | OpHandleError
  | OpAdd string
  | OpAddRateLimited string
  | OpForget string
  | OpDone string

record operator =
  op_table :: function_table
  op_log :: "op_call list"

datatype service_answer = ServiceFound service | ServiceNotFound string | ServiceGetFailed string
datatype service_created = ServiceCreated | ServiceExists string | ServiceCreateFailed string

record op_env =
  e_splitKey :: "string \<Rightarrow> (string \<times> string) option"
  e_lister :: "string \<Rightarrow> string \<Rightarrow> get_answer"
  e_getFaSTPod :: "op_call list \<Rightarrow> string \<Rightarrow> string \<Rightarrow> get_answer"
  e_getService :: "op_call list \<Rightarrow> string \<Rightarrow> string \<Rightarrow> service_answer"
  e_createService :: "op_call list \<Rightarrow> string \<Rightarrow> service \<Rightarrow> service_created"
  e_updateService :: "op_call list \<Rightarrow> string \<Rightarrow> service \<Rightarrow> string option"
  e_createDaemonSet :: "op_call list \<Rightarrow> string \<Rightarrow> daemonset \<Rightarrow> string option"
  e_marshal :: "fastpod \<Rightarrow> string option"

definition log_call :: "op_call \<Rightarrow> operator \<Rightarrow> operator" where
  "log_call c st = st\<lparr>op_log := op_log st @ [c]\<rparr>"

section \<open>Synchronising a function\<close>

text \<open>The service is created when it is missing; that it exists by then is no error.\<close>

definition ensure_service :: "op_env \<Rightarrow> fastpod \<Rightarrow> operator \<Rightarrow> string option \<times> operator" where
  "ensure_service e f st =
     (let ns = f_namespace f; st1 = log_call (OpGetService ns (function_name f)) st
      in case e_getService e (op_log st) ns (function_name f) of
           ServiceNotFound _ \<Rightarrow>
             (case e_createService e (op_log st1) ns (newService f) of
                ServiceCreateFailed err \<Rightarrow> (Some err, log_call (OpCreateService ns (newService f)) st1)
              | _ \<Rightarrow> (None, log_call (OpCreateService ns (newService f)) st1))
         | _ \<Rightarrow> (None, st1))"

definition update_service :: "op_env \<Rightarrow> fastpod \<Rightarrow> operator \<Rightarrow> string option \<times> operator" where
  "update_service e f st =
     (let ns = f_namespace f; st1 = log_call (OpGetService ns (function_name f)) st
      in case e_getService e (op_log st) ns (function_name f) of
           ServiceNotFound err \<Rightarrow> (Some err, st1)
         | ServiceGetFailed err \<Rightarrow> (Some err, st1)
         | ServiceFound svc \<Rightarrow>
             let svc' = svc\<lparr>s_annotations := makeAnnotations (e_marshal e) f\<rparr>;
                 st2 = log_call (OpUpdateService ns svc') st1
             in (case e_updateService e (op_log st1) ns svc' of
                   Some err \<Rightarrow> (Some err, st2)
                 | None \<Rightarrow> (None, log_call (OpEvent ''Synced'') st2)))"

definition op_syncHandler :: "op_env \<Rightarrow> string \<Rightarrow> operator \<Rightarrow> string option \<times> operator" where
  "op_syncHandler e key st =
     (case e_splitKey e key of
        None \<Rightarrow> (None, log_call OpHandleError st)
      | Some (ns, nm) \<Rightarrow>
          (case e_lister e ns nm of
             NotFound err \<Rightarrow> (None, log_call OpHandleError st)
           | GetFailed err \<Rightarrow> (Some err, st)
           | Found f \<Rightarrow>
               (case ensure_service e f st of
                  (Some err, st1) \<Rightarrow> (Some err, st1)
                | (None, st1) \<Rightarrow> update_service e f st1)))"

text \<open>A work item is a key or something else, which is dropped; \<open>None\<close> when the queue is shut down.\<close>

definition op_processNextWorkItem :: "op_env \<Rightarrow> (string + string) option \<Rightarrow> operator \<Rightarrow> bool \<times> operator" where
  "op_processNextWorkItem e item st =
     (case item of
        None \<Rightarrow> (False, st)
      | Some (Inl other) \<Rightarrow> (True, log_call (OpDone other) (log_call OpHandleError (log_call (OpForget other) st)))
      | Some (Inr key) \<Rightarrow>
          (case op_syncHandler e key st of
             (Some err, st1) \<Rightarrow> (True, log_call OpHandleError (log_call (OpDone key) st1))
           | (None, st1) \<Rightarrow> (True, log_call (OpDone key) (log_call (OpForget key) st1))))"

section \<open>Event handlers\<close>

text \<open>The object the client returns beside an error is the zero value.\<close>

definition zero_fastpod :: fastpod where
  "zero_fastpod = \<lparr>f_namespace = [], f_name = [], f_labels = Map.empty, f_annotations = Map.empty, f_containers = [],
     f_initContainers = [], f_volumes = [], f_replicas = None, f_selector = None, f_status = zero_status\<rparr>"

definition op_addFaSTPod :: "op_env \<Rightarrow> fastpod \<Rightarrow> operator \<Rightarrow> operator" where
  "op_addFaSTPod e obj st =
     (let key = key_of (f_namespace obj) (f_name obj);
          split = e_splitKey e key;
          (ns, nm) = (case split of Some x \<Rightarrow> x | None \<Rightarrow> ([], []));
          st1 = (if split = None then log_call OpHandleError st else st);
          f = (case e_getFaSTPod e (op_log st1) ns nm of Found f \<Rightarrow> f | _ \<Rightarrow> zero_fastpod);
          st2 = log_call (OpGetFaSTPod ns nm) st1;
          st3 = st2\<lparr>op_table := AddFunc (f_name f) (op_table st2)\<rparr>;
          st4 = (if f_initContainers f = [] then st3
                 else let st' = log_call (OpCreateDaemonSet ns (newDaemonset f)) st3
                      in if e_createDaemonSet e (op_log st3) ns (newDaemonset f) = None then st'
                         else log_call OpHandleError st')
      in log_call (OpAddRateLimited key) st4)"

definition op_enqueueFaSTPod :: "fastpod \<Rightarrow> operator \<Rightarrow> operator" where
  "op_enqueueFaSTPod f st = log_call (OpAdd (key_of (f_namespace f) (f_name f))) st"

definition op_handleDeletedFaSTPod :: "fastpod informed \<Rightarrow> operator \<Rightarrow> operator" where
  "op_handleDeletedFaSTPod obj st =
     (case obj of
        Object f \<Rightarrow> st\<lparr>op_table := DeleteFunction (f_name f) (op_table st)\<rparr>
      | _ \<Rightarrow> log_call OpHandleError st)"

definition op_deletePodInfo :: "pod informed \<Rightarrow> operator \<Rightarrow> operator" where
  "op_deletePodInfo obj st =
     (case obj of
        Object p \<Rightarrow>
          (case p_owner p of
             Some ow \<Rightarrow> if o_kind ow = ''FaSTPod''
                       then st\<lparr>op_table := DeletePodInfo (o_name ow) (p_name p) (op_table st)\<rparr> else st
           | None \<Rightarrow> st)
      | _ \<Rightarrow> st)"

end
