(* ===== verification/Gateway_Properties.thy ===== *)
theory Gateway_Properties
  imports Operator
begin

text \<open>
  Properties of the gateway and the operator: what deploying a function does and what the controller manager makes
  of it, the namespaces the gateway touches, and the service the operator keeps for a function.
\<close>

section \<open>A small gateway\<close>

definition demo_deployment :: FastpodDeployment where
  "demo_deployment =
     \<lparr>d_Service = ''f'', d_Containers = [], d_Namespace = [], d_Labels = Some [''team'' \<mapsto> ''a''],
      d_Annotations = [FaSTGShareGPUQuotaRequest \<mapsto> ''0.9''], d_Resources = None\<rparr>"

definition demo_codec :: codec where
  "demo_codec =
     \<lparr>j_deployment = \<lambda>_. Inr demo_deployment, j_function = \<lambda>s. Inr s, j_scale = \<lambda>_. Inr 2,
      j_namespace = \<lambda>dns _. Inr dns, m_status = \<lambda>_. Inr ''{}'', m_statuses = \<lambda>_. Inr ''[]'',
      m_strings = \<lambda>_. Inr ''[]'', m_info = \<lambda>_. Inr ''{}''\<rparr>"

definition demo_api :: "get_answer \<Rightarrow> api" where
  "demo_api got =
     \<lparr>a_get = \<lambda>_ _ _. got, a_list = \<lambda>_ _. Inr [], a_create = \<lambda>_ _ _. None, a_update = \<lambda>_ _ _. None,
      a_delete = \<lambda>_ _ _. None, a_namespaces = \<lambda>_. Inr [], a_lister = \<lambda>_ _ _. Inl ''not found''\<rparr>"

definition demo_request :: request where
  "demo_request = \<lparr>rq_method = ''POST'', rq_name = ''f'', rq_params = [], rq_namespace = ''kube-system'', rq_body = ''f''\<rparr>"

definition demo_gateway :: gateway where
  "demo_gateway =
     \<lparr>gw_namespace = ''fast-gshare-fn'', gw_clusterRole = False, gw_version = ([], []), gw_codec = demo_codec,
      gw_tasks = \<lparr>t_Delay = \<lambda>_ _. True, t_Get = \<lambda>_ _. True, t_Errorf = \<lambda>c m w. http_Error m c w\<rparr>\<rparr>"

definition demo_deployed :: fastpod where
  "demo_deployed =
     \<lparr>f_namespace = ''ns'', f_name = ''f'', f_labels = [''team'' \<mapsto> ''a''],
      f_annotations = [FaSTGShareGPUQuotaRequest \<mapsto> ''0.9''], f_containers = [], f_initContainers = [], f_volumes = [],
      f_replicas = None, f_selector = None, f_status = zero_status\<rparr>"

lemmas demo_gateway_defs =
  demo_deployment_def demo_codec_def demo_api_def demo_request_def demo_gateway_def demo_deployed_def

section \<open>Deploying a function\<close>

lemma toFastpod_Ret:
  assumes "toFastpod d ns = Ret f"
  shows "f_replicas f = None" "f_name f = d_Service d" "f_namespace f = ns" "f_annotations f = d_Annotations d"
    "f_containers f = d_Containers d" "d_Labels d = Some (f_labels f)"
  using assms by (auto simp: toFastpod_def bind_go_Ret_iff deref_Ret_iff)

lemma status_written [simp]: "status_of (Write s (WriteHeader c fresh_writer)) = c"
  by (simp add: writer_defs)

lemma status_accepted [simp]: "status_of (accepted msg err fresh_writer) = (if err = None then 202 else 500)"
  by (auto simp: accepted_def writer_defs split: option.splits)

text \<open>What a deployment writes: nothing, a new FaSTPod, or an existing one with its specification replaced.\<close>

definition deploys :: "string \<Rightarrow> codec \<Rightarrow> api \<Rightarrow> request \<Rightarrow> api_call list \<Rightarrow> (api_call \<times> string option) option" where
  "deploys dns js k r calls =
     (case j_deployment js (rq_body r) of
        Inl e \<Rightarrow> None
      | Inr d \<Rightarrow>
          let ns = lookup_namespace dns (d_Namespace d); calls1 = calls @ [ApiGet ns (d_Service d)]
          in case (a_get k calls ns (d_Service d), toFastpod d ns) of
               (NotFound _, Ret f) \<Rightarrow> Some (ApiCreate ns f, a_create k calls1 ns f)
             | (Found got, Ret f) \<Rightarrow> Some (ApiUpdate ns (replace_spec f got), a_update k calls1 ns (replace_spec f got))
             | _ \<Rightarrow> None)"

text \<open>
  (C23) The answer to a deployment is 202 exactly when one FaSTPod was written and the API server took it; the
  handler writes at most once, after one read, and a panic comes only from a request without labels.
\<close>

theorem deploy_outcome:
  "(case makeApplyHandler dns js k r calls of
      Ret (w, calls') \<Rightarrow>
        (status_of w = 202 \<longleftrightarrow> (\<exists>c. deploys dns js k r calls = Some (c, None))) \<and>
        (case deploys dns js k r calls of
           Some (c, _) \<Rightarrow> \<exists>ns nm. calls' = calls @ [ApiGet ns nm, c]
         | None \<Rightarrow> calls' = calls \<or> (\<exists>ns nm. calls' = calls @ [ApiGet ns nm]))
    | Panic \<Rightarrow> \<exists>d. j_deployment js (rq_body r) = Inr d \<and> d_Labels d = None
    | Block \<Rightarrow> False)"
proof (cases "j_deployment js (rq_body r)")
  case (Inl e)
  then show ?thesis by (simp add: makeApplyHandler_def deploys_def)
next
  case (Inr d)
  define ns where "ns = lookup_namespace dns (d_Namespace d)"
  show ?thesis
  proof (cases "toFastpod d ns")
    case (Ret f)
    then show ?thesis using Inr
      by (auto simp: makeApplyHandler_def deploys_def Let_def ns_def split: get_answer.splits)
  next
    case Panic
    then have "d_Labels d = None" by (cases "d_Labels d") (simp_all add: toFastpod_def)
    then show ?thesis using Inr Panic
      by (auto simp: makeApplyHandler_def deploys_def Let_def ns_def split: get_answer.splits)
  next
    case Block
    then have False by (cases "d_Labels d") (simp_all add: toFastpod_def)
    then show ?thesis ..
  qed
qed

lemma deploys_cases:
  assumes "deploys dns js k r calls = Some (c, err)"
  obtains (create) d ns f where "toFastpod d ns = Ret f" "c = ApiCreate ns f"
    | (update) d ns f got where "toFastpod d ns = Ret f" "c = ApiUpdate ns (replace_spec f got)"
        "a_get k calls ns (d_Service d) = Found got"
  using assms by (auto simp: deploys_def Let_def split: sum.splits get_answer.splits go.splits)

text \<open>
  (C22) A function deployed through the gateway is never started by the controller manager: the FaSTPod created has
  no replica count, and a synchronisation of such a FaSTPod does nothing; deploying the function again sends an
  update without a replica count, on which the update handler of the controller manager panics.
\<close>

theorem gateway_never_scales:
  assumes "deploys dns js k r calls = Some (c, err)"
  shows "(\<exists>ns f. c = ApiCreate ns f \<and>
            (\<forall>w key nm st. w_splitKey w key = Some (ns, nm) \<longrightarrow> w_getFaSTPod w ns nm = Found f \<longrightarrow>
               syncHandler w key st = Ret (None, st)))
       \<or> (\<exists>ns f. c = ApiUpdate ns f \<and> (\<forall>st. fastpod_updated f st = Panic))"
  using assms
proof (cases rule: deploys_cases)
  case (create d ns f)
  then show ?thesis using toFastpod_Ret(1)[OF create(1)] by (auto simp: syncHandler_def)
next
  case (update d ns f got)
  then show ?thesis using toFastpod_Ret(1)[OF update(1)]
    by (auto simp: fastpod_updated_def replace_spec_def)
qed

theorem gateway_never_scales_witness:
  "deploys ''ns'' demo_codec (demo_api (NotFound [])) demo_request [] = Some (ApiCreate ''ns'' demo_deployed, None) \<and>
   ((\<exists>ns f. ApiCreate ''ns'' demo_deployed = ApiCreate ns f \<and>
            (\<forall>w key nm st. w_splitKey w key = Some (ns, nm) \<longrightarrow> w_getFaSTPod w ns nm = Found f \<longrightarrow>
               syncHandler w key st = Ret (None, st)))
    \<or> (\<exists>ns f. ApiCreate ''ns'' demo_deployed = ApiUpdate ns f \<and> (\<forall>st. fastpod_updated f st = Panic)))"
proof -
  have d: "deploys ''ns'' demo_codec (demo_api (NotFound [])) demo_request [] = Some (ApiCreate ''ns'' demo_deployed, None)"
    by (simp add: deploys_def demo_gateway_defs toFastpod_def lookup_namespace_def Let_def)
  from d gateway_never_scales[OF d] show ?thesis by (rule conjI)
qed

lemma request_of_annotations:
  assumes "f_annotations f = f_annotations g" "f_namespace f = f_namespace g" "f_name f = f_name g"
  shows "getPodRequestFromPod pf f = getPodRequestFromPod pf g"
  by (simp add: getPodRequestFromPod_def assms)

text \<open>
  Deploying a function again with other GPU quotas changes nothing about its requests: the update carries the
  containers and labels of the new deployment but the annotations of the FaSTPod that exists, from which the
  controller reads the quotas, and the resources of the deployment are not read at all.
\<close>

theorem redeploy_keeps_request:
  assumes "deploys dns js k r calls = Some (ApiUpdate ns u, err)"
    and "j_deployment js (rq_body r) = Inr d"
  shows "\<exists>got. a_get k calls ns (d_Service d) = Found got
     \<and> getPodRequestFromPod pf u = getPodRequestFromPod pf got
     \<and> f_containers u = d_Containers d \<and> d_Labels d = Some (f_labels u)"
proof -
  obtain f got where f: "toFastpod d ns = Ret f" "a_get k calls ns (d_Service d) = Found got" "u = replace_spec f got"
    using assms by (auto simp: deploys_def Let_def split: get_answer.splits go.splits)
  show ?thesis using f toFastpod_Ret(5,6)[OF f(1)] request_of_annotations[of u got]
    by (auto simp: replace_spec_def)
qed

theorem redeploy_keeps_request_witness:
  "\<exists>u. deploys ''ns'' demo_codec (demo_api (Found demo_fastpod)) demo_request [] = Some (ApiUpdate ''ns'' u, None) \<and>
     (\<exists>got. a_get (demo_api (Found demo_fastpod)) [] ''ns'' (d_Service demo_deployment) = Found got
        \<and> getPodRequestFromPod demo_parseFloat u = getPodRequestFromPod demo_parseFloat got
        \<and> f_containers u = d_Containers demo_deployment \<and> d_Labels demo_deployment = Some (f_labels u))"
proof -
  obtain u where u: "deploys ''ns'' demo_codec (demo_api (Found demo_fastpod)) demo_request [] = Some (ApiUpdate ''ns'' u, None)"
    by (simp add: deploys_def demo_gateway_defs toFastpod_def lookup_namespace_def Let_def)
  have j: "j_deployment demo_codec (rq_body demo_request) = Inr demo_deployment" by (simp add: demo_codec_def)
  show ?thesis using u redeploy_keeps_request[OF u j] by blast
qed

section \<open>Namespaces\<close>

text \<open>The namespace a call is about.\<close>

fun call_namespace :: "api_call \<Rightarrow> string option" where
  "call_namespace (ApiGet ns _) = Some ns"
| "call_namespace (ApiList ns) = Some ns"
| "call_namespace (ApiCreate ns _) = Some ns"
| "call_namespace (ApiUpdate ns _) = Some ns"
| "call_namespace (ApiDelete ns _) = Some ns"
| "call_namespace ApiListNamespaces = None"

text \<open>A sequence of requests; a panic in a handler ends that request only, the calls it made are not known here.\<close>

fun handle_all :: "gateway \<Rightarrow> api \<Rightarrow> (route \<times> request) list \<Rightarrow> api_call list \<Rightarrow> api_call list" where
  "handle_all g k [] calls = calls"
| "handle_all g k ((rt, r) # rs) calls =
     (case handle g k rt r calls of
        Ret (w, calls') \<Rightarrow> handle_all g k rs calls'
      | _ \<Rightarrow> handle_all g k rs calls)"

lemma guarded_call:
  assumes "handle g k rt r calls = Ret (w, calls')" "gw_namespace g \<noteq> ''kube-system''"
    and "rt \<noteq> DeployHandler" "rt \<noteq> ReplicaReader"
    and "\<forall>c \<in> set calls. call_namespace c \<noteq> Some ''kube-system''"
  shows "\<forall>c \<in> set calls'. call_namespace c \<noteq> Some ''kube-system''"
proof (cases rt)
  case DeleteHandler
  then show ?thesis using assms
    by (auto simp: makeDeleteHandler_def lookup_namespace_def Let_def split: sum.splits if_splits)
next
  case FunctionReader
  then show ?thesis using assms
    by (auto simp: makeListHandler_def Let_def split: sum.splits if_splits prod.splits)
next
  case ReplicaUpdater
  then show ?thesis using assms
    by (auto simp: makeReplicaHandler_def Let_def bind_go_Ret_iff split: sum.splits if_splits get_answer.splits)
next
  case ListNamespaceHandler
  then show ?thesis using assms
    by (auto simp: MakeNamespacesLister_def split: sum.splits if_splits prod.splits)
qed (use assms in auto)

lemma guarded_calls:
  assumes "gw_namespace g \<noteq> ''kube-system''" "\<forall>(rt, r) \<in> set rs. rt \<noteq> DeployHandler \<and> rt \<noteq> ReplicaReader"
    and "\<forall>c \<in> set calls. call_namespace c \<noteq> Some ''kube-system''"
  shows "\<forall>c \<in> set (handle_all g k rs calls). call_namespace c \<noteq> Some ''kube-system''"
  using assms(2,3)
proof (induction rs arbitrary: calls)
  case (Cons q rs)
  obtain rt r where q: "q = (rt, r)" by (cases q)
  have ok: "rt \<noteq> DeployHandler" "rt \<noteq> ReplicaReader" using Cons.prems(1) by (auto simp: q)
  show ?case
  proof (cases "handle g k rt r calls")
    case (Ret x)
    obtain w calls' where x: "x = (w, calls')" by (cases x)
    have "\<forall>c \<in> set calls'. call_namespace c \<noteq> Some ''kube-system''"
      using guarded_call[OF Ret[unfolded x] assms(1) ok Cons.prems(2)] .
    then show ?thesis using Cons.IH[of calls'] Cons.prems(1) by (simp add: q Ret x)
  qed (use Cons in \<open>simp_all add: q\<close>)
qed simp



text \<open>A deployment is not guarded: one that names the namespace of the system is created there.\<close>

lemma deployment_unguarded:
  assumes "j_deployment (gw_codec g) (rq_body r) = Inr d" "d_Namespace d = ''kube-system''" "d_Labels d \<noteq> None"
    and "a_get k [] ''kube-system'' (d_Service d) = NotFound x"
  shows "\<exists>f. ApiCreate ''kube-system'' f \<in> set (handle_all g k [(DeployHandler, r)] [])"
  using assms by (auto simp: makeApplyHandler_def lookup_namespace_def Let_def toFastpod_def)

section \<open>The service of a function\<close>

text \<open>
  An API server that keeps services: what it holds after a sequence of calls, from what it held first. A service is
  stored under its name; creating one that exists and updating one that does not are refused.
\<close>

type_synonym services = "string \<times> string \<rightharpoonup> service"

fun apply_call :: "op_call \<Rightarrow> services \<Rightarrow> services" where
  "apply_call (OpCreateService ns s) m = (if m (ns, s_name s) = None then m((ns, s_name s) \<mapsto> s) else m)"
| "apply_call (OpUpdateService ns s) m = (if m (ns, s_name s) = None then m else m((ns, s_name s) \<mapsto> s))"
| "apply_call _ m = m"

definition stored :: "services \<Rightarrow> op_call list \<Rightarrow> services" where
  "stored m0 calls = fold apply_call calls m0"

definition named :: "services \<Rightarrow> bool" where
  "named m \<longleftrightarrow> (\<forall>ns nm s. m (ns, nm) = Some s \<longrightarrow> s_name s = nm)"

definition honest :: "services \<Rightarrow> op_env \<Rightarrow> bool" where
  "honest m0 e \<longleftrightarrow>
     (\<forall>calls ns nm. case stored m0 calls (ns, nm) of
        Some s \<Rightarrow> e_getService e calls ns nm = ServiceFound s
      | None \<Rightarrow> (\<exists>x. e_getService e calls ns nm = ServiceNotFound x)) \<and>
     (\<forall>calls ns s. stored m0 calls (ns, s_name s) = None \<longrightarrow> e_createService e calls ns s = ServiceCreated) \<and>
     (\<forall>calls ns s. stored m0 calls (ns, s_name s) \<noteq> None \<longrightarrow> e_updateService e calls ns s = None)"

lemma stored_append [simp]: "stored m0 (calls @ calls') = fold apply_call calls' (stored m0 calls)"
  by (simp add: stored_def)

lemma newService_name [simp]: "s_name (newService f) = function_name f"
  by (simp add: newService_def)

lemma named_apply_call: "named m \<Longrightarrow> named (apply_call c m)"
  by (cases c) (auto simp: named_def)

lemma named_stored: "named m0 \<Longrightarrow> named (stored m0 calls)"
  unfolding stored_def by (induction calls arbitrary: m0) (simp_all add: named_apply_call)

lemma honest_get:
  "honest m0 e \<Longrightarrow> stored m0 calls (ns, nm) = Some s \<Longrightarrow> e_getService e calls ns nm = ServiceFound s"
  unfolding honest_def by (drule conjunct1, drule spec[of _ calls], drule spec[of _ ns], drule spec[of _ nm]) simp

lemma honest_missing:
  "honest m0 e \<Longrightarrow> stored m0 calls (ns, nm) = None \<Longrightarrow> \<exists>x. e_getService e calls ns nm = ServiceNotFound x"
  unfolding honest_def by (drule conjunct1, drule spec[of _ calls], drule spec[of _ ns], drule spec[of _ nm]) simp

lemma log_call_log [simp]: "op_log (log_call c st) = op_log st @ [c]"
  by (simp add: log_call_def)

lemma ensure_service_stored:
  assumes "honest m0 e"
  obtains st1 where "ensure_service e f st = (None, st1)"
    "stored m0 (op_log st1) = (stored m0 (op_log st))((f_namespace f, function_name f) \<mapsto>
       (case stored m0 (op_log st) (f_namespace f, function_name f) of None \<Rightarrow> newService f | Some s \<Rightarrow> s))"
proof (cases "stored m0 (op_log st) (f_namespace f, function_name f)")
  case None
  obtain x where "e_getService e (op_log st) (f_namespace f) (function_name f) = ServiceNotFound x"
    using honest_missing[OF assms None] by blast
  moreover have "e_createService e (op_log st @ [OpGetService (f_namespace f) (function_name f)]) (f_namespace f) (newService f)
      = ServiceCreated"
    using assms None by (simp add: honest_def)
  ultimately show ?thesis using that None by (simp add: ensure_service_def Let_def)
next
  case (Some s)
  then show ?thesis using that honest_get[OF assms Some]
    by (simp add: ensure_service_def Let_def fun_upd_idem)
qed

lemma update_service_stored:
  assumes "honest m0 e" "named m0" "stored m0 (op_log st) (f_namespace f, function_name f) = Some s"
  obtains st1 where "update_service e f st = (None, st1)"
    "stored m0 (op_log st1) = (stored m0 (op_log st))((f_namespace f, function_name f) \<mapsto>
       s\<lparr>s_annotations := makeAnnotations (e_marshal e) f\<rparr>)"
proof -
  have n: "s_name s = function_name f" using named_stored[OF assms(2)] assms(3) by (auto simp: named_def)
  have "e_updateService e (op_log st @ [OpGetService (f_namespace f) (function_name f)]) (f_namespace f)
      (s\<lparr>s_annotations := makeAnnotations (e_marshal e) f\<rparr>) = None"
    using assms(1,3) n by (simp add: honest_def)
  then show ?thesis using that honest_get[OF assms(1,3)] assms(3) n
    by (simp add: update_service_def Let_def)
qed

lemma sync_stored:
  assumes "honest m0 e" "named m0" "e_splitKey e key = Some (ns, nm)" "e_lister e ns nm = Found f"
  obtains st' where "op_syncHandler e key st = (None, st')"
    "stored m0 (op_log st') = (stored m0 (op_log st))((f_namespace f, function_name f) \<mapsto>
       (case stored m0 (op_log st) (f_namespace f, function_name f) of None \<Rightarrow> newService f | Some s \<Rightarrow> s)
         \<lparr>s_annotations := makeAnnotations (e_marshal e) f\<rparr>)"
proof -
  obtain st1 where 1: "ensure_service e f st = (None, st1)"
    "stored m0 (op_log st1) = (stored m0 (op_log st))((f_namespace f, function_name f) \<mapsto>
       (case stored m0 (op_log st) (f_namespace f, function_name f) of None \<Rightarrow> newService f | Some s \<Rightarrow> s))"
    using ensure_service_stored[OF assms(1)] .
  then have s: "stored m0 (op_log st1) (f_namespace f, function_name f) = Some
    (case stored m0 (op_log st) (f_namespace f, function_name f) of None \<Rightarrow> newService f | Some s \<Rightarrow> s)" by simp
  obtain st2 where 2: "update_service e f st1 = (None, st2)"
    "stored m0 (op_log st2) = (stored m0 (op_log st1))((f_namespace f, function_name f) \<mapsto>
       (case stored m0 (op_log st) (f_namespace f, function_name f) of None \<Rightarrow> newService f | Some s \<Rightarrow> s)
         \<lparr>s_annotations := makeAnnotations (e_marshal e) f\<rparr>)"
    using update_service_stored[OF assms(1,2) s] .
  show ?thesis using that[of st2] 1 2 assms(3,4) by (simp add: op_syncHandler_def)
qed

text \<open>
  (C25) Synchronising a function with an API server that answers: the service of the function exists afterwards, the
  one that existed or a new one, with the annotations of the FaSTPod; no other service changes. Synchronising again
  changes nothing.
\<close>

theorem operator_sync_outcome:
  assumes "honest m0 e" "named m0" "e_splitKey e key = Some (ns, nm)" "e_lister e ns nm = Found f"
  shows "\<exists>st' st''. op_syncHandler e key st = (None, st') \<and> op_syncHandler e key st' = (None, st'')
    \<and> stored m0 (op_log st') = (stored m0 (op_log st))((f_namespace f, function_name f) \<mapsto>
         (case stored m0 (op_log st) (f_namespace f, function_name f) of None \<Rightarrow> newService f | Some s \<Rightarrow> s)
           \<lparr>s_annotations := makeAnnotations (e_marshal e) f\<rparr>)
    \<and> stored m0 (op_log st'') = stored m0 (op_log st')"
proof -
  obtain st' where 1: "op_syncHandler e key st = (None, st')"
    "stored m0 (op_log st') = (stored m0 (op_log st))((f_namespace f, function_name f) \<mapsto>
       (case stored m0 (op_log st) (f_namespace f, function_name f) of None \<Rightarrow> newService f | Some s \<Rightarrow> s)
         \<lparr>s_annotations := makeAnnotations (e_marshal e) f\<rparr>)"
    using sync_stored[OF assms] .
  obtain st'' where 2: "op_syncHandler e key st' = (None, st'')"
    "stored m0 (op_log st'') = (stored m0 (op_log st'))((f_namespace f, function_name f) \<mapsto>
       (case stored m0 (op_log st') (f_namespace f, function_name f) of None \<Rightarrow> newService f | Some s \<Rightarrow> s)
         \<lparr>s_annotations := makeAnnotations (e_marshal e) f\<rparr>)"
    using sync_stored[OF assms] .
  have "stored m0 (op_log st'') = stored m0 (op_log st')" using 1(2) 2(2) by simp
  with 1 2(1) show ?thesis by blast
qed

text \<open>An API server that keeps services, starting with none.\<close>

definition demo_op_env :: "get_answer \<Rightarrow> op_env" where
  "demo_op_env got =
     \<lparr>e_splitKey = \<lambda>key. Some (''ns'', ''f''), e_lister = \<lambda>_ _. got, e_getFaSTPod = \<lambda>_ _ _. got,
      e_getService = \<lambda>calls ns nm. (case stored Map.empty calls (ns, nm) of
        Some s \<Rightarrow> ServiceFound s | None \<Rightarrow> ServiceNotFound ''not found''),
      e_createService = \<lambda>calls ns s.
        if stored Map.empty calls (ns, s_name s) = None then ServiceCreated else ServiceExists ''exists'',
      e_updateService = \<lambda>calls ns s.
        if stored Map.empty calls (ns, s_name s) = None then Some ''not found'' else None,
      e_createDaemonSet = \<lambda>_ _ _. None, e_marshal = \<lambda>_. Some ''{}''\<rparr>"

lemma demo_honest: "honest Map.empty (demo_op_env got)" "named Map.empty"
  by (auto simp: honest_def demo_op_env_def named_def split: option.splits)

theorem operator_sync_outcome_witness:
  "\<exists>st'. op_syncHandler (demo_op_env (Found demo_fastpod)) ''ns/f'' \<lparr>op_table = Map.empty, op_log = []\<rparr> = (None, st')
     \<and> stored Map.empty (op_log st') (''ns'', ''f'') \<noteq> None"
proof -
  have "f_namespace demo_fastpod = ''ns''" "function_name demo_fastpod = ''f''"
    by (simp_all add: demo_fastpod_def demo_exclusive_def function_name_def)
  then show ?thesis
    using operator_sync_outcome[OF demo_honest, of _ "''ns/f''" "''ns''" "''f''" demo_fastpod "\<lparr>op_table = Map.empty, op_log = []\<rparr>"]
    by (auto simp: demo_op_env_def)
qed

text \<open>
  The service of a function selects, of the pods the controller manager makes, exactly those of the same
  function, whatever other labels their FaSTPods have.
\<close>

theorem service_selects_function:
  "selects (s_selector (newService f)) (newPod g params) \<longleftrightarrow> function_name g = function_name f"
  by (auto simp: selects_def newService_def newPod_def makeLabels_def function_name_def Let_def map_add_def
      split: option.splits)

text \<open>
  A failed synchronisation of a function is not tried again: the work item is done, and neither queued nor
  forgotten, so that even its rate limit stays raised.
\<close>

theorem operator_errors_dropped:
  assumes "op_syncHandler e key st = (Some err, st1)"
  shows "op_processNextWorkItem e (Some (Inr key)) st = (True, st1\<lparr>op_log := op_log st1 @ [OpDone key, OpHandleError]\<rparr>)
    \<and> (\<forall>k. OpAdd k \<in> set (op_log st1) \<longrightarrow> OpAdd k \<in> set (op_log st))
    \<and> (\<forall>k. OpAddRateLimited k \<in> set (op_log st1) \<longrightarrow> OpAddRateLimited k \<in> set (op_log st))
    \<and> (\<forall>k. OpForget k \<in> set (op_log st1) \<longrightarrow> OpForget k \<in> set (op_log st))"
proof -
  have "\<forall>c \<in> set (op_log st1). c \<in> set (op_log st) \<or> (\<forall>k. c \<notin> {OpAdd k, OpAddRateLimited k, OpForget k})"
    using assms
    by (auto simp: op_syncHandler_def ensure_service_def update_service_def Let_def
        split: option.splits get_answer.splits service_answer.splits service_created.splits prod.splits)
  then show ?thesis using assms by (auto simp: op_processNextWorkItem_def log_call_def)
qed

theorem operator_errors_dropped_witness:
  "op_processNextWorkItem (demo_op_env (GetFailed ''timeout'')) (Some (Inr ''ns/f'')) \<lparr>op_table = Map.empty, op_log = []\<rparr>
     = (True, \<lparr>op_table = Map.empty, op_log = [OpDone ''ns/f'', OpHandleError]\<rparr>)"
  using operator_errors_dropped[of "demo_op_env (GetFailed ''timeout'')" "''ns/f''" "\<lparr>op_table = Map.empty, op_log = []\<rparr>" "''timeout''"]
  by (simp add: op_syncHandler_def demo_op_env_def)

section \<open>The table of functions\<close>

text \<open>The table is keyed by the name alone: of two functions of one name, deleting either forgets both.\<close>

lemma deletion_forgets_namesake:
  assumes "f_name f = f_name g"
  shows "op_table (op_handleDeletedFaSTPod (Object f) st) (f_name g) = None"
  by (simp add: op_handleDeletedFaSTPod_def DeleteFunction_def assms)

text \<open>The order of the pods is no order: two pods that timed out are each before the other.\<close>

lemma timed_out_pods_cycle:
  assumes "podInfos x = Some i" "podInfos y = Some j" "pi_Timeout i" "pi_Timeout j"
  shows "PodsWithInfos_Less podInfos x y \<and> PodsWithInfos_Less podInfos y x"
  by (simp add: PodsWithInfos_Less_def assms)

end
