(* ===== verification/Gateway_Settings.thy ===== *)
theory Gateway_Settings
  imports Gateway Config_Files
begin

text \<open>
  The settings of the gateway and of the controller manager: \<open>pkg/config/read_config.go\<close>, \<open>main.go\<close>, the namespace
  \<open>server.New\<close> chooses, and \<open>cmd/fastpod-controller-manager/main.go\<close>. The environment is a map; the parsing
  functions of the provider library are arguments.
\<close>

section \<open>Reading the environment\<close>

type_synonym environment = "string \<rightharpoonup> string"

definition Getenv :: "environment \<Rightarrow> string \<Rightarrow> string" where
  "Getenv env k = (case env k of Some v \<Rightarrow> v | None \<Rightarrow> [])"

record FaaSConfig =
  fc_ReadTimeout :: int
  fc_WriteTimeout :: int
  fc_TCPPort :: "int option"

record parsers =
  ParseBoolValue :: "string \<Rightarrow> bool \<Rightarrow> bool"
  ParseIntValue :: "string \<Rightarrow> int \<Rightarrow> int"
  ParseString :: "string \<Rightarrow> string \<Rightarrow> string"
  readFaaS :: "environment \<Rightarrow> string + FaaSConfig"

record BootstrapConfig =
  HTTPProbe :: bool
  SetNonRootUser :: bool
  ReadinessProbeInitialDelaySeconds :: int
  ReadinessProbeTimeoutSeconds :: int
  ReadinessProbePeriodSeconds :: int
  LivenessProbeInitialDelaySeconds :: int
  LivenessProbeTimeoutSeconds :: int
  LivenessProbePeriodSeconds :: int
  ImagePullPolicy :: string
  DefaultFunctionNamespace :: string
  ProfilesNamespace :: string
  faasConfig :: FaaSConfig
  ClusterRole :: bool
  FunctionRate :: bool

definition validPullPolicyOptions :: "string list" where
  "validPullPolicyOptions = [''Always'', ''IfNotPresent'', ''Never'']"

text \<open>The configuration when nothing is wrong.\<close>

definition Read_ok :: "parsers \<Rightarrow> environment \<Rightarrow> FaaSConfig \<Rightarrow> BootstrapConfig" where
  "Read_ok p env faas =
     (let get = Getenv env; ns = ParseString p (get ''function_namespace'') ''default''
      in \<lparr>HTTPProbe = ParseBoolValue p (get ''http_probe'') False,
          SetNonRootUser = ParseBoolValue p (get ''set_nonroot_user'') False,
          ReadinessProbeInitialDelaySeconds = ParseIntValue p (get ''readiness_probe_initial_delay_seconds'') 3,
          ReadinessProbeTimeoutSeconds = ParseIntValue p (get ''readiness_probe_timeout_seconds'') 1,
          ReadinessProbePeriodSeconds = ParseIntValue p (get ''readiness_probe_period_seconds'') 10,
          LivenessProbeInitialDelaySeconds = ParseIntValue p (get ''liveness_probe_initial_delay_seconds'') 3,
          LivenessProbeTimeoutSeconds = ParseIntValue p (get ''liveness_probe_timeout_seconds'') 1,
          LivenessProbePeriodSeconds = ParseIntValue p (get ''liveness_probe_period_seconds'') 10,
          ImagePullPolicy = ParseString p (get ''image_pull_policy'') ''Always'',
          DefaultFunctionNamespace = ns,
          ProfilesNamespace = ParseString p (get ''profiles_namespace'') ns,
          faasConfig = faas,
          ClusterRole = ParseBoolValue p (get ''cluster_role'') False,
          FunctionRate = ParseBoolValue p (get ''rate_rep'') False\<rparr>)"

definition Read :: "parsers \<Rightarrow> environment \<Rightarrow> string + BootstrapConfig" where
  "Read p env =
     (case readFaaS p env of
        Inl e \<Rightarrow> Inl e
      | Inr faas \<Rightarrow>
          let imagePullPolicy = ParseString p (Getenv env ''image_pull_policy'') ''Always''
          in if imagePullPolicy \<notin> set validPullPolicyOptions
             then Inl (''invalid image_pull_policy configured: '' @ imagePullPolicy)
             else Inr (Read_ok p env faas))"

section \<open>The gateway's main program\<close>

record ProbeConfig =
  InitialDelaySeconds :: int
  TimeoutSeconds :: int
  PeriodSeconds :: int

record DeploymentConfig =
  RuntimeHTTPPort :: int
  dc_HTTPProbe :: bool
  ReadinessProbe :: ProbeConfig
  LivenessProbe :: ProbeConfig
  dc_ImagePullPolicy :: string
  dc_SetNonRootUser :: bool
  dc_ProfilesNamespace :: string

text \<open>The line that would set \<open>SetNonRootUser\<close> is commented out.\<close>

definition deployConfig :: "BootstrapConfig \<Rightarrow> DeploymentConfig" where
  "deployConfig c =
     \<lparr>RuntimeHTTPPort = 8080, dc_HTTPProbe = HTTPProbe c,
      ReadinessProbe = \<lparr>InitialDelaySeconds = to_signed 32 (ReadinessProbeInitialDelaySeconds c),
        TimeoutSeconds = to_signed 32 (ReadinessProbeTimeoutSeconds c),
        PeriodSeconds = to_signed 32 (ReadinessProbePeriodSeconds c)\<rparr>,
      LivenessProbe = \<lparr>InitialDelaySeconds = to_signed 32 (LivenessProbeInitialDelaySeconds c),
        TimeoutSeconds = to_signed 32 (LivenessProbeTimeoutSeconds c),
        PeriodSeconds = to_signed 32 (LivenessProbePeriodSeconds c)\<rparr>,
      dc_ImagePullPolicy = ImagePullPolicy c, dc_SetNonRootUser = False,
      dc_ProfilesNamespace = ProfilesNamespace c\<rparr>"

text \<open>The namespace the informers of the operator watch; the empty one stands for all.\<close>

definition namespaceScope :: "BootstrapConfig \<Rightarrow> string" where
  "namespaceScope c = (if ClusterRole c then [] else DefaultFunctionNamespace c)"

text \<open>The namespace the handlers of the gateway deploy into (\<open>server.New\<close>): it reads the variable on its own.\<close>

definition fastpodNamespace :: "environment \<Rightarrow> string" where
  "fastpodNamespace env = (case env ''function_namespace'' of Some v \<Rightarrow> v | None \<Rightarrow> ''fast-gshare-fn'')"

definition New_server :: "environment \<Rightarrow> bool \<Rightarrow> string \<times> string \<Rightarrow> codec \<Rightarrow> tasks \<Rightarrow> gateway" where
  "New_server env clusterRole version js t =
     \<lparr>gw_namespace = fastpodNamespace env, gw_clusterRole = clusterRole, gw_version = version, gw_codec = js, gw_tasks = t\<rparr>"

section \<open>The controller manager's main program\<close>

record manager_flags =
  fl_kubeconfig :: string
  fl_masterURL :: string
  fl_workerNum :: int
  fl_configNetAddr :: string

definition default_flags :: manager_flags where
  "default_flags = \<lparr>fl_kubeconfig = [], fl_masterURL = [], fl_workerNum = 2, fl_configNetAddr = ''0.0.0.0:10086''\<rparr>"

definition kubeconfig_path :: "environment \<Rightarrow> manager_flags \<Rightarrow> string" where
  "kubeconfig_path env flags =
     (if fl_kubeconfig flags = [] then path_join (Getenv env ''HOME'') ''.kube/config'' else fl_kubeconfig flags)"

text \<open>
  The check that the resource type exists lists the FaSTPods. Only a status error that says so ends the program
  (\<open>klog.Fatalf\<close> exits); any other failure passes.
\<close>

datatype list_outcome = Listed | StatusNotFound | OtherStatus | OtherFailure
datatype startup = Exit | Continue bool

definition checkCRDExist :: "list_outcome \<Rightarrow> startup" where
  "checkCRDExist l = (case l of StatusNotFound \<Rightarrow> Exit | _ \<Rightarrow> Continue True)"

section \<open>Where functions are deployed and where they are watched\<close>

definition watches :: "string \<Rightarrow> string \<Rightarrow> bool" where
  "watches scope ns \<longleftrightarrow> scope = [] \<or> scope = ns"

lemma Read_namespace:
  assumes "Read p env = Inr cfg"
  shows "DefaultFunctionNamespace cfg = ParseString p (Getenv env ''function_namespace'') ''default''"
proof -
  obtain faas where "readFaaS p env = Inr faas" using assms by (cases "readFaaS p env") (simp_all add: Read_def)
  then have "cfg = Read_ok p env faas" using assms by (simp add: Read_def Let_def split: if_split_asm)
  then show ?thesis by (simp add: Read_ok_def Let_def)
qed

text \<open>
  The operator watches the namespace that the gateway deploys into exactly when it watches all namespaces or the
  variable \<open>function_namespace\<close> is set and not empty: without it the gateway deploys into \<open>fast-gshare-fn\<close> while the
  informers watch \<open>default\<close>, so that no service is ever made for a function.
\<close>

theorem operator_watches_gateway:
  assumes "\<And>v d. ParseString p v d = (if v = [] then d else v)" "Read p env = Inr cfg"
  shows "watches (namespaceScope cfg) (gw_namespace (New_server env (ClusterRole cfg) version js t))
    \<longleftrightarrow> ClusterRole cfg \<or> (\<exists>v. env ''function_namespace'' = Some v \<and> v \<noteq> [])"
proof -
  have "DefaultFunctionNamespace cfg = (case env ''function_namespace'' of
      Some v \<Rightarrow> if v = [] then ''default'' else v | None \<Rightarrow> ''default'')"
    unfolding Read_namespace[OF assms(2)] assms(1) by (simp add: Getenv_def split: option.split)
  then show ?thesis
    by (auto simp: watches_def namespaceScope_def New_server_def fastpodNamespace_def split: option.splits)
qed

definition demo_parsers :: parsers where
  "demo_parsers = \<lparr>ParseBoolValue = \<lambda>v d. d, ParseIntValue = \<lambda>v d. d, ParseString = \<lambda>v d. if v = [] then d else v,
     readFaaS = \<lambda>_. Inr \<lparr>fc_ReadTimeout = 10, fc_WriteTimeout = 10, fc_TCPPort = None\<rparr>\<rparr>"

theorem operator_watches_gateway_witness:
  "\<exists>cfg. Read demo_parsers Map.empty = Inr cfg
     \<and> (\<forall>version js t. \<not> watches (namespaceScope cfg) (gw_namespace (New_server Map.empty (ClusterRole cfg) version js t)))"
proof -
  obtain cfg where cfg: "Read demo_parsers Map.empty = Inr cfg" "\<not> ClusterRole cfg"
    by (simp add: Read_def Read_ok_def demo_parsers_def Getenv_def validPullPolicyOptions_def Let_def)
  show ?thesis
    using operator_watches_gateway[OF _ cfg(1)] cfg by (auto simp: demo_parsers_def)
qed

end
