(* ===== verification/Errx.thy ===== *)
theory Errx
  imports Prelude
begin

text \<open>
  The error type of \<open>x/errx\<close> and the errors it wraps: codes, messages, HTTP status, and the search of a wrapped or
  joined error by \<open>errors.As\<close> and \<open>errors.Is\<close>. Errors form a tree; those of other packages are leaves with a text,
  where the two kinds of the database package that are asked for are kept apart.
\<close>

section \<open>Errors\<close>

datatype ErrorCode =
  CodeUnknown | CodeInvalidArgument | CodeDeadlineExceeded | CodeNotFound | CodeConflict | CodeUnauthenticated
| CodePermissionDenied | CodeValidation | CodeResourceExhausted | CodeFailedPrecondition | CodeAborted
| CodeUnimplemented | CodeInternal | CodeUnavailable | OtherCode nat

record FieldError =
  fe_Code :: int
  fe_Message :: string
  fe_Rule :: string

text \<open>\<open>fields\<close> is None for a nil map.\<close>

datatype error =
    Errx (code: ErrorCode) (msg: string) (fields: "(string \<times> FieldError) list option") (base: "error option")
  | Persistent error
  | Joined "error list"
  | EntNotFound string
  | EntNotSingular string
  | OtherError string

section \<open>Texts and status codes\<close>

text \<open>\<open>http.StatusText\<close> on the codes of the table.\<close>

fun httpStatusCodes :: "ErrorCode \<Rightarrow> nat option" where
  "httpStatusCodes CodeUnknown = Some 500"
| "httpStatusCodes CodeInvalidArgument = Some 400"
| "httpStatusCodes CodeDeadlineExceeded = Some 408"
| "httpStatusCodes CodeNotFound = Some 404"
| "httpStatusCodes CodeConflict = Some 409"
| "httpStatusCodes CodeUnauthenticated = Some 401"
| "httpStatusCodes CodePermissionDenied = Some 403"
| "httpStatusCodes CodeResourceExhausted = Some 429"
| "httpStatusCodes CodeFailedPrecondition = Some 412"
| "httpStatusCodes CodeAborted = Some 409"
| "httpStatusCodes CodeUnimplemented = Some 501"
| "httpStatusCodes CodeValidation = Some 422"
| "httpStatusCodes CodeInternal = Some 500"
| "httpStatusCodes CodeUnavailable = Some 503"
| "httpStatusCodes (OtherCode _) = None"

definition StatusText :: "nat \<Rightarrow> string" where
  "StatusText c =
     (if c = 400 then ''Bad Request'' else if c = 401 then ''Unauthorized'' else if c = 403 then ''Forbidden''
      else if c = 404 then ''Not Found'' else if c = 408 then ''Request Timeout'' else if c = 409 then ''Conflict''
      else if c = 412 then ''Precondition Failed'' else if c = 422 then ''Unprocessable Entity''
      else if c = 429 then ''Too Many Requests'' else if c = 500 then ''Internal Server Error''
      else if c = 501 then ''Not Implemented'' else if c = 503 then ''Service Unavailable'' else [])"

definition HTTPStatusCode :: "ErrorCode \<Rightarrow> nat" where
  "HTTPStatusCode c = (case httpStatusCodes c of Some s \<Rightarrow> s | None \<Rightarrow> 500)"

definition HTTPStatusText :: "ErrorCode \<Rightarrow> string" where
  "HTTPStatusText c = StatusText (HTTPStatusCode c)"

definition FieldError_Error :: "FieldError \<Rightarrow> string" where
  "FieldError_Error e = (if fe_Code e \<noteq> 0 then Itoa (fe_Code e) @ '': '' @ fe_Message e else fe_Message e)"

text \<open>The texts of a joined error are one per line.\<close>

fun lines_of :: "string list \<Rightarrow> string" where
  "lines_of [] = []"
| "lines_of [s] = s"
| "lines_of (s # ss) = s @ [CHR 0x0A] @ lines_of ss"

fun Error :: "error \<Rightarrow> string" where
  "Error (Errx c m f b) =
     (if m \<noteq> [] then m
      else if c = CodeUnknown then ''unknown''
      else case b of
             Some e \<Rightarrow> Error e
           | None \<Rightarrow> (case httpStatusCodes c of Some s \<Rightarrow> StatusText s | None \<Rightarrow> ''unknown''))"
| "Error (Persistent e) = ''persistent error: '' @ Error e"
| "Error (Joined es) = lines_of (map Error es)"
| "Error (EntNotFound s) = s"
| "Error (EntNotSingular s) = s"
| "Error (OtherError s) = s"

section \<open>Constructors\<close>

definition New :: "ErrorCode \<Rightarrow> string \<Rightarrow> error" where "New c m = Errx c m None None"
definition Msg :: "string \<Rightarrow> error" where "Msg m = Errx CodeUnknown m None None"
definition Wrap :: "ErrorCode \<Rightarrow> error \<Rightarrow> error" where "Wrap c e = Errx c [] None (Some e)"
definition WrapUnknown :: "error \<Rightarrow> error" where "WrapUnknown e = Errx CodeUnknown [] None (Some e)"
definition NewWithFields :: "ErrorCode \<Rightarrow> string \<Rightarrow> (string \<times> FieldError) list option \<Rightarrow> error" where
  "NewWithFields c m f = Errx c m f None"
definition MsgWithFields :: "string \<Rightarrow> (string \<times> FieldError) list option \<Rightarrow> error" where
  "MsgWithFields m f = Errx CodeUnknown m f None"
definition Validation :: "(string \<times> FieldError) list option \<Rightarrow> error" where
  "Validation f = Errx CodeValidation [] f None"
definition code_error :: "ErrorCode \<Rightarrow> error" where "code_error c = Errx c [] None None"

text \<open>\<open>errors.Join\<close> drops nil errors; here the second argument may be nil.\<close>

definition NotFound :: "error option \<Rightarrow> error" where
  "NotFound e = Joined (code_error CodeNotFound # (case e of Some x \<Rightarrow> [x] | None \<Rightarrow> []))"

definition Conflict :: "error option \<Rightarrow> error" where
  "Conflict e = Joined (code_error CodeConflict # (case e of Some x \<Rightarrow> [x] | None \<Rightarrow> []))"

definition WrapPersistent :: "error option \<Rightarrow> error option" where
  "WrapPersistent e = map_option Persistent e"

definition NewPersistent :: "string \<Rightarrow> error" where
  "NewPersistent m = Persistent (OtherError m)"

text \<open>Writing to a nil map panics.\<close>

definition AddField :: "string \<Rightarrow> FieldError \<Rightarrow> error \<Rightarrow> error go" where
  "AddField field fe e =
     (case e of
        Errx c m f b \<Rightarrow> bind_go (deref f) (\<lambda>fs. Ret (Errx c m (Some ((field, fe) # filter (\<lambda>(k, _). k \<noteq> field) fs)) b))
      | _ \<Rightarrow> Panic)"

section \<open>Searching an error\<close>

text \<open>
  \<open>errors.As\<close> and \<open>errors.Is\<close> visit the error, then what it wraps, depth first, and stop at the first match.
\<close>

definition first_result :: "'a option list \<Rightarrow> 'a option" where
  "first_result rs = (case filter (\<lambda>r. r \<noteq> None) rs of r # _ \<Rightarrow> r | [] \<Rightarrow> None)"

fun first_error :: "(error \<Rightarrow> bool) \<Rightarrow> error \<Rightarrow> error option" where
  "first_error p (Errx c m f b) =
     (if p (Errx c m f b) then Some (Errx c m f b) else case b of None \<Rightarrow> None | Some e \<Rightarrow> first_error p e)"
| "first_error p (Persistent e) = (if p (Persistent e) then Some (Persistent e) else first_error p e)"
| "first_error p (Joined es) =
     (if p (Joined es) then Some (Joined es) else first_result (map (first_error p) es))"
| "first_error p (EntNotFound s) = (if p (EntNotFound s) then Some (EntNotFound s) else None)"
| "first_error p (EntNotSingular s) = (if p (EntNotSingular s) then Some (EntNotSingular s) else None)"
| "first_error p (OtherError s) = (if p (OtherError s) then Some (OtherError s) else None)"

definition is_errx :: "error \<Rightarrow> bool" where
  "is_errx e = (case e of Errx _ _ _ _ \<Rightarrow> True | _ \<Rightarrow> False)"

definition As :: "error option \<Rightarrow> error option" where
  "As err = (case err of None \<Rightarrow> None | Some e \<Rightarrow> first_error is_errx e)"

definition IsError :: "error option \<Rightarrow> bool" where
  "IsError err = (As err \<noteq> None)"

definition is_persistent :: "error \<Rightarrow> bool" where
  "is_persistent e = (case e of Persistent _ \<Rightarrow> True | _ \<Rightarrow> False)"

definition IsPersistentError :: "error option \<Rightarrow> bool" where
  "IsPersistentError err =
     (case err of None \<Rightarrow> False | Some e \<Rightarrow> first_error is_persistent e \<noteq> None)"

text \<open>The method \<open>Is\<close> compares the codes.\<close>

definition Is :: "error \<Rightarrow> error \<Rightarrow> bool" where
  "Is e target = (is_errx e \<and> is_errx target \<and> code e = code target)"

definition errors_Is :: "error \<Rightarrow> error \<Rightarrow> bool" where
  "errors_Is e target = (first_error (\<lambda>x. Is x target) e \<noteq> None)"

datatype Level = DebugLevel | InfoLevel | WarnLevel | ErrorLevel

text \<open>The levels are ordered as the integers that stand for them.\<close>

fun level_value :: "Level \<Rightarrow> int" where
  "level_value DebugLevel = -1" | "level_value InfoLevel = 0" | "level_value WarnLevel = 1" | "level_value ErrorLevel = 2"

instantiation Level :: linorder
begin

definition less_eq_Level :: "Level \<Rightarrow> Level \<Rightarrow> bool" where
  "less_eq_Level a b = (level_value a \<le> level_value b)"

definition less_Level :: "Level \<Rightarrow> Level \<Rightarrow> bool" where
  "less_Level a b = (level_value a < level_value b)"

instance
proof
  show "a = b" if "a \<le> b" "b \<le> a" for a b :: Level
    using that by (cases a; cases b) (simp_all add: less_eq_Level_def)
qed (auto simp: less_eq_Level_def less_Level_def)

end

text \<open>
  The level at which an error is logged (later tests override earlier ones), and whether the stack trace stays in
  what is logged: it is dropped below the level of a warning.
\<close>

definition error_level :: "error \<Rightarrow> Level" where
  "error_level e =
     (if first_error is_errx e \<noteq> None then DebugLevel
      else if first_error (\<lambda>x. case x of EntNotSingular _ \<Rightarrow> True | _ \<Rightarrow> False) e \<noteq> None then WarnLevel
      else if first_error (\<lambda>x. case x of EntNotFound _ \<Rightarrow> True | _ \<Rightarrow> False) e \<noteq> None then DebugLevel
      else ErrorLevel)"

definition LogFromError :: "error option \<Rightarrow> Level \<times> bool" where
  "LogFromError err =
     (case err of None \<Rightarrow> (InfoLevel, False) | Some e \<Rightarrow> (error_level e, \<not> error_level e < WarnLevel))"

section \<open>The search is a search of the tree\<close>

text \<open>The errors in an error: itself and what it wraps.\<close>

fun parts :: "error \<Rightarrow> error set" where
  "parts (Errx c m f b) = insert (Errx c m f b) (case b of None \<Rightarrow> {} | Some e \<Rightarrow> parts e)"
| "parts (Persistent e) = insert (Persistent e) (parts e)"
| "parts (Joined es) = insert (Joined es) (\<Union>x \<in> set es. parts x)"
| "parts (EntNotFound s) = {EntNotFound s}"
| "parts (EntNotSingular s) = {EntNotSingular s}"
| "parts (OtherError s) = {OtherError s}"

lemma first_result_iff: "first_result rs \<noteq> None \<longleftrightarrow> (\<exists>r \<in> set rs. r \<noteq> None)"
  by (induction rs) (auto simp: first_result_def)

lemma first_error_iff: "first_error p e \<noteq> None \<longleftrightarrow> (\<exists>x \<in> parts e. p x)"
proof (induction e)
  case (Errx c m f b)
  then show ?case by (cases b) auto
next
  case (Joined es)
  have "first_result (map (first_error p) es) \<noteq> None \<longleftrightarrow> (\<exists>x \<in> set es. \<exists>y \<in> parts x. p y)"
    unfolding first_result_iff using Joined by auto
  then show ?case by auto
qed auto

lemma kind_iff: "is_persistent x \<longleftrightarrow> (\<exists>b. x = Persistent b)" "is_errx x \<longleftrightarrow> (\<exists>c m f b. x = Errx c m f b)"
  by (cases x; simp add: is_persistent_def is_errx_def)+

lemma errors_Is_iff: "errors_Is e target \<longleftrightarrow> (\<exists>x \<in> parts e. Is x target)"
  unfolding errors_Is_def first_error_iff ..

lemma Is_code_error: "Is (code_error c) (code_error c)"
  by (simp add: Is_def is_errx_def code_error_def)

text \<open>
  Searching an error is searching its tree: an error is recognised by its code through any wrapping, joining and
  marking as persistent, and an error marked as persistent stays so through any wrapping. Wrapping without a
  code hides the text of the error, but not the error.
\<close>

theorem error_search_exact:
  "(errors_Is e target \<longleftrightarrow> (\<exists>x \<in> parts e. Is x target))
   \<and> (IsPersistentError (Some e) \<longleftrightarrow> (\<exists>b. Persistent b \<in> parts e))
   \<and> (IsError (Some e) \<longleftrightarrow> (\<exists>c m f b. Errx c m f b \<in> parts e))
   \<and> errors_Is (NotFound (Some e)) (code_error CodeNotFound)
   \<and> errors_Is (Wrap c e) target = (Is (Wrap c e) target \<or> errors_Is e target)
   \<and> Error (WrapUnknown e) = ''unknown''"
proof (intro conjI)
  show "errors_Is e target \<longleftrightarrow> (\<exists>x \<in> parts e. Is x target)" by (rule errors_Is_iff)
  show "IsPersistentError (Some e) \<longleftrightarrow> (\<exists>b. Persistent b \<in> parts e)"
    unfolding IsPersistentError_def option.case first_error_iff kind_iff by blast
  show "IsError (Some e) \<longleftrightarrow> (\<exists>c m f b. Errx c m f b \<in> parts e)"
    unfolding IsError_def As_def option.case first_error_iff kind_iff by blast
  show "errors_Is (NotFound (Some e)) (code_error CodeNotFound)"
    unfolding errors_Is_iff NotFound_def
    by (rule bexI[of _ "code_error CodeNotFound"]) (simp_all add: Is_code_error, simp add: code_error_def)
  show "errors_Is (Wrap c e) target = (Is (Wrap c e) target \<or> errors_Is e target)"
    unfolding errors_Is_iff by (simp add: Wrap_def)
qed (simp add: WrapUnknown_def)

text \<open>Adding a field to an error made without fields panics.\<close>

lemma AddField_panics: "AddField field fe (New c m) = Panic"
  by (simp add: AddField_def New_def)

end
