(* ===== verification/Ent_Types.thy ===== *)
theory Ent_Types
  imports Fastpod_Types
begin

text \<open>
  What the database layer (\<open>internal/db/ent\<close>) is about: its two tables, the values of their columns, the errors it
  returns (\<open>ent.go\<close>), and the specifications of statements it hands to the library that talks to the database. The
  library (\<open>sqlgraph\<close>) is a parameter, the record \<open>sqlgraph\<close>, over a state of the database.
\<close>

section \<open>Errors\<close>

text \<open>
  The types of \<open>ent.go\<close>; \<open>errors.New\<close>; \<open>fmt.Errorf\<close> with a wrapped error and the text around it; and the errors of the
  library, of which one says that a node was not found.
\<close>

datatype ent_error =
    ValidationError string ent_error
  | NotFoundError string
  | NotSingularError string
  | NotLoadedError string
  | ConstraintError string ent_error
  | EntError string
  | Wrapped string ent_error string
  | GraphNotFoundError string
  | DriverError string

fun ent_Error :: "ent_error \<Rightarrow> string" where
  "ent_Error (ValidationError name e) = ent_Error e"
| "ent_Error (NotFoundError label) = ''ent: '' @ label @ '' not found''"
| "ent_Error (NotSingularError label) = ''ent: '' @ label @ '' not singular''"
| "ent_Error (NotLoadedError edge) = ''ent: '' @ edge @ '' edge was not loaded''"
| "ent_Error (ConstraintError msg e) = ''ent: constraint failed: '' @ msg"
| "ent_Error (EntError s) = s"
| "ent_Error (Wrapped s e t) = s @ ent_Error e @ t"
| "ent_Error (GraphNotFoundError s) = s"
| "ent_Error (DriverError s) = s"

fun ent_Unwrap :: "ent_error \<Rightarrow> ent_error option" where
  "ent_Unwrap (ValidationError name e) = Some e"
| "ent_Unwrap (ConstraintError msg e) = Some e"
| "ent_Unwrap (Wrapped s e t) = Some e"
| "ent_Unwrap _ = None"

lemma ent_Unwrap_size [termination_simp]: "ent_Unwrap e = Some e' \<Longrightarrow> size e' < size e"
  by (cases e) auto

text \<open>\<open>errors.As\<close>: the first error of the chain that is of a type.\<close>

fun errors_As :: "(ent_error \<Rightarrow> bool) \<Rightarrow> ent_error \<Rightarrow> bool" where
  "errors_As P e = (P e \<or> (case ent_Unwrap e of None \<Rightarrow> False | Some e' \<Rightarrow> errors_As P e'))"

declare errors_As.simps [simp del]

definition is_error :: "(ent_error \<Rightarrow> bool) \<Rightarrow> ent_error option \<Rightarrow> bool" where
  "is_error P err = (case err of None \<Rightarrow> False | Some e \<Rightarrow> errors_As P e)"

definition IsValidationError :: "ent_error option \<Rightarrow> bool" where
  "IsValidationError = is_error (\<lambda>e. case e of ValidationError _ _ \<Rightarrow> True | _ \<Rightarrow> False)"

definition IsNotFound :: "ent_error option \<Rightarrow> bool" where
  "IsNotFound = is_error (\<lambda>e. case e of NotFoundError _ \<Rightarrow> True | _ \<Rightarrow> False)"

definition IsNotSingular :: "ent_error option \<Rightarrow> bool" where
  "IsNotSingular = is_error (\<lambda>e. case e of NotSingularError _ \<Rightarrow> True | _ \<Rightarrow> False)"

definition IsNotLoaded :: "ent_error option \<Rightarrow> bool" where
  "IsNotLoaded = is_error (\<lambda>e. case e of NotLoadedError _ \<Rightarrow> True | _ \<Rightarrow> False)"

definition IsConstraintError :: "ent_error option \<Rightarrow> bool" where
  "IsConstraintError = is_error (\<lambda>e. case e of ConstraintError _ _ \<Rightarrow> True | _ \<Rightarrow> False)"

definition MaskNotFound :: "ent_error option \<Rightarrow> ent_error option" where
  "MaskNotFound err = (if IsNotFound err then None else err)"

text \<open>Wrapping an error does not hide what it is.\<close>

lemma errors_As_wrapped [simp]: "errors_As P (Wrapped s e t) = (P (Wrapped s e t) \<or> errors_As P e)"
  by (simp add: errors_As.simps[of P "Wrapped s e t"])

lemma IsNotFound_simps [simp]:
  "\<not> IsNotFound None" "IsNotFound (Some (NotFoundError l))" "\<not> IsNotFound (Some (NotSingularError l))"
  "IsNotFound (Some (Wrapped s e t)) = IsNotFound (Some e)" "\<not> IsNotFound (Some (EntError s))"
  "IsNotFound (Some (ValidationError l e)) = IsNotFound (Some e)" "\<not> IsNotFound (Some (DriverError s))"
  by (simp_all add: IsNotFound_def is_error_def)
    (simp_all add: errors_As.simps[of _ "NotFoundError l"] errors_As.simps[of _ "NotSingularError l"]
      errors_As.simps[of _ "EntError s"] errors_As.simps[of _ "ValidationError l e"] errors_As.simps[of _ "DriverError s"])

section \<open>Operations\<close>

text \<open>An operation is a set of flags; \<open>Is\<close> holds when one is shared.\<close>

datatype op_kind = OpCreate | OpUpdate | OpUpdateOne | OpDelete | OpDeleteOne

type_synonym op = "op_kind set"

definition op_is :: "op \<Rightarrow> op \<Rightarrow> bool" where
  "op_is i other = (i = other \<or> i \<inter> other \<noteq> {})"

section \<open>Tables\<close>

type_synonym uuid = string

datatype col_value = VUuid uuid | VTime time | VString string | VOther string

text \<open>The type of a value, as \<open>%T\<close> prints it.\<close>

fun type_name :: "col_value \<Rightarrow> string" where
  "type_name (VUuid u) = ''uuid.UUID''"
| "type_name (VTime t) = ''time.Time''"
| "type_name (VString s) = ''string''"
| "type_name (VOther t) = t"

definition pod_Columns :: "string list" where
  "pod_Columns = [''id'', ''created_at'', ''name'', ''resource_id'']"

definition resource_Columns :: "string list" where
  "resource_Columns = [''id'', ''created_at'', ''node_name'']"

definition pod_ValidColumn :: "string \<Rightarrow> bool" where
  "pod_ValidColumn column = (column \<in> set pod_Columns)"

definition resource_ValidColumn :: "string \<Rightarrow> bool" where
  "resource_ValidColumn column = (column \<in> set resource_Columns)"

text \<open>The rows of the tables, as entities; what is loaded of their edges is added where it is loaded.\<close>

record ent_pod =
  ep_ID :: uuid
  ep_CreatedAt :: time
  ep_Name :: string
  ep_ResourceID :: string

record ent_resource =
  er_ID :: uuid
  er_CreatedAt :: time
  er_NodeName :: string

text \<open>The zero values: a UUID of 16 zero bytes.\<close>

definition nil_uuid :: uuid where
  "nil_uuid = replicate 16 (CHR 0x00)"

definition no_pod :: ent_pod where
  "no_pod = \<lparr>ep_ID = nil_uuid, ep_CreatedAt = 0, ep_Name = [], ep_ResourceID = []\<rparr>"

definition no_resource :: ent_resource where
  "no_resource = \<lparr>er_ID = nil_uuid, er_CreatedAt = 0, er_NodeName = []\<rparr>"

text \<open>
  A value scanned from a row: a UUID, a time or a string that may be NULL, and what was scanned for a column that is not one
  of the table's.
\<close>

datatype scanned = SUuid "uuid option" | SNullTime "time option" | SNullString "string option" | SUnknown

fun scanned_type :: "scanned \<Rightarrow> string" where
  "scanned_type (SUuid u) = ''*uuid.UUID''"
| "scanned_type (SNullTime t) = ''*sql.NullTime''"
| "scanned_type (SNullString s) = ''*sql.NullString''"
| "scanned_type SUnknown = ''*sql.UnknownType''"

text \<open>The places a row of some columns is scanned into.\<close>

definition pod_scanValues :: "string list \<Rightarrow> scanned list" where
  "pod_scanValues columns = map (\<lambda>c.
     if c = ''name'' \<or> c = ''resource_id'' then SNullString None
     else if c = ''created_at'' then SNullTime None
     else if c = ''id'' then SUuid (Some nil_uuid) else SUnknown) columns"

definition resource_scanValues :: "string list \<Rightarrow> scanned list" where
  "resource_scanValues columns = map (\<lambda>c.
     if c = ''node_name'' then SNullString None
     else if c = ''created_at'' then SNullTime None
     else if c = ''id'' then SUuid (Some nil_uuid) else SUnknown) columns"

definition unexpected_type :: "scanned \<Rightarrow> string \<Rightarrow> ent_error" where
  "unexpected_type v field = EntError (''unexpected type '' @ scanned_type v @ '' for field '' @ field)"

text \<open>One column of a row assigned to an entity; a NULL leaves the zero value.\<close>

definition pod_assign :: "string \<Rightarrow> scanned \<Rightarrow> ent_pod \<Rightarrow> ent_error + ent_pod" where
  "pod_assign c v p =
     (if c = ''id'' then
        (case v of SUuid u \<Rightarrow> Inr (case u of None \<Rightarrow> p | Some i \<Rightarrow> p\<lparr>ep_ID := i\<rparr>) | _ \<Rightarrow> Inl (unexpected_type v c))
      else if c = ''created_at'' then
        (case v of SNullTime t \<Rightarrow> Inr (case t of None \<Rightarrow> p | Some t \<Rightarrow> p\<lparr>ep_CreatedAt := t\<rparr>) | _ \<Rightarrow> Inl (unexpected_type v c))
      else if c = ''name'' then
        (case v of SNullString s \<Rightarrow> Inr (case s of None \<Rightarrow> p | Some s \<Rightarrow> p\<lparr>ep_Name := s\<rparr>) | _ \<Rightarrow> Inl (unexpected_type v c))
      else if c = ''resource_id'' then
        (case v of SNullString s \<Rightarrow> Inr (case s of None \<Rightarrow> p | Some s \<Rightarrow> p\<lparr>ep_ResourceID := s\<rparr>) | _ \<Rightarrow> Inl (unexpected_type v c))
      else Inr p)"

definition resource_assign :: "string \<Rightarrow> scanned \<Rightarrow> ent_resource \<Rightarrow> ent_error + ent_resource" where
  "resource_assign c v r =
     (if c = ''id'' then
        (case v of SUuid u \<Rightarrow> Inr (case u of None \<Rightarrow> r | Some i \<Rightarrow> r\<lparr>er_ID := i\<rparr>) | _ \<Rightarrow> Inl (unexpected_type v c))
      else if c = ''created_at'' then
        (case v of SNullTime t \<Rightarrow> Inr (case t of None \<Rightarrow> r | Some t \<Rightarrow> r\<lparr>er_CreatedAt := t\<rparr>) | _ \<Rightarrow> Inl (unexpected_type v c))
      else if c = ''node_name'' then
        (case v of SNullString s \<Rightarrow> Inr (case s of None \<Rightarrow> r | Some s \<Rightarrow> r\<lparr>er_NodeName := s\<rparr>) | _ \<Rightarrow> Inl (unexpected_type v c))
      else Inr r)"

fun assign_columns :: "(string \<Rightarrow> scanned \<Rightarrow> 'n \<Rightarrow> ent_error + 'n) \<Rightarrow> (string \<times> scanned) list \<Rightarrow> 'n \<Rightarrow> ent_error + 'n" where
  "assign_columns assign [] n = Inr n"
| "assign_columns assign ((c, v) # row) n =
     (case assign c v n of Inl e \<Rightarrow> Inl e | Inr n' \<Rightarrow> assign_columns assign row n')"

definition assignValues ::
  "(string \<Rightarrow> scanned \<Rightarrow> 'n \<Rightarrow> ent_error + 'n) \<Rightarrow> string list \<Rightarrow> scanned list \<Rightarrow> 'n \<Rightarrow> ent_error + 'n" where
  "assignValues assign columns values n =
     (if length values < length columns
      then Inl (EntError (''mismatch number of scan values: '' @ Itoa (int (length values)) @ '' != '' @ Itoa (int (length columns))))
      else assign_columns assign (zip columns values) n)"

section \<open>Statements\<close>

text \<open>
  The predicates the layer itself makes (\<open>FieldEQ\<close>), those a user passes in, by name, and their combinations.
\<close>

datatype predicate =
    FieldEQ string col_value
  | UserPredicate string
  | InValues string string "uuid list"

type_synonym modifier = string

record edge_spec =
  es_Inverse :: bool
  es_Table :: string
  es_Columns :: "string list"
  es_Bidi :: bool
  es_TargetID :: string
  es_Nodes :: "uuid set"

datatype conflict_option =
    ConflictColumns "string list"
  | ResolveWithNewValues
  | ResolveWithIgnore
  | DoNothing
  | ResolveWith "(string \<times> col_value option) list"
  | IgnoreColumns "string list"

record create_spec =
  cs_Table :: string
  cs_ID :: "uuid option"
  cs_Fields :: "(string \<times> col_value) list"
  cs_Edges :: "edge_spec list"
  cs_OnConflict :: "conflict_option list"

record update_spec =
  us_Table :: string
  us_Columns :: "string list"
  us_ID :: "uuid option"
  us_Predicate :: "predicate list"
  us_Fields :: "(string \<times> col_value) list"
  us_Clear :: "edge_spec list"
  us_Add :: "edge_spec list"
  us_Modifiers :: "modifier list"

record query_spec =
  qs_Table :: string
  qs_Columns :: "string list"
  qs_From :: "string option"
  qs_Unique :: "bool option"
  qs_Predicate :: "predicate list"
  qs_Limit :: "int option"
  qs_Offset :: "int option"
  qs_Order :: "modifier list"
  qs_Modifiers :: "modifier list"

text \<open>What became of the identifier of a created node: a pointer to a UUID, or a value of the database to scan.\<close>

datatype id_value = NilID | UuidID uuid | RawID string

text \<open>
  A limit, an offset and whether duplicates are dropped, where a query says so; an intermediate query to start from.
  The library: its functions over a state of the database. A row comes as the scanned values of the columns asked for.
\<close>

record 'd sqlgraph =
  CreateNode :: "create_spec \<Rightarrow> 'd \<Rightarrow> (ent_error + id_value) \<times> 'd"
  BatchCreate :: "create_spec list \<Rightarrow> conflict_option list \<Rightarrow> 'd \<Rightarrow> ent_error option \<times> 'd"
  UpdateNodes :: "update_spec \<Rightarrow> 'd \<Rightarrow> (ent_error + nat) \<times> 'd"
  UpdateNode :: "update_spec \<Rightarrow> 'd \<Rightarrow> (ent_error + (string list \<times> scanned list)) \<times> 'd"
  DeleteNodes :: "string \<Rightarrow> predicate list \<Rightarrow> 'd \<Rightarrow> (nat \<times> ent_error option) \<times> 'd"
  QueryNodes :: "query_spec \<Rightarrow> 'd \<Rightarrow> ent_error + (string list \<times> scanned list) list"
  CountNodes :: "query_spec \<Rightarrow> 'd \<Rightarrow> ent_error + nat"
  constraint_error :: "ent_error \<Rightarrow> bool"
  scan_uuid :: "string \<Rightarrow> ent_error + uuid"

end
