(* ===== verification/Ent_Mutation.thy ===== *)
theory Ent_Mutation
  imports Ent_Types
begin

text \<open>
  Mutations (\<open>internal/db/ent/mutation.go\<close>): what a builder collects before it is saved, the columns that were set and the
  edges that were added and removed. The two types of mutations share the record \<open>mutation\<close>. The locale \<open>column_changes\<close>
  is the contract of the columns, by which a mutation is a finite map; it is interpreted for both types.
\<close>

section \<open>The state of a mutation\<close>

text \<open>
  How the old value of a row is found: not at all, by the entity given, or by a query for an identifier, made at most once.
\<close>

datatype 'n old_value = NoOldValue | OldNode 'n | OldByID uuid "(ent_error + 'n) option"

text \<open>The maps of added and of removed edges may be nil.\<close>

record 'n mutation =
  m_op :: op
  m_typ :: string
  m_id :: "uuid option"
  m_clearedFields :: "string set"
  m_edge :: "uuid set option"
  m_removed :: "uuid set option"
  m_cleared :: bool
  m_done :: bool
  m_oldValue :: "'n old_value"
  m_predicates :: "predicate list"

record PodMutation = "ent_pod mutation" +
  pm_created_at :: "time option"
  pm_name :: "string option"
  pm_resource_id :: "string option"

record ResourceMutation = "ent_resource mutation" +
  rm_created_at :: "time option"
  rm_node_name :: "string option"

definition newPodMutation :: "op \<Rightarrow> PodMutation" where
  "newPodMutation op = \<lparr>m_op = op, m_typ = ''Pod'', m_id = None, m_clearedFields = {}, m_edge = None, m_removed = None,
     m_cleared = False, m_done = False, m_oldValue = NoOldValue, m_predicates = [],
     pm_created_at = None, pm_name = None, pm_resource_id = None\<rparr>"

definition newResourceMutation :: "op \<Rightarrow> ResourceMutation" where
  "newResourceMutation op = \<lparr>m_op = op, m_typ = ''Resource'', m_id = None, m_clearedFields = {}, m_edge = None,
     m_removed = None, m_cleared = False, m_done = False, m_oldValue = NoOldValue, m_predicates = [],
     rm_created_at = None, rm_node_name = None\<rparr>"

text \<open>The options a mutation is made with: an identifier, or an entity.\<close>

definition with_id :: "uuid \<Rightarrow> ('n, 'a) mutation_scheme \<Rightarrow> ('n, 'a) mutation_scheme" where
  "with_id i m = m\<lparr>m_oldValue := OldByID i None, m_id := Some i\<rparr>"

definition withPod :: "ent_pod \<Rightarrow> PodMutation \<Rightarrow> PodMutation" where
  "withPod node m = m\<lparr>m_oldValue := OldNode node, m_id := Some (ep_ID node)\<rparr>"

definition withResource :: "ent_resource \<Rightarrow> ResourceMutation \<Rightarrow> ResourceMutation" where
  "withResource node m = m\<lparr>m_oldValue := OldNode node, m_id := Some (er_ID node)\<rparr>"

definition m_Where :: "predicate list \<Rightarrow> ('n, 'a) mutation_scheme \<Rightarrow> ('n, 'a) mutation_scheme" where
  "m_Where ps m = m\<lparr>m_predicates := m_predicates m @ ps\<rparr>"

text \<open>The identifiers of the rows a mutation is about; the query for the others is a parameter.\<close>

definition m_IDs ::
  "(op \<Rightarrow> string) \<Rightarrow> (predicate list \<Rightarrow> ent_error + uuid list) \<Rightarrow> ('n, 'a) mutation_scheme \<Rightarrow> ent_error + uuid list" where
  "m_IDs op_text query_ids m =
     (if op_is (m_op m) {OpUpdateOne, OpDeleteOne}
      then (case m_id m of Some i \<Rightarrow> Inr [i] | None \<Rightarrow> query_ids (m_predicates m))
      else if op_is (m_op m) {OpUpdate, OpDelete} then query_ids (m_predicates m)
      else Inl (EntError (''IDs is not allowed on '' @ op_text (m_op m) @ '' operations'')))"

section \<open>Old values\<close>

text \<open>The closures made by \<open>with_id\<close> and the others; the first argument reads an entity from the database.\<close>

definition oldValue ::
  "(uuid \<Rightarrow> ent_error + 'n) \<Rightarrow> ('n, 'a) mutation_scheme \<Rightarrow> (ent_error + 'n) option \<times> ('n, 'a) mutation_scheme" where
  "oldValue get m = (case m_oldValue m of
     NoOldValue \<Rightarrow> (None, m)
   | OldNode n \<Rightarrow> (Some (Inr n), m)
   | OldByID i (Some r) \<Rightarrow> (Some r, m)
   | OldByID i None \<Rightarrow>
       let r = (if m_done m then Inl (EntError ''querying old values post mutation is not allowed'') else get i)
       in (Some r, m\<lparr>m_oldValue := OldByID i (Some r)\<rparr>))"

definition old_field ::
  "string \<Rightarrow> ('n \<Rightarrow> 'v) \<Rightarrow> (uuid \<Rightarrow> ent_error + 'n) \<Rightarrow> ('n, 'a) mutation_scheme \<Rightarrow> (ent_error + 'v) \<times> ('n, 'a) mutation_scheme" where
  "old_field name proj get m =
     (if \<not> op_is (m_op m) {OpUpdateOne} then (Inl (EntError (name @ '' is only allowed on UpdateOne operations'')), m)
      else if m_id m = None \<or> m_oldValue m = NoOldValue
      then (Inl (EntError (name @ '' requires an ID field in the mutation'')), m)
      else (case oldValue get m of (r, m') \<Rightarrow>
        (case r of
           Some (Inr n) \<Rightarrow> Inr (proj n)
         | Some (Inl e) \<Rightarrow> Inl (Wrapped (''querying old value for '' @ name @ '': '') e [])
         | None \<Rightarrow> Inl (EntError (name @ '' requires an ID field in the mutation'')), m')))"

definition pod_OldField ::
  "(uuid \<Rightarrow> ent_error + ent_pod) \<Rightarrow> string \<Rightarrow> PodMutation \<Rightarrow> (ent_error + col_value) \<times> PodMutation" where
  "pod_OldField get name m =
     (if name = ''created_at'' then old_field ''OldCreatedAt'' (VTime \<circ> ep_CreatedAt) get m
      else if name = ''name'' then old_field ''OldName'' (VString \<circ> ep_Name) get m
      else if name = ''resource_id'' then old_field ''OldResourceID'' (VString \<circ> ep_ResourceID) get m
      else (Inl (EntError (''unknown Pod field '' @ name)), m))"

definition resource_OldField ::
  "(uuid \<Rightarrow> ent_error + ent_resource) \<Rightarrow> string \<Rightarrow> ResourceMutation \<Rightarrow> (ent_error + col_value) \<times> ResourceMutation" where
  "resource_OldField get name m =
     (if name = ''created_at'' then old_field ''OldCreatedAt'' (VTime \<circ> er_CreatedAt) get m
      else if name = ''node_name'' then old_field ''OldNodeName'' (VString \<circ> er_NodeName) get m
      else (Inl (EntError (''unknown Resource field '' @ name)), m))"

text \<open>The database is asked for an old value at most once, and never after the mutation was made.\<close>

lemma oldValue_once: "oldValue get m = (r, m') \<Longrightarrow> oldValue get' m' = (r, m')"
  by (auto simp: oldValue_def Let_def split: old_value.splits option.splits)

section \<open>Columns\<close>

definition pod_Fields :: "PodMutation \<Rightarrow> string list" where
  "pod_Fields m = (if pm_created_at m \<noteq> None then [''created_at''] else [])
     @ (if pm_name m \<noteq> None then [''name''] else [])
     @ (if pm_resource_id m \<noteq> None then [''resource_id''] else [])"

definition pod_Field :: "string \<Rightarrow> PodMutation \<Rightarrow> col_value option" where
  "pod_Field name m =
     (if name = ''created_at'' then map_option VTime (pm_created_at m)
      else if name = ''name'' then map_option VString (pm_name m)
      else if name = ''resource_id'' then map_option VString (pm_resource_id m)
      else None)"

definition type_mismatch :: "col_value \<Rightarrow> string \<Rightarrow> ent_error" where
  "type_mismatch v name = EntError (''unexpected type '' @ type_name v @ '' for field '' @ name)"

text \<open>The error, if there was one, and the mutation.\<close>

definition pod_SetField :: "string \<Rightarrow> col_value \<Rightarrow> PodMutation \<Rightarrow> ent_error option \<times> PodMutation" where
  "pod_SetField name v m =
     (if name = ''created_at'' then
        (case v of VTime t \<Rightarrow> (None, m\<lparr>pm_created_at := Some t\<rparr>) | _ \<Rightarrow> (Some (type_mismatch v name), m))
      else if name = ''name'' then
        (case v of VString s \<Rightarrow> (None, m\<lparr>pm_name := Some s\<rparr>) | _ \<Rightarrow> (Some (type_mismatch v name), m))
      else if name = ''resource_id'' then
        (case v of VString s \<Rightarrow> (None, m\<lparr>pm_resource_id := Some s\<rparr>) | _ \<Rightarrow> (Some (type_mismatch v name), m))
      else (Some (EntError (''unknown Pod field '' @ name)), m))"

definition pod_ResetField :: "string \<Rightarrow> PodMutation \<Rightarrow> ent_error option \<times> PodMutation" where
  "pod_ResetField name m =
     (if name = ''created_at'' then (None, m\<lparr>pm_created_at := None\<rparr>)
      else if name = ''name'' then (None, m\<lparr>pm_name := None\<rparr>)
      else if name = ''resource_id'' then (None, m\<lparr>pm_resource_id := None\<rparr>)
      else (Some (EntError (''unknown Pod field '' @ name)), m))"

definition resource_Fields :: "ResourceMutation \<Rightarrow> string list" where
  "resource_Fields m = (if rm_created_at m \<noteq> None then [''created_at''] else [])
     @ (if rm_node_name m \<noteq> None then [''node_name''] else [])"

definition resource_Field :: "string \<Rightarrow> ResourceMutation \<Rightarrow> col_value option" where
  "resource_Field name m =
     (if name = ''created_at'' then map_option VTime (rm_created_at m)
      else if name = ''node_name'' then map_option VString (rm_node_name m)
      else None)"

definition resource_SetField :: "string \<Rightarrow> col_value \<Rightarrow> ResourceMutation \<Rightarrow> ent_error option \<times> ResourceMutation" where
  "resource_SetField name v m =
     (if name = ''created_at'' then
        (case v of VTime t \<Rightarrow> (None, m\<lparr>rm_created_at := Some t\<rparr>) | _ \<Rightarrow> (Some (type_mismatch v name), m))
      else if name = ''node_name'' then
        (case v of VString s \<Rightarrow> (None, m\<lparr>rm_node_name := Some s\<rparr>) | _ \<Rightarrow> (Some (type_mismatch v name), m))
      else (Some (EntError (''unknown Resource field '' @ name)), m))"

definition resource_ResetField :: "string \<Rightarrow> ResourceMutation \<Rightarrow> ent_error option \<times> ResourceMutation" where
  "resource_ResetField name m =
     (if name = ''created_at'' then (None, m\<lparr>rm_created_at := None\<rparr>)
      else if name = ''node_name'' then (None, m\<lparr>rm_node_name := None\<rparr>)
      else (Some (EntError (''unknown Resource field '' @ name)), m))"

text \<open>No column can be NULL or be incremented.\<close>

definition AddedField :: "string \<Rightarrow> ('n, 'a) mutation_scheme \<Rightarrow> col_value option" where
  "AddedField name m = None"

definition FieldCleared :: "string \<Rightarrow> ('n, 'a) mutation_scheme \<Rightarrow> bool" where
  "FieldCleared name m = (name \<in> m_clearedFields m)"

definition ClearField :: "string \<Rightarrow> ('n, 'a) mutation_scheme \<Rightarrow> ent_error option" where
  "ClearField name m = Some (EntError (''unknown '' @ m_typ m @ '' nullable field '' @ name))"

definition m_AddField :: "string \<Rightarrow> ('n, 'a) mutation_scheme \<Rightarrow> ent_error option" where
  "m_AddField name m = Some (EntError (''unknown '' @ m_typ m @ '' numeric field '' @ name))"

section \<open>Edges\<close>

text \<open>The identifiers come in some order, that of a map.\<close>

definition AddIDs :: "uuid list \<Rightarrow> ('n, 'a) mutation_scheme \<Rightarrow> ('n, 'a) mutation_scheme" where
  "AddIDs ids m = m\<lparr>m_edge := Some ((case m_edge m of None \<Rightarrow> {} | Some A \<Rightarrow> A) \<union> set ids)\<rparr>"

definition RemoveIDs :: "uuid list \<Rightarrow> ('n, 'a) mutation_scheme \<Rightarrow> ('n, 'a) mutation_scheme" where
  "RemoveIDs ids m = m\<lparr>m_edge := map_option (\<lambda>A. A - set ids) (m_edge m),
     m_removed := Some ((case m_removed m of None \<Rightarrow> {} | Some R \<Rightarrow> R) \<union> set ids)\<rparr>"

definition ClearEdges :: "('n, 'a) mutation_scheme \<Rightarrow> ('n, 'a) mutation_scheme" where
  "ClearEdges m = m\<lparr>m_cleared := True\<rparr>"

definition ResetEdges :: "('n, 'a) mutation_scheme \<Rightarrow> ('n, 'a) mutation_scheme" where
  "ResetEdges m = m\<lparr>m_edge := None, m_cleared := False, m_removed := None\<rparr>"

definition edge_IDs :: "('n, 'a) mutation_scheme \<Rightarrow> uuid set" where
  "edge_IDs m = (case m_edge m of None \<Rightarrow> {} | Some A \<Rightarrow> A)"

definition removed_IDs :: "('n, 'a) mutation_scheme \<Rightarrow> uuid set" where
  "removed_IDs m = (case m_removed m of None \<Rightarrow> {} | Some R \<Rightarrow> R)"

text \<open>The methods by name; the edge of a pod is \<open>resource\<close>, that of a resource \<open>pods\<close>.\<close>

definition edge_name :: "('n, 'a) mutation_scheme \<Rightarrow> string" where
  "edge_name m = (if m_typ m = ''Pod'' then ''resource'' else ''pods'')"

definition AddedEdges :: "('n, 'a) mutation_scheme \<Rightarrow> string list" where
  "AddedEdges m = (if m_edge m \<noteq> None then [edge_name m] else [])"

definition AddedIDs :: "string \<Rightarrow> ('n, 'a) mutation_scheme \<Rightarrow> uuid set" where
  "AddedIDs name m = (if name = edge_name m then edge_IDs m else {})"

definition RemovedEdges :: "('n, 'a) mutation_scheme \<Rightarrow> string list" where
  "RemovedEdges m = (if m_removed m \<noteq> None then [edge_name m] else [])"

definition RemovedIDs :: "string \<Rightarrow> ('n, 'a) mutation_scheme \<Rightarrow> uuid set" where
  "RemovedIDs name m = (if name = edge_name m then removed_IDs m else {})"

definition ClearedEdges :: "('n, 'a) mutation_scheme \<Rightarrow> string list" where
  "ClearedEdges m = (if m_cleared m then [edge_name m] else [])"

definition EdgeCleared :: "string \<Rightarrow> ('n, 'a) mutation_scheme \<Rightarrow> bool" where
  "EdgeCleared name m = (name = edge_name m \<and> m_cleared m)"

definition ClearEdge :: "string \<Rightarrow> ('n, 'a) mutation_scheme \<Rightarrow> ent_error option" where
  "ClearEdge name m = Some (EntError (''unknown '' @ m_typ m @ '' unique edge '' @ name))"

definition ResetEdge :: "string \<Rightarrow> ('n, 'a) mutation_scheme \<Rightarrow> ent_error option \<times> ('n, 'a) mutation_scheme" where
  "ResetEdge name m =
     (if name = edge_name m then (None, ResetEdges m)
      else (Some (EntError (''unknown '' @ m_typ m @ '' edge '' @ name)), m))"

section \<open>A mutation as a finite map\<close>

datatype column_op = SetColumn string col_value | ResetColumn string

text \<open>A sequence of changes by name, where those that return an error are skipped.\<close>

fun run_columns ::
  "(string \<Rightarrow> col_value \<Rightarrow> 'm \<Rightarrow> ent_error option \<times> 'm) \<Rightarrow> (string \<Rightarrow> 'm \<Rightarrow> ent_error option \<times> 'm) \<Rightarrow> column_op list \<Rightarrow> 'm \<Rightarrow> 'm" where
  "run_columns set_field reset_field [] m = m"
| "run_columns set_field reset_field (SetColumn c v # ops) m = run_columns set_field reset_field ops (snd (set_field c v m))"
| "run_columns set_field reset_field (ResetColumn c # ops) m = run_columns set_field reset_field ops (snd (reset_field c m))"

text \<open>What the sequence does to a finite map from columns to values of their type.\<close>

fun column_map ::
  "(string \<Rightarrow> col_value \<Rightarrow> bool) \<Rightarrow> column_op list \<Rightarrow> (string \<rightharpoonup> col_value) \<Rightarrow> (string \<rightharpoonup> col_value)" where
  "column_map typed [] f = f"
| "column_map typed (SetColumn c v # ops) f = column_map typed ops (if typed c v then f(c \<mapsto> v) else f)"
| "column_map typed (ResetColumn c # ops) f = column_map typed ops (f(c := None))"

locale column_changes =
  fixes set_field :: "string \<Rightarrow> col_value \<Rightarrow> 'm \<Rightarrow> ent_error option \<times> 'm"
    and reset_field :: "string \<Rightarrow> 'm \<Rightarrow> ent_error option \<times> 'm"
    and field :: "string \<Rightarrow> 'm \<Rightarrow> col_value option" and fields :: "'m \<Rightarrow> string list"
    and columns :: "string list" and typed :: "string \<Rightarrow> col_value \<Rightarrow> bool"
  assumes set_typed: "typed c v \<Longrightarrow> fst (set_field c v m) = None \<and> field d (snd (set_field c v m)) = (if d = c then Some v else field d m)"
    and set_untyped: "\<not> typed c v \<Longrightarrow> snd (set_field c v m) = m \<and> fst (set_field c v m) \<noteq> None"
    and reset: "c \<in> set columns \<Longrightarrow> fst (reset_field c m) = None \<and> field d (snd (reset_field c m)) = (if d = c then None else field d m)"
    and reset_other: "c \<notin> set columns \<Longrightarrow> snd (reset_field c m) = m \<and> fst (reset_field c m) \<noteq> None"
    and outside: "c \<notin> set columns \<Longrightarrow> field c m = None"
    and listed: "fields m = filter (\<lambda>c. field c m \<noteq> None) columns"
begin

lemma run_is_map: "field c (run_columns set_field reset_field ops m) = column_map typed ops (\<lambda>c. field c m) c"
proof (induction ops arbitrary: m)
  case (Cons op ops)
  show ?case
  proof (cases op)
    case (SetColumn d v)
    let ?m' = "snd (set_field d v m)"
    have "(\<lambda>c. field c ?m') = (if typed d v then (\<lambda>c. field c m)(d \<mapsto> v) else (\<lambda>c. field c m))"
      using set_typed[of d v m] set_untyped[of d v m] by (auto simp: fun_eq_iff)
    then show ?thesis using Cons.IH[of ?m'] SetColumn by simp
  next
    case (ResetColumn d)
    let ?m' = "snd (reset_field d m)"
    have "(\<lambda>c. field c ?m') = (\<lambda>c. field c m)(d := None)"
      using reset[of d m] reset_other[of d m] outside[of d m] by (cases "d \<in> set columns") (auto simp: fun_eq_iff)
    then show ?thesis using Cons.IH[of ?m'] ResetColumn by simp
  qed
qed simp

end

definition pod_typed :: "string \<Rightarrow> col_value \<Rightarrow> bool" where
  "pod_typed c v = (case v of VTime t \<Rightarrow> c = ''created_at'' | VString s \<Rightarrow> c \<in> {''name'', ''resource_id''} | _ \<Rightarrow> False)"

definition resource_typed :: "string \<Rightarrow> col_value \<Rightarrow> bool" where
  "resource_typed c v = (case v of VTime t \<Rightarrow> c = ''created_at'' | VString s \<Rightarrow> c = ''node_name'' | _ \<Rightarrow> False)"

lemmas pod_column_defs = pod_SetField_def pod_ResetField_def pod_Field_def pod_Fields_def pod_typed_def

lemmas resource_column_defs =
  resource_SetField_def resource_ResetField_def resource_Field_def resource_Fields_def resource_typed_def

interpretation pod_columns: column_changes pod_SetField pod_ResetField pod_Field pod_Fields
  "[''created_at'', ''name'', ''resource_id'']" pod_typed
proof
  show "fst (pod_SetField c v m) = None \<and> pod_Field d (snd (pod_SetField c v m)) = (if d = c then Some v else pod_Field d m)"
    if "pod_typed c v" for c v m d
    using that by (cases v) (auto simp: pod_SetField_def pod_Field_def pod_typed_def)
  show "snd (pod_SetField c v m) = m \<and> fst (pod_SetField c v m) \<noteq> None" if "\<not> pod_typed c v" for c v m
    using that by (cases v) (simp_all add: pod_SetField_def pod_typed_def)
  show "fst (pod_ResetField c m) = None \<and> pod_Field d (snd (pod_ResetField c m)) = (if d = c then None else pod_Field d m)"
    if "c \<in> set [''created_at'', ''name'', ''resource_id'']" for c m d
    using that by (auto simp: pod_ResetField_def pod_Field_def)
qed (simp_all add: pod_column_defs)

interpretation resource_columns: column_changes resource_SetField resource_ResetField resource_Field resource_Fields
  "[''created_at'', ''node_name'']" resource_typed
proof
  show "fst (resource_SetField c v m) = None \<and> resource_Field d (snd (resource_SetField c v m)) = (if d = c then Some v else resource_Field d m)"
    if "resource_typed c v" for c v m d
    using that by (cases v) (auto simp: resource_SetField_def resource_Field_def resource_typed_def)
  show "snd (resource_SetField c v m) = m \<and> fst (resource_SetField c v m) \<noteq> None" if "\<not> resource_typed c v" for c v m
    using that by (cases v) (simp_all add: resource_SetField_def resource_typed_def)
  show "fst (resource_ResetField c m) = None \<and> resource_Field d (snd (resource_ResetField c m)) = (if d = c then None else resource_Field d m)"
    if "c \<in> set [''created_at'', ''node_name'']" for c m d
    using that by (auto simp: resource_ResetField_def resource_Field_def)
qed (simp_all add: resource_column_defs)

text \<open>
  A mutation is a finite map from the columns of its table to values of their types: whatever columns are set and reset by
  name, in whatever order and with whatever values, the column that \<open>Field\<close> reads is the one of the map, wrong names and
  types change nothing, and \<open>Fields\<close> lists the columns that have a value, for pods and for resources.
\<close>

theorem mutation_is_map:
  "pod_Field c (run_columns pod_SetField pod_ResetField ops m) = column_map pod_typed ops (\<lambda>c. pod_Field c m) c
   \<and> pod_Fields m = filter (\<lambda>c. pod_Field c m \<noteq> None) [''created_at'', ''name'', ''resource_id'']
   \<and> resource_Field c (run_columns resource_SetField resource_ResetField ops r) = column_map resource_typed ops (\<lambda>c. resource_Field c r) c
   \<and> resource_Fields r = filter (\<lambda>c. resource_Field c r \<noteq> None) [''created_at'', ''node_name'']"
  using pod_columns.run_is_map pod_columns.listed resource_columns.run_is_map resource_columns.listed by blast

section \<open>The edges a mutation leaves\<close>

datatype edge_op = AddEdge "uuid list" | RemoveEdge "uuid list" | ClearEdge_op | ResetEdge_op

fun edge_step :: "edge_op \<Rightarrow> ('n, 'a) mutation_scheme \<Rightarrow> ('n, 'a) mutation_scheme" where
  "edge_step (AddEdge ids) = AddIDs ids"
| "edge_step (RemoveEdge ids) = RemoveIDs ids"
| "edge_step ClearEdge_op = ClearEdges"
| "edge_step ResetEdge_op = ResetEdges"

text \<open>The last thing said about an edge since the last reset, and whether all were cleared since.\<close>

fun last_word :: "uuid \<Rightarrow> edge_op list \<Rightarrow> bool option \<Rightarrow> bool option" where
  "last_word x [] w = w"
| "last_word x (AddEdge ids # ops) w = last_word x ops (if x \<in> set ids then Some True else w)"
| "last_word x (RemoveEdge ids # ops) w = last_word x ops (if x \<in> set ids then Some False else w)"
| "last_word x (ClearEdge_op # ops) w = last_word x ops w"
| "last_word x (ResetEdge_op # ops) w = last_word x ops None"

fun all_cleared :: "edge_op list \<Rightarrow> bool \<Rightarrow> bool" where
  "all_cleared [] b = b"
| "all_cleared (ClearEdge_op # ops) b = all_cleared ops True"
| "all_cleared (ResetEdge_op # ops) b = all_cleared ops False"
| "all_cleared (op # ops) b = all_cleared ops b"

lemma edges_last_word:
  assumes "x \<in> edge_IDs m \<longleftrightarrow> w = Some True" "w = Some False \<longrightarrow> x \<in> removed_IDs m" "w = None \<longrightarrow> x \<notin> removed_IDs m"
  shows "let m' = fold edge_step ops m; w' = last_word x ops w in
    (x \<in> edge_IDs m' \<longleftrightarrow> w' = Some True) \<and> (w' = Some False \<longrightarrow> x \<in> removed_IDs m') \<and> (w' = None \<longrightarrow> x \<notin> removed_IDs m')
    \<and> m_cleared m' = all_cleared ops (m_cleared m)"
  using assms
proof (induction ops arbitrary: m w)
  case (Cons op ops)
  note facts = Cons.prems[unfolded edge_IDs_def removed_IDs_def]
  show ?case
  proof (cases op)
    case (AddEdge ids)
    have "let m' = fold edge_step ops (AddIDs ids m); w' = last_word x ops (if x \<in> set ids then Some True else w) in
        (x \<in> edge_IDs m' \<longleftrightarrow> w' = Some True) \<and> (w' = Some False \<longrightarrow> x \<in> removed_IDs m') \<and> (w' = None \<longrightarrow> x \<notin> removed_IDs m')
        \<and> m_cleared m' = all_cleared ops (m_cleared (AddIDs ids m))"
      using facts by (intro Cons.IH) (auto simp: edge_IDs_def removed_IDs_def AddIDs_def split: option.splits)
    then show ?thesis using AddEdge by (simp add: AddIDs_def)
  next
    case (RemoveEdge ids)
    have "let m' = fold edge_step ops (RemoveIDs ids m); w' = last_word x ops (if x \<in> set ids then Some False else w) in
        (x \<in> edge_IDs m' \<longleftrightarrow> w' = Some True) \<and> (w' = Some False \<longrightarrow> x \<in> removed_IDs m') \<and> (w' = None \<longrightarrow> x \<notin> removed_IDs m')
        \<and> m_cleared m' = all_cleared ops (m_cleared (RemoveIDs ids m))"
      using facts by (intro Cons.IH) (auto simp: edge_IDs_def removed_IDs_def RemoveIDs_def split: option.splits)
    then show ?thesis using RemoveEdge by (simp add: RemoveIDs_def)
  next
    case ClearEdge_op
    then show ?thesis using Cons.IH[of "ClearEdges m" w] facts by (simp add: ClearEdges_def edge_IDs_def removed_IDs_def)
  next
    case ResetEdge_op
    then show ?thesis using Cons.IH[of "ResetEdges m" None] by (simp add: ResetEdges_def edge_IDs_def removed_IDs_def)
  qed
qed simp

text \<open>The edges a node has after the mutation, from those it had; that \<open>edges_after\<close> is what is saved is shown in \<open>Ent_Builders\<close>.\<close>

definition edges_after :: "('n, 'a) mutation_scheme \<Rightarrow> uuid set \<Rightarrow> uuid set" where
  "edges_after m E = (if m_cleared m then {} else E - removed_IDs m) \<union> edge_IDs m"

lemma edges_after_ops:
  assumes "m_edge m = None" "m_removed m = None" "\<not> m_cleared m"
  shows "x \<in> edges_after (fold edge_step ops m) E \<longleftrightarrow>
    (case last_word x ops None of Some b \<Rightarrow> b | None \<Rightarrow> x \<in> E \<and> \<not> all_cleared ops False)"
  using edges_last_word[of x m None ops] assms
  by (auto simp: Let_def edges_after_def edge_IDs_def[of m] removed_IDs_def[of m] split: option.splits)

end
