(* ===== verification/Ent_Builders.thy ===== *)
theory Ent_Builders
  imports Ent_Mutation
begin

text \<open>
  Builders (\<open>pod_create.go\<close>, \<open>pod_update.go\<close>, \<open>pod_delete.go\<close> and their counterparts for resources): how a mutation becomes a
  statement and what is made of the answer; and the hooks around a mutation (\<open>ent.go\<close>, \<open>hook/hook.go\<close>). A hook changes the
  mutation it is given, if it does, in place.
\<close>

section \<open>Hooks\<close>

datatype any_mutation = PodM PodMutation | ResourceM ResourceMutation

datatype ent_value = PodV ent_pod | ResourceV ent_resource | CountV nat | OtherV string

fun mutation_type :: "any_mutation \<Rightarrow> string" where
  "mutation_type (PodM m) = ''*ent.PodMutation''"
| "mutation_type (ResourceM m) = ''*ent.ResourceMutation''"

fun ent_value_type :: "ent_value \<Rightarrow> string" where
  "ent_value_type (PodV p) = ''*ent.Pod''"
| "ent_value_type (ResourceV r) = ''*ent.Resource''"
| "ent_value_type (CountV n) = ''int''"
| "ent_value_type (OtherV t) = t"

type_synonym 'd mutator = "any_mutation \<Rightarrow> 'd \<Rightarrow> (ent_error + ent_value) \<times> any_mutation \<times> 'd"

type_synonym 'd hook = "'d mutator \<Rightarrow> 'd mutator"

text \<open>A type of mutations, and a type of values, among all of them: the conversion to it, if it is one, and back.\<close>

type_synonym 'm mutation_kind = "(any_mutation \<Rightarrow> 'm option) \<times> ('m \<Rightarrow> any_mutation)"

type_synonym 'v value_kind = "(ent_value \<Rightarrow> 'v option) \<times> ('v \<Rightarrow> ent_value)"

definition pod_kind :: "PodMutation mutation_kind" where
  "pod_kind = (\<lambda>m. case m of PodM m \<Rightarrow> Some m | _ \<Rightarrow> None, PodM)"

definition resource_kind :: "ResourceMutation mutation_kind" where
  "resource_kind = (\<lambda>m. case m of ResourceM m \<Rightarrow> Some m | _ \<Rightarrow> None, ResourceM)"

definition pod_value :: "ent_pod value_kind" where
  "pod_value = (\<lambda>v. case v of PodV p \<Rightarrow> Some p | _ \<Rightarrow> None, PodV)"

definition resource_value :: "ent_resource value_kind" where
  "resource_value = (\<lambda>v. case v of ResourceV p \<Rightarrow> Some p | _ \<Rightarrow> None, ResourceV)"

definition count_value :: "nat value_kind" where
  "count_value = (\<lambda>v. case v of CountV n \<Rightarrow> Some n | _ \<Rightarrow> None, CountV)"

text \<open>The operation of a builder as the innermost mutator; a hook that is nil was not initialised.\<close>

definition base_mutator ::
  "'m mutation_kind \<Rightarrow> 'v value_kind \<Rightarrow> ('m \<Rightarrow> 'd \<Rightarrow> (ent_error + 'v) \<times> 'm \<times> 'd) \<Rightarrow> 'd mutator" where
  "base_mutator mk vk exec any d = (case fst mk any of
     None \<Rightarrow> (Inl (EntError (''unexpected mutation type '' @ mutation_type any)), any, d)
   | Some m \<Rightarrow> (case exec m d of (r, m', d') \<Rightarrow> (map_sum id (snd vk) r, snd mk m', d')))"

definition withHooks ::
  "'m mutation_kind \<Rightarrow> 'v value_kind \<Rightarrow> ('m \<Rightarrow> 'd \<Rightarrow> (ent_error + 'v) \<times> 'm \<times> 'd) \<Rightarrow> 'm \<Rightarrow> 'd hook option list \<Rightarrow>
    'd \<Rightarrow> (ent_error + 'v) \<times> 'm \<times> 'd" where
  "withHooks mk vk exec m hooks d =
     (if hooks = [] then exec m d
      else if None \<in> set hooks
      then (Inl (EntError ''ent: uninitialized hook (forgotten import ent/runtime?)''), m, d)
      else (case foldr (\<lambda>h mut. the h mut) hooks (base_mutator mk vk exec) (snd mk m) d of (r, any, d') \<Rightarrow>
        ((case r of
            Inl e \<Rightarrow> Inl e
          | Inr v \<Rightarrow> (case fst vk v of
              None \<Rightarrow> Inl (EntError (''unexpected node type '' @ ent_value_type v @ '' returned from '' @ mutation_type (snd mk m)))
            | Some x \<Rightarrow> Inr x)),
         (case fst mk any of None \<Rightarrow> m | Some m' \<Rightarrow> m'), d')))"

section \<open>Conditions and chains of hooks\<close>

definition any_op :: "any_mutation \<Rightarrow> op" where
  "any_op m = (case m of PodM m \<Rightarrow> m_op m | ResourceM m \<Rightarrow> m_op m)"

definition hook_And :: "(any_mutation \<Rightarrow> bool) \<Rightarrow> (any_mutation \<Rightarrow> bool) \<Rightarrow> (any_mutation \<Rightarrow> bool) list \<Rightarrow> any_mutation \<Rightarrow> bool" where
  "hook_And c1 c2 rest m = (if \<not> c1 m \<or> \<not> c2 m then False else list_all (\<lambda>c. c m) rest)"

definition hook_Or :: "(any_mutation \<Rightarrow> bool) \<Rightarrow> (any_mutation \<Rightarrow> bool) \<Rightarrow> (any_mutation \<Rightarrow> bool) list \<Rightarrow> any_mutation \<Rightarrow> bool" where
  "hook_Or c1 c2 rest m = (if c1 m \<or> c2 m then True else list_ex (\<lambda>c. c m) rest)"

definition hook_Not :: "(any_mutation \<Rightarrow> bool) \<Rightarrow> any_mutation \<Rightarrow> bool" where
  "hook_Not c m = (\<not> c m)"

definition HasOp :: "op \<Rightarrow> any_mutation \<Rightarrow> bool" where
  "HasOp op m = op_is (any_op m) op"

definition any_Field :: "string \<Rightarrow> any_mutation \<Rightarrow> col_value option" where
  "any_Field name m = (case m of PodM m \<Rightarrow> pod_Field name m | ResourceM m \<Rightarrow> resource_Field name m)"

definition HasFields :: "string \<Rightarrow> string list \<Rightarrow> any_mutation \<Rightarrow> bool" where
  "HasFields f fs m = (if any_Field f m = None then False else list_all (\<lambda>g. any_Field g m \<noteq> None) fs)"

definition HasAddedFields :: "string \<Rightarrow> string list \<Rightarrow> any_mutation \<Rightarrow> bool" where
  "HasAddedFields f fs m = (let added = (\<lambda>g. case m of PodM m \<Rightarrow> AddedField g m | ResourceM m \<Rightarrow> AddedField g m)
     in if added f = None then False else list_all (\<lambda>g. added g \<noteq> None) fs)"

definition HasClearedFields :: "string \<Rightarrow> string list \<Rightarrow> any_mutation \<Rightarrow> bool" where
  "HasClearedFields f fs m = (let cleared = (\<lambda>g. case m of PodM m \<Rightarrow> FieldCleared g m | ResourceM m \<Rightarrow> FieldCleared g m)
     in if \<not> cleared f then False else list_all cleared fs)"

definition hook_If :: "'d hook \<Rightarrow> (any_mutation \<Rightarrow> bool) \<Rightarrow> 'd hook" where
  "hook_If hk cond next m d = (if cond m then hk next m d else next m d)"

definition hook_On :: "'d hook \<Rightarrow> op \<Rightarrow> 'd hook" where
  "hook_On hk op = hook_If hk (HasOp op)"

definition hook_Unless :: "'d hook \<Rightarrow> op \<Rightarrow> 'd hook" where
  "hook_Unless hk op = hook_If hk (hook_Not (HasOp op))"

definition FixedError :: "ent_error \<Rightarrow> 'd hook" where
  "FixedError err next m d = (Inl err, m, d)"

definition hook_Reject :: "(op \<Rightarrow> string) \<Rightarrow> op \<Rightarrow> 'd hook" where
  "hook_Reject op_text op = hook_On (FixedError (EntError (op_text op @ '' operation is not allowed''))) op"

text \<open>A chain is its hooks.\<close>

definition NewChain :: "'d hook list \<Rightarrow> 'd hook list" where
  "NewChain hooks = hooks"

definition chain_Hook :: "'d hook list \<Rightarrow> 'd hook" where
  "chain_Hook c mutator = foldr (\<lambda>h mut. h mut) c mutator"

definition chain_Append :: "'d hook list \<Rightarrow> 'd hook list \<Rightarrow> 'd hook list" where
  "chain_Append c hooks = c @ hooks"

definition chain_Extend :: "'d hook list \<Rightarrow> 'd hook list \<Rightarrow> 'd hook list" where
  "chain_Extend c chain = chain_Append c chain"

lemma chain_Hook_append: "chain_Hook (chain_Append c hs) mut = chain_Hook c (chain_Hook hs mut)"
  by (simp add: chain_Hook_def chain_Append_def)

lemma foldr_the_Some: "foldr (\<lambda>h mut. the h mut) (map Some hs) mut = foldr (\<lambda>h mut. h mut) hs mut"
  by (induction hs) simp_all

section \<open>Answers of the database\<close>

definition graph_error :: "'d sqlgraph \<Rightarrow> ent_error \<Rightarrow> ent_error" where
  "graph_error G e = (if constraint_error G e then ConstraintError (ent_Error e) e else e)"

definition update_error :: "'d sqlgraph \<Rightarrow> string \<Rightarrow> ent_error \<Rightarrow> ent_error" where
  "update_error G label e = (case e of GraphNotFoundError _ \<Rightarrow> NotFoundError label | _ \<Rightarrow> graph_error G e)"

text \<open>The identifier of a created node: that of the entity, unless the database says otherwise.\<close>

definition created_id :: "'d sqlgraph \<Rightarrow> uuid \<Rightarrow> id_value \<Rightarrow> ent_error + uuid" where
  "created_id G i v = (case v of NilID \<Rightarrow> Inr i | UuidID j \<Rightarrow> Inr j | RawID s \<Rightarrow> scan_uuid G s)"

definition pod_edge :: "uuid set \<Rightarrow> edge_spec" where
  "pod_edge nodes = \<lparr>es_Inverse = False, es_Table = ''pod_resource'', es_Columns = [''pod_id'', ''resource_id''],
     es_Bidi = False, es_TargetID = ''id'', es_Nodes = nodes\<rparr>"

definition resource_edge :: "uuid set \<Rightarrow> edge_spec" where
  "resource_edge nodes = \<lparr>es_Inverse = True, es_Table = ''pod_resource'', es_Columns = [''pod_id'', ''resource_id''],
     es_Bidi = False, es_TargetID = ''id'', es_Nodes = nodes\<rparr>"

section \<open>Creating\<close>

text \<open>The default time and identifier are those the two functions return.\<close>

definition pod_defaults :: "time \<Rightarrow> uuid \<Rightarrow> PodMutation \<Rightarrow> PodMutation" where
  "pod_defaults t i m =
     (let m' = (if pm_created_at m = None then m\<lparr>pm_created_at := Some t\<rparr> else m)
      in if m_id m' = None then m'\<lparr>m_id := Some i\<rparr> else m')"

definition missing_field :: "string \<Rightarrow> string \<Rightarrow> ent_error" where
  "missing_field ty name = ValidationError name (EntError (''ent: missing required field '' @ [CHR 0x22] @ ty @ ''.'' @ name @ [CHR 0x22]))"

definition pod_check :: "PodMutation \<Rightarrow> ent_error option" where
  "pod_check m =
     (if pm_created_at m = None then Some (missing_field ''Pod'' ''created_at'')
      else if pm_name m = None then Some (missing_field ''Pod'' ''name'')
      else if pm_resource_id m = None then Some (missing_field ''Pod'' ''resource_id'')
      else None)"

text \<open>What \<open>UpdateNewValues\<close> leaves open is settled by the mutation when the statement is made.\<close>

definition pod_conflict :: "PodMutation \<Rightarrow> conflict_option \<Rightarrow> conflict_option" where
  "pod_conflict m c = (case c of
     IgnoreColumns _ \<Rightarrow> IgnoreColumns ((if m_id m \<noteq> None then [''id''] else []) @ (if pm_created_at m \<noteq> None then [''created_at''] else []))
   | _ \<Rightarrow> c)"

definition pod_createSpec :: "conflict_option list \<Rightarrow> PodMutation \<Rightarrow> ent_pod \<times> create_spec" where
  "pod_createSpec conflict m =
     (\<lparr>ep_ID = (case m_id m of None \<Rightarrow> nil_uuid | Some i \<Rightarrow> i),
       ep_CreatedAt = (case pm_created_at m of None \<Rightarrow> 0 | Some t \<Rightarrow> t),
       ep_Name = (case pm_name m of None \<Rightarrow> [] | Some s \<Rightarrow> s),
       ep_ResourceID = (case pm_resource_id m of None \<Rightarrow> [] | Some s \<Rightarrow> s)\<rparr>,
      \<lparr>cs_Table = ''pods'', cs_ID = m_id m,
       cs_Fields = (case pm_created_at m of None \<Rightarrow> [] | Some t \<Rightarrow> [(''created_at'', VTime t)])
         @ (case pm_name m of None \<Rightarrow> [] | Some s \<Rightarrow> [(''name'', VString s)])
         @ (case pm_resource_id m of None \<Rightarrow> [] | Some s \<Rightarrow> [(''resource_id'', VString s)]),
       cs_Edges = (if edge_IDs m \<noteq> {} then [pod_edge (edge_IDs m)] else []),
       cs_OnConflict = map (pod_conflict m) conflict\<rparr>)"

definition pod_sqlSave ::
  "'d sqlgraph \<Rightarrow> conflict_option list \<Rightarrow> PodMutation \<Rightarrow> 'd \<Rightarrow> (ent_error + ent_pod) \<times> PodMutation \<times> 'd" where
  "pod_sqlSave G conflict m d = (case pod_check m of
     Some e \<Rightarrow> (Inl e, m, d)
   | None \<Rightarrow> (case pod_createSpec conflict m of (node, spec) \<Rightarrow>
       (case CreateNode G spec d of
          (Inl e, d') \<Rightarrow> (Inl (graph_error G e), m, d')
        | (Inr v, d') \<Rightarrow> (case created_id G (ep_ID node) v of
            Inl e \<Rightarrow> (Inl e, m, d')
          | Inr i \<Rightarrow> (Inr (node\<lparr>ep_ID := i\<rparr>), m\<lparr>m_id := Some i, m_done := True\<rparr>, d')))))"

definition pod_Save ::
  "'d sqlgraph \<Rightarrow> time \<Rightarrow> uuid \<Rightarrow> conflict_option list \<Rightarrow> 'd hook option list \<Rightarrow> PodMutation \<Rightarrow> 'd \<Rightarrow>
    (ent_error + ent_pod) \<times> PodMutation \<times> 'd" where
  "pod_Save G t i conflict hooks m d =
     withHooks pod_kind pod_value (pod_sqlSave G conflict) (pod_defaults t i m) hooks d"

definition resource_defaults :: "time \<Rightarrow> uuid \<Rightarrow> ResourceMutation \<Rightarrow> ResourceMutation" where
  "resource_defaults t i m =
     (let m' = (if rm_created_at m = None then m\<lparr>rm_created_at := Some t\<rparr> else m)
      in if m_id m' = None then m'\<lparr>m_id := Some i\<rparr> else m')"

definition resource_check :: "ResourceMutation \<Rightarrow> ent_error option" where
  "resource_check m =
     (if rm_created_at m = None then Some (missing_field ''Resource'' ''created_at'')
      else if rm_node_name m = None then Some (missing_field ''Resource'' ''node_name'')
      else None)"

definition resource_conflict :: "ResourceMutation \<Rightarrow> conflict_option \<Rightarrow> conflict_option" where
  "resource_conflict m c = (case c of
     IgnoreColumns _ \<Rightarrow> IgnoreColumns ((if m_id m \<noteq> None then [''id''] else []) @ (if rm_created_at m \<noteq> None then [''created_at''] else []))
   | _ \<Rightarrow> c)"

definition resource_createSpec :: "conflict_option list \<Rightarrow> ResourceMutation \<Rightarrow> ent_resource \<times> create_spec" where
  "resource_createSpec conflict m =
     (\<lparr>er_ID = (case m_id m of None \<Rightarrow> nil_uuid | Some i \<Rightarrow> i),
       er_CreatedAt = (case rm_created_at m of None \<Rightarrow> 0 | Some t \<Rightarrow> t),
       er_NodeName = (case rm_node_name m of None \<Rightarrow> [] | Some s \<Rightarrow> s)\<rparr>,
      \<lparr>cs_Table = ''resources'', cs_ID = m_id m,
       cs_Fields = (case rm_created_at m of None \<Rightarrow> [] | Some t \<Rightarrow> [(''created_at'', VTime t)])
         @ (case rm_node_name m of None \<Rightarrow> [] | Some s \<Rightarrow> [(''node_name'', VString s)]),
       cs_Edges = (if edge_IDs m \<noteq> {} then [resource_edge (edge_IDs m)] else []),
       cs_OnConflict = map (resource_conflict m) conflict\<rparr>)"

definition resource_sqlSave ::
  "'d sqlgraph \<Rightarrow> conflict_option list \<Rightarrow> ResourceMutation \<Rightarrow> 'd \<Rightarrow> (ent_error + ent_resource) \<times> ResourceMutation \<times> 'd" where
  "resource_sqlSave G conflict m d = (case resource_check m of
     Some e \<Rightarrow> (Inl e, m, d)
   | None \<Rightarrow> (case resource_createSpec conflict m of (node, spec) \<Rightarrow>
       (case CreateNode G spec d of
          (Inl e, d') \<Rightarrow> (Inl (graph_error G e), m, d')
        | (Inr v, d') \<Rightarrow> (case created_id G (er_ID node) v of
            Inl e \<Rightarrow> (Inl e, m, d')
          | Inr i \<Rightarrow> (Inr (node\<lparr>er_ID := i\<rparr>), m\<lparr>m_id := Some i, m_done := True\<rparr>, d')))))"

definition resource_Save ::
  "'d sqlgraph \<Rightarrow> time \<Rightarrow> uuid \<Rightarrow> conflict_option list \<Rightarrow> 'd hook option list \<Rightarrow> ResourceMutation \<Rightarrow> 'd \<Rightarrow>
    (ent_error + ent_resource) \<times> ResourceMutation \<times> 'd" where
  "resource_Save G t i conflict hooks m d =
     withHooks resource_kind resource_value (resource_sqlSave G conflict) (resource_defaults t i m) hooks d"

section \<open>Creating several pods\<close>

text \<open>
  Builders without hooks: each is checked in turn, and the statements of all go out at once. The first argument is what was
  collected so far.
\<close>

fun pod_bulk ::
  "'d sqlgraph \<Rightarrow> conflict_option list \<Rightarrow> (ent_pod \<times> create_spec) list \<Rightarrow> PodMutation list \<Rightarrow> 'd \<Rightarrow>
    (ent_error + ent_pod list) \<times> PodMutation list \<times> 'd" where
  "pod_bulk G conflict acc [] d = (case BatchCreate G (map snd acc) conflict d of
     (Some e, d') \<Rightarrow> (Inl (graph_error G e), [], d')
   | (None, d') \<Rightarrow> (Inr (map fst acc), [], d'))"
| "pod_bulk G conflict acc (m # ms) d = (case pod_check m of
     Some e \<Rightarrow> (Inl e, m # ms, d)
   | None \<Rightarrow> (case pod_createSpec [] m of (node, spec) \<Rightarrow>
       (case pod_bulk G conflict (acc @ [(node, spec)]) ms d of
          (Inl e, ms', d') \<Rightarrow> (Inl e, m # ms', d')
        | (Inr nodes, ms', d') \<Rightarrow> (Inr nodes, m\<lparr>m_id := Some (ep_ID node), m_done := True\<rparr> # ms', d'))))"

definition pod_bulk_Save ::
  "'d sqlgraph \<Rightarrow> ent_error option \<Rightarrow> (time \<times> uuid) list \<Rightarrow> conflict_option list \<Rightarrow> PodMutation list \<Rightarrow> 'd \<Rightarrow>
    (ent_error + ent_pod list) \<times> PodMutation list \<times> 'd" where
  "pod_bulk_Save G err defaults conflict ms d = (case err of
     Some e \<Rightarrow> (Inl e, ms, d)
   | None \<Rightarrow> (let ms' = map2 (\<lambda>(t, i) m. pod_defaults t i m) defaults ms
       in if ms' = [] then (Inr [], [], d) else pod_bulk G conflict [] ms' d))"

section \<open>Upserts\<close>

text \<open>The options of a conflict that the methods of an upsert append; a set of updates says what a column is set to, or that
  it takes the value that was to be inserted.\<close>

definition OnConflictColumns :: "string list \<Rightarrow> conflict_option list \<Rightarrow> conflict_option list" where
  "OnConflictColumns columns conflict = conflict @ [ConflictColumns columns]"

definition UpdateNewValues :: "conflict_option list \<Rightarrow> conflict_option list" where
  "UpdateNewValues conflict = conflict @ [ResolveWithNewValues, IgnoreColumns []]"

definition upsert_Update :: "(string \<times> col_value option) list \<Rightarrow> conflict_option list \<Rightarrow> conflict_option list" where
  "upsert_Update us conflict = conflict @ [ResolveWith us]"

definition upsert_SetName :: "string \<Rightarrow> conflict_option list \<Rightarrow> conflict_option list" where
  "upsert_SetName v = upsert_Update [(''name'', Some (VString v))]"

definition upsert_UpdateName :: "conflict_option list \<Rightarrow> conflict_option list" where
  "upsert_UpdateName = upsert_Update [(''name'', None)]"

definition pod_upsert_Exec ::
  "'d sqlgraph \<Rightarrow> time \<Rightarrow> uuid \<Rightarrow> conflict_option list \<Rightarrow> 'd hook option list \<Rightarrow> PodMutation \<Rightarrow> 'd \<Rightarrow>
    ent_error option \<times> PodMutation \<times> 'd" where
  "pod_upsert_Exec G t i conflict hooks m d =
     (if conflict = [] then (Some (EntError ''ent: missing options for PodCreate.OnConflict''), m, d)
      else (case pod_Save G t i conflict hooks m d of (r, m', d') \<Rightarrow>
        (case r of Inl e \<Rightarrow> Some e | Inr _ \<Rightarrow> None, m', d')))"

definition pod_upsert_ID ::
  "'d sqlgraph \<Rightarrow> string \<Rightarrow> time \<Rightarrow> uuid \<Rightarrow> conflict_option list \<Rightarrow> 'd hook option list \<Rightarrow> PodMutation \<Rightarrow> 'd \<Rightarrow>
    (ent_error + uuid) \<times> PodMutation \<times> 'd" where
  "pod_upsert_ID G dialect t i conflict hooks m d =
     (if dialect = ''mysql''
      then (Inl (EntError ''ent: PodUpsertOne.ID is not supported by MySQL driver. Use PodUpsertOne.Exec instead''), m, d)
      else (case pod_Save G t i conflict hooks m d of (r, m', d') \<Rightarrow> (map_sum id ep_ID r, m', d')))"

section \<open>Updating\<close>

text \<open>The columns that can be changed after a node was created, and the edges: cleared or removed, and added.\<close>

definition clear_edges :: "(uuid set \<Rightarrow> edge_spec) \<Rightarrow> ('n, 'a) mutation_scheme \<Rightarrow> edge_spec list" where
  "clear_edges edge m =
     (if m_cleared m then [edge {}] else []) @ (if removed_IDs m \<noteq> {} \<and> \<not> m_cleared m then [edge (removed_IDs m)] else [])"

definition add_edges :: "(uuid set \<Rightarrow> edge_spec) \<Rightarrow> ('n, 'a) mutation_scheme \<Rightarrow> edge_spec list" where
  "add_edges edge m = (if edge_IDs m \<noteq> {} then [edge (edge_IDs m)] else [])"

definition pod_updateSpec :: "modifier list \<Rightarrow> PodMutation \<Rightarrow> update_spec" where
  "pod_updateSpec modifiers m = \<lparr>us_Table = ''pods'', us_Columns = pod_Columns, us_ID = None, us_Predicate = m_predicates m,
     us_Fields = (case pm_name m of None \<Rightarrow> [] | Some s \<Rightarrow> [(''name'', VString s)])
       @ (case pm_resource_id m of None \<Rightarrow> [] | Some s \<Rightarrow> [(''resource_id'', VString s)]),
     us_Clear = clear_edges pod_edge m, us_Add = add_edges pod_edge m, us_Modifiers = modifiers\<rparr>"

definition resource_updateSpec :: "modifier list \<Rightarrow> ResourceMutation \<Rightarrow> update_spec" where
  "resource_updateSpec modifiers m = \<lparr>us_Table = ''resources'', us_Columns = resource_Columns, us_ID = None,
     us_Predicate = m_predicates m,
     us_Fields = (case rm_node_name m of None \<Rightarrow> [] | Some s \<Rightarrow> [(''node_name'', VString s)]),
     us_Clear = clear_edges resource_edge m, us_Add = add_edges resource_edge m, us_Modifiers = modifiers\<rparr>"

definition update_nodes ::
  "'d sqlgraph \<Rightarrow> string \<Rightarrow> update_spec \<Rightarrow> ('n, 'a) mutation_scheme \<Rightarrow> 'd \<Rightarrow> (ent_error + nat) \<times> ('n, 'a) mutation_scheme \<times> 'd" where
  "update_nodes G label spec m d = (case UpdateNodes G spec d of
     (Inl e, d') \<Rightarrow> (Inl (update_error G label e), m, d')
   | (Inr n, d') \<Rightarrow> (Inr n, m\<lparr>m_done := True\<rparr>, d'))"

definition pod_update_Save ::
  "'d sqlgraph \<Rightarrow> modifier list \<Rightarrow> 'd hook option list \<Rightarrow> PodMutation \<Rightarrow> 'd \<Rightarrow> (ent_error + nat) \<times> PodMutation \<times> 'd" where
  "pod_update_Save G modifiers hooks =
     (\<lambda>m. withHooks pod_kind count_value (\<lambda>m. update_nodes G ''pod'' (pod_updateSpec modifiers m) m) m hooks)"

definition resource_update_Save ::
  "'d sqlgraph \<Rightarrow> modifier list \<Rightarrow> 'd hook option list \<Rightarrow> ResourceMutation \<Rightarrow> 'd \<Rightarrow> (ent_error + nat) \<times> ResourceMutation \<times> 'd" where
  "resource_update_Save G modifiers hooks =
     (\<lambda>m. withHooks resource_kind count_value (\<lambda>m. update_nodes G ''resource'' (resource_updateSpec modifiers m) m) m hooks)"

text \<open>Updating one node: the columns to return are checked, in order, and the node is read back.\<close>

fun select_columns :: "(string \<Rightarrow> bool) \<Rightarrow> string list \<Rightarrow> ent_error + string list" where
  "select_columns valid [] = Inr []"
| "select_columns valid (f # fs) =
     (if \<not> valid f then Inl (ValidationError f (EntError (''ent: invalid field '' @ [CHR 0x22] @ f @ [CHR 0x22] @ '' for query'')))
      else map_sum id (\<lambda>cs. if f \<noteq> ''id'' then f # cs else cs) (select_columns valid fs))"

definition update_node ::
  "'d sqlgraph \<Rightarrow> string \<Rightarrow> string \<Rightarrow> (string \<Rightarrow> bool) \<Rightarrow> (string \<Rightarrow> scanned \<Rightarrow> 'n \<Rightarrow> ent_error + 'n) \<Rightarrow> 'n \<Rightarrow> string list \<Rightarrow>
    update_spec \<Rightarrow> ('n, 'a) mutation_scheme \<Rightarrow> 'd \<Rightarrow> (ent_error + 'n) \<times> ('n, 'a) mutation_scheme \<times> 'd" where
  "update_node G label type valid assign zero sel spec m d = (case m_id m of
     None \<Rightarrow> (Inl (ValidationError ''id'' (EntError (''ent: missing '' @ [CHR 0x22] @ type @ ''.id'' @ [CHR 0x22] @ '' for update''))), m, d)
   | Some i \<Rightarrow> (case select_columns valid sel of
       Inl e \<Rightarrow> (Inl e, m, d)
     | Inr cs \<Rightarrow>
         (let spec' = spec\<lparr>us_ID := Some i, us_Columns := (if sel = [] then us_Columns spec else ''id'' # cs)\<rparr>
          in case UpdateNode G spec' d of
            (Inl e, d') \<Rightarrow> (Inl (update_error G label e), m, d')
          | (Inr (columns, values), d') \<Rightarrow> (case assignValues assign columns values zero of
              Inl e \<Rightarrow> (Inl (update_error G label e), m, d')
            | Inr n \<Rightarrow> (Inr n, m\<lparr>m_done := True\<rparr>, d')))))"

definition pod_updateOne_Save ::
  "'d sqlgraph \<Rightarrow> string list \<Rightarrow> modifier list \<Rightarrow> 'd hook option list \<Rightarrow> PodMutation \<Rightarrow> 'd \<Rightarrow>
    (ent_error + ent_pod) \<times> PodMutation \<times> 'd" where
  "pod_updateOne_Save G sel modifiers hooks = (\<lambda>m. withHooks pod_kind pod_value
     (\<lambda>m. update_node G ''pod'' ''Pod'' pod_ValidColumn pod_assign no_pod sel (pod_updateSpec modifiers m) m) m hooks)"

definition resource_updateOne_Save ::
  "'d sqlgraph \<Rightarrow> string list \<Rightarrow> modifier list \<Rightarrow> 'd hook option list \<Rightarrow> ResourceMutation \<Rightarrow> 'd \<Rightarrow>
    (ent_error + ent_resource) \<times> ResourceMutation \<times> 'd" where
  "resource_updateOne_Save G sel modifiers hooks = (\<lambda>m. withHooks resource_kind resource_value
     (\<lambda>m. update_node G ''resource'' ''Resource'' resource_ValidColumn resource_assign no_resource sel
       (resource_updateSpec modifiers m) m) m hooks)"

section \<open>Deleting\<close>

text \<open>The mutation is done even if there was an error.\<close>

definition delete_nodes ::
  "'d sqlgraph \<Rightarrow> string \<Rightarrow> ('n, 'a) mutation_scheme \<Rightarrow> 'd \<Rightarrow> (ent_error + nat) \<times> ('n, 'a) mutation_scheme \<times> 'd" where
  "delete_nodes G table m d = (case DeleteNodes G table (m_predicates m) d of
     ((n, Some e), d') \<Rightarrow> (Inl (graph_error G e), m\<lparr>m_done := True\<rparr>, d')
   | ((n, None), d') \<Rightarrow> (Inr n, m\<lparr>m_done := True\<rparr>, d'))"

definition pod_delete_Exec ::
  "'d sqlgraph \<Rightarrow> 'd hook option list \<Rightarrow> PodMutation \<Rightarrow> 'd \<Rightarrow> (ent_error + nat) \<times> PodMutation \<times> 'd" where
  "pod_delete_Exec G hooks = (\<lambda>m. withHooks pod_kind count_value (delete_nodes G ''pods'') m hooks)"

definition resource_delete_Exec ::
  "'d sqlgraph \<Rightarrow> 'd hook option list \<Rightarrow> ResourceMutation \<Rightarrow> 'd \<Rightarrow> (ent_error + nat) \<times> ResourceMutation \<times> 'd" where
  "resource_delete_Exec G hooks = (\<lambda>m. withHooks resource_kind count_value (delete_nodes G ''resources'') m hooks)"

definition pod_deleteOne_Exec ::
  "'d sqlgraph \<Rightarrow> 'd hook option list \<Rightarrow> PodMutation \<Rightarrow> 'd \<Rightarrow> ent_error option \<times> PodMutation \<times> 'd" where
  "pod_deleteOne_Exec G hooks m d = (case pod_delete_Exec G hooks m d of (r, m', d') \<Rightarrow>
     (case r of Inl e \<Rightarrow> Some e | Inr n \<Rightarrow> if n = 0 then Some (NotFoundError ''pod'') else None, m', d'))"

definition resource_deleteOne_Exec ::
  "'d sqlgraph \<Rightarrow> 'd hook option list \<Rightarrow> ResourceMutation \<Rightarrow> 'd \<Rightarrow> ent_error option \<times> ResourceMutation \<times> 'd" where
  "resource_deleteOne_Exec G hooks m d = (case resource_delete_Exec G hooks m d of (r, m', d') \<Rightarrow>
     (case r of Inl e \<Rightarrow> Some e | Inr n \<Rightarrow> if n = 0 then Some (NotFoundError ''resource'') else None, m', d'))"

section \<open>Clients\<close>

text \<open>The mutations the builders of a client start with, and a mutation that is made by its operation.\<close>

definition pod_UpdateOneID :: "uuid \<Rightarrow> PodMutation" where
  "pod_UpdateOneID i = with_id i (newPodMutation {OpUpdateOne})"

definition pod_UpdateOne :: "ent_pod \<Rightarrow> PodMutation" where
  "pod_UpdateOne p = withPod p (newPodMutation {OpUpdateOne})"

definition pod_DeleteOneID :: "uuid \<Rightarrow> PodMutation" where
  "pod_DeleteOneID i = (m_Where [FieldEQ ''id'' (VUuid i)] (newPodMutation {OpDelete}))\<lparr>m_id := Some i, m_op := {OpDeleteOne}\<rparr>"

definition resource_UpdateOneID :: "uuid \<Rightarrow> ResourceMutation" where
  "resource_UpdateOneID i = with_id i (newResourceMutation {OpUpdateOne})"

definition resource_DeleteOneID :: "uuid \<Rightarrow> ResourceMutation" where
  "resource_DeleteOneID i =
     (m_Where [FieldEQ ''id'' (VUuid i)] (newResourceMutation {OpDelete}))\<lparr>m_id := Some i, m_op := {OpDeleteOne}\<rparr>"

definition value_of :: "('v \<Rightarrow> ent_value) \<Rightarrow> (ent_error + 'v) \<times> 'm \<times> 'd \<Rightarrow> (ent_error + ent_value) \<times> 'm \<times> 'd" where
  "value_of f x = (case x of (r, m, d) \<Rightarrow> (map_sum id f r, m, d))"

definition pod_mutate ::
  "'d sqlgraph \<Rightarrow> time \<Rightarrow> uuid \<Rightarrow> (op \<Rightarrow> string) \<Rightarrow> 'd hook option list \<Rightarrow> PodMutation \<Rightarrow> 'd \<Rightarrow>
    (ent_error + ent_value) \<times> PodMutation \<times> 'd" where
  "pod_mutate G t i op_text hooks m d =
     (if m_op m = {OpCreate} then value_of PodV (pod_Save G t i [] hooks m d)
      else if m_op m = {OpUpdate} then value_of CountV (pod_update_Save G [] hooks m d)
      else if m_op m = {OpUpdateOne} then value_of PodV (pod_updateOne_Save G [] [] hooks m d)
      else if m_op m = {OpDelete} \<or> m_op m = {OpDeleteOne} then value_of CountV (pod_delete_Exec G hooks m d)
      else (Inl (EntError (''ent: unknown Pod mutation op: '' @ [CHR 0x22] @ op_text (m_op m) @ [CHR 0x22])), m, d))"

definition resource_mutate ::
  "'d sqlgraph \<Rightarrow> time \<Rightarrow> uuid \<Rightarrow> (op \<Rightarrow> string) \<Rightarrow> 'd hook option list \<Rightarrow> ResourceMutation \<Rightarrow> 'd \<Rightarrow>
    (ent_error + ent_value) \<times> ResourceMutation \<times> 'd" where
  "resource_mutate G t i op_text hooks m d =
     (if m_op m = {OpCreate} then value_of ResourceV (resource_Save G t i [] hooks m d)
      else if m_op m = {OpUpdate} then value_of CountV (resource_update_Save G [] hooks m d)
      else if m_op m = {OpUpdateOne} then value_of ResourceV (resource_updateOne_Save G [] [] hooks m d)
      else if m_op m = {OpDelete} \<or> m_op m = {OpDeleteOne} then value_of CountV (resource_delete_Exec G hooks m d)
      else (Inl (EntError (''ent: unknown Resource mutation op: '' @ [CHR 0x22] @ op_text (m_op m) @ [CHR 0x22])), m, d))"

section \<open>What is saved\<close>

text \<open>The columns that are inserted are those of the mutation.\<close>

lemma created_columns:
  "cs_Fields (snd (pod_createSpec c m)) = map (\<lambda>f. (f, the (pod_Field f m))) (pod_Fields m)"
  "cs_Fields (snd (resource_createSpec c r)) = map (\<lambda>f. (f, the (resource_Field f r))) (resource_Fields r)"
  by (auto simp: pod_createSpec_def pod_Fields_def pod_Field_def resource_createSpec_def resource_Fields_def resource_Field_def
      split: option.splits)

text \<open>
  What a statement does to the edges of a node, as the library documents it: the edges to clear, all of them where
  none are named, and then those to add.
\<close>

fun clear_step :: "edge_spec \<Rightarrow> uuid set \<Rightarrow> uuid set" where
  "clear_step e E = (if es_Nodes e = {} then {} else E - es_Nodes e)"

definition edges_effect :: "edge_spec list \<Rightarrow> edge_spec list \<Rightarrow> uuid set \<Rightarrow> uuid set" where
  "edges_effect clear add E = fold clear_step clear E \<union> \<Union> (es_Nodes ` set add)"

lemma edges_saved:
  "edges_effect (clear_edges pod_edge m) (add_edges pod_edge m) E = edges_after m E"
  "edges_effect (clear_edges resource_edge r) (add_edges resource_edge r) E = edges_after r E"
  by (auto simp: edges_effect_def clear_edges_def add_edges_def edges_after_def pod_edge_def resource_edge_def)

text \<open>
  (C35) The last word about an edge wins: after an update in which resources were added to a pod and removed from it in any
  order, a resource is one of the pod's if it was added last, is none if it was removed last, and stays what it was
  if nothing was said of it, unless all were cleared; clearing, whenever it is called, comes before what is added. The
  same holds for the pods of a resource.
\<close>

theorem last_word_wins:
  "(x \<in> edges_effect (us_Clear (pod_updateSpec ms (fold edge_step ops (newPodMutation op))))
        (us_Add (pod_updateSpec ms (fold edge_step ops (newPodMutation op)))) E
     \<longleftrightarrow> (case last_word x ops None of Some b \<Rightarrow> b | None \<Rightarrow> x \<in> E \<and> \<not> all_cleared ops False))
   \<and> (x \<in> edges_effect (us_Clear (resource_updateSpec ms (fold edge_step ops (newResourceMutation op))))
        (us_Add (resource_updateSpec ms (fold edge_step ops (newResourceMutation op)))) E
     \<longleftrightarrow> (case last_word x ops None of Some b \<Rightarrow> b | None \<Rightarrow> x \<in> E \<and> \<not> all_cleared ops False))"
proof -
  have p: "m_edge (newPodMutation op) = None" "m_removed (newPodMutation op) = None" "\<not> m_cleared (newPodMutation op)"
    by (simp_all add: newPodMutation_def)
  have r: "m_edge (newResourceMutation op) = None" "m_removed (newResourceMutation op) = None" "\<not> m_cleared (newResourceMutation op)"
    by (simp_all add: newResourceMutation_def)
  show ?thesis
    using edges_after_ops[OF p] edges_after_ops[OF r] by (simp add: pod_updateSpec_def resource_updateSpec_def edges_saved)
qed

section \<open>What hooks do\<close>

text \<open>A mutation is what it is among all mutations, and so is a value.\<close>

definition faithful_kind :: "('b \<Rightarrow> 'a option) \<times> ('a \<Rightarrow> 'b) \<Rightarrow> bool" where
  "faithful_kind k = (\<forall>x. fst k (snd k x) = Some x)"

lemma kinds_faithful [simp]:
  "faithful_kind pod_kind" "faithful_kind resource_kind" "faithful_kind pod_value" "faithful_kind resource_value"
  "faithful_kind count_value"
  by (simp_all add: faithful_kind_def pod_kind_def resource_kind_def pod_value_def resource_value_def count_value_def)

lemma withHooks_chain:
  assumes "faithful_kind mk" "faithful_kind vk"
  shows "withHooks mk vk exec m (map Some hs) d = withHooks mk vk exec m [Some (chain_Hook hs)] d"
proof (cases "hs = []")
  case True
  obtain r m' d' where e: "exec m d = (r, m', d')" by (cases "exec m d")
  show ?thesis
    using assms True e by (cases r) (auto simp: withHooks_def chain_Hook_def base_mutator_def faithful_kind_def)
next
  case False
  then show ?thesis by (simp add: withHooks_def chain_Hook_def foldr_the_Some)
qed

lemma chains_compose:
  assumes "faithful_kind mk" "faithful_kind vk"
  shows "withHooks mk vk exec m (map Some (chain_Extend c1 c2)) d = withHooks mk vk exec m [Some (chain_Hook c1), Some (chain_Hook c2)] d"
  by (subst withHooks_chain[OF assms])
    (simp add: withHooks_def chain_Extend_def chain_Hook_append fun_eq_iff)

lemma rejected:
  "op_is (any_op (snd mk m)) op \<Longrightarrow> \<exists>e m'. withHooks mk vk exec m (map Some (hook_Reject op_text op # hs)) d = (Inl e, m', d)"
  by (auto simp: withHooks_def hook_Reject_def hook_On_def hook_If_def HasOp_def FixedError_def)

lemma not_rejected:
  "\<not> op_is (any_op any) op \<Longrightarrow> hook_Reject op_text op next any d = next any d"
  by (simp add: hook_Reject_def hook_On_def hook_If_def HasOp_def)

text \<open>
  Hooks compose: saving with the hooks of a chain and then those of another is saving with their extension, and with
  the two chains as single hooks, whatever the hooks are and also when there are none; a hook that was not initialised
  ends the operation before anything is done; a hook that rejects the operation, outermost, keeps it from the database.
\<close>

theorem hooks_compose:
  "pod_Save G t i conflict (map Some (chain_Extend c1 c2)) m d
     = pod_Save G t i conflict [Some (chain_Hook c1), Some (chain_Hook c2)] m d
   \<and> pod_update_Save G ms (map Some (chain_Extend c1 c2)) m d = pod_update_Save G ms [Some (chain_Hook c1), Some (chain_Hook c2)] m d
   \<and> (\<exists>e. pod_Save G t i conflict (h1 @ None # h2) m d = (Inl e, pod_defaults t i m, d))
   \<and> (\<exists>e m'. pod_Save G t i conflict (map Some (hook_Reject op_text (m_op m) # c1)) m d = (Inl e, m', d))"
proof -
  have "op_is (any_op (snd pod_kind (pod_defaults t i m))) (m_op m)"
    by (simp add: op_is_def any_op_def pod_kind_def pod_defaults_def Let_def)
  from rejected[of pod_kind "pod_defaults t i m" "m_op m" pod_value "pod_sqlSave G conflict" op_text c1 d, OF this]
  have r: "\<exists>e m'. pod_Save G t i conflict (map Some (hook_Reject op_text (m_op m) # c1)) m d = (Inl e, m', d)"
    unfolding pod_Save_def .
  have n: "\<exists>e. pod_Save G t i conflict (h1 @ None # h2) m d = (Inl e, pod_defaults t i m, d)"
    by (simp add: pod_Save_def withHooks_def)
  have c: "pod_Save G t i conflict (map Some (chain_Extend c1 c2)) m d
      = pod_Save G t i conflict [Some (chain_Hook c1), Some (chain_Hook c2)] m d"
    "pod_update_Save G ms (map Some (chain_Extend c1 c2)) m d = pod_update_Save G ms [Some (chain_Hook c1), Some (chain_Hook c2)] m d"
    unfolding pod_Save_def pod_update_Save_def by (rule chains_compose; simp)+
  show ?thesis by (intro conjI c n r)
qed

end
