(* ===== verification/Ent_Query.thy ===== *)
theory Ent_Query
  imports Ent_Builders
begin

text \<open>
  Queries (\<open>pod_query.go\<close>, \<open>resource_query.go\<close>, and the selectors of \<open>ent.go\<close>). A query is a builder that is changed in place:
  every operation returns what it makes of the builder as well. The interceptors of the client are arguments.
\<close>

section \<open>The builder\<close>

record query_context =
  qc_Op :: string
  qc_Limit :: "int option"
  qc_Offset :: "int option"
  qc_Unique :: "bool option"
  qc_Fields :: "string list"

text \<open>The path is what it leads to: an intermediate query, or an error. The edge to load eagerly has a query of its own.\<close>

record 'w query =
  q_ctx :: query_context
  q_order :: "modifier list"
  q_predicates :: "predicate list"
  q_with :: "'w option"
  q_modifiers :: "modifier list"
  q_sql :: "string option"
  q_path :: "(ent_error + string) option"

definition new_query :: "'w query" where
  "new_query = \<lparr>q_ctx = \<lparr>qc_Op = [], qc_Limit = None, qc_Offset = None, qc_Unique = None, qc_Fields = []\<rparr>,
     q_order = [], q_predicates = [], q_with = None, q_modifiers = [], q_sql = None, q_path = None\<rparr>"

definition q_Where :: "predicate list \<Rightarrow> 'w query \<Rightarrow> 'w query" where
  "q_Where ps q = q\<lparr>q_predicates := q_predicates q @ ps\<rparr>"

definition q_Limit :: "int \<Rightarrow> 'w query \<Rightarrow> 'w query" where
  "q_Limit n q = q\<lparr>q_ctx := (q_ctx q)\<lparr>qc_Limit := Some n\<rparr>\<rparr>"

definition q_Offset :: "int \<Rightarrow> 'w query \<Rightarrow> 'w query" where
  "q_Offset n q = q\<lparr>q_ctx := (q_ctx q)\<lparr>qc_Offset := Some n\<rparr>\<rparr>"

definition q_Unique :: "bool \<Rightarrow> 'w query \<Rightarrow> 'w query" where
  "q_Unique b q = q\<lparr>q_ctx := (q_ctx q)\<lparr>qc_Unique := Some b\<rparr>\<rparr>"

definition q_Order :: "modifier list \<Rightarrow> 'w query \<Rightarrow> 'w query" where
  "q_Order os q = q\<lparr>q_order := q_order q @ os\<rparr>"

definition q_Select :: "string list \<Rightarrow> 'w query \<Rightarrow> 'w query" where
  "q_Select fs q = q\<lparr>q_ctx := (q_ctx q)\<lparr>qc_Fields := qc_Fields (q_ctx q) @ fs\<rparr>\<rparr>"

definition q_GroupBy :: "string \<Rightarrow> string list \<Rightarrow> 'w query \<Rightarrow> 'w query" where
  "q_GroupBy f fs q = q\<lparr>q_ctx := (q_ctx q)\<lparr>qc_Fields := f # fs\<rparr>\<rparr>"

definition q_Modify :: "modifier list \<Rightarrow> 'w query \<Rightarrow> 'w query" where
  "q_Modify ms q = q\<lparr>q_modifiers := q_modifiers q @ ms\<rparr>"

text \<open>Locking the rows, for update or for share; on Postgres duplicates are kept.\<close>

definition q_For :: "string \<Rightarrow> modifier \<Rightarrow> 'w query \<Rightarrow> 'w query" where
  "q_For dialect lock q =
     (let q' = (if dialect = ''postgres'' then q_Unique False q else q) in q'\<lparr>q_modifiers := q_modifiers q' @ [lock]\<rparr>)"

text \<open>The context of a query is attached to the Go context, with the name of the operation, unless there is one already.\<close>

definition setContextOp :: "bool \<Rightarrow> string \<Rightarrow> 'w query \<Rightarrow> 'w query" where
  "setContextOp attached op q = (if attached then q else q\<lparr>q_ctx := (q_ctx q)\<lparr>qc_Op := op\<rparr>\<rparr>)"

definition querySpec :: "string \<Rightarrow> string list \<Rightarrow> 'w query \<Rightarrow> query_spec" where
  "querySpec table columns q = \<lparr>qs_Table = table,
     qs_Columns = (if qc_Fields (q_ctx q) = [] then columns else ''id'' # filter (\<lambda>f. f \<noteq> ''id'') (qc_Fields (q_ctx q))),
     qs_From = q_sql q,
     qs_Unique = (case qc_Unique (q_ctx q) of Some b \<Rightarrow> Some b | None \<Rightarrow> if q_path q \<noteq> None then Some True else None),
     qs_Predicate = q_predicates q, qs_Limit = qc_Limit (q_ctx q), qs_Offset = qc_Offset (q_ctx q),
     qs_Order = q_order q, qs_Modifiers = q_modifiers q\<rparr>"

section \<open>Interceptors\<close>

text \<open>What a query returns: nodes, each with the neighbours that were loaded, if they were; a number; identifiers.\<close>

datatype ('n, 'e) query_value = NodesQ "('n \<times> 'e list option) list" | CountQ nat | IdsQ "uuid list" | OtherQ string

type_synonym ('w, 'n, 'e) querier = "'w query \<Rightarrow> ent_error + ('n, 'e) query_value"

text \<open>An interceptor, which may look at the query before it is made (and change it).\<close>

record ('w, 'n, 'e) interceptor =
  traverse :: "('w query \<Rightarrow> ent_error option \<times> 'w query) option"
  intercept :: "('w, 'n, 'e) querier \<Rightarrow> ('w, 'n, 'e) querier"

fun traverse_all :: "('w, 'n, 'e) interceptor option list \<Rightarrow> 'w query \<Rightarrow> ent_error option \<times> 'w query" where
  "traverse_all [] q = (None, q)"
| "traverse_all (None # is) q = (Some (EntError ''ent: uninitialized interceptor (forgotten import ent/runtime?)''), q)"
| "traverse_all (Some i # is) q = (case traverse i of
     None \<Rightarrow> traverse_all is q
   | Some t \<Rightarrow> (case t q of (Some e, q') \<Rightarrow> (Some e, q') | (None, q') \<Rightarrow> traverse_all is q'))"

definition invalid_field :: "string \<Rightarrow> ent_error" where
  "invalid_field f = ValidationError f (EntError (''ent: invalid field '' @ [CHR 0x22] @ f @ [CHR 0x22] @ '' for query''))"

definition prepareQuery ::
  "(string \<Rightarrow> bool) \<Rightarrow> ('w, 'n, 'e) interceptor option list \<Rightarrow> 'w query \<Rightarrow> ent_error option \<times> 'w query" where
  "prepareQuery valid is q = (case traverse_all is q of
     (Some e, q') \<Rightarrow> (Some e, q')
   | (None, q') \<Rightarrow> (case find_first (\<lambda>f. \<not> valid f) (qc_Fields (q_ctx q')) of
       Some f \<Rightarrow> (Some (invalid_field f), q')
     | None \<Rightarrow> (case q_path q' of
         None \<Rightarrow> (None, q')
       | Some (Inl e) \<Rightarrow> (Some e, q')
       | Some (Inr s) \<Rightarrow> (None, q'\<lparr>q_sql := Some s\<rparr>))))"

definition withInterceptors ::
  "('w, 'n, 'e) interceptor option list \<Rightarrow> ('w, 'n, 'e) querier \<Rightarrow> 'w query \<Rightarrow> ent_error + ('n, 'e) query_value" where
  "withInterceptors is qr q = foldr (\<lambda>i qr. intercept (the i) qr) is qr q"

definition unexpected_value :: ent_error where
  "unexpected_value = EntError ''unexpected type returned from query''"

section \<open>Reading nodes\<close>

text \<open>
  The kind of nodes a query is about: the name, the table and its columns, how a row is assigned to a node, and the zero node.
\<close>

record 'n node_kind =
  nk_label :: string
  nk_table :: string
  nk_columns :: "string list"
  nk_assign :: "string \<Rightarrow> scanned \<Rightarrow> 'n \<Rightarrow> ent_error + 'n"
  nk_zero :: 'n
  nk_id :: "'n \<Rightarrow> uuid"

definition pods :: "ent_pod node_kind" where
  "pods = \<lparr>nk_label = ''pod'', nk_table = ''pods'', nk_columns = pod_Columns, nk_assign = pod_assign, nk_zero = no_pod, nk_id = ep_ID\<rparr>"

definition resources :: "ent_resource node_kind" where
  "resources = \<lparr>nk_label = ''resource'', nk_table = ''resources'', nk_columns = resource_Columns, nk_assign = resource_assign,
     nk_zero = no_resource, nk_id = er_ID\<rparr>"

fun assign_rows ::
  "'n node_kind \<Rightarrow> (string list \<times> scanned list) list \<Rightarrow> ent_error + 'n list" where
  "assign_rows k [] = Inr []"
| "assign_rows k ((columns, values) # rows) = (case assignValues (nk_assign k) columns values (nk_zero k) of
     Inl e \<Rightarrow> Inl e
   | Inr n \<Rightarrow> map_sum id (\<lambda>ns. n # ns) (assign_rows k rows))"

section \<open>Loading an edge\<close>

text \<open>
  The rows of the query for the neighbours: the identifier of the node it is joined with, then the neighbour's columns. A
  neighbour is made for the first row it appears in. The nodes are pointers, here their positions; a node is
  found by its identifier, the last one where there are several.
\<close>

fun position_from :: "nat \<Rightarrow> uuid list \<Rightarrow> uuid \<Rightarrow> nat option" where
  "position_from k [] i = None"
| "position_from k (j # js) i = (case position_from (Suc k) js i of
     Some p \<Rightarrow> Some p | None \<Rightarrow> if j = i then Some k else None)"

definition position :: "uuid list \<Rightarrow> uuid \<Rightarrow> nat option" where
  "position ids i = position_from 0 ids i"

fun load_rows ::
  "'e node_kind \<Rightarrow> uuid list \<Rightarrow> (string list \<times> scanned list) list \<Rightarrow> (uuid \<rightharpoonup> nat option set) \<times> 'e list \<Rightarrow>
    (ent_error + (uuid \<rightharpoonup> nat option set) \<times> 'e list) go" where
  "load_rows k ids [] s = Ret (Inr s)"
| "load_rows k ids ((columns, values) # rows) (nids, es) = (case values of
     SUuid (Some out) # SUuid (Some inn) # vs \<Rightarrow>
       (case nids inn of
          None \<Rightarrow> (case assignValues (nk_assign k) (tl columns) (tl values) (nk_zero k) of
              Inl e \<Rightarrow> Ret (Inl e)
            | Inr n \<Rightarrow> load_rows k ids rows (nids(inn \<mapsto> {position ids out}), es @ [n]))
        | Some ps \<Rightarrow> load_rows k ids rows (nids(inn \<mapsto> insert (position ids out) ps), es))
   | _ \<Rightarrow> Panic)"

text \<open>
  The neighbours, as the interceptors leave them, are given to the nodes; a neighbour that no row led to is an error, one
  of a row that is joined with no node is a nil dereference.
\<close>

fun give_neighbours ::
  "('e \<Rightarrow> uuid) \<Rightarrow> (uuid \<rightharpoonup> nat option set) \<Rightarrow> string \<Rightarrow> 'e list \<Rightarrow> (nat \<Rightarrow> 'e list) \<Rightarrow> (ent_error + (nat \<Rightarrow> 'e list)) go" where
  "give_neighbours id_of nids edge [] given = Ret (Inr given)"
| "give_neighbours id_of nids edge (n # ns) given = (case nids (id_of n) of
     None \<Rightarrow> Ret (Inl (EntError (''unexpected '' @ [CHR 0x22] @ edge @ [CHR 0x22] @ '' node returned '' @ id_of n)))
   | Some ps \<Rightarrow> (if None \<in> ps then Panic
       else give_neighbours id_of nids edge ns (\<lambda>k. if Some k \<in> ps then given k @ [n] else given k)))"

text \<open>
  Loading: the neighbours of all nodes with one query, over the join table, whose column of the nodes is the first of the
  names given. The query for the neighbours is prepared like any other, with its traversers \<open>is\<close>; what its interceptors make of
  the nodes that were loaded is the parameter \<open>inters\<close>.
\<close>

definition load_edge ::
  "'d sqlgraph \<Rightarrow> 'e node_kind \<Rightarrow> string \<Rightarrow> string \<Rightarrow> ('w, 'e, 'x) interceptor option list \<Rightarrow>
    ('e list \<Rightarrow> ent_error + 'e list) \<Rightarrow> 'w query \<Rightarrow> uuid list \<Rightarrow> 'd \<Rightarrow> (ent_error + 'e list list) go" where
  "load_edge G k edge column is inters q ids d =
     (case prepareQuery (\<lambda>f. f \<in> set (nk_columns k)) is (q_Where [InValues ''pod_resource'' column ids] q) of
        (Some e, q') \<Rightarrow> Ret (Inl e)
      | (None, q') \<Rightarrow> (case QueryNodes G (querySpec (nk_table k) (nk_columns k) q') d of
        Inl e \<Rightarrow> Ret (Inl e)
      | Inr rows \<Rightarrow> bind_go (load_rows k ids rows (Map.empty, [])) (\<lambda>r. case r of
          Inl e \<Rightarrow> Ret (Inl e)
        | Inr (nids, es) \<Rightarrow> (case inters es of
            Inl e \<Rightarrow> Ret (Inl e)
          | Inr es' \<Rightarrow> bind_go (give_neighbours (nk_id k) nids edge es' (\<lambda>_. [])) (\<lambda>r. case r of
              Inl e \<Rightarrow> Ret (Inl e)
            | Inr given \<Rightarrow> Ret (Inr (map given [0 ..< length ids])))))))"

section \<open>The operations\<close>

text \<open>All nodes of a query that loads no edge.\<close>

definition sqlAll ::
  "'d sqlgraph \<Rightarrow> 'n node_kind \<Rightarrow> 'd \<Rightarrow> ('w, 'n, 'e) querier" where
  "sqlAll G k d q = (case QueryNodes G (querySpec (nk_table k) (nk_columns k) q) d of
     Inl e \<Rightarrow> Inl e
   | Inr rows \<Rightarrow> map_sum id (\<lambda>ns. NodesQ (map (\<lambda>n. (n, None)) ns)) (assign_rows k rows))"

definition q_All ::
  "'d sqlgraph \<Rightarrow> 'n node_kind \<Rightarrow> ('w, 'n, 'e) interceptor option list \<Rightarrow> bool \<Rightarrow> 'w query \<Rightarrow> 'd \<Rightarrow> (ent_error + 'n list) \<times> 'w query" where
  "q_All G k is attached q d =
     (case prepareQuery (\<lambda>f. f \<in> set (nk_columns k)) is (setContextOp attached ''All'' q) of
        (Some e, q') \<Rightarrow> (Inl e, q')
      | (None, q') \<Rightarrow> (case withInterceptors is (sqlAll G k d) q' of
          Inl e \<Rightarrow> (Inl e, q')
        | Inr (NodesQ ns) \<Rightarrow> (Inr (map fst ns), q')
        | Inr _ \<Rightarrow> (Inl unexpected_value, q')))"

definition q_First ::
  "'d sqlgraph \<Rightarrow> 'n node_kind \<Rightarrow> ('w, 'n, 'e) interceptor option list \<Rightarrow> bool \<Rightarrow> 'w query \<Rightarrow> 'd \<Rightarrow> (ent_error + 'n) \<times> 'w query" where
  "q_First G k is attached q d = (case q_All G k is True (setContextOp attached ''First'' (q_Limit 1 q)) d of
     (Inl e, q') \<Rightarrow> (Inl e, q')
   | (Inr [], q') \<Rightarrow> (Inl (NotFoundError (nk_label k)), q')
   | (Inr (n # _), q') \<Rightarrow> (Inr n, q'))"

definition q_Only ::
  "'d sqlgraph \<Rightarrow> 'n node_kind \<Rightarrow> ('w, 'n, 'e) interceptor option list \<Rightarrow> bool \<Rightarrow> 'w query \<Rightarrow> 'd \<Rightarrow> (ent_error + 'n) \<times> 'w query" where
  "q_Only G k is attached q d = (case q_All G k is True (setContextOp attached ''Only'' (q_Limit 2 q)) d of
     (Inl e, q') \<Rightarrow> (Inl e, q')
   | (Inr [n], q') \<Rightarrow> (Inr n, q')
   | (Inr [], q') \<Rightarrow> (Inl (NotFoundError (nk_label k)), q')
   | (Inr _, q') \<Rightarrow> (Inl (NotSingularError (nk_label k)), q'))"

text \<open>The identifiers alone: the column is added to those selected, and stays so. Scanning them is a parameter.\<close>

definition q_IDs ::
  "'n node_kind \<Rightarrow> ('w, 'n, 'e) interceptor option list \<Rightarrow> ('w query \<Rightarrow> ent_error + uuid list) \<Rightarrow> bool \<Rightarrow> 'w query \<Rightarrow>
    (ent_error + uuid list) \<times> 'w query" where
  "q_IDs k is scan attached q =
     (let q1 = (if qc_Unique (q_ctx q) = None \<and> q_path q \<noteq> None then q_Unique True q else q);
          q2 = q_Select [''id''] (setContextOp attached ''IDs'' q1)
      in case prepareQuery (\<lambda>f. f \<in> set (nk_columns k)) is q2 of
        (Some e, q') \<Rightarrow> (Inl e, q')
      | (None, q') \<Rightarrow> (case withInterceptors is (\<lambda>q. map_sum id IdsQ (scan q)) q' of
          Inl e \<Rightarrow> (Inl e, q')
        | Inr (IdsQ ids) \<Rightarrow> (Inr ids, q')
        | Inr _ \<Rightarrow> (Inl unexpected_value, q')))"

definition q_FirstID ::
  "'n node_kind \<Rightarrow> ('w, 'n, 'e) interceptor option list \<Rightarrow> ('w query \<Rightarrow> ent_error + uuid list) \<Rightarrow> bool \<Rightarrow> 'w query \<Rightarrow>
    (ent_error + uuid) \<times> 'w query" where
  "q_FirstID k is scan attached q = (case q_IDs k is scan True (setContextOp attached ''FirstID'' (q_Limit 1 q)) of
     (Inl e, q') \<Rightarrow> (Inl e, q')
   | (Inr [], q') \<Rightarrow> (Inl (NotFoundError (nk_label k)), q')
   | (Inr (i # _), q') \<Rightarrow> (Inr i, q'))"

definition q_OnlyID ::
  "'n node_kind \<Rightarrow> ('w, 'n, 'e) interceptor option list \<Rightarrow> ('w query \<Rightarrow> ent_error + uuid list) \<Rightarrow> bool \<Rightarrow> 'w query \<Rightarrow>
    (ent_error + uuid) \<times> 'w query" where
  "q_OnlyID k is scan attached q = (case q_IDs k is scan True (setContextOp attached ''OnlyID'' (q_Limit 2 q)) of
     (Inl e, q') \<Rightarrow> (Inl e, q')
   | (Inr [i], q') \<Rightarrow> (Inr i, q')
   | (Inr [], q') \<Rightarrow> (Inl (NotFoundError (nk_label k)), q')
   | (Inr _, q') \<Rightarrow> (Inl (NotSingularError (nk_label k)), q'))"

definition q_Exist ::
  "'n node_kind \<Rightarrow> ('w, 'n, 'e) interceptor option list \<Rightarrow> ('w query \<Rightarrow> ent_error + uuid list) \<Rightarrow> bool \<Rightarrow> 'w query \<Rightarrow>
    (ent_error + bool) \<times> 'w query" where
  "q_Exist k is scan attached q = (case q_FirstID k is scan True (setContextOp attached ''Exist'' q) of
     (Inl e, q') \<Rightarrow> (if IsNotFound (Some e) then Inr False else Inl (Wrapped ''ent: check existence: '' e []), q')
   | (Inr _, q') \<Rightarrow> (Inr True, q'))"

text \<open>Counting: duplicates are dropped only if that was asked for, where columns were selected.\<close>

definition sqlCount :: "'d sqlgraph \<Rightarrow> 'n node_kind \<Rightarrow> 'd \<Rightarrow> ('w, 'n, 'e) querier" where
  "sqlCount G k d q =
     (let spec = (querySpec (nk_table k) (nk_columns k) q)\<lparr>qs_Columns := qc_Fields (q_ctx q)\<rparr>;
          spec' = (if qc_Fields (q_ctx q) \<noteq> [] then spec\<lparr>qs_Unique := Some (qc_Unique (q_ctx q) = Some True)\<rparr> else spec)
      in map_sum id CountQ (CountNodes G spec' d))"

definition q_Count ::
  "'d sqlgraph \<Rightarrow> 'n node_kind \<Rightarrow> ('w, 'n, 'e) interceptor option list \<Rightarrow> bool \<Rightarrow> 'w query \<Rightarrow> 'd \<Rightarrow> (ent_error + nat) \<times> 'w query" where
  "q_Count G k is attached q d =
     (case prepareQuery (\<lambda>f. f \<in> set (nk_columns k)) is (setContextOp attached ''Count'' q) of
        (Some e, q') \<Rightarrow> (Inl e, q')
      | (None, q') \<Rightarrow> (case withInterceptors is (sqlCount G k d) q' of
          Inl e \<Rightarrow> (Inl e, q')
        | Inr (CountQ n) \<Rightarrow> (Inr n, q')
        | Inr _ \<Rightarrow> (Inl unexpected_value, q')))"

text \<open>The node with an identifier.\<close>

definition client_Get ::
  "'d sqlgraph \<Rightarrow> 'n node_kind \<Rightarrow> ('w, 'n, 'e) interceptor option list \<Rightarrow> uuid \<Rightarrow> 'd \<Rightarrow> ent_error + 'n" where
  "client_Get G k is i d = fst (q_Only G k is False (q_Where [FieldEQ ''id'' (VUuid i)] new_query) d)"

section \<open>Selectors\<close>

text \<open>The values of one selected column, and the only one; the first argument is the name of the method.\<close>

definition selector_list :: "string \<Rightarrow> string list \<Rightarrow> (ent_error + 'v list) \<Rightarrow> ent_error + 'v list" where
  "selector_list name flds scan =
     (if length flds > 1 then Inl (EntError (''ent: '' @ name @ '' is not achievable when selecting more than 1 field'')) else scan)"

definition selector_one :: "string \<Rightarrow> string \<Rightarrow> string list \<Rightarrow> (ent_error + 'v list) \<Rightarrow> ent_error + 'v" where
  "selector_one label name flds scan = (case selector_list name flds scan of
     Inl e \<Rightarrow> Inl e
   | Inr [v] \<Rightarrow> Inr v
   | Inr [] \<Rightarrow> Inl (NotFoundError label)
   | Inr vs \<Rightarrow> Inl (EntError (''ent: '' @ name @ '' returned '' @ Itoa (int (length vs)) @ '' results when one was expected'')))"

section \<open>Nodes with their neighbours\<close>

text \<open>A query that loads an edge, with the query \<open>w\<close> for the neighbours.\<close>

definition sqlAll_with ::
  "'d sqlgraph \<Rightarrow> 'n node_kind \<Rightarrow> 'e node_kind \<Rightarrow> string \<Rightarrow> string \<Rightarrow> ('w, 'e, 'x) interceptor option list \<Rightarrow>
    ('e list \<Rightarrow> ent_error + 'e list) \<Rightarrow> 'w query \<Rightarrow> 'v query \<Rightarrow> 'd \<Rightarrow> (ent_error + ('n \<times> 'e list option) list) go" where
  "sqlAll_with G k ke edge column is inters w q d = (case QueryNodes G (querySpec (nk_table k) (nk_columns k) q) d of
     Inl e \<Rightarrow> Ret (Inl e)
   | Inr rows \<Rightarrow> (case assign_rows k rows of
       Inl e \<Rightarrow> Ret (Inl e)
     | Inr ns \<Rightarrow> (if ns = [] then Ret (Inr [])
         else bind_go (load_edge G ke edge column is inters w (map (nk_id k) ns) d)
           (\<lambda>r. Ret (map_sum id (\<lambda>ess. zip ns (map Some ess)) r)))))"

definition pods_with_resources ::
  "'d sqlgraph \<Rightarrow> ('w, ent_resource, 'x) interceptor option list \<Rightarrow> (ent_resource list \<Rightarrow> ent_error + ent_resource list) \<Rightarrow> 'w query \<Rightarrow> 'v query \<Rightarrow> 'd \<Rightarrow>
    (ent_error + (ent_pod \<times> ent_resource list option) list) go" where
  "pods_with_resources G = sqlAll_with G pods resources ''resource'' ''pod_id''"

definition resources_with_pods ::
  "'d sqlgraph \<Rightarrow> ('w, ent_pod, 'x) interceptor option list \<Rightarrow> (ent_pod list \<Rightarrow> ent_error + ent_pod list) \<Rightarrow> 'w query \<Rightarrow> 'v query \<Rightarrow> 'd \<Rightarrow>
    (ent_error + (ent_resource \<times> ent_pod list option) list) go" where
  "resources_with_pods G = sqlAll_with G resources pods ''pods'' ''resource_id''"

text \<open>What was not loaded cannot be read.\<close>

definition EdgeOrErr :: "string \<Rightarrow> 'e list option \<Rightarrow> ent_error + 'e list" where
  "EdgeOrErr edge loaded = (case loaded of Some es \<Rightarrow> Inr es | None \<Rightarrow> Inl (NotLoadedError edge))"

lemma position_from_None: "position_from k ids i = None \<longleftrightarrow> i \<notin> set ids"
proof (induction ids arbitrary: k)
  case (Cons j ids)
  then show ?case using Cons.IH[of "Suc k"] by (cases "position_from (Suc k) ids i") auto
qed simp

lemma position_from_Some: "position_from k ids i = Some p \<Longrightarrow> k \<le> p \<and> p < k + length ids \<and> ids ! (p - k) = i"
proof (induction ids arbitrary: k)
  case (Cons j ids)
  show ?case
  proof (cases "position_from (Suc k) ids i")
    case None
    then show ?thesis using Cons.prems by (simp split: if_splits)
  next
    case (Some q)
    then have "q = p" using Cons.prems by simp
    then have q: "Suc k \<le> p \<and> p < Suc k + length ids \<and> ids ! (p - Suc k) = i" using Cons.IH[of "Suc k"] Some by simp
    then have "p - k = Suc (p - Suc k)" by linarith
    then show ?thesis using q by simp
  qed
qed simp

lemma position_Some: "position ids i = Some p \<Longrightarrow> p < length ids \<and> ids ! p = i"
  using position_from_Some[of 0 ids i p] by (simp add: position_def)

lemma position_in: "i \<in> set ids \<Longrightarrow> position ids i \<noteq> None"
  by (simp add: position_def position_from_None)

lemma position_nth: "distinct ids \<Longrightarrow> j < length ids \<Longrightarrow> position ids (ids ! j) = Some j"
  using position_in[of "ids ! j" ids] position_Some[of ids "ids ! j"] nth_eq_iff_index_eq by fastforce

text \<open>A row of the join that leads from one of the nodes to a neighbour, and where it leads.\<close>

inductive joined_row :: "'e node_kind \<Rightarrow> uuid list \<Rightarrow> string list \<times> scanned list \<Rightarrow> uuid \<times> uuid \<Rightarrow> bool"
  for k ids where
  "p \<in> set ids \<Longrightarrow> ''id'' \<notin> set cols \<Longrightarrow>
     assignValues (nk_assign k) (''id'' # cols) (SUuid (Some r) # vs) (nk_zero k) = Inr n \<Longrightarrow>
     joined_row k ids (c # ''id'' # cols, SUuid (Some p) # SUuid (Some r) # vs) (p, r)"

inductive_cases joined_rowE: "joined_row k ids row (p, r)"

text \<open>The identifier of a node is what was assigned from its column, and nothing else.\<close>

locale identified =
  fixes k :: "'n node_kind"
  assumes assign_id: "nk_assign k ''id'' (SUuid (Some i)) n = Inr n' \<Longrightarrow> nk_id k n' = i"
    and assign_other: "c \<noteq> ''id'' \<Longrightarrow> nk_assign k c v n = Inr n' \<Longrightarrow> nk_id k n' = nk_id k n"
begin

lemma assign_columns_id:
  "assign_columns (nk_assign k) row n = Inr n' \<Longrightarrow> ''id'' \<notin> fst ` set row \<Longrightarrow> nk_id k n' = nk_id k n"
proof (induction row arbitrary: n)
  case (Cons cv row)
  obtain c v where cv: "cv = (c, v)" by (cases cv)
  obtain n1 where n1: "nk_assign k c v n = Inr n1" "assign_columns (nk_assign k) row n1 = Inr n'"
    using Cons.prems(1) cv by (auto split: sum.splits)
  have "nk_id k n' = nk_id k n1" using Cons.IH[OF n1(2)] Cons.prems(2) by simp
  moreover have "nk_id k n1 = nk_id k n" using Cons.prems(2) cv by (intro assign_other[OF _ n1(1)]) auto
  ultimately show ?case by simp
qed simp

lemma assigned_id:
  assumes "assignValues (nk_assign k) (''id'' # cols) (SUuid (Some i) # vs) n = Inr n'" "''id'' \<notin> set cols"
  shows "nk_id k n' = i"
proof -
  obtain n1 where n1: "nk_assign k ''id'' (SUuid (Some i)) n = Inr n1"
    "assign_columns (nk_assign k) (zip cols vs) n1 = Inr n'"
    using assms(1) by (auto simp: assignValues_def split: if_splits sum.splits)
  have "''id'' \<notin> fst ` set (zip cols vs)" using assms(2) by (auto dest: set_zip_leftD)
  then show ?thesis using assign_columns_id[OF n1(2)] assign_id[OF n1(1)] by simp
qed

definition collected :: "uuid list \<Rightarrow> (uuid \<times> uuid) set \<Rightarrow> (uuid \<rightharpoonup> nat option set) \<Rightarrow> 'n list \<Rightarrow> bool" where
  "collected ids P nids es = (distinct (map (nk_id k) es) \<and> nk_id k ` set es = snd ` P
     \<and> (\<forall>r. nids r = (if r \<in> snd ` P then Some {position ids p | p. (p, r) \<in> P} else None)))"

lemma load_rows_collects:
  assumes "list_all2 (joined_row k ids) rows prs" "collected ids P nids es"
  shows "\<exists>nids' es'. load_rows k ids rows (nids, es) = Ret (Inr (nids', es')) \<and> collected ids (P \<union> set prs) nids' es'"
  using assms
proof (induction rows prs arbitrary: P nids es rule: list_all2_induct)
  case (Cons row rows pr prs)
  obtain p r where pr: "pr = (p, r)" by (cases pr)
  obtain c cols vs n where row: "row = (c # ''id'' # cols, SUuid (Some p) # SUuid (Some r) # vs)" "''id'' \<notin> set cols"
    "assignValues (nk_assign k) (''id'' # cols) (SUuid (Some r) # vs) (nk_zero k) = Inr n"
    using Cons.hyps(1) pr by (auto elim: joined_rowE)
  have n: "nk_id k n = r" by (rule assigned_id[OF row(3,2)])
  have P: "P \<union> set (pr # prs) = insert (p, r) P \<union> set prs" by (simp add: pr)
  show ?case
  proof (cases "nids r")
    case None
    then have new: "r \<notin> snd ` P" using Cons.prems by (auto simp: collected_def split: if_splits)
    have "collected ids (insert (p, r) P) (nids(r \<mapsto> {position ids p})) (es @ [n])"
      using Cons.prems new n by (auto simp: collected_def image_iff split: if_splits)
    note Cons.IH[OF this]
    moreover have "load_rows k ids (row # rows) (nids, es) = load_rows k ids rows (nids(r \<mapsto> {position ids p}), es @ [n])"
      using None row(1,3) by simp
    ultimately show ?thesis unfolding P by presburger
  next
    case (Some ps)
    then have old: "r \<in> snd ` P" "ps = {position ids p | p. (p, r) \<in> P}"
      using Cons.prems by (auto simp: collected_def split: if_splits)
    have "collected ids (insert (p, r) P) (nids(r \<mapsto> insert (position ids p) ps)) es"
      using Cons.prems old by (auto simp: collected_def image_iff split: if_splits)
    note Cons.IH[OF this]
    moreover have "load_rows k ids (row # rows) (nids, es) = load_rows k ids rows (nids(r \<mapsto> insert (position ids p) ps), es)"
      using Some row(1) by simp
    ultimately show ?thesis unfolding P by presburger
  qed
qed (auto intro: exI)

lemma give_neighbours_all:
  assumes "\<forall>n \<in> set ns. \<exists>ps. nids (nk_id k n) = Some ps \<and> None \<notin> ps"
  shows "give_neighbours (nk_id k) nids edge ns given
    = Ret (Inr (\<lambda>j. given j @ filter (\<lambda>n. Some j \<in> the (nids (nk_id k n))) ns))"
  using assms
proof (induction ns arbitrary: given)
  case (Cons n ns)
  then show ?case by (fastforce simp: fun_eq_iff)
qed simp

lemma load_edge_exact:
  assumes "prepareQuery (\<lambda>f. f \<in> set (nk_columns k)) is (q_Where [InValues ''pod_resource'' column ids] q) = (None, q')"
    and "QueryNodes G (querySpec (nk_table k) (nk_columns k) q') d = Inr rows"
    and rows: "list_all2 (joined_row k ids) rows prs" and ids: "distinct ids"
  shows "\<exists>ess. load_edge G k edge column is Inr q ids d = Ret (Inr ess) \<and> length ess = length ids
    \<and> (\<forall>j < length ids. distinct (map (nk_id k) (ess ! j)) \<and> nk_id k ` set (ess ! j) = {r. (ids ! j, r) \<in> set prs})"
proof -
  have "collected ids {} Map.empty []" by (simp add: collected_def)
  from load_rows_collects[OF rows this] obtain nids es where
    l: "load_rows k ids rows (Map.empty, []) = Ret (Inr (nids, es))" "collected ids (set prs) nids es" by auto
  have es: "distinct (map (nk_id k) es)" "nk_id k ` set es = snd ` set prs" using l(2) by (simp_all add: collected_def)
  have nids: "nids (nk_id k n) = Some {position ids p | p. (p, nk_id k n) \<in> set prs}" if "n \<in> set es" for n
  proof -
    have "nk_id k n \<in> snd ` set prs" using that l(2) unfolding collected_def by blast
    then show ?thesis using l(2) unfolding collected_def by presburger
  qed
  have from_ids: "p \<in> set ids" if "(p, r) \<in> set prs" for p r
  proof -
    from that obtain i where "i < length prs" "prs ! i = (p, r)" by (auto simp: in_set_conv_nth)
    then have "joined_row k ids (rows ! i) (p, r)" using rows by (auto simp: list_all2_conv_all_nth)
    then show ?thesis by (auto elim: joined_rowE)
  qed
  let ?given = "\<lambda>j. filter (\<lambda>n. Some j \<in> the (nids (nk_id k n))) es"
  have "give_neighbours (nk_id k) nids edge es (\<lambda>_. []) = Ret (Inr (\<lambda>j. [] @ ?given j))"
    using nids position_in from_ids by (intro give_neighbours_all) fastforce
  then have e: "load_edge G k edge column is Inr q ids d = Ret (Inr (map ?given [0 ..< length ids]))"
    using assms(1,2) l(1) by (simp add: load_edge_def)
  have "nk_id k ` set (?given j) = {r. (ids ! j, r) \<in> set prs}" if j: "j < length ids" for j
  proof -
    have "Some j \<in> the (nids (nk_id k n)) \<longleftrightarrow> (ids ! j, nk_id k n) \<in> set prs" if "n \<in> set es" for n
      unfolding nids[OF that] option.sel mem_Collect_eq by (metis position_nth[OF ids j] position_Some)
    moreover have "r \<in> nk_id k ` set es" if "(ids ! j, r) \<in> set prs" for r
      using es that by (metis image_eqI snd_conv)
    ultimately show ?thesis by (auto simp: image_iff) (metis image_iff)
  qed
  moreover have "distinct (map (nk_id k) (?given j))" for j using es(1) by (rule distinct_map_filter)
  ultimately show ?thesis using e by simp
qed

end

interpretation pods: identified pods
  by unfold_locales (auto simp: pods_def pod_assign_def split: scanned.splits option.splits if_splits)

interpretation resources: identified resources
  by unfold_locales (auto simp: resources_def resource_assign_def split: scanned.splits option.splits if_splits)

text \<open>Without interceptors.\<close>

lemma prepareQuery_plain: "q_ctx (snd (prepareQuery valid [] q)) = q_ctx q"
  by (simp add: prepareQuery_def split: option.split sum.split)

text \<open>What reading all nodes comes to, with the query it leaves.\<close>

definition plain_All :: "'d sqlgraph \<Rightarrow> 'n node_kind \<Rightarrow> ent_error option \<times> 'w query \<Rightarrow> 'd \<Rightarrow> (ent_error + 'n list) \<times> 'w query" where
  "plain_All G k eq d = (case eq of
     (Some e, q') \<Rightarrow> (Inl e, q')
   | (None, q') \<Rightarrow> (case QueryNodes G (querySpec (nk_table k) (nk_columns k) q') d of
       Inl e \<Rightarrow> (Inl e, q') | Inr rows \<Rightarrow> (assign_rows k rows, q')))"

lemma q_All_plain:
  "is = [] \<Longrightarrow> q_All G k is a q d = plain_All G k (prepareQuery (\<lambda>f. f \<in> set (nk_columns k)) is (setContextOp a ''All'' q)) d"
proof -
  assume i: "is = []"
  obtain e q' where p: "prepareQuery (\<lambda>f. f \<in> set (nk_columns k)) is (setContextOp a ''All'' q) = (e, q')" by fastforce
  show ?thesis
  proof (cases e)
    case None
    show ?thesis
    proof (cases "QueryNodes G (querySpec (nk_table k) (nk_columns k) q') d")
      case (Inr rows)
      then show ?thesis using p None i
        by (cases "assign_rows k rows") (simp_all add: q_All_def plain_All_def withInterceptors_def sqlAll_def comp_def)
    qed (use p None i in \<open>simp add: q_All_def plain_All_def withInterceptors_def sqlAll_def\<close>)
  qed (use p in \<open>simp add: q_All_def plain_All_def\<close>)
qed

lemma q_All_limit: "is = [] \<Longrightarrow> qc_Limit (q_ctx (snd (q_All G k is a q d))) = qc_Limit (q_ctx q)"
proof -
  assume i: "is = []"
  obtain e q' where p: "prepareQuery (\<lambda>f. f \<in> set (nk_columns k)) is (setContextOp a ''All'' q) = (e, q')" by fastforce
  have "q_ctx q' = q_ctx (setContextOp a ''All'' q)" using prepareQuery_plain p i by (metis snd_conv)
  then show ?thesis unfolding q_All_plain[OF i] p
    by (simp add: plain_All_def setContextOp_def split: option.split sum.split)
qed

lemma q_limit_stays:
  assumes i: "is = []"
  shows "qc_Limit (q_ctx (snd (q_First G k is a q d))) = Some 1" "qc_Limit (q_ctx (snd (q_Only G k is a q d))) = Some 2"
proof -
  obtain r q' where 1: "q_All G k is True (setContextOp a ''First'' (q_Limit 1 q)) d = (r, q')" by fastforce
  have "qc_Limit (q_ctx q') = Some 1"
    using q_All_limit[OF i, of G k True "setContextOp a ''First'' (q_Limit 1 q)" d] unfolding 1 snd_conv
    by (simp add: setContextOp_def q_Limit_def)
  then show "qc_Limit (q_ctx (snd (q_First G k is a q d))) = Some 1"
    by (simp add: q_First_def 1 split: sum.split list.split)
  obtain r q' where 2: "q_All G k is True (setContextOp a ''Only'' (q_Limit 2 q)) d = (r, q')" by fastforce
  have "qc_Limit (q_ctx q') = Some 2"
    using q_All_limit[OF i, of G k True "setContextOp a ''Only'' (q_Limit 2 q)" d] unfolding 2 snd_conv
    by (simp add: setContextOp_def q_Limit_def)
  then show "qc_Limit (q_ctx (snd (q_Only G k is a q d))) = Some 2"
    by (simp add: q_Only_def 2 split: sum.split list.split)
qed

lemma q_IDs_fields:
  "is = [] \<Longrightarrow> qc_Fields (q_ctx (snd (q_IDs k is scan a q))) = qc_Fields (q_ctx q) @ [''id'']"
proof -
  assume i: "is = []"
  let ?q = "q_Select [''id''] (setContextOp a ''IDs'' (if qc_Unique (q_ctx q) = None \<and> q_path q \<noteq> None then q_Unique True q else q))"
  obtain e q' where p: "prepareQuery (\<lambda>f. f \<in> set (nk_columns k)) is ?q = (e, q')" by fastforce
  have "q_ctx q' = q_ctx ?q" using prepareQuery_plain p i by (metis snd_conv)
  then have f: "qc_Fields (q_ctx q') = qc_Fields (q_ctx q) @ [''id'']"
    by (simp add: q_Select_def setContextOp_def q_Unique_def)
  show ?thesis
    unfolding q_IDs_def Let_def p by (simp add: f split: option.split sum.split query_value.split)
qed

lemma assign_rows_length: "assign_rows k rows = Inr ns \<Longrightarrow> length ns = length rows"
proof (induction rows arbitrary: ns)
  case (Cons row rows)
  obtain cols vs where row: "row = (cols, vs)" by (cases row)
  obtain n where n: "assignValues (nk_assign k) cols vs (nk_zero k) = Inr n"
    using Cons.prems row by (cases "assignValues (nk_assign k) cols vs (nk_zero k)") simp_all
  then show ?case using Cons.prems Cons.IH row by (cases "assign_rows k rows") auto
qed simp

section \<open>Properties\<close>

text \<open>
  What the library documents: a node is inserted under the identifier it was given, and a query for an identifier finds
  the row it has, with the columns asked for; a query with a limit returns no more rows.
\<close>

definition scan_column :: "uuid \<Rightarrow> (string \<rightharpoonup> col_value) \<Rightarrow> string \<Rightarrow> scanned" where
  "scan_column i f c = (if c = ''id'' then SUuid (Some i)
     else (case f c of Some (VTime t) \<Rightarrow> SNullTime (Some t) | Some (VString s) \<Rightarrow> SNullString (Some s) | _ \<Rightarrow> SUnknown))"

definition keeps_rows :: "'d sqlgraph \<Rightarrow> ('d \<Rightarrow> string \<Rightarrow> uuid \<Rightarrow> (string \<rightharpoonup> col_value) option) \<Rightarrow> bool" where
  "keeps_rows G rows =
     ((\<forall>spec d v d' i. CreateNode G spec d = (Inr v, d') \<and> cs_OnConflict spec = [] \<and> cs_ID spec = Some i \<longrightarrow>
         v = UuidID i \<and> rows d' (cs_Table spec) i = Some (map_of (cs_Fields spec)))
      \<and> (\<forall>spec d i. qs_Predicate spec = [FieldEQ ''id'' (VUuid i)] \<and> qs_From spec = None \<and> qs_Offset spec = None
            \<and> qs_Limit spec = Some 2 \<and> qs_Modifiers spec = [] \<longrightarrow>
         QueryNodes G spec d = Inr (case rows d (qs_Table spec) i of None \<Rightarrow> []
           | Some f \<Rightarrow> [(qs_Columns spec, map (scan_column i f) (qs_Columns spec))])))"

definition limits_rows :: "'d sqlgraph \<Rightarrow> bool" where
  "limits_rows G = (\<forall>spec d rows n. QueryNodes G spec d = Inr rows \<and> qs_Limit spec = Some n \<longrightarrow> length rows \<le> nat n)"

text \<open>A database in which rows are kept in a list, the last inserted first, and the pairs of the join table in another.\<close>

type_synonym demo_db = "(string \<times> uuid \<times> (string \<times> col_value) list) list \<times> (uuid \<times> uuid) list"

fun demo_stored :: "demo_db \<Rightarrow> string \<Rightarrow> uuid \<Rightarrow> (string \<rightharpoonup> col_value) option" where
  "demo_stored ([], js) t i = None"
| "demo_stored ((t', i', f) # rs, js) t i = (if t' = t \<and> i' = i then Some (map_of f) else demo_stored (rs, js) t i)"

definition demo_row :: "demo_db \<Rightarrow> string \<Rightarrow> string list \<Rightarrow> uuid \<Rightarrow> (string list \<times> scanned list) list" where
  "demo_row db t columns i = (case demo_stored db t i of None \<Rightarrow> [] | Some f \<Rightarrow> [(columns, map (scan_column i f) columns)])"

definition demo_rows :: "query_spec \<Rightarrow> demo_db \<Rightarrow> (string list \<times> scanned list) list" where
  "demo_rows spec db = (case qs_Predicate spec of
     [FieldEQ c (VUuid i)] \<Rightarrow> demo_row db (qs_Table spec) (qs_Columns spec) i
   | [InValues t c ids] \<Rightarrow> concat (map (\<lambda>(p, r). map (\<lambda>(cs, vs). (c # cs, SUuid (Some p) # vs)) (demo_row db (qs_Table spec) (qs_Columns spec) r))
       (filter (\<lambda>(p, r). p \<in> set ids) (snd db)))
   | _ \<Rightarrow> concat (map (\<lambda>(t, i, f). if t = qs_Table spec then demo_row db t (qs_Columns spec) i else []) (fst db)))"

definition demo_graph :: "demo_db sqlgraph" where
  "demo_graph = \<lparr>
     CreateNode = (\<lambda>spec db. case cs_ID spec of None \<Rightarrow> (Inl (DriverError ''no id''), db)
       | Some i \<Rightarrow> (Inr (UuidID i), ((cs_Table spec, i, cs_Fields spec) # fst db, snd db))),
     BatchCreate = (\<lambda>specs conflict db. (None, db)), UpdateNodes = (\<lambda>spec db. (Inr 0, db)),
     UpdateNode = (\<lambda>spec db. (Inl (GraphNotFoundError ''not found''), db)), DeleteNodes = (\<lambda>t ps db. ((0, None), db)),
     QueryNodes = (\<lambda>spec db. Inr ((case qs_Limit spec of None \<Rightarrow> id | Some n \<Rightarrow> take (nat n)) (demo_rows spec db))),
     CountNodes = (\<lambda>spec db. Inr 0), constraint_error = (\<lambda>e. False), scan_uuid = Inr\<rparr>"

lemma demo_graph_laws: "keeps_rows demo_graph demo_stored" "limits_rows demo_graph"
  by (auto simp: keeps_rows_def limits_rows_def demo_graph_def demo_rows_def demo_row_def split: option.splits)

text \<open>
  (C33) What is created can be found: the pod a builder returns when it is saved has the name and the resource it was given,
  the time and the identifier it was given or the defaults, and reading the pod with its identifier returns the same.
\<close>

theorem created_pod_found:
  assumes "keeps_rows G rows" "pod_Save G t i [] [] m d = (Inr p, m', d')"
  shows "client_Get G pods ([] :: ('w, ent_pod, 'e) interceptor option list) (ep_ID p) d' = Inr p
    \<and> pm_name m = Some (ep_Name p) \<and> pm_resource_id m = Some (ep_ResourceID p)
    \<and> ep_CreatedAt p = (case pm_created_at m of None \<Rightarrow> t | Some t' \<Rightarrow> t')
    \<and> ep_ID p = (case m_id m of None \<Rightarrow> i | Some j \<Rightarrow> j) \<and> m_done m'"
proof -
  let ?m = "pod_defaults t i m"
  have def: "pm_name ?m = pm_name m" "pm_resource_id ?m = pm_resource_id m"
    "pm_created_at ?m = Some (case pm_created_at m of None \<Rightarrow> t | Some t' \<Rightarrow> t')"
    "m_id ?m = Some (case m_id m of None \<Rightarrow> i | Some j \<Rightarrow> j)"
    by (auto simp: pod_defaults_def Let_def)
  have save: "pod_sqlSave G [] ?m d = (Inr p, m', d')" using assms(2) by (simp add: pod_Save_def withHooks_def)
  then have check: "pod_check ?m = None" by (cases "pod_check ?m") (auto simp: pod_sqlSave_def)
  obtain name res where m: "pm_name m = Some name" "pm_resource_id m = Some res"
    using check def by (auto simp: pod_check_def split: if_splits)
  let ?t = "case pm_created_at m of None \<Rightarrow> t | Some t' \<Rightarrow> t'" and ?i = "case m_id m of None \<Rightarrow> i | Some j \<Rightarrow> j"
  obtain node spec where s: "pod_createSpec [] ?m = (node, spec)" by fastforce
  have spec: "node = \<lparr>ep_ID = ?i, ep_CreatedAt = ?t, ep_Name = name, ep_ResourceID = res\<rparr>"
    "cs_Table spec = ''pods''" "cs_ID spec = Some ?i" "cs_OnConflict spec = []"
    "cs_Fields spec = [(''created_at'', VTime ?t), (''name'', VString name), (''resource_id'', VString res)]"
    using s def m by (auto simp: pod_createSpec_def)
  obtain v where v: "CreateNode G spec d = (Inr v, d')" "created_id G ?i v = Inr (ep_ID p)" "p = node\<lparr>ep_ID := ep_ID p\<rparr>" "m_done m'"
    using save check s spec(1) by (auto simp: pod_sqlSave_def split: prod.splits sum.splits)
  then have r: "v = UuidID ?i" "rows d' ''pods'' ?i = Some (map_of (cs_Fields spec))"
    using assms(1) spec(2-4) unfolding keeps_rows_def by metis+
  then have p: "p = node" using v(2,3) spec(1) by (simp add: created_id_def)
  let ?q = "setContextOp True ''All'' (setContextOp False ''Only'' (q_Limit 2 (q_Where [FieldEQ ''id'' (VUuid ?i)] (new_query :: 'w query))))"
  let ?spec = "querySpec ''pods'' pod_Columns ?q"
  have q: "qs_Predicate ?spec = [FieldEQ ''id'' (VUuid ?i)]" "qs_From ?spec = None" "qs_Offset ?spec = None"
    "qs_Limit ?spec = Some 2" "qs_Modifiers ?spec = []" "qs_Table ?spec = ''pods''" "qs_Columns ?spec = pod_Columns"
    by (simp_all add: querySpec_def setContextOp_def q_Limit_def q_Where_def new_query_def)
  have "QueryNodes G ?spec d' = Inr (case rows d' (qs_Table ?spec) ?i of None \<Rightarrow> []
      | Some f \<Rightarrow> [(qs_Columns ?spec, map (scan_column ?i f) (qs_Columns ?spec))])"
    using assms(1) q(1-5) unfolding keeps_rows_def by blast
  then have "QueryNodes G ?spec d' = Inr [(pod_Columns, map (scan_column ?i (map_of (cs_Fields spec))) pod_Columns)]"
    by (simp only: q r(2) option.case)
  moreover have "assignValues pod_assign pod_Columns (map (scan_column ?i (map_of (cs_Fields spec))) pod_Columns) no_pod = Inr node"
    by (simp add: assignValues_def pod_Columns_def scan_column_def pod_assign_def spec(1,5) no_pod_def)
  moreover have "prepareQuery (\<lambda>f. f \<in> set pod_Columns) ([] :: ('w, ent_pod, 'e) interceptor option list) ?q = (None, ?q)"
    by (simp add: prepareQuery_def setContextOp_def q_Limit_def q_Where_def new_query_def)
  ultimately have "client_Get G pods ([] :: ('w, ent_pod, 'e) interceptor option list) ?i d' = Inr node"
    by (simp add: client_Get_def q_Only_def q_All_def withInterceptors_def sqlAll_def pods_def)
  then show ?thesis using p spec(1) m v(4) by simp
qed

theorem created_pod_found_witness:
  "\<exists>p m d. pod_Save demo_graph 7 ''u'' [] [] ((newPodMutation {OpCreate})\<lparr>pm_name := Some ''f-1'', pm_resource_id := Some ''g''\<rparr>) ([], []) = (Inr p, m, d)
     \<and> client_Get demo_graph pods [] ''u'' d = Inr p \<and> ep_Name p = ''f-1''"
proof -
  let ?m = "(newPodMutation {OpCreate})\<lparr>pm_name := Some ''f-1'', pm_resource_id := Some ''g''\<rparr>"
  obtain p m d where s: "pod_Save demo_graph 7 ''u'' [] [] ?m ([], []) = (Inr p, m, d)"
    by (simp add: pod_Save_def withHooks_def pod_defaults_def newPodMutation_def pod_sqlSave_def pod_check_def pod_createSpec_def
        demo_graph_def created_id_def)
  from created_pod_found[OF demo_graph_laws(1) s] s show ?thesis by (auto simp: newPodMutation_def)
qed

text \<open>
  (C38) A query can be used once: reading the first node or the only one sets a limit that stays, so that all nodes of the
  same query are at most one, or two, afterwards, however many there are; and reading the identifiers selects their column
  for good, so that later nodes come without their other columns.
\<close>

theorem query_reuse_truncates:
  assumes "limits_rows G"
    and "q' = snd (q_First G k [] a q d) \<and> n = 1 \<or> q' = snd (q_Only G k [] a q d) \<and> n = 2"
    and "fst (q_All G k ([] :: ('w, 'n, 'e) interceptor option list) b q' d') = Inr ns"
  shows "length ns \<le> n
    \<and> (qc_Fields (q_ctx q) = [] \<longrightarrow> qs_Columns (querySpec table columns (snd (q_IDs k [] scan a q))) = [''id''])"
proof -
  have l: "qc_Limit (q_ctx q') = Some (int n)" using assms(2) q_limit_stays[OF refl, of G k a q d] by auto
  note all = assms(3)[unfolded q_All_plain[OF refl]]
  obtain e q2 where p: "prepareQuery (\<lambda>f. f \<in> set (nk_columns k)) ([] :: ('w, 'n, 'e) interceptor option list) (setContextOp b ''All'' q') = (e, q2)"
    by fastforce
  then have e: "e = None" using all by (cases e) (simp_all add: plain_All_def)
  then obtain rows where rows: "QueryNodes G (querySpec (nk_table k) (nk_columns k) q2) d' = Inr rows" "assign_rows k rows = Inr ns"
    using all p by (cases "QueryNodes G (querySpec (nk_table k) (nk_columns k) q2) d'") (simp_all add: plain_All_def)
  have "q_ctx q2 = q_ctx (setContextOp b ''All'' q')" using prepareQuery_plain p by (metis snd_conv)
  then have "qs_Limit (querySpec (nk_table k) (nk_columns k) q2) = Some (int n)" using l by (simp add: querySpec_def setContextOp_def)
  then have "length rows \<le> n" using assms(1) rows(1) unfolding limits_rows_def by fastforce
  then show ?thesis using assign_rows_length[OF rows(2)] by (simp add: querySpec_def q_IDs_fields)
qed

text \<open>Two pods, with a resource that both use and another of the first.\<close>

definition demo_pod_row :: "string \<Rightarrow> string \<times> uuid \<times> (string \<times> col_value) list" where
  "demo_pod_row i = (''pods'', i, [(''created_at'', VTime 7), (''name'', VString ''f''), (''resource_id'', VString ''g'')])"

definition demo_resource :: "string \<Rightarrow> string \<times> uuid \<times> (string \<times> col_value) list" where
  "demo_resource i = (''resources'', i, [(''created_at'', VTime 7), (''node_name'', VString ''n'')])"

definition demo_database :: demo_db where
  "demo_database = ([demo_pod_row ''u'', demo_pod_row ''v'', demo_resource ''r'', demo_resource ''s''],
     [(''u'', ''r''), (''u'', ''s''), (''v'', ''r'')])"

definition demo_ent_pod :: "string \<Rightarrow> ent_pod" where
  "demo_ent_pod i = \<lparr>ep_ID = i, ep_CreatedAt = 7, ep_Name = ''f'', ep_ResourceID = ''g''\<rparr>"

lemmas demo_defs = demo_graph_def demo_rows_def demo_row_def demo_database_def demo_pod_row_def demo_resource_def demo_ent_pod_def
  querySpec_def q_Where_def new_query_def pods_def pod_Columns_def scan_column_def
  assignValues_def pod_assign_def no_pod_def

lemma demo_pods:
  "QueryNodes demo_graph (querySpec ''pods'' pod_Columns (new_query :: 'w query)) demo_database
     = Inr (map (\<lambda>i. (pod_Columns, map (scan_column i (map_of (snd (snd (demo_pod_row i))))) pod_Columns)) [''u'', ''v''])"
  by (simp add: demo_defs)

lemma demo_pods_assigned:
  "assign_rows pods (map (\<lambda>i. (pod_Columns, map (scan_column i (map_of (snd (snd (demo_pod_row i))))) pod_Columns)) [''u'', ''v''])
     = Inr [demo_ent_pod ''u'', demo_ent_pod ''v'']"
  by (simp add: demo_defs)

theorem query_reuse_truncates_witness:
  "\<exists>ns. fst (q_All demo_graph pods ([] :: (unit, ent_pod, unit) interceptor option list) False
        (snd (q_First demo_graph pods ([] :: (unit, ent_pod, unit) interceptor option list) False new_query demo_database)) demo_database)
      = Inr ns \<and> length ns \<le> 1"
proof -
  let ?is = "[] :: (unit, ent_pod, unit) interceptor option list"
  obtain ns where ns: "fst (q_All demo_graph pods ?is False (snd (q_First demo_graph pods ?is False new_query demo_database)) demo_database) = Inr ns"
    by (simp add: q_All_def q_First_def prepareQuery_def setContextOp_def q_Limit_def withInterceptors_def sqlAll_def demo_defs)
  have "length ns \<le> 1" by (rule query_reuse_truncates[OF demo_graph_laws(2) disjI1[OF conjI[OF refl refl]] ns, THEN conjunct1])
  then show ?thesis using ns by blast
qed

text \<open>
  (C34) Loading an edge loads that edge and nothing else: a query for pods that loads their resources returns the pods as
  they are without it, each with the resources that the join table relates it to, every one once, whatever the order of the rows
  and however many pods share a resource.
\<close>

theorem eager_loading_exact:
  assumes "QueryNodes G (querySpec ''pods'' pod_Columns q) d = Inr rows" "assign_rows pods rows = Inr ns" "distinct (map ep_ID ns)"
    and "prepareQuery (\<lambda>f. f \<in> set resource_Columns) is (q_Where [InValues ''pod_resource'' ''pod_id'' (map ep_ID ns)] w) = (None, w')"
    and "QueryNodes G (querySpec ''resources'' resource_Columns w') d = Inr jrows"
    and "list_all2 (joined_row resources (map ep_ID ns)) jrows prs"
  shows "\<exists>res. pods_with_resources G is Inr w q d = Ret (Inr res) \<and> map fst res = ns
    \<and> (\<forall>(p, l) \<in> set res. \<exists>es. l = Some es \<and> distinct (map er_ID es) \<and> er_ID ` set es = {r. (ep_ID p, r) \<in> set prs})"
proof (cases "ns = []")
  case True
  then show ?thesis using assms(1,2) by (simp add: pods_with_resources_def sqlAll_with_def pods_def)
next
  case False
  have r: "nk_table resources = ''resources''" "nk_columns resources = resource_Columns" "nk_id resources = er_ID"
    by (simp_all add: resources_def)
  from resources.load_edge_exact[unfolded r, OF assms(4-6,3)] obtain ess where
    ess: "load_edge G resources ''resource'' ''pod_id'' is Inr w (map ep_ID ns) d = Ret (Inr ess)" "length ess = length ns"
      "\<forall>j < length ns. distinct (map er_ID (ess ! j)) \<and> er_ID ` set (ess ! j) = {r. (ep_ID (ns ! j), r) \<in> set prs}"
    by fastforce
  have "pods_with_resources G is Inr w q d = Ret (Inr (zip ns (map Some ess)))"
    using assms(1,2) False ess(1) by (simp add: pods_with_resources_def sqlAll_with_def pods_def)
  moreover have "\<exists>es. l = Some es \<and> distinct (map er_ID es) \<and> er_ID ` set es = {r. (ep_ID p, r) \<in> set prs}"
    if "(p, l) \<in> set (zip ns (map Some ess))" for p l
    using that ess(2,3) by (auto simp: set_zip)
  ultimately show ?thesis using ess(2) by auto
qed

theorem eager_loading_exact_witness:
  "\<exists>a b. pods_with_resources demo_graph ([] :: (unit, ent_resource, unit) interceptor option list) Inr (new_query :: unit query) (new_query :: unit query) demo_database
      = Ret (Inr [(demo_ent_pod ''u'', Some a), (demo_ent_pod ''v'', Some b)])
    \<and> er_ID ` set a = {''r'', ''s''} \<and> er_ID ` set b = {''r''} \<and> distinct (map er_ID a)"
proof -
  let ?row = "\<lambda>p r. (''pod_id'' # resource_Columns,
    SUuid (Some p) # map (scan_column r (map_of (snd (snd (demo_resource r))))) resource_Columns)"
  let ?ns = "[demo_ent_pod ''u'', demo_ent_pod ''v'']" and ?prs = "[(''u'', ''r''), (''u'', ''s''), (''v'', ''r'')]"
  have ids: "map ep_ID ?ns = [''u'', ''v'']" "distinct (map ep_ID ?ns)" by (simp_all add: demo_ent_pod_def)
  let ?w = "q_Where [InValues ''pod_resource'' ''pod_id'' (map ep_ID ?ns)] (new_query :: unit query)"
  have w: "prepareQuery (\<lambda>f. f \<in> set resource_Columns) ([] :: (unit, ent_resource, unit) interceptor option list) ?w = (None, ?w)"
    by (simp add: prepareQuery_def q_Where_def new_query_def)
  have j: "QueryNodes demo_graph (querySpec ''resources'' resource_Columns ?w) demo_database
      = Inr (map (\<lambda>(p, r). ?row p r) ?prs)"
    by (simp add: demo_defs)
  have row: "joined_row resources (map ep_ID ?ns) (?row p r) (p, r)" if "p \<in> set (map ep_ID ?ns)" for p r
    using that by (auto simp: resource_Columns_def scan_column_def demo_resource_def resources_def resource_assign_def
        assignValues_def no_resource_def intro!: joined_row.intros)
  have "joined_row resources (map ep_ID ?ns) (case x of (p, r) \<Rightarrow> ?row p r) x" if x: "x \<in> set ?prs" for x
  proof -
    obtain p r where pr: "x = (p, r)" by (cases x)
    have "p \<in> set (map ep_ID ?ns)" using x unfolding pr ids(1) by auto
    then show ?thesis unfolding pr prod.case by (rule row)
  qed
  then have "list_all2 (joined_row resources (map ep_ID ?ns)) (map (\<lambda>(p, r). ?row p r) ?prs) ?prs"
    unfolding list_all2_map1 by (rule list.rel_refl_strong)
  from eager_loading_exact[OF demo_pods demo_pods_assigned ids(2) w j this] obtain res where
    all: "pods_with_resources demo_graph ([] :: (unit, ent_resource, unit) interceptor option list) Inr (new_query :: unit query) (new_query :: unit query) demo_database = Ret (Inr res)
      \<and> map fst res = ?ns
      \<and> (\<forall>(p, l) \<in> set res. \<exists>es. l = Some es \<and> distinct (map er_ID es) \<and> er_ID ` set es = {r. (ep_ID p, r) \<in> set ?prs})"
    by (rule exE)
  note res = conjunct1[OF all] conjunct1[OF conjunct2[OF all]] conjunct2[OF conjunct2[OF all]]
  obtain la lb where l: "res = [(demo_ent_pod ''u'', la), (demo_ent_pod ''v'', lb)]" using res(2) by (auto simp: map_eq_Cons_conv)
  have e: "\<exists>es. t = Some es \<and> distinct (map er_ID es) \<and> er_ID ` set es = {r. (ep_ID p, r) \<in> set ?prs}"
    if "(p, t) \<in> set res" for p t using bspec[OF res(3) that] by (simp only: prod.case)
  obtain a where a: "la = Some a" "distinct (map er_ID a)" "er_ID ` set a = {r. (ep_ID (demo_ent_pod ''u''), r) \<in> set ?prs}"
    using e[of "demo_ent_pod ''u''" la] l by (metis list.set_intros(1))
  obtain b where b: "lb = Some b" "er_ID ` set b = {r. (ep_ID (demo_ent_pod ''v''), r) \<in> set ?prs}"
    using e[of "demo_ent_pod ''v''" lb] l by (metis list.set_intros)
  have "er_ID ` set a = {''r'', ''s''}" "er_ID ` set b = {''r''}" unfolding a(3) b(2) by (auto simp: demo_ent_pod_def)
  then show ?thesis using res(1) l a b(1) by blast
qed

end
