(* ===== verification/Ent_Tx.thy ===== *)
theory Ent_Tx
  imports Ent_Types
begin

text \<open>
  Transactions (\<open>tx.go\<close>, \<open>tx_wrap.go\<close>, and opening a database and beginning a transaction in \<open>client.go\<close>). The driver of the
  database is a parameter, over a state of the database. A function that runs in a transaction, and the hooks that it registers,
  may return or panic; a hook that is running registers none itself.
\<close>

section \<open>The driver\<close>

datatype 'r outcome = Returned 'r | Panics string

text \<open>Beginning with options, if there are any, and without; committing and rolling back.\<close>

record ('o, 'd) tx_driver =
  drv_BeginTx :: "'o option \<Rightarrow> 'd \<Rightarrow> ent_error option \<times> 'd"
  drv_Tx :: "'d \<Rightarrow> ent_error option \<times> 'd"
  drv_Commit :: "'d \<Rightarrow> ent_error option \<times> 'd"
  drv_Rollback :: "'d \<Rightarrow> ent_error option \<times> 'd"

type_synonym 'd committer = "'d \<Rightarrow> ent_error option outcome \<times> 'd"

text \<open>A transaction: the state of the database it has come to, and its hooks.\<close>

record 'd tx =
  tx_db :: 'd
  onCommit :: "('d committer \<Rightarrow> 'd committer) list"
  onRollback :: "('d committer \<Rightarrow> 'd committer) list"

definition new_tx :: "'d \<Rightarrow> 'd tx" where
  "new_tx d = \<lparr>tx_db = d, onCommit = [], onRollback = []\<rparr>"

definition OnCommit :: "('d committer \<Rightarrow> 'd committer) \<Rightarrow> 'd tx \<Rightarrow> 'd tx" where
  "OnCommit f tx = tx\<lparr>onCommit := onCommit tx @ [f]\<rparr>"

definition OnRollback :: "('d committer \<Rightarrow> 'd committer) \<Rightarrow> 'd tx \<Rightarrow> 'd tx" where
  "OnRollback f tx = tx\<lparr>onRollback := onRollback tx @ [f]\<rparr>"

text \<open>The first hook registered is the outermost.\<close>

definition tx_Commit :: "('o, 'd) tx_driver \<Rightarrow> 'd tx \<Rightarrow> ent_error option outcome \<times> 'd" where
  "tx_Commit D tx = foldr (\<lambda>h fn. h fn) (onCommit tx) (\<lambda>d. apfst Returned (drv_Commit D d)) (tx_db tx)"

definition tx_Rollback :: "('o, 'd) tx_driver \<Rightarrow> 'd tx \<Rightarrow> ent_error option outcome \<times> 'd" where
  "tx_Rollback D tx = foldr (\<lambda>h fn. h fn) (onRollback tx) (\<lambda>d. apfst Returned (drv_Rollback D d)) (tx_db tx)"

section \<open>The client\<close>

text \<open>What a builder may do with the driver of a transaction in place of that of the database: nothing happens.\<close>

definition txDriver_Commit :: "'d \<Rightarrow> ent_error option \<times> 'd" where
  "txDriver_Commit d = (None, d)"

definition txDriver_Rollback :: "'d \<Rightarrow> ent_error option \<times> 'd" where
  "txDriver_Rollback d = (None, d)"

definition ErrTxStarted :: ent_error where
  "ErrTxStarted = EntError ''ent: cannot start a transaction within a transaction''"

text \<open>Beginning a transaction with a client, which may be one of a transaction itself.\<close>

definition started :: "ent_error option \<times> 'd \<Rightarrow> (ent_error + 'd tx) \<times> 'd" where
  "started r = (case r of
     (Some e, d) \<Rightarrow> (Inl (Wrapped ''ent: starting a transaction: '' e []), d)
   | (None, d) \<Rightarrow> (Inr (new_tx d), d))"

definition BeginTx :: "('o, 'd) tx_driver \<Rightarrow> bool \<Rightarrow> 'o option \<Rightarrow> 'd \<Rightarrow> (ent_error + 'd tx) \<times> 'd" where
  "BeginTx D in_tx opts d = (if in_tx then (Inl ErrTxStarted, d) else started (drv_BeginTx D opts d))"

definition client_Tx :: "('o, 'd) tx_driver \<Rightarrow> bool \<Rightarrow> 'd \<Rightarrow> (ent_error + 'd tx) \<times> 'd" where
  "client_Tx D in_tx d = (if in_tx then (Inl ErrTxStarted, d) else started (drv_Tx D d))"

text \<open>Opening: the driver of the library, if the database is one of those supported.\<close>

definition ent_Open :: "(string \<Rightarrow> string \<Rightarrow> ent_error + 'c) \<Rightarrow> string \<Rightarrow> string \<Rightarrow> ent_error + 'c" where
  "ent_Open sql_Open name source =
     (if name \<in> {''mysql'', ''postgres'', ''sqlite3''} then sql_Open name source
      else Inl (EntError (''unsupported driver: '' @ [CHR 0x22] @ name @ [CHR 0x22])))"

section \<open>Running a function in a transaction\<close>

text \<open>What a function does with a transaction: its value and its error, if it returns, and the transaction it leaves.\<close>

type_synonym ('d, 'r) tx_function = "'d tx \<Rightarrow> ('r \<times> ent_error option) outcome \<times> 'd tx"

text \<open>A panic rolls the transaction back and goes on, unless rolling back panics itself.\<close>

definition recovered :: "('o, 'd) tx_driver \<Rightarrow> string \<Rightarrow> 'd tx \<Rightarrow> ('r \<times> ent_error option) outcome \<times> 'd" where
  "recovered D v tx = (case tx_Rollback D tx of (Panics w, d) \<Rightarrow> (Panics w, d) | (Returned _, d) \<Rightarrow> (Panics v, d))"

definition finish :: "('o, 'd) tx_driver \<Rightarrow> ('r \<times> ent_error option) outcome \<Rightarrow> 'd tx \<Rightarrow> ('r \<times> ent_error option) outcome \<times> 'd" where
  "finish D out tx = (case out of
     Panics v \<Rightarrow> recovered D v tx
   | Returned (r, Some e) \<Rightarrow> (case tx_Rollback D tx of
         (Panics v, d) \<Rightarrow> recovered D v (tx\<lparr>tx_db := d\<rparr>)
       | (Returned None, d) \<Rightarrow> (Returned (r, Some e), d)
       | (Returned (Some re), d) \<Rightarrow> (Returned (r, Some (Wrapped [] e ('': rolling back transaction: '' @ ent_Error re))), d))
   | Returned (r, None) \<Rightarrow> (case tx_Commit D tx of
         (Panics v, d) \<Rightarrow> recovered D v (tx\<lparr>tx_db := d\<rparr>)
       | (Returned None, d) \<Rightarrow> (Returned (r, None), d)
       | (Returned (Some ce), d) \<Rightarrow> (Returned (r, Some (Wrapped ''committing transaction: '' ce [])), d)))"

definition wrapTxWithOptions ::
  "('o, 'd) tx_driver \<Rightarrow> bool \<Rightarrow> 'o option \<Rightarrow> 'r \<Rightarrow> ('d, 'r) tx_function \<Rightarrow> 'd \<Rightarrow> ('r \<times> ent_error option) outcome \<times> 'd" where
  "wrapTxWithOptions D in_tx opts zero fn d = (case BeginTx D in_tx opts d of
     (Inl e, d') \<Rightarrow> (Returned (zero, Some e), d')
   | (Inr tx, d') \<Rightarrow> (case fn tx of (out, tx') \<Rightarrow> finish D out tx'))"

text \<open>The transaction of the context is used, where there is one; it stays open.\<close>

definition TxWrapWithOptions ::
  "('o, 'd) tx_driver \<Rightarrow> 'd tx option \<Rightarrow> bool \<Rightarrow> 'o option \<Rightarrow> 'r \<Rightarrow> ('d, 'r) tx_function \<Rightarrow> 'd \<Rightarrow>
    ('r \<times> ent_error option) outcome \<times> 'd \<times> 'd tx option" where
  "TxWrapWithOptions D attached in_tx opts zero fn d = (case attached of
     None \<Rightarrow> (case wrapTxWithOptions D in_tx opts zero fn d of (r, d') \<Rightarrow> (r, d', None))
   | Some tx \<Rightarrow> (if opts \<noteq> None
       then (Returned (zero, Some (EntError ''cannot create new transaction with options, transaction already exists'')), d, Some tx)
       else (case fn tx of (r, tx') \<Rightarrow> (r, tx_db tx', Some tx'))))"

definition TxWrap ::
  "('o, 'd) tx_driver \<Rightarrow> 'd tx option \<Rightarrow> bool \<Rightarrow> 'r \<Rightarrow> ('d, 'r) tx_function \<Rightarrow> 'd \<Rightarrow> ('r \<times> ent_error option) outcome \<times> 'd \<times> 'd tx option" where
  "TxWrap D attached in_tx zero fn d = TxWrapWithOptions D attached in_tx None zero fn d"

text \<open>The wrappers for functions that return an error alone.\<close>

definition error_of :: "('r \<times> ent_error option) outcome \<Rightarrow> ent_error option outcome" where
  "error_of r = (case r of Returned (v, e) \<Rightarrow> Returned e | Panics v \<Rightarrow> Panics v)"

definition as_any :: "('d tx \<Rightarrow> ent_error option outcome \<times> 'd tx) \<Rightarrow> ('d, unit) tx_function" where
  "as_any fn tx = (case fn tx of (Returned e, tx') \<Rightarrow> (Returned ((), e), tx') | (Panics v, tx') \<Rightarrow> (Panics v, tx'))"

definition TxWrapErrorWithOptions ::
  "('o, 'd) tx_driver \<Rightarrow> 'd tx option \<Rightarrow> bool \<Rightarrow> 'o option \<Rightarrow> ('d tx \<Rightarrow> ent_error option outcome \<times> 'd tx) \<Rightarrow> 'd \<Rightarrow>
    ent_error option outcome \<times> 'd \<times> 'd tx option" where
  "TxWrapErrorWithOptions D attached in_tx opts fn d = apfst error_of (TxWrapWithOptions D attached in_tx opts () (as_any fn) d)"

definition TxWrapError ::
  "('o, 'd) tx_driver \<Rightarrow> 'd tx option \<Rightarrow> bool \<Rightarrow> ('d tx \<Rightarrow> ent_error option outcome \<times> 'd tx) \<Rightarrow> 'd \<Rightarrow>
    ent_error option outcome \<times> 'd \<times> 'd tx option" where
  "TxWrapError D attached in_tx fn d = apfst error_of (TxWrap D attached in_tx () (as_any fn) d)"

section \<open>All or nothing\<close>

text \<open>
  What the library documents, for what others see of the database and what the transaction would leave of it: beginning changes
  neither, committing without an error makes the second the first, and nothing else changes the first.
\<close>

definition commits :: "('d \<Rightarrow> 's) \<Rightarrow> ('d \<Rightarrow> 's) \<Rightarrow> 'd committer \<Rightarrow> bool" where
  "commits seen pending c =
     (\<forall>d. seen (snd (c d)) = (if fst (c d) = Returned None then pending d else seen d))"

definition keeps_seen :: "('d \<Rightarrow> 's) \<Rightarrow> 'd committer \<Rightarrow> bool" where
  "keeps_seen seen c = (\<forall>d. seen (snd (c d)) = seen d)"

definition transactional :: "('o, 'd) tx_driver \<Rightarrow> ('d \<Rightarrow> 's) \<Rightarrow> ('d \<Rightarrow> 's) \<Rightarrow> bool" where
  "transactional D seen pending =
     ((\<forall>opts d. seen (snd (drv_BeginTx D opts d)) = seen d
         \<and> (fst (drv_BeginTx D opts d) = None \<longrightarrow> pending (snd (drv_BeginTx D opts d)) = seen d))
      \<and> (\<forall>d. seen (snd (drv_Commit D d)) = (if fst (drv_Commit D d) = None then pending d else seen d))
      \<and> (\<forall>d. seen (snd (drv_Rollback D d)) = seen d))"

text \<open>A hook that reports what the rest does: it may fail before, and may not hide an error or make one up after.\<close>

definition reports :: "('d \<Rightarrow> 's) \<Rightarrow> ('d \<Rightarrow> 's) \<Rightarrow> 'd tx \<Rightarrow> bool" where
  "reports seen pending tx =
     ((\<forall>h \<in> set (onCommit tx). \<forall>c. commits seen pending c \<longrightarrow> commits seen pending (h c))
      \<and> (\<forall>h \<in> set (onRollback tx). \<forall>c. keeps_seen seen c \<longrightarrow> keeps_seen seen (h c)))"

lemma foldr_keeps: "\<forall>h \<in> set hs. \<forall>c. P c \<longrightarrow> P (h c) \<Longrightarrow> P c \<Longrightarrow> P (foldr (\<lambda>h fn. h fn) hs c)"
  by (induction hs) auto

lemma tx_Commit_commits:
  assumes "transactional D seen pending" "reports seen pending tx" "tx_Commit D tx = (r, d)"
  shows "seen d = (if r = Returned None then pending (tx_db tx) else seen (tx_db tx))"
proof -
  have "commits seen pending (foldr (\<lambda>h fn. h fn) (onCommit tx) (\<lambda>d. apfst Returned (drv_Commit D d)))"
  proof (rule foldr_keeps[where P = "commits seen pending"])
    show "commits seen pending (\<lambda>d. apfst Returned (drv_Commit D d))" using assms(1) by (simp add: commits_def transactional_def)
  qed (use assms(2) in \<open>simp add: reports_def\<close>)
  from this[unfolded commits_def, rule_format, of "tx_db tx"] show ?thesis using assms(3) by (simp add: tx_Commit_def)
qed

lemma tx_Rollback_keeps:
  assumes "transactional D seen pending" "reports seen pending tx" "tx_Rollback D tx = (r, d)"
  shows "seen d = seen (tx_db tx)"
proof -
  have "keeps_seen seen (foldr (\<lambda>h fn. h fn) (onRollback tx) (\<lambda>d. apfst Returned (drv_Rollback D d)))"
  proof (rule foldr_keeps[where P = "keeps_seen seen"])
    show "keeps_seen seen (\<lambda>d. apfst Returned (drv_Rollback D d))" using assms(1) by (simp add: keeps_seen_def transactional_def)
  qed (use assms(2) in \<open>simp add: reports_def\<close>)
  from this[unfolded keeps_seen_def, rule_format, of "tx_db tx"] show ?thesis using assms(3) by (simp add: tx_Rollback_def)
qed

lemma reports_db [simp]: "reports seen pending (tx\<lparr>tx_db := d\<rparr>) = reports seen pending tx"
  by (simp add: reports_def)

lemma recovered_keeps:
  assumes "transactional D seen pending" "reports seen pending tx" "recovered D v tx = (r, d)"
  shows "seen d = seen (tx_db tx) \<and> (\<exists>w. r = Panics w)"
  using assms(3) tx_Rollback_keeps[OF assms(1,2)] by (auto simp: recovered_def split: prod.splits outcome.splits)

text \<open>What is left when the function has returned or panicked.\<close>

lemma finish_seen:
  assumes D: "transactional D seen pending" and tx: "reports seen pending tx" and fin: "finish D out tx = (res, d)"
  shows "seen d = (if \<exists>r. res = Returned (r, None) then pending (tx_db tx) else seen (tx_db tx))
    \<and> (\<forall>r. res = Returned (r, None) \<longrightarrow> out = Returned (r, None))"
proof -
  have rec: "seen d = seen (tx_db t) \<and> (\<exists>w. res = Panics w)" if "recovered D v t = (res, d)" "reports seen pending t" for v t
    by (rule recovered_keeps[OF D that(2,1)])
  obtain c dc where c: "tx_Commit D tx = (c, dc)" by fastforce
  obtain l dl where l: "tx_Rollback D tx = (l, dl)" by fastforce
  note after = tx_Commit_commits[OF D tx c] tx_Rollback_keeps[OF D tx l]
  consider v where "out = Panics v" | r where "out = Returned (r, None)" | r e where "out = Returned (r, Some e)"
    by (metis outcome.exhaust option.exhaust prod.exhaust)
  then show ?thesis
  proof cases
    case 1
    then show ?thesis using rec[OF _ tx] fin by (auto simp: finish_def)
  next
    case 2
    then show ?thesis using rec[of _ "tx\<lparr>tx_db := dc\<rparr>"] tx fin c after(1)
      by (cases c) (auto simp: finish_def split: option.splits)
  next
    case 3
    then show ?thesis using rec[of _ "tx\<lparr>tx_db := dl\<rparr>"] tx fin l after(2)
      by (cases l) (auto simp: finish_def split: option.splits)
  qed
qed

lemma recovered_panics: "recovered D v tx = (res, d) \<Longrightarrow> \<exists>w. res = Panics w"
  by (auto simp: recovered_def split: outcome.splits prod.splits)

lemma finish_errors:
  "finish D (Returned (r, Some e)) tx = (res, d) \<Longrightarrow>
    (\<exists>v. res = Panics v) \<or> (\<exists>e'. res = Returned (r, Some e') \<and> (\<forall>P. errors_As P e \<longrightarrow> errors_As P e'))"
proof -
  assume fin: "finish D (Returned (r, Some e)) tx = (res, d)"
  obtain l dl where l: "tx_Rollback D tx = (l, dl)" by fastforce
  consider v where "l = Panics v" | "l = Returned None" | re where "l = Returned (Some re)"
    by (metis outcome.exhaust option.exhaust)
  then show ?thesis
  proof cases
    case 1
    then have "recovered D v (tx\<lparr>tx_db := dl\<rparr>) = (res, d)" using fin l by (simp add: finish_def)
    then show ?thesis by (rule recovered_panics[THEN disjI1])
  next
    case 2
    then have "res = Returned (r, Some e)" using fin l by (simp add: finish_def)
    then show ?thesis by blast
  next
    case 3
    then have "res = Returned (r, Some (Wrapped [] e ('': rolling back transaction: '' @ ent_Error re)))"
      using fin l by (simp add: finish_def)
    then show ?thesis by simp
  qed
qed

text \<open>
  (C32) A transaction happens as a whole or not at all. When the function is run in a transaction of its own and the result has no
  error, then the function has returned that value, starting from what others saw, and what they see afterwards is what it
  left; in every other case (no transaction could be begun, the function fails or panics, a hook panics, committing or rolling back
  fails) they see what they saw before. The error that is returned still holds the one of the function, and a panic goes on.
\<close>

theorem all_or_nothing:
  assumes D: "transactional D seen pending"
    and fn: "\<And>b. reports seen pending (snd (fn (new_tx b))) \<and> seen (tx_db (snd (fn (new_tx b)))) = seen b"
    and run: "TxWrapWithOptions D None in_tx opts zero fn d = (res, d', left_open)"
  shows "(\<forall>r. res = Returned (r, None) \<longrightarrow>
      (\<exists>b tx. pending b = seen d \<and> fn (new_tx b) = (Returned (r, None), tx) \<and> seen d' = pending (tx_db tx)))
    \<and> ((\<forall>r. res \<noteq> Returned (r, None)) \<longrightarrow> seen d' = seen d)
    \<and> (\<forall>b r e tx. drv_BeginTx D opts d = (None, b) \<and> \<not> in_tx \<and> fn (new_tx b) = (Returned (r, Some e), tx) \<longrightarrow>
        (\<exists>v. res = Panics v) \<or> (\<exists>e'. res = Returned (r, Some e') \<and> (\<forall>P. errors_As P e \<longrightarrow> errors_As P e')))
    \<and> (\<forall>b v tx. drv_BeginTx D opts d = (None, b) \<and> \<not> in_tx \<and> fn (new_tx b) = (Panics v, tx) \<longrightarrow> (\<exists>w. res = Panics w))"
proof -
  obtain be b where b: "drv_BeginTx D opts d = (be, b)" by fastforce
  have seen: "seen b = seen d" "be = None \<Longrightarrow> pending b = seen d" using D b unfolding transactional_def by (metis fst_conv snd_conv)+
  obtain out tx where f: "fn (new_tx b) = (out, tx)" by fastforce
  have tx: "reports seen pending tx" "seen (tx_db tx) = seen d" using fn[of b] f seen(1) by simp_all
  show ?thesis
  proof (cases "in_tx \<or> be \<noteq> None")
    case True
    obtain e d2 where "BeginTx D in_tx opts d = (Inl e, d2)" "seen d2 = seen d"
      using True b seen(1) by (cases in_tx; cases be) (simp_all add: BeginTx_def started_def)
    then have "res = Returned (zero, Some e)" "seen d' = seen d" using run by (simp_all add: TxWrapWithOptions_def wrapTxWithOptions_def)
    then show ?thesis using True b by auto
  next
    case False
    then have fin: "finish D out tx = (res, d')"
      using run b f by (auto simp: TxWrapWithOptions_def wrapTxWithOptions_def BeginTx_def started_def split: prod.splits)
    note seen_after = finish_seen[OF D tx(1) fin]
    have "\<exists>b tx. pending b = seen d \<and> fn (new_tx b) = (Returned (r, None), tx) \<and> seen d' = pending (tx_db tx)"
      if "res = Returned (r, None)" for r
      using that seen_after f seen(2) False by auto
    moreover have "seen d' = seen d" if "\<forall>r. res \<noteq> Returned (r, None)" using that seen_after tx(2) by simp
    moreover have "(\<exists>v. res = Panics v) \<or> (\<exists>e'. res = Returned (r, Some e') \<and> (\<forall>P. errors_As P e \<longrightarrow> errors_As P e'))"
      if "out = Returned (r, Some e)" for r e
      using finish_errors[of D r e tx res d'] fin that by simp
    moreover have "\<exists>w. res = Panics w" if "out = Panics v" for v
      using recovered_panics[of D v tx res d'] fin that by (simp add: finish_def)
    ultimately show ?thesis using f b by auto
  qed
qed

text \<open>A database of one number: what others see, and what the transaction has made of it.\<close>

definition demo_driver :: "(unit, nat \<times> nat) tx_driver" where
  "demo_driver = \<lparr>drv_BeginTx = (\<lambda>_ d. (None, (fst d, fst d))), drv_Tx = (\<lambda>d. (None, (fst d, fst d))),
     drv_Commit = (\<lambda>d. (None, (snd d, snd d))), drv_Rollback = (\<lambda>d. (None, (fst d, fst d)))\<rparr>"

definition add_then :: "(string \<times> ent_error option) outcome \<Rightarrow> (nat \<times> nat, string) tx_function" where
  "add_then out tx = (out, tx\<lparr>tx_db := (fst (tx_db tx), snd (tx_db tx) + 1)\<rparr>)"

theorem all_or_nothing_witness:
  "\<exists>d1 d2. TxWrapWithOptions demo_driver None False None [] (add_then (Returned (''ok'', None))) (5, 5) = (Returned (''ok'', None), d1, None) \<and> fst d1 = 6
    \<and> TxWrapWithOptions demo_driver None False None [] (add_then (Panics ''nil'')) (5, 5) = (Panics ''nil'', d2, None) \<and> fst d2 = 5"
proof -
  have D: "transactional demo_driver fst snd" by (simp add: transactional_def demo_driver_def)
  have fn: "reports fst snd (snd (add_then out (new_tx b))) \<and> fst (tx_db (snd (add_then out (new_tx b)))) = fst b" for out b
    by (simp add: add_then_def new_tx_def reports_def)
  note defs = TxWrapWithOptions_def wrapTxWithOptions_def finish_def BeginTx_def started_def tx_Commit_def tx_Rollback_def recovered_def
    demo_driver_def add_then_def new_tx_def
  obtain d1 where 1: "TxWrapWithOptions demo_driver None False None [] (add_then (Returned (''ok'', None))) (5, 5) = (Returned (''ok'', None), d1, None)"
    by (simp add: defs)
  obtain d2 where 2: "TxWrapWithOptions demo_driver None False None [] (add_then (Panics ''nil'')) (5, 5) = (Panics ''nil'', d2, None)"
    by (simp add: defs)
  have "fst d1 = 6" using all_or_nothing[OF D fn 1] by (auto simp: add_then_def new_tx_def)
  moreover have "fst d2 = 5" using all_or_nothing[OF D fn 2] by simp
  ultimately show ?thesis using 1 2 by blast
qed

end
