(* ===== verification/Spec2Isabelle.thy ===== *)
theory Spec2Isabelle
  imports Controller_Run Controller_Locks Deep_Copy Service_Properties Node_Session Gateway_Properties Gateway_Settings
    Errx Ent_Query Ent_Tx
begin

text \<open>
  A verification of FaST-GShare, the operator that lets serverless functions share GPUs in a Kubernetes cluster.

  \<^bold>\<open>The program.\<close> A \<^emph>\<open>controller manager\<close> (\<open>internal/apps/fastpod-controller-manager\<close>) watches FaSTPods, the
  resource type of \<open>pkg/apis\<close>: a FaSTPod asks for a number of replicas of a pod, each with a share of a GPU. For
  every replica the controller parses the request from the FaSTPod's annotations, the scheduler picks a node and
  a GPU, the GPU manager books the share, the memory and a port, and the pod is created with annotations that lead
  back to the booking. A \<^emph>\<open>configurator\<close> (\<open>internal/apps/fast-configurator\<close>) runs on every node: it offers the
  GPUs and the MIG slices they can be cut into, provisions and releases them, runs an MPS server per GPU, and
  writes the files from which the scheduler on the node reads quotas and ports. The two talk over gRPC
  (\<open>pkg/proto/seti/v1\<close>) and over a TCP connection that carries the greeting and the heartbeats of a node. A
  \<^emph>\<open>gateway\<close> (\<open>main.go\<close>, \<open>pkg/customized_openfaas\<close>) deploys functions as FaSTPods, lists, calls and deletes them and
  streams their logs; an \<^emph>\<open>operator\<close> in the same process (\<open>pkg/controller\<close>) keeps a service per function.

  \<^bold>\<open>Outcomes.\<close> Go code that can dereference nil, index out of range or wait for ever has type \<open>'a go\<close>
  (\<open>Prelude\<close>): \<open>Ret\<close>, \<open>Panic\<close> or \<open>Block\<close>, sequenced by \<open>bind_go\<close>. Errors that are returned are values, an option or
  a sum. \<open>int64\<close> arithmetic wraps (\<open>to_signed\<close>, \<open>add64\<close>, \<open>sub64\<close>), the words of the bitmap are \<open>64 word\<close>, and
  \<open>float64\<close> is binary64 with rounding to even, NaN and the infinities (\<open>Float64\<close>; its locale \<open>rounding\<close> collects
  what the accounting needs of rounding).

  \<^bold>\<open>The controller manager.\<close>
  \<^item> \<open>Bitmap\<close>: \<open>pkg/libs/bitmap\<close>, the allocator of a node's ports; the locale \<open>port_pool\<close> is its contract.
  \<^item> \<open>Fastpod_Types\<close>, \<open>Seti\<close>: requests, annotations, FaSTPods and pods; the messages of the gRPC service. The record
    \<open>rpc\<close> is a connected client, one function per method, which returns None where the Go client returns a nil
    response.
  \<^item> \<open>Gpu_Manager\<close>: \<open>gpu_manager.go\<close>, \<open>config_manager.go\<close>. The record \<open>mgr\<close> is the global tables of nodes and of their
    liveness; a \<open>Node\<close> has its GPUs (\<open>GPUDevInfo\<close>: usage and the lists of pods) and its port bitmap.
  \<^item> \<open>Scheduler\<close>: \<open>scheduler.go\<close>. \<open>Node_Connection\<close>: \<open>node_init.go\<close> and the liveness check.
  \<^item> \<open>Pod_Request\<close>: \<open>new_pod.go\<close>. \<open>Pod_Ranking\<close>: the order of deletion and the replica counters of
    \<open>controller_util.go\<close>; \<open>sort.Sort\<close> is a parameter, with what Go documents of it in the locale \<open>go_sort\<close>.
  \<^item> \<open>Slow_Start\<close>, \<open>Reconcile\<close>: \<open>controller.go\<close>. The record \<open>ctl\<close> is the manager's tables, the FaSTPod being
    synchronised, the removals that were started, and a log of everything sent to the API server, the work queue
    and the event recorder; the record \<open>world\<close> is what these answer.
  \<^item> \<open>Controller_Run\<close>: the event handlers and the loops that \<open>NewController\<close> and \<open>Run\<close> start, the loop that accepts the
    connections of nodes (\<open>config_manager.go\<close>).
  \<^item> \<open>Deep_Copy\<close>: the copies of FaSTPods (\<open>zz_generated.deepcopy.go\<close>) over a heap; the controller changes a copy of what
    the informers share. The locale \<open>deep_copy\<close> is the contract of a copying function, interpreted for each of them.
  \<^item> \<open>Locking\<close>, \<open>Controller_Locks\<close>: goroutines that share mutexes, and what the operations of the controller lock, read,
    write and wait for. In the other theories an operation is one step: what it does under its mutex.

  \<^bold>\<open>The configurator.\<close>
  \<^item> \<open>Nvml\<close>: \<open>pkg/mig/mig.go\<close> over the NVIDIA management library, a parameter (the record \<open>nvml\<close>).
  \<^item> \<open>Mps\<close>: \<open>mps.go\<close> over the operating system, a parameter (the record \<open>os\<close>).
  \<^item> \<open>Virtual_Gpu\<close>: \<open>virtual_resource.go\<close>, \<open>config.go\<close>. The record \<open>rm\<close> is the resource manager; \<open>VirtualGPU\<close> objects are
    shared between its list and its table, so they live in a heap.
  \<^item> \<open>Configurator\<close>, \<open>Config_Files\<close>: \<open>server_methods.go\<close>, \<open>fastpod_config.go\<close>, the formats of the files.
  \<^item> \<open>Configurator_Client\<close>: \<open>fastconfigurator.go\<close>, \<open>server.go\<close>, the settings of the main program.

  \<^bold>\<open>The gateway.\<close>
  \<^item> \<open>Gateway\<close>: \<open>server/*.go\<close>, one definition per handler and \<open>handle\<close> for the table of routes. A handler returns the
    response writer and the log of its calls to the API server, whose answers may depend on that log (record \<open>api\<close>).
  \<^item> \<open>Gateway_Logs\<close>: \<open>k8s/log.go\<close>, \<open>k8s/logs.go\<close>; the goroutine that reads the logs of several pods is the state machine
    \<open>watch_step\<close>, its counter a \<open>64 word\<close>.
  \<^item> \<open>Operator\<close>: \<open>pkg/controller\<close> and the table of functions of \<open>k8s/proxy.go\<close>.
  \<^item> \<open>Gateway_Settings\<close>: \<open>pkg/config\<close>, the settings \<open>main.go\<close> derives, the flags of the controller manager.

  \<^bold>\<open>The database layer\<close> (\<open>internal/db/ent\<close>), generated for pods and resources; the library under it is a parameter, the
  record \<open>sqlgraph\<close> of functions over a state of the database, and so is the driver of transactions (\<open>tx_driver\<close>).
  \<^item> \<open>Ent_Types\<close>: \<open>ent.go\<close>, \<open>pod.go\<close>, \<open>resource.go\<close>, the errors, the entities, how a row is assigned, the statements.
  \<^item> \<open>Ent_Mutation\<close>: \<open>mutation.go\<close>. The record \<open>mutation\<close> is what the two types of mutations share; the locale
    \<open>column_changes\<close> is the contract of their columns.
  \<^item> \<open>Ent_Builders\<close>: the hooks of \<open>ent.go\<close> and \<open>hook/hook.go\<close>, \<open>*_create.go\<close>, \<open>*_update.go\<close>, \<open>*_delete.go\<close>.
  \<^item> \<open>Ent_Query\<close>: \<open>*_query.go\<close>. The record \<open>query\<close> is the builder, which every operation returns as it leaves it; a kind of
    nodes is the record \<open>node_kind\<close>, the locale \<open>identified\<close> its contract.
  \<^item> \<open>Ent_Tx\<close>: \<open>tx.go\<close>, \<open>tx_wrap.go\<close>; a function that runs in a transaction returns or panics (\<open>outcome\<close>).

  \<^bold>\<open>Shared.\<close>
  \<^item> \<open>Json\<close>: what the program uses of \<open>encoding/json\<close>, a printer, a lexer and a parser over bytes (with UTF-8, escapes,
    nesting and the matching of field names), and that reading back what was printed gives the same value.
  \<^item> \<open>Wire\<close>: the messages on a connection and their framing (\<open>pkg/types/types.go\<close>); the locale \<open>wire_format\<close> is what a type of
    messages provides, interpreted for the three types there are.
  \<^item> \<open>Errx\<close>: the errors of \<open>x/errx\<close>.

  \<^bold>\<open>What is shown.\<close>
  \<^item> \<open>Gpu_Invariant\<close>, \<open>Gpu_Lifecycle\<close>, \<open>Manager_System\<close>, \<open>Gpu_Properties\<close>: the abstract specification of the
    controller is the transition system \<open>sys_step\<close>: scheduling, admission, removal of a pod or of a FaSTPod,
    connections of nodes and changes of what the configurators answer, in any order. \<open>sys_inv\<close> holds in every
    reachable state: the memory booked on a GPU is the sum over its pods and within its size, the compute usage is
    at most 1, pods of different kinds never share a GPU, and the bits set in the bitmap of a node are exactly the
    ports of its pods. Rounding is why usage is bounded and not equal to the sum of the shares. The locale
    \<open>memory_ledger\<close> proves the booking of memory once for the two kinds of lists.
  \<^item> \<open>Gpu_Removal\<close>: the exact effect of a removal, that it undoes an admission, and that deleting a FaSTPod clears
    all its pods.
  \<^item> \<open>Reconcile_Properties\<close>: a synchronisation that does not change quotas acts on the manager only by steps of
    \<open>sys_step\<close> (a refinement); what scaling down does; that a settled FaSTPod is left alone.
  \<^item> \<open>Controller_System\<close>: all of the controller, workers, event handlers, removals and connections in any order
    (\<open>ctl_step\<close>), refines \<open>sys_step\<close>: the locale \<open>step_refinement\<close>, interpreted on the two systems, carries the
    accounting over to every state the controller reaches.
  \<^item> \<open>Pod_Ranking\<close>: the deletion order is the lexicographic order of a key, a strict weak order, and the pods chosen
    are the first of it. \<open>Slow_Start\<close>: the loop over doubling batches, whose measure is the calls that remain.
  \<^item> \<open>Service_Invariant\<close>, \<open>Service_Properties\<close>: \<open>rm_ok\<close> holds after any sequence of calls to a configurator, so
    that none panics; the configurator as the server of the controller's client (\<open>rpc_of\<close>).
  \<^item> \<open>Config_Roundtrip\<close>: the configuration the controller sends for a GPU can be read back from the files written.
  \<^item> \<open>Configurator_Client\<close>, \<open>Node_Liveness\<close>: the connection as a state machine that closes whatever it opens, and
    the liveness of a node from its connection to the periodic check; the signals that end a configurator.
  \<^item> \<open>Wire\<close>, \<open>Node_Session\<close>: a stream of messages cut anywhere delivers exactly the messages that arrived in full, and
    with it a node is ready as long as its connection is open.
  \<^item> \<open>Controller_Locks\<close>: every path through the controller takes its mutexes in one order (the locale \<open>lock_order\<close>) and
    accesses tables under their mutex (\<open>guarded_by\<close>), but for the changes of quotas and the deletions: no deadlock, no
    race outside of these, the races there are, and the wait that stops all workers.
  \<^item> \<open>Controller_Run\<close>: runs of the workers and of the handlers are runs of \<open>ctl_step\<close>. \<open>Deep_Copy\<close>: a copy is equal to the
    original and shares no cell with it.
  \<^item> \<open>Gateway_Properties\<close>: what deploying a function does, and what the controller manager makes of it; the
    namespaces requests can touch; the service of a function against an API server that stores services
    (\<open>honest\<close>), and the pods it selects. \<open>Gateway_Logs\<close>: the counter of readers is exact, a stream that is not
    followed ends, and what can go wrong. \<open>Gateway_Settings\<close>: when the operator watches what the gateway deploys.
  \<^item> \<open>Ent_Mutation\<close>, \<open>Ent_Builders\<close>: a mutation is a finite map of its columns; the edges an update leaves, whatever order they
    were changed in; hooks compose. \<open>Ent_Query\<close>: what was created can be read, loading an edge is exact, and a query that
    was used is not the same. \<open>Ent_Tx\<close>: a transaction takes effect as a whole or not at all. What the library
    documents is named where it is used: \<open>keeps_rows\<close>, \<open>limits_rows\<close>, \<open>joined_row\<close>, \<open>transactional\<close>, \<open>edges_effect\<close>.
  \<^item> \<open>Errx\<close>: searching a wrapped error is searching its tree.
  \<^item> \<open>Gpu_Failures\<close>, and part of the other theories: the inputs on which an operation panics, blocks or forgets
    what it has booked, each as a theorem.
  \<^item> \<open>Demo\<close> is a small system on which statements with hypotheses are evaluated.

  \<^bold>\<open>Bounds.\<close> No function has fuel: every loop is structural or has a measure. The accounting relies on memory sizes
  below \<open>2 ^ 62\<close>, so that two of them can be added in an \<open>int64\<close>; the counter of log readers is exact for fewer than
  \<open>2 ^ 64\<close> steps.

  \<^bold>\<open>Not modelled.\<close> Informers, the work queue and the API server beyond what \<open>world\<close>, \<open>api\<close> and \<open>op_env\<close> answer; sockets
  and gRPC; the mutexes of the configurator, whose calls are one step each; the task queue behind a function call;
  logging. The generated client sets and protocol buffers. Of the database layer, which the controller opens and stores
  nothing in: predicates and orderings beyond their place in a statement, group-by and aggregates, the migration,
  creating several nodes with hooks, and the variants of operations that panic instead of returning an error. The parts of
  the main programs and constructors that only build clients.
\<close>

end
